(* ===== verification/Prelude.thy ===== *)
theory Prelude
  imports Main "HOL-Library.Multiset" "HOL-Library.List_Lexorder" "HOL-Library.Char_ord"
begin

text \<open>
  Shared vocabulary of the development: 64-bit signed arithmetic, limit clamping, SQL
  \<open>LIMIT\<close>, stable sorting by a comparator (Go's \<open>sort.SliceStable\<close> and SQL's
  \<open>ORDER BY\<close>), and the locale of the comparators these sorts are correct for.
\<close>

named_theorems row_simps \<open>projections and updates of table rows\<close>
named_theorems op_defs \<open>unfolding of store operations into SQL statements\<close>
named_theorems stmt_defs \<open>unfolding of SQL statements over tables\<close>
named_theorems keeps_intros \<open>preservation of a database predicate by an operation\<close>

section \<open>Signed 64-bit integers\<close>

text \<open>Go's \<open>int\<close> and \<open>int64\<close> (the program is built for 64-bit targets) wrap around.\<close>

definition i64 :: "int \<Rightarrow> int" where
  "i64 x = (x + 2 ^ 63) mod 2 ^ 64 - 2 ^ 63"

abbreviation in_i64 :: "int \<Rightarrow> bool" where
  "in_i64 x \<equiv> - (2 ^ 63) \<le> x \<and> x < 2 ^ 63"

lemma i64_id [simp]: "- (2 ^ 63) \<le> x \<Longrightarrow> x < 2 ^ 63 \<Longrightarrow> i64 x = x"
  by (simp add: i64_def)

lemma i64_range: "in_i64 (i64 x)"
proof -
  have "(x + 2 ^ 63) mod 2 ^ 64 < (2 ^ 64 :: int)" "0 \<le> (x + 2 ^ 63) mod (2 ^ 64 :: int)"
    by (rule pos_mod_bound, simp) (rule pos_mod_sign, simp)
  then show ?thesis by (simp add: i64_def)
qed

section \<open>Limits\<close>

text \<open>The default-and-cap idiom of every listing operation.\<close>

definition normalizedStoreLimit :: "int \<Rightarrow> int \<Rightarrow> int \<Rightarrow> int" where
  "normalizedStoreLimit v dflt mx =
     (let v1 = (if v \<le> 0 then dflt else v) in if v1 > mx then mx else v1)"

lemma normalizedStoreLimit_bounds:
  "0 < dflt \<Longrightarrow> 0 < mx \<Longrightarrow>
     0 < normalizedStoreLimit v dflt mx \<and> normalizedStoreLimit v dflt mx \<le> mx"
  by (simp add: normalizedStoreLimit_def Let_def)

text \<open>SQL \<open>LIMIT n\<close>: a negative limit means no limit.\<close>

definition sql_limit :: "int \<Rightarrow> 'a list \<Rightarrow> 'a list" where
  "sql_limit n xs = (if n < 0 then xs else take (nat n) xs)"

lemma set_sql_limit: "set (sql_limit n xs) \<subseteq> set xs"
  by (auto simp: sql_limit_def dest: in_set_takeD)

lemma length_sql_limit: "0 \<le> n \<Longrightarrow> int (length (sql_limit n xs)) \<le> n"
  by (simp add: sql_limit_def)

lemma sorted_wrt_sql_limit: "sorted_wrt R xs \<Longrightarrow> sorted_wrt R (sql_limit n xs)"
  by (simp add: sql_limit_def sorted_wrt_take)

lemma distinct_sql_limit: "distinct xs \<Longrightarrow> distinct (sql_limit n xs)"
  by (simp add: sql_limit_def)

section \<open>Stable sorting by a comparator\<close>

fun insert_by :: "('a \<Rightarrow> 'a \<Rightarrow> bool) \<Rightarrow> 'a \<Rightarrow> 'a list \<Rightarrow> 'a list" where
  "insert_by lt x [] = [x]"
| "insert_by lt x (y # ys) = (if lt y x then y # insert_by lt x ys else x # y # ys)"

fun sort_by :: "('a \<Rightarrow> 'a \<Rightarrow> bool) \<Rightarrow> 'a list \<Rightarrow> 'a list" where
  "sort_by lt [] = []"
| "sort_by lt (x # xs) = insert_by lt x (sort_by lt xs)"

lemma mset_insert_by [simp]: "mset (insert_by lt x xs) = add_mset x (mset xs)"
  by (induction xs) auto

lemma mset_sort_by [simp]: "mset (sort_by lt xs) = mset xs"
  by (induction xs) auto

lemma set_insert_by [simp]: "set (insert_by lt x xs) = insert x (set xs)"
  by (induction xs) auto

lemma set_sort_by [simp]: "set (sort_by lt xs) = set xs"
  by (induction xs) auto

lemma length_insert_by [simp]: "length (insert_by lt x xs) = Suc (length xs)"
  by (induction xs) auto

lemma length_sort_by [simp]: "length (sort_by lt xs) = length xs"
  by (induction xs) auto

lemma distinct_insert_by [simp]: "distinct (insert_by lt x xs) = (x \<notin> set xs \<and> distinct xs)"
  by (induction xs) auto

lemma distinct_sort_by [simp]: "distinct (sort_by lt xs) = distinct xs"
  by (induction xs) auto

lemma insert_by_map:
  "(\<And>y. y \<in> set xs \<Longrightarrow> lt' (f y) (f x) = lt y x) \<Longrightarrow>
     insert_by lt' (f x) (map f xs) = map f (insert_by lt x xs)"
  by (induction xs) auto

lemma sort_by_map:
  "(\<And>x y. x \<in> set xs \<Longrightarrow> y \<in> set xs \<Longrightarrow> lt' (f x) (f y) = lt x y) \<Longrightarrow>
     sort_by lt' (map f xs) = map f (sort_by lt xs)"
proof (induction xs)
  case (Cons a xs)
  then have "sort_by lt' (map f xs) = map f (sort_by lt xs)" by simp
  moreover have "insert_by lt' (f a) (map f (sort_by lt xs)) = map f (insert_by lt a (sort_by lt xs))"
    by (rule insert_by_map) (simp add: Cons.prems)
  ultimately show ?case by simp
qed simp

lemma sort_by_cong:
  "(\<And>x y. x \<in> set xs \<Longrightarrow> y \<in> set xs \<Longrightarrow> lt' x y = lt x y) \<Longrightarrow> sort_by lt' xs = sort_by lt xs"
  using sort_by_map [where f = "\<lambda>x. x" and xs = xs and lt = lt and lt' = lt'] by simp

text \<open>
  A comparator that orders its argument type weakly: asymmetric and co-transitive, the contract
  Go's \<open>sort\<close> package states for \<open>less\<close>. Elements neither of which is less than the other are
  tied; a stable sort keeps their order.
\<close>

locale weak_order =
  fixes lt :: "'a \<Rightarrow> 'a \<Rightarrow> bool"
  assumes asym: "lt x y \<Longrightarrow> \<not> lt y x"
    and cotrans: "lt x z \<Longrightarrow> lt x y \<or> lt y z"
begin

lemma irrefl: "\<not> lt x x"
  using asym by blast

lemma lt_trans: "lt x y \<Longrightarrow> lt y z \<Longrightarrow> lt x z"
  using asym cotrans by blast

lemma sorted_insert:
  "sorted_wrt (\<lambda>x y. \<not> lt y x) ys \<Longrightarrow> sorted_wrt (\<lambda>x y. \<not> lt y x) (insert_by lt x ys)"
proof (induction ys)
  case (Cons y ys)
  then show ?case using asym cotrans by (auto; blast)
qed simp

lemma sorted: "sorted_wrt (\<lambda>x y. \<not> lt y x) (sort_by lt xs)"
  by (induction xs) (auto simp: sorted_insert)

text \<open>Where the comparator separates all elements, sorting forgets the order of its input.\<close>

lemma sorted_unique:
  assumes "sorted_wrt (\<lambda>x y. \<not> lt y x) xs" and "sorted_wrt (\<lambda>x y. \<not> lt y x) ys"
    and "mset xs = mset ys" and "distinct xs"
    and "\<And>x y. x \<in> set xs \<Longrightarrow> y \<in> set xs \<Longrightarrow> x \<noteq> y \<Longrightarrow> lt x y \<or> lt y x"
  shows "xs = ys"
  using assms
proof (induction xs arbitrary: ys)
  case Nil
  then show ?case by simp
next
  case (Cons x xs)
  then obtain y ys' where ys: "ys = y # ys'"
    by (cases ys) auto
  have "x = y"
  proof (rule ccontr)
    assume ne: "x \<noteq> y"
    have "y \<in> set xs" and "x \<in> set ys'"
      using mset_eq_setD [OF Cons.prems(3)] ne ys Cons.prems(3)
      by (auto simp: add_eq_conv_ex)
    then have "\<not> lt y x" and "\<not> lt x y"
      using Cons.prems(1,2) ys by auto
    with ne Cons.prems(5) \<open>y \<in> set xs\<close> show False by auto
  qed
  moreover have "xs = ys'"
    using Cons.prems ys \<open>x = y\<close> by (intro Cons.IH) auto
  ultimately show ?case using ys by simp
qed

lemma sort_by_perm:
  assumes "mset xs = mset ys" and "distinct xs"
    and "\<And>x y. x \<in> set xs \<Longrightarrow> y \<in> set xs \<Longrightarrow> x \<noteq> y \<Longrightarrow> lt x y \<or> lt y x"
  shows "sort_by lt xs = sort_by lt ys"
  by (rule sorted_unique) (use assms sorted in auto)

end

text \<open>Comparators by a key, ascending and descending, and lexicographic combination.\<close>

definition asc :: "('a \<Rightarrow> 'k::linorder) \<Rightarrow> 'a \<Rightarrow> 'a \<Rightarrow> bool" where
  "asc key x y = (key x < key y)"

definition desc :: "('a \<Rightarrow> 'k::linorder) \<Rightarrow> 'a \<Rightarrow> 'a \<Rightarrow> bool" where
  "desc key x y = (key y < key x)"

definition then_by :: "('a \<Rightarrow> 'a \<Rightarrow> bool) \<Rightarrow> ('a \<Rightarrow> 'a \<Rightarrow> bool) \<Rightarrow> 'a \<Rightarrow> 'a \<Rightarrow> bool" where
  "then_by a b x y = (a x y \<or> (\<not> a y x \<and> b x y))"

lemma weak_order_asc: "weak_order (asc key)"
  by unfold_locales (auto simp: asc_def)

lemma weak_order_desc: "weak_order (desc key)"
  by unfold_locales (auto simp: desc_def)

lemma weak_order_then_by:
  assumes "weak_order a" and "weak_order b"
  shows "weak_order (then_by a b)"
proof
  show "then_by a b x y \<Longrightarrow> \<not> then_by a b y x" for x y
    using assms by (auto simp: then_by_def dest: weak_order.asym)
  show "then_by a b x z \<Longrightarrow> then_by a b x y \<or> then_by a b y z" for x y z
    using weak_order.cotrans [OF assms(1)] weak_order.cotrans [OF assms(2)]
      weak_order.asym [OF assms(1)] by (auto simp: then_by_def; blast)
qed

lemmas weak_order_intros = weak_order_asc weak_order_desc weak_order_then_by

section \<open>Generic list facts\<close>

lemma distinct_map_filter: "distinct (map f xs) \<Longrightarrow> distinct (map f (filter P xs))"
  by (induction xs) auto

lemma filter_key_absent: "i \<notin> key ` set xs \<Longrightarrow> filter (\<lambda>x. key x \<noteq> i) xs = xs"
  by (induction xs) auto

lemma map_keep_key:
  "(\<And>x. key (f x) = key x) \<Longrightarrow> map key (map f xs) = map key xs"
  by (simp add: comp_def)

lemma find_Some_iff_key:
  assumes "distinct (map key xs)" and "x \<in> set xs"
  shows "find (\<lambda>y. key y = key x) xs = Some x"
  using assms by (induction xs) (auto simp: rev_image_eqI)

lemma find_Some_mem: "find P xs = Some x \<Longrightarrow> x \<in> set xs \<and> P x"
  by (auto simp: find_Some_iff)

end
