(* ===== verification/GoStrings.thy ===== *)
theory GoStrings
  imports Prelude "HOL-Library.Sublist"
begin

text \<open>
  Go strings are byte sequences, here \<open>string\<close>s whose characters are the bytes. This theory
  models the functions of the packages \<open>unicode/utf8\<close>, \<open>strings\<close> and \<open>strconv\<close> that the
  program uses: UTF-8 decoding and encoding of runes, trimming, splitting into fields, joining,
  replacing, lower-casing, and decimal integers. The Unicode tables beyond ASCII are parameters.
\<close>

type_synonym rune = nat

abbreviation byte :: "char \<Rightarrow> nat" where
  "byte c \<equiv> of_char c"

abbreviation char_n :: "nat \<Rightarrow> char" where
  "char_n n \<equiv> char_of n"

section \<open>UTF-8\<close>

definition runeError :: rune where "runeError = 65533"

definition cont :: "char \<Rightarrow> bool" where
  "cont c = (128 \<le> byte c \<and> byte c \<le> 191)"

text \<open>\<open>utf8.DecodeRuneInString\<close>: the first rune and its width; an invalid byte has width 1.\<close>

definition decode_rune :: "string \<Rightarrow> rune \<times> nat" where
  "decode_rune s = (case s of [] \<Rightarrow> (runeError, 0) | c0 # t \<Rightarrow>
     (let b0 = byte c0 in
      if b0 < 128 then (b0, 1)
      else if b0 < 194 \<or> 244 < b0 then (runeError, 1)
      else if b0 < 224 then
        (case t of c1 # _ \<Rightarrow>
           (if cont c1 then ((b0 - 192) * 64 + (byte c1 - 128), 2) else (runeError, 1))
         | _ \<Rightarrow> (runeError, 1))
      else if b0 < 240 then
        (case t of c1 # c2 # _ \<Rightarrow>
           (if (if b0 = 224 then 160 else 128) \<le> byte c1 \<and>
               byte c1 \<le> (if b0 = 237 then 159 else 191) \<and> cont c2
            then ((b0 - 224) * 4096 + (byte c1 - 128) * 64 + (byte c2 - 128), 3)
            else (runeError, 1))
         | _ \<Rightarrow> (runeError, 1))
      else
        (case t of c1 # c2 # c3 # _ \<Rightarrow>
           (if (if b0 = 240 then 144 else 128) \<le> byte c1 \<and>
               byte c1 \<le> (if b0 = 244 then 143 else 191) \<and> cont c2 \<and> cont c3
            then ((b0 - 240) * 262144 + (byte c1 - 128) * 4096 + (byte c2 - 128) * 64 + (byte c3 - 128), 4)
            else (runeError, 1))
         | _ \<Rightarrow> (runeError, 1))))"

lemma decode_rune_width: "s \<noteq> [] \<Longrightarrow> 0 < snd (decode_rune s)"
  by (auto simp: decode_rune_def Let_def split: list.splits)

text \<open>The text as runes, each with the bytes it was read from (a \<open>range\<close> loop).\<close>

function rune_chunks :: "string \<Rightarrow> (rune \<times> string) list" where
  "rune_chunks s = (if s = [] then []
     else (fst (decode_rune s), take (snd (decode_rune s)) s) # rune_chunks (drop (snd (decode_rune s)) s))"
  by pat_completeness auto
termination
  by (relation "measure length") (auto simp: decode_rune_width)

declare rune_chunks.simps [simp del]

lemma rune_chunks_Nil [simp]: "rune_chunks [] = []"
  by (simp add: rune_chunks.simps)

definition runes :: "string \<Rightarrow> rune list" where
  "runes s = map fst (rune_chunks s)"

lemma rune_chunks_concat: "concat (map snd (rune_chunks s)) = s"
proof (induction s rule: rune_chunks.induct)
  case (1 s)
  then show ?case by (cases "s = []") (simp_all add: rune_chunks.simps [of s])
qed

definition valid_rune :: "rune \<Rightarrow> bool" where
  "valid_rune r = (r < 55296 \<or> (57343 < r \<and> r < 1114112))"

definition encode_rune :: "rune \<Rightarrow> string" where
  "encode_rune r0 = (let r = (if valid_rune r0 then r0 else runeError) in
     if r < 128 then [char_n r]
     else if r < 2048 then [char_n (192 + r div 64), char_n (128 + r mod 64)]
     else if r < 65536 then
       [char_n (224 + r div 4096), char_n (128 + r div 64 mod 64), char_n (128 + r mod 64)]
     else
       [char_n (240 + r div 262144), char_n (128 + r div 4096 mod 64),
        char_n (128 + r div 64 mod 64), char_n (128 + r mod 64)])"

definition string_of_runes :: "rune list \<Rightarrow> string" where
  "string_of_runes rs = concat (map encode_rune rs)"

lemma byte_char_n [simp]: "n < 256 \<Longrightarrow> byte (char_n n) = n"
  by simp

lemma decode_rune2:
  "2 \<le> a \<Longrightarrow> a < 32 \<Longrightarrow> b < 64 \<Longrightarrow>
     decode_rune (char_n (192 + a) # char_n (128 + b) # t) = (a * 64 + b, 2)"
  by (simp add: decode_rune_def cont_def)

lemma decode_rune3:
  assumes "a < 16" "b < 64" "c < 64" "a = 0 \<longrightarrow> 32 \<le> b" "a = 13 \<longrightarrow> b \<le> 31"
  shows "decode_rune (char_n (224 + a) # char_n (128 + b) # char_n (128 + c) # t) =
       (a * 4096 + b * 64 + c, 3)"
proof -
  have bytes: "byte (char_n (224 + a)) = 224 + a" "byte (char_n (128 + b)) = 128 + b"
    "byte (char_n (128 + c)) = 128 + c"
    using assms by (simp_all only: byte_char_n)
  have g1: "\<not> 224 + a < 128" "\<not> (224 + a < 194 \<or> 244 < 224 + a)" "\<not> 224 + a < 224" "224 + a < 240"
    using assms by linarith+
  have g2: "(if 224 + a = 224 then 160 else 128) \<le> 128 + b \<and>
      128 + b \<le> (if 224 + a = 237 then 159 else 191) \<and> 128 \<le> 128 + c \<and> 128 + c \<le> 191"
    using assms by auto
  show ?thesis
    unfolding decode_rune_def Let_def cont_def
    by (simp only: list.case bytes g1 g2 if_True if_False) simp
qed

lemma decode_rune4:
  assumes "a < 5" "b < 64" "c < 64" "d < 64" "a = 0 \<longrightarrow> 16 \<le> b" "a = 4 \<longrightarrow> b \<le> 15"
  shows "decode_rune (char_n (240 + a) # char_n (128 + b) # char_n (128 + c) # char_n (128 + d) # t) =
       (a * 262144 + b * 4096 + c * 64 + d, 4)"
proof -
  have bytes: "byte (char_n (240 + a)) = 240 + a" "byte (char_n (128 + b)) = 128 + b"
    "byte (char_n (128 + c)) = 128 + c" "byte (char_n (128 + d)) = 128 + d"
    using assms by (simp_all only: byte_char_n)
  have g1: "\<not> 240 + a < 128" "\<not> (240 + a < 194 \<or> 244 < 240 + a)" "\<not> 240 + a < 224" "\<not> 240 + a < 240"
    using assms by linarith+
  have g2: "(if 240 + a = 240 then 144 else 128) \<le> 128 + b \<and>
      128 + b \<le> (if 240 + a = 244 then 143 else 191) \<and> (128 \<le> 128 + c \<and> 128 + c \<le> 191) \<and>
      128 \<le> 128 + d \<and> 128 + d \<le> 191"
    using assms by auto
  show ?thesis
    unfolding decode_rune_def Let_def cont_def
    by (simp only: list.case bytes g1 g2 if_True if_False) simp
qed

lemma decode_encode_rune:
  assumes "valid_rune r"
  shows "decode_rune (encode_rune r @ t) = (r, length (encode_rune r))"
proof -
  consider "r < 128" | "128 \<le> r" "r < 2048" | "2048 \<le> r" "r < 65536" | "65536 \<le> r"
    by linarith
  then show ?thesis
  proof cases
    case 1
    then show ?thesis using assms by (simp add: encode_rune_def decode_rune_def)
  next
    case 2
    then have q: "2 \<le> r div 64" "r div 64 < 32"
      by (simp_all add: less_eq_div_iff_mult_less_eq div_less_iff_less_mult)
    have "decode_rune (char_n (192 + r div 64) # char_n (128 + r mod 64) # t) = (r, 2)"
      using decode_rune2 [OF q, of "r mod 64" t] by (simp only: div_mult_mod_eq)
    then show ?thesis using 2 assms by (simp add: encode_rune_def)
  next
    case 3
    let ?q = "r div 64" and ?a = "r div 64 div 64" and ?b = "r div 64 mod 64"
    have q: "?q = ?a * 64 + ?b" "?b < 64" "r = ?q * 64 + r mod 64" "r mod 64 < 64"
      by simp_all
    have r: "32 \<le> ?q" "?q < 1024"
      using 3 by (simp_all add: less_eq_div_iff_mult_less_eq div_less_iff_less_mult)
    have a: "?a < 16" "?a = 0 \<longrightarrow> 32 \<le> ?b" "?a = 13 \<longrightarrow> ?b \<le> 31"
      using q r assms [unfolded valid_rune_def] by linarith+
    have a4: "r div 4096 = ?a" by (simp add: div_mult2_eq [of r 64 64, simplified])
    have "?a * 4096 + ?b * 64 + r mod 64 = r" using q by linarith
    then have "decode_rune (char_n (224 + ?a) # char_n (128 + ?b) # char_n (128 + r mod 64) # t) = (r, 3)"
      using decode_rune3 [OF a(1) q(2) q(4) a(2,3), of t] by simp
    then show ?thesis using 3 assms a4 by (simp add: encode_rune_def)
  next
    case 4
    let ?q = "r div 64" and ?p = "r div 64 div 64" and ?a = "r div 64 div 64 div 64"
    let ?b = "?p mod 64" and ?c = "?q mod 64"
    have q: "?q = ?p * 64 + ?c" "?c < 64" "r = ?q * 64 + r mod 64" "r mod 64 < 64"
      "?p = ?a * 64 + ?b" "?b < 64"
      by simp_all
    have up: "r < 1114112" using assms 4 by (auto simp: valid_rune_def)
    have a: "?a < 5" "?a = 0 \<longrightarrow> 16 \<le> ?b" "?a = 4 \<longrightarrow> ?b \<le> 15"
      using q 4 up by linarith+
    have a4: "r div 4096 = ?p" "r div 262144 = ?a"
      by (simp_all add: div_mult2_eq [of r 64 64, simplified] div_mult2_eq [of r 4096 64, simplified])
    have "?a * 262144 + ?b * 4096 + ?c * 64 + r mod 64 = r" using q by linarith
    then have "decode_rune (char_n (240 + ?a) # char_n (128 + ?b) # char_n (128 + ?c) #
        char_n (128 + r mod 64) # t) = (r, 4)"
      using decode_rune4 [OF a(1) q(6) q(2) q(4) a(2,3), of t] by simp
    then show ?thesis using 4 assms a4 by (simp add: encode_rune_def)
  qed
qed

lemma encode_rune_nonempty: "encode_rune r \<noteq> []"
  by (simp add: encode_rune_def Let_def)

lemma runes_encode: "valid_rune r \<Longrightarrow> runes (encode_rune r @ t) = r # runes t"
  using decode_encode_rune [of r t] encode_rune_nonempty [of r]
  by (simp add: runes_def rune_chunks.simps [of "encode_rune r @ t"])

lemma runes_string_of_runes:
  "(\<forall>r \<in> set rs. valid_rune r) \<Longrightarrow> runes (string_of_runes rs) = rs"
proof (induction rs)
  case Nil
  then show ?case by (simp add: runes_def string_of_runes_def rune_chunks.simps)
next
  case (Cons r rs)
  then show ?case using runes_encode [of r "string_of_runes rs"]
    by (simp add: string_of_runes_def)
qed

section \<open>Character classes\<close>

text \<open>\<open>unicode.IsSpace\<close>, in full.\<close>

definition is_space :: "rune \<Rightarrow> bool" where
  "is_space r = ((9 \<le> r \<and> r \<le> 13) \<or> r = 32 \<or> r = 133 \<or> r = 160 \<or> r = 5760 \<or>
     (8192 \<le> r \<and> r \<le> 8202) \<or> r = 8232 \<or> r = 8233 \<or> r = 8239 \<or> r = 8287 \<or> r = 12288)"

text \<open>
  \<open>unicode.IsLetter\<close>, \<open>unicode.IsDigit\<close>, \<open>unicode.ToLower\<close>: exact on ASCII, the tables of the
  other runes are the argument.
\<close>

record unicode =
  uni_letter :: "rune \<Rightarrow> bool"
  uni_digit :: "rune \<Rightarrow> bool"
  uni_lower :: "rune \<Rightarrow> rune"
  uni_print :: "rune \<Rightarrow> bool"

definition is_letter :: "unicode \<Rightarrow> rune \<Rightarrow> bool" where
  "is_letter U r = (if r < 128 then (65 \<le> r \<and> r \<le> 90) \<or> (97 \<le> r \<and> r \<le> 122) else uni_letter U r)"

definition is_digit :: "unicode \<Rightarrow> rune \<Rightarrow> bool" where
  "is_digit U r = (if r < 128 then 48 \<le> r \<and> r \<le> 57 else uni_digit U r)"

definition rune_lower :: "unicode \<Rightarrow> rune \<Rightarrow> rune" where
  "rune_lower U r = (if r < 128 then (if 65 \<le> r \<and> r \<le> 90 then r + 32 else r) else uni_lower U r)"

definition toLower :: "unicode \<Rightarrow> string \<Rightarrow> string" where
  "toLower U s = string_of_runes (map (rune_lower U) (runes s))"

text \<open>\<open>strconv.Quote\<close>, the \<open>%q\<close> of \<open>fmt\<close>.\<close>

definition hex_low :: "nat \<Rightarrow> nat \<Rightarrow> string" where
  "hex_low k n = map (\<lambda>i. let h = n div 16 ^ (k - 1 - i) mod 16 in if h < 10 then char_n (48 + h) else char_n (87 + h)) [0..<k]"

definition quote_chunk :: "unicode \<Rightarrow> rune \<times> string \<Rightarrow> string" where
  "quote_chunk U rb = (let r = fst rb; b = snd rb; e = (\<lambda>c. [CHR 0x5C, c]) in
     if r = runeError \<and> length b = 1 then e (CHR ''x'') @ hex_low 2 (byte (hd b))
     else if r = 34 \<or> r = 92 then e (char_n r)
     else if (if r < 128 then 32 \<le> r \<and> r < 127 else uni_print U r) then b
     else if r = 7 then e (CHR ''a'') else if r = 8 then e (CHR ''b'') else if r = 12 then e (CHR ''f'')
     else if r = 10 then e (CHR ''n'') else if r = 13 then e (CHR ''r'') else if r = 9 then e (CHR ''t'')
     else if r = 11 then e (CHR ''v'')
     else if r < 32 \<or> r = 127 then e (CHR ''x'') @ hex_low 2 r
     else if r < 65536 then e (CHR ''u'') @ hex_low 4 r
     else e (CHR ''U'') @ hex_low 8 r)"

definition quote :: "unicode \<Rightarrow> string \<Rightarrow> string" where
  "quote U s = [CHR 0x22] @ concat (map (quote_chunk U) (rune_chunks s)) @ [CHR 0x22]"

section \<open>Prefixes, suffixes, substrings\<close>

definition hasPrefix :: "string \<Rightarrow> string \<Rightarrow> bool" where
  "hasPrefix s p = (take (length p) s = p)"

definition hasSuffix :: "string \<Rightarrow> string \<Rightarrow> bool" where
  "hasSuffix s p = (length p \<le> length s \<and> drop (length s - length p) s = p)"

definition trimPrefix :: "string \<Rightarrow> string \<Rightarrow> string" where
  "trimPrefix s p = (if hasPrefix s p then drop (length p) s else s)"

definition trimSuffix :: "string \<Rightarrow> string \<Rightarrow> string" where
  "trimSuffix s p = (if hasSuffix s p then take (length s - length p) s else s)"

fun contains :: "string \<Rightarrow> string \<Rightarrow> bool" where
  "contains [] p = (p = [])"
| "contains (c # s) p = (hasPrefix (c # s) p \<or> contains s p)"

lemma contains_iff: "contains s p \<longleftrightarrow> (\<exists>u v. s = u @ p @ v)"
proof (induction s)
  case Nil
  then show ?case by auto
next
  case (Cons c s)
  have "hasPrefix (c # s) p \<longleftrightarrow> (\<exists>v. c # s = p @ v)"
    by (metis append_eq_conv_conj hasPrefix_def)
  moreover have "(\<exists>u v. s = u @ p @ v) \<longleftrightarrow> (\<exists>u v. c # s = (c # u) @ p @ v)" by auto
  ultimately show ?case using Cons by (auto simp: Cons_eq_append_conv; blast)
qed

text \<open>\<open>strings.SplitN(s, sep, 2)\<close> for a one-byte separator: at its first occurrence.\<close>

definition splitN2 :: "string \<Rightarrow> char \<Rightarrow> string list" where
  "splitN2 s c = (case dropWhile (\<lambda>x. x \<noteq> c) s of [] \<Rightarrow> [s] | _ # t \<Rightarrow> [takeWhile (\<lambda>x. x \<noteq> c) s, t])"

text \<open>\<open>strings.ReplaceAll\<close> of one byte by another.\<close>

definition replaceByte :: "string \<Rightarrow> char \<Rightarrow> char \<Rightarrow> string" where
  "replaceByte s a b = map (\<lambda>x. if x = a then b else x) s"

fun join :: "string \<Rightarrow> string list \<Rightarrow> string" where
  "join sep [] = []"
| "join sep [x] = x"
| "join sep (x # y # xs) = x @ sep @ join sep (y # xs)"

section \<open>Fields and trimming\<close>

fun fields_loop :: "(rune \<Rightarrow> bool) \<Rightarrow> (rune \<times> string) list \<Rightarrow> string \<Rightarrow> string list" where
  "fields_loop f [] acc = (if acc = [] then [] else [acc])"
| "fields_loop f ((r, b) # cs) acc =
     (if f r then (if acc = [] then fields_loop f cs [] else acc # fields_loop f cs [])
      else fields_loop f cs (acc @ b))"

text \<open>\<open>strings.FieldsFunc\<close>: the maximal runs of runes that do not satisfy \<open>f\<close>, as bytes.\<close>

definition fieldsFunc :: "(rune \<Rightarrow> bool) \<Rightarrow> string \<Rightarrow> string list" where
  "fieldsFunc f s = fields_loop f (rune_chunks s) []"

definition fields :: "string \<Rightarrow> string list" where
  "fields s = fieldsFunc is_space s"

lemma fields_loop_nonempty: "t \<in> set (fields_loop f cs acc) \<Longrightarrow> t \<noteq> []"
  by (induction f cs acc rule: fields_loop.induct) (auto split: if_splits)

definition trimSpace :: "string \<Rightarrow> string" where
  "trimSpace s = concat (map snd (rev (dropWhile (\<lambda>(r, _). is_space r)
     (rev (dropWhile (\<lambda>(r, _). is_space r) (rune_chunks s))))))"

section \<open>Decimal integers\<close>

fun digits10 :: "nat \<Rightarrow> string" where
  "digits10 n = (if n < 10 then [char_n (48 + n)] else digits10 (n div 10) @ [char_n (48 + n mod 10)])"

declare digits10.simps [simp del]

definition itoa :: "int \<Rightarrow> string" where
  "itoa n = (if n < 0 then CHR ''-'' # digits10 (nat (- n)) else digits10 (nat n))"

definition is_dec :: "char \<Rightarrow> bool" where
  "is_dec c = (48 \<le> byte c \<and> byte c \<le> 57)"

definition dec_value :: "string \<Rightarrow> nat" where
  "dec_value s = foldl (\<lambda>a c. a * 10 + (byte c - 48)) 0 s"

text \<open>\<open>strconv.ParseInt(s, 10, 64)\<close>: an optional sign and digits, in range.\<close>

definition parse_int :: "string \<Rightarrow> int option" where
  "parse_int s =
     (let (neg, ds) = (case s of c # t \<Rightarrow> if c = CHR ''-'' then (True, t)
                         else if c = CHR ''+'' then (False, t) else (False, s) | [] \<Rightarrow> (False, s))
      in if ds = [] \<or> \<not> list_all is_dec ds then None
         else let v = (if neg then - int (dec_value ds) else int (dec_value ds))
              in if in_i64 v then Some v else None)"

lemma digits10_nonempty: "digits10 n \<noteq> []"
  by (subst digits10.simps) simp

lemma digits10_dec: "list_all is_dec (digits10 n)"
proof (induction n rule: digits10.induct)
  case (1 n)
  then show ?case
    by (cases "n < 10") (simp_all add: digits10.simps [of n] is_dec_def)
qed

lemma dec_value_digits10: "dec_value (digits10 n) = n"
proof (induction n rule: digits10.induct)
  case (1 n)
  then show ?case
    by (cases "n < 10") (simp_all add: digits10.simps [of n] dec_value_def)
qed

lemma digits10_hd: "digits10 n = c # t \<Longrightarrow> c \<noteq> CHR ''-'' \<and> c \<noteq> CHR ''+''"
  using digits10_dec [of n] by (auto simp: is_dec_def)

lemma parse_int_itoa: "in_i64 n \<Longrightarrow> parse_int (itoa n) = Some n"
proof (cases "n < 0")
  case True
  then show "in_i64 n \<Longrightarrow> ?thesis"
    by (simp add: parse_int_def itoa_def digits10_nonempty digits10_dec dec_value_digits10)
next
  case False
  obtain c t where ct: "digits10 (nat n) = c # t"
    using digits10_nonempty [of "nat n"] by (cases "digits10 (nat n)") auto
  have "list_all is_dec (c # t)" and "dec_value (c # t) = nat n"
    using digits10_dec [of "nat n"] dec_value_digits10 [of "nat n"] ct by simp_all
  then show "in_i64 n \<Longrightarrow> ?thesis"
    using False digits10_hd [OF ct] ct by (simp add: parse_int_def itoa_def)
qed

end
