(* ===== verification/Float64.thy ===== *)
theory Float64
  imports Prelude Complex_Main
begin

text \<open>
  Go's \<open>float64\<close>: the finite values are the rationals that round to themselves, every operation
  rounds the exact result to nearest, ties to even, with gradual underflow; overflow gives an
  infinity and \<open>0 / 0\<close> is NaN. Signed zeros are not distinguished (no operation of the
  program tells them apart).
\<close>

datatype f64 = Fin rat | PInf | NInf | NaN

section \<open>Binary exponents\<close>

fun blen :: "nat \<Rightarrow> nat" where
  "blen n = (if n = 0 then 0 else Suc (blen (n div 2)))"

declare blen.simps [simp del]

lemma blen_bounds: "0 < n \<Longrightarrow> 2 ^ (blen n - 1) \<le> n \<and> n < 2 ^ blen n"
proof (induction n rule: blen.induct)
  case (1 n)
  show ?case
  proof (cases "n div 2 = 0")
    case True
    with "1.prems" have "n = 1" by linarith
    then show ?thesis by (simp add: blen.simps)
  next
    case False
    then have ih: "2 ^ (blen (n div 2) - 1) \<le> n div 2" "n div 2 < 2 ^ blen (n div 2)"
      using "1.IH" "1.prems" by auto
    have "blen (n div 2) > 0" using False by (subst blen.simps) simp
    then have "(2::nat) ^ blen (n div 2) = 2 * 2 ^ (blen (n div 2) - 1)"
      by (cases "blen (n div 2)") auto
    then have "2 ^ blen (n div 2) \<le> n" using ih(1) by linarith
    moreover have "n < 2 * 2 ^ blen (n div 2)" using ih(2) by linarith
    ultimately show ?thesis using "1.prems" by (simp add: blen.simps [of n])
  qed
qed

abbreviation pow2 :: "int \<Rightarrow> rat" where
  "pow2 e \<equiv> 2 powi e"

lemma pow2_pos [simp]: "0 < pow2 e"
  by (simp add: zero_less_power_int)

lemma pow2_mono: "a \<le> b \<Longrightarrow> pow2 a \<le> pow2 b"
  by (rule power_int_increasing) auto

lemma pow2_less: "pow2 a < pow2 b \<Longrightarrow> a < b"
  by (meson linorder_not_less pow2_mono)

lemma pow2_add: "pow2 (a + b) = pow2 a * pow2 b"
  by (rule power_int_add) simp

lemma pow2_nat: "pow2 (int n) = 2 ^ n"
  by simp

definition ilog2 :: "rat \<Rightarrow> int" where
  "ilog2 x = (let (n, d) = quotient_of x; e = int (blen (nat n)) - int (blen (nat d))
     in if pow2 e \<le> x then e else e - 1)"

lemma ilog2_bounds:
  assumes "0 < x"
  shows "pow2 (ilog2 x) \<le> x \<and> x < pow2 (ilog2 x + 1)"
proof -
  obtain n d where q: "quotient_of x = (n, d)" by (cases "quotient_of x")
  have d: "0 < d" using q by (rule quotient_of_denom_pos)
  have x: "x = of_int n / of_int d" using q by (rule quotient_of_div)
  have n: "0 < n" using assms x d by (simp add: zero_less_divide_iff)
  let ?a = "blen (nat n)" and ?b = "blen (nat d)"
  have bn: "2 ^ (?a - 1) \<le> nat n \<and> nat n < 2 ^ ?a" using n blen_bounds [of "nat n"] by simp
  have bd: "2 ^ (?b - 1) \<le> nat d \<and> nat d < 2 ^ ?b" using d blen_bounds [of "nat d"] by simp
  have an: "pow2 (int ?a - 1) \<le> of_int n" "of_int n < pow2 (int ?a)"
  proof -
    have pos: "0 < ?a" using n by (subst blen.simps) simp
    have "of_nat (2 ^ (?a - 1)) \<le> (of_nat (nat n) :: rat)" using bn by (meson of_nat_mono)
    then show "pow2 (int ?a - 1) \<le> of_int n"
      using n pos pow2_nat [of "?a - 1"] by (simp add: of_nat_diff)
    have "of_nat (nat n) < (of_nat (2 ^ ?a) :: rat)" using bn by (meson of_nat_less_iff)
    then show "of_int n < pow2 (int ?a)" using n by simp
  qed
  have ad: "pow2 (int ?b - 1) \<le> of_int d" "of_int d < pow2 (int ?b)"
  proof -
    have pos: "0 < ?b" using d by (subst blen.simps) simp
    have "of_nat (2 ^ (?b - 1)) \<le> (of_nat (nat d) :: rat)" using bd by (meson of_nat_mono)
    then show "pow2 (int ?b - 1) \<le> of_int d"
      using d pos pow2_nat [of "?b - 1"] by (simp add: of_nat_diff)
    have "of_nat (nat d) < (of_nat (2 ^ ?b) :: rat)" using bd by (meson of_nat_less_iff)
    then show "of_int d < pow2 (int ?b)" using d by simp
  qed
  let ?e = "int ?a - int ?b"
  have dpos: "(0::rat) < of_int d" using d by simp
  have "pow2 (?e - 1) * of_int d \<le> pow2 (?e - 1) * pow2 (int ?b)"
    using ad(2) by (intro mult_left_mono) (auto intro: less_imp_le)
  also have "\<dots> = pow2 (int ?a - 1)" by (simp del: power_int_of_nat flip: pow2_add)
  also have "\<dots> \<le> of_int n" by (rule an)
  finally have lo: "pow2 (?e - 1) \<le> x" using dpos by (simp add: x pos_le_divide_eq)
  have "of_int n < pow2 (?e + 1) * pow2 (int ?b - 1)" using an(2) by (simp del: power_int_of_nat flip: pow2_add)
  also have "\<dots> \<le> pow2 (?e + 1) * of_int d" using ad(1) by (intro mult_left_mono) auto
  finally have hi: "x < pow2 (?e + 1)" using dpos by (simp add: x pos_divide_less_eq)
  show ?thesis
    unfolding ilog2_def q using lo hi by (simp add: Let_def)
qed

lemma ilog2_less: "0 < x \<Longrightarrow> x < pow2 e \<Longrightarrow> ilog2 x < e"
  using ilog2_bounds [of x] by (intro pow2_less) linarith

lemma ilog2_mono: "0 < x \<Longrightarrow> x \<le> y \<Longrightarrow> ilog2 x \<le> ilog2 y"
  using ilog2_bounds [of x] ilog2_bounds [of y] ilog2_less [of x "ilog2 y + 1"] by linarith

section \<open>Rounding\<close>

definition rne :: "rat \<Rightarrow> int" where
  "rne r = (let f = \<lfloor>r\<rfloor>; d = r - of_int f
     in if d < 1 / 2 then f else if d > 1 / 2 then f + 1 else if even f then f else f + 1)"

lemma rne_int [simp]: "rne (of_int k) = k"
  by (simp add: rne_def)

lemma rne_bounds: "\<lfloor>r\<rfloor> \<le> rne r \<and> rne r \<le> \<lfloor>r\<rfloor> + 1"
  by (simp add: rne_def Let_def)

lemma rne_mono:
  assumes "r \<le> s"
  shows "rne r \<le> rne s"
proof (cases "\<lfloor>r\<rfloor> = \<lfloor>s\<rfloor>")
  case True
  then show ?thesis using assms by (auto simp: rne_def Let_def)
next
  case False
  with assms have "\<lfloor>r\<rfloor> + 1 \<le> \<lfloor>s\<rfloor>" using floor_mono [OF assms] by linarith
  then show ?thesis using rne_bounds [of r] rne_bounds [of s] by linarith
qed

lemma rne_le_int: "r \<le> of_int k \<Longrightarrow> rne r \<le> k"
  using rne_mono [of r "of_int k"] by simp

lemma rne_ge_int: "of_int k \<le> r \<Longrightarrow> k \<le> rne r"
  using rne_mono [of "of_int k" r] by simp

lemma rne_minus: "rne (- r) = - rne r"
proof (cases "r = of_int \<lfloor>r\<rfloor>")
  case True
  then show ?thesis by (metis of_int_minus rne_int)
next
  case False
  have fl: "\<lfloor>- r\<rfloor> = - \<lfloor>r\<rfloor> - 1"
    using False by (simp add: floor_minus ceiling_altdef)
  have "of_int \<lfloor>r\<rfloor> < r" using False by (metis le_less of_int_floor_le)
  then show ?thesis by (auto simp: rne_def Let_def fl)
qed

definition ulp_exp :: "rat \<Rightarrow> int" where
  "ulp_exp x = max (ilog2 \<bar>x\<bar> - 52) (- 1074)"

definition rnd :: "rat \<Rightarrow> rat" where
  "rnd x = (if x = 0 then 0 else let u = pow2 (ulp_exp x) in of_int (rne (x / u)) * u)"

lemma rnd_0 [simp]: "rnd 0 = 0"
  by (simp add: rnd_def)

lemma rnd_minus: "rnd (- x) = - rnd x"
  by (simp add: rnd_def ulp_exp_def Let_def rne_minus)

lemma rnd_nonneg: "0 \<le> x \<Longrightarrow> 0 \<le> rnd x"
  using rne_ge_int [of 0] by (auto simp: rnd_def Let_def intro!: mult_nonneg_nonneg less_imp_le)

lemma rnd_le_multiple:
  assumes "0 < x" and "x \<le> of_int k * pow2 (ulp_exp x)"
  shows "rnd x \<le> of_int k * pow2 (ulp_exp x)"
proof -
  have "rne (x / pow2 (ulp_exp x)) \<le> k"
    using assms by (intro rne_le_int) (simp add: pos_divide_le_eq)
  then have "(of_int (rne (x / pow2 (ulp_exp x))) :: rat) \<le> of_int k" by simp
  then have "of_int (rne (x / pow2 (ulp_exp x))) * pow2 (ulp_exp x) \<le> of_int k * pow2 (ulp_exp x)"
    by (intro mult_right_mono) (auto intro: less_imp_le)
  then show ?thesis using assms(1) by (simp add: rnd_def Let_def)
qed

lemma rnd_ge_multiple:
  assumes "0 < x" and "of_int k * pow2 (ulp_exp x) \<le> x"
  shows "of_int k * pow2 (ulp_exp x) \<le> rnd x"
proof -
  have "k \<le> rne (x / pow2 (ulp_exp x))"
    using assms by (intro rne_ge_int) (simp add: pos_le_divide_eq)
  then have "(of_int k :: rat) \<le> of_int (rne (x / pow2 (ulp_exp x)))" by simp
  then have "of_int k * pow2 (ulp_exp x) \<le> of_int (rne (x / pow2 (ulp_exp x))) * pow2 (ulp_exp x)"
    by (intro mult_right_mono) (auto intro: less_imp_le)
  then show ?thesis using assms(1) by (simp add: rnd_def Let_def)
qed

lemma pow2_multiple: "f \<le> e \<Longrightarrow> pow2 e = of_int (2 ^ nat (e - f)) * pow2 f"
proof -
  assume "f \<le> e"
  then have "pow2 e = pow2 (int (nat (e - f)) + f)" by simp
  then show ?thesis by (simp only: pow2_add pow2_nat) simp
qed

lemma rnd_mono_pos:
  assumes "0 < x" and "x \<le> y"
  shows "rnd x \<le> rnd y"
proof (cases "ulp_exp x = ulp_exp y")
  case True
  have "rne (x / pow2 (ulp_exp y)) \<le> rne (y / pow2 (ulp_exp y))"
    using assms by (intro rne_mono divide_right_mono) (auto intro: less_imp_le)
  then show ?thesis using assms True by (auto simp: rnd_def Let_def intro!: mult_right_mono less_imp_le)
next
  case False
  let ?e = "ilog2 y"
  have mono: "ilog2 x \<le> ?e" using assms by (rule ilog2_mono)
  have uy: "ulp_exp y = ?e - 52" and lt: "ilog2 x < ?e" and ux: "ulp_exp x \<le> ?e - 52"
    using False mono assms by (auto simp: ulp_exp_def max_def split: if_splits)
  have "x < pow2 (ilog2 x + 1)" using ilog2_bounds assms(1) by blast
  then have xe: "x \<le> pow2 ?e" using pow2_mono [of "ilog2 x + 1" ?e] lt by linarith
  have "rnd x \<le> pow2 ?e"
    using rnd_le_multiple [OF assms(1), of "2 ^ nat (?e - ulp_exp x)"]
      pow2_multiple [of "ulp_exp x" ?e] ux xe by simp
  also have "pow2 ?e \<le> rnd y"
    using rnd_ge_multiple [of y "2 ^ nat (?e - ulp_exp y)"] pow2_multiple [of "ulp_exp y" ?e] uy
      ilog2_bounds [of y] assms by simp
  finally show ?thesis .
qed

lemma rnd_mono: "x \<le> y \<Longrightarrow> rnd x \<le> rnd y"
proof -
  assume xy: "x \<le> y"
  consider "0 < x" | "x \<le> 0" "0 \<le> y" | "y < 0" using xy by linarith
  then show ?thesis
  proof cases
    case 1
    then show ?thesis using xy by (rule rnd_mono_pos)
  next
    case 2
    have "rnd x \<le> 0" using rnd_nonneg [of "- x"] 2 by (simp add: rnd_minus)
    also have "0 \<le> rnd y" using 2 by (simp add: rnd_nonneg)
    finally show ?thesis .
  next
    case 3
    then have "rnd (- y) \<le> rnd (- x)" using xy by (intro rnd_mono_pos) auto
    then show ?thesis by (simp add: rnd_minus)
  qed
qed

text \<open>Integers times a power of two with at most 53 significant bits are representable.\<close>

lemma rnd_multiple_id:
  assumes "0 < x" and "x = of_int k * pow2 (ulp_exp x)"
  shows "rnd x = x"
  using rnd_le_multiple [of x k] rnd_ge_multiple [of x k] assms by linarith

lemma rnd_dyadic_pos:
  assumes "0 < k" and "k \<le> 2 ^ 53" and "- 1074 \<le> f"
  shows "rnd (of_int k * pow2 f) = of_int k * pow2 f"
proof -
  let ?x = "of_int k * pow2 f"
  have pos: "0 < ?x" using assms by simp
  show ?thesis
  proof (cases "k = 2 ^ 53")
    case True
    have x: "?x = pow2 (f + 53)"
      using True pow2_add [of "53" f] by (simp add: add.commute)
    have "pow2 (f + 53) < pow2 (f + 54)" by (rule power_int_strict_increasing) auto
    then have "ilog2 ?x < f + 54" using x by (intro ilog2_less [OF pos]) simp
    then have "ulp_exp ?x \<le> f + 53" using assms(3) pos unfolding ulp_exp_def by simp
    then have "pow2 (f + 53) = of_int (2 ^ nat (f + 53 - ulp_exp ?x)) * pow2 (ulp_exp ?x)"
      by (rule pow2_multiple)
    then have "?x = of_int (2 ^ nat (f + 53 - ulp_exp ?x)) * pow2 (ulp_exp ?x)"
      by (simp only: x)
    then show ?thesis by (rule rnd_multiple_id [OF pos])
  next
    case False
    then have "k < 2 ^ 53" using assms(2) by simp
    then have "(of_int k :: rat) < 2 ^ 53" by (metis of_int_less_iff of_int_numeral of_int_power)
    then have "?x < 2 ^ 53 * pow2 f" by simp
    also have "\<dots> = pow2 (f + 53)" using pow2_add [of "53" f] by (simp add: add.commute)
    finally have "ilog2 ?x < f + 53" by (rule ilog2_less [OF pos])
    then have "ulp_exp ?x \<le> f" using assms(3) pos unfolding ulp_exp_def by simp
    then have "pow2 f = of_int (2 ^ nat (f - ulp_exp ?x)) * pow2 (ulp_exp ?x)"
      by (rule pow2_multiple)
    then have "of_int k * pow2 f = of_int k * (of_int (2 ^ nat (f - ulp_exp ?x)) * pow2 (ulp_exp ?x))"
      by (rule arg_cong)
    then have "?x = of_int (k * 2 ^ nat (f - ulp_exp ?x)) * pow2 (ulp_exp ?x)"
      by (simp only: of_int_mult mult.assoc)
    then show ?thesis by (rule rnd_multiple_id [OF pos])
  qed
qed

lemma rnd_dyadic:
  assumes "\<bar>k\<bar> \<le> 2 ^ 53" and "- 1074 \<le> f"
  shows "rnd (of_int k * pow2 f) = of_int k * pow2 f"
proof -
  consider "k = 0" | "0 < k" | "0 < - k" by linarith
  then show ?thesis
  proof cases
    case 3
    then show ?thesis using rnd_dyadic_pos [of "- k" f] assms rnd_minus [of "of_int (- k) * pow2 f"]
      by simp
  qed (use assms rnd_dyadic_pos in auto)
qed

lemma rnd_of_int: "\<bar>k\<bar> \<le> 2 ^ 53 \<Longrightarrow> rnd (of_int k) = of_int k"
  using rnd_dyadic [of k 0] by simp

lemma rnd_1 [simp]: "rnd 1 = 1"
  using rnd_of_int [of 1] by simp

section \<open>Values and operations\<close>

definition f64_of_rat :: "rat \<Rightarrow> f64" where
  "f64_of_rat x = (let y = rnd x in
     if pow2 1024 \<le> y then PInf else if y \<le> - pow2 1024 then NInf else Fin y)"

definition f64_of_int :: "int \<Rightarrow> f64" where
  "f64_of_int n = f64_of_rat (of_int n)"

fun f64_neg :: "f64 \<Rightarrow> f64" where
  "f64_neg (Fin a) = Fin (- a)"
| "f64_neg PInf = NInf"
| "f64_neg NInf = PInf"
| "f64_neg NaN = NaN"

fun f64_add :: "f64 \<Rightarrow> f64 \<Rightarrow> f64" where
  "f64_add (Fin a) (Fin b) = f64_of_rat (a + b)"
| "f64_add NaN y = NaN"
| "f64_add x NaN = NaN"
| "f64_add PInf NInf = NaN"
| "f64_add NInf PInf = NaN"
| "f64_add PInf y = PInf"
| "f64_add x PInf = PInf"
| "f64_add NInf y = NInf"
| "f64_add x NInf = NInf"

fun f64_mul :: "f64 \<Rightarrow> f64 \<Rightarrow> f64" where
  "f64_mul (Fin a) (Fin b) = f64_of_rat (a * b)"
| "f64_mul NaN y = NaN"
| "f64_mul x NaN = NaN"
| "f64_mul (Fin a) PInf = (if a = 0 then NaN else if 0 < a then PInf else NInf)"
| "f64_mul (Fin a) NInf = (if a = 0 then NaN else if 0 < a then NInf else PInf)"
| "f64_mul PInf (Fin b) = (if b = 0 then NaN else if 0 < b then PInf else NInf)"
| "f64_mul NInf (Fin b) = (if b = 0 then NaN else if 0 < b then NInf else PInf)"
| "f64_mul PInf PInf = PInf"
| "f64_mul PInf NInf = NInf"
| "f64_mul NInf PInf = NInf"
| "f64_mul NInf NInf = PInf"

fun f64_div :: "f64 \<Rightarrow> f64 \<Rightarrow> f64" where
  "f64_div (Fin a) (Fin b) =
     (if b = 0 then (if a = 0 then NaN else if 0 < a then PInf else NInf) else f64_of_rat (a / b))"
| "f64_div NaN y = NaN"
| "f64_div x NaN = NaN"
| "f64_div (Fin a) PInf = Fin 0"
| "f64_div (Fin a) NInf = Fin 0"
| "f64_div PInf (Fin b) = (if b < 0 then NInf else PInf)"
| "f64_div NInf (Fin b) = (if b < 0 then PInf else NInf)"
| "f64_div PInf PInf = NaN"
| "f64_div PInf NInf = NaN"
| "f64_div NInf PInf = NaN"
| "f64_div NInf NInf = NaN"

text \<open>IEEE comparisons: every comparison with NaN is false.\<close>

fun f64_less :: "f64 \<Rightarrow> f64 \<Rightarrow> bool" where
  "f64_less (Fin a) (Fin b) = (a < b)"
| "f64_less NaN y = False"
| "f64_less x NaN = False"
| "f64_less x NInf = False"
| "f64_less NInf y = True"
| "f64_less PInf y = False"
| "f64_less x PInf = True"

definition f64_eq :: "f64 \<Rightarrow> f64 \<Rightarrow> bool" where
  "f64_eq x y = (x \<noteq> NaN \<and> x = y)"

definition f64_leq :: "f64 \<Rightarrow> f64 \<Rightarrow> bool" where
  "f64_leq x y = (f64_less x y \<or> f64_eq x y)"

text \<open>The values a \<open>float64\<close> variable can hold.\<close>

fun is_f64 :: "f64 \<Rightarrow> bool" where
  "is_f64 (Fin a) = (rnd a = a \<and> \<bar>a\<bar> < pow2 1024)"
| "is_f64 x = True"

text \<open>Conversion to an integer truncates towards zero (defined for the finite values).\<close>

definition rat_trunc :: "rat \<Rightarrow> int" where
  "rat_trunc r = (if r < 0 then - \<lfloor>- r\<rfloor> else \<lfloor>r\<rfloor>)"

lemma f64_of_rat_small:
  assumes "\<bar>x\<bar> \<le> 1"
  shows "f64_of_rat x = Fin (rnd x)"
proof -
  have "rnd x \<le> 1" and "- 1 \<le> rnd x"
    using assms rnd_mono [of x 1] rnd_mono [of "- 1" x] rnd_minus [of 1] by auto
  moreover have "(1::rat) < pow2 1024" by simp
  ultimately show ?thesis by (simp add: f64_of_rat_def Let_def)
qed

lemma f64_add_commute: "f64_add x y = f64_add y x"
  by (cases x; cases y) (simp_all add: add.commute)

lemma f64_less_irrefl: "\<not> f64_less x x"
  by (cases x) auto

lemma f64_less_trans: "f64_less x y \<Longrightarrow> f64_less y z \<Longrightarrow> f64_less x z"
  by (cases x; cases y; cases z) auto

lemma f64_less_linear: "x \<noteq> NaN \<Longrightarrow> y \<noteq> NaN \<Longrightarrow> f64_less x y \<or> x = y \<or> f64_less y x"
  by (cases x; cases y) auto

text \<open>Multiplying by a factor of the unit interval never increases a representable value.\<close>

lemma f64_mul_shrinks:
  assumes "is_f64 (Fin p)" and "0 \<le> p" and "0 \<le> q" and "q \<le> 1"
  shows "\<exists>r. f64_mul (Fin p) (Fin q) = Fin r \<and> 0 \<le> r \<and> r \<le> p"
proof -
  have "p * q \<le> p" using assms mult_left_le by blast
  then have le: "rnd (p * q) \<le> p" using rnd_mono [of "p * q" p] assms(1) by simp
  have ge: "0 \<le> rnd (p * q)" using assms by (simp add: rnd_nonneg)
  have "\<bar>p\<bar> < pow2 1024" using assms(1) by simp
  then have "rnd (p * q) < pow2 1024" using le by linarith
  moreover have "- pow2 1024 < 0" by simp
  then have "- pow2 1024 < rnd (p * q)" using ge by linarith
  ultimately have "f64_mul (Fin p) (Fin q) = Fin (rnd (p * q))"
    by (simp add: f64_of_rat_def Let_def)
  with le ge show ?thesis by blast
qed

section \<open>A linear order for sorting\<close>

text \<open>
  The comparisons above are not total because of NaN; with NaN put below everything they extend
  to a linear order, which agrees with Go's \<open><\<close> on all other values.
\<close>

instantiation f64 :: linorder
begin

definition less_f64 :: "f64 \<Rightarrow> f64 \<Rightarrow> bool" where
  "less_f64 x y = (f64_less x y \<or> (x = NaN \<and> y \<noteq> NaN))"

definition less_eq_f64 :: "f64 \<Rightarrow> f64 \<Rightarrow> bool" where
  "less_eq_f64 x y = (x = y \<or> x < (y :: f64))"

instance
proof
  fix x y z :: f64
  show "(x < y) = (x \<le> y \<and> \<not> y \<le> x)"
    by (cases x; cases y) (auto simp: less_f64_def less_eq_f64_def)
  show "x \<le> x" by (simp add: less_eq_f64_def)
  show "x \<le> y \<Longrightarrow> y \<le> z \<Longrightarrow> x \<le> z"
    by (cases x; cases y; cases z) (auto simp: less_f64_def less_eq_f64_def)
  show "x \<le> y \<Longrightarrow> y \<le> x \<Longrightarrow> x = y"
    by (cases x; cases y) (auto simp: less_f64_def less_eq_f64_def)
  show "x \<le> y \<or> y \<le> x"
    by (cases x; cases y) (auto simp: less_f64_def less_eq_f64_def)
qed

end

lemma f64_less_iff: "x \<noteq> NaN \<Longrightarrow> y \<noteq> NaN \<Longrightarrow> f64_less x y = (x < y)"
  by (simp add: less_f64_def)

lemma f64_eq_iff: "x \<noteq> NaN \<Longrightarrow> f64_eq x y = (x = y)"
  by (simp add: f64_eq_def)

end
