(* ===== verification/Json.thy ===== *)
theory Json
  imports GoStrings Float64
begin

text \<open>
  What the program uses of \<open>encoding/json\<close>: validation and parsing of a text, decoding into
  struct fields and into \<open>any\<close>, raw member texts (\<open>json.RawMessage\<close>), and \<open>Marshal\<close> with its
  HTML escaping. A number keeps its literal, so that an \<open>int\<close> field, a \<open>float64\<close> field and
  \<open>any\<close> can each read it their own way; an object keeps its members in source order, duplicates
  included.
\<close>

datatype json = JNull | JBool bool | JNum string | JStr string | JArr "json list"
  | JObj "(string \<times> json) list"

section \<open>Scanning\<close>

definition quot :: char where "quot = CHR 0x22"
definition bslash :: char where "bslash = CHR 0x5C"

definition is_ws :: "char \<Rightarrow> bool" where
  "is_ws c = (c = CHR 0x20 \<or> c = CHR 0x09 \<or> c = CHR 0x0A \<or> c = CHR 0x0D)"

definition skip_ws :: "string \<Rightarrow> string" where "skip_ws s = dropWhile is_ws s"

definition hexval :: "char \<Rightarrow> nat option" where
  "hexval c = (if is_dec c then Some (byte c - 48)
     else if 97 \<le> byte c \<and> byte c \<le> 102 then Some (byte c - 87)
     else if 65 \<le> byte c \<and> byte c \<le> 70 then Some (byte c - 55) else None)"

fun hex4 :: "string \<Rightarrow> nat option" where
  "hex4 (a # b # c # d # _) = (case (hexval a, hexval b, hexval c, hexval d) of
     (Some x, Some y, Some z, Some w) \<Rightarrow> Some (((x * 16 + y) * 16 + z) * 16 + w) | _ \<Rightarrow> None)"
| "hex4 _ = None"

text \<open>After an opening quote: the raw characters of the string literal and what follows it.\<close>

fun scan_str :: "string \<Rightarrow> (string \<times> string) option" where
  "scan_str [] = None"
| "scan_str (c # s) =
     (if c = quot then Some ([], s)
      else if c = bslash then
        (case s of [] \<Rightarrow> None
         | e # t \<Rightarrow> if e \<noteq> CHR ''u'' \<and> e \<notin> set [quot, bslash, CHR ''/'', CHR ''b'', CHR ''f'', CHR ''n'', CHR ''r'', CHR ''t'']
             then None
             else if e = CHR ''u'' \<and> hex4 t = None then None
             else map_option (\<lambda>(a, r). (c # e # a, r)) (scan_str t))
      else if byte c < 32 then None
      else map_option (\<lambda>(a, r). (c # a, r)) (scan_str s))"

definition take_digits :: "string \<Rightarrow> string \<times> string" where
  "take_digits s = (takeWhile is_dec s, dropWhile is_dec s)"

text \<open>A number literal at the start of the text: sign, integer part, fraction, exponent.\<close>

definition scan_int :: "string \<Rightarrow> (string \<times> string) option" where
  "scan_int s = (case s of [] \<Rightarrow> None
     | c # t \<Rightarrow> if c = CHR ''0'' then Some ([c], t)
         else if is_dec c then Some (take_digits s) else None)"

definition scan_frac :: "string \<Rightarrow> (string \<times> string) option" where
  "scan_frac s = (case s of c # t \<Rightarrow> if c = CHR ''.'' then
       (let (d, r) = take_digits t in if d = [] then None else Some (c # d, r)) else Some ([], s)
     | [] \<Rightarrow> Some ([], s))"

definition scan_exp :: "string \<Rightarrow> (string \<times> string) option" where
  "scan_exp s = (case s of c # t \<Rightarrow> if c = CHR ''e'' \<or> c = CHR ''E'' then
       (let (sg, u) = (case t of x # t' \<Rightarrow> if x = CHR ''+'' \<or> x = CHR ''-'' then ([x], t') else ([], t)
                        | [] \<Rightarrow> ([], t));
            (d, r) = take_digits u in if d = [] then None else Some (c # sg @ d, r))
       else Some ([], s)
     | [] \<Rightarrow> Some ([], s))"

definition scan_num :: "string \<Rightarrow> (string \<times> string) option" where
  "scan_num s =
     (let (sg, s0) = (case s of c # t \<Rightarrow> if c = CHR ''-'' then ([c], t) else ([], s) | [] \<Rightarrow> ([], s))
      in case scan_int s0 of None \<Rightarrow> None | Some (i, s1) \<Rightarrow>
         case scan_frac s1 of None \<Rightarrow> None | Some (f, s2) \<Rightarrow>
         case scan_exp s2 of None \<Rightarrow> None | Some (e, s3) \<Rightarrow> Some (sg @ i @ f @ e, s3))"

section \<open>Strings\<close>

definition is_high :: "nat \<Rightarrow> bool" where "is_high r = (55296 \<le> r \<and> r < 56320)"
definition is_low :: "nat \<Rightarrow> bool" where "is_low r = (56320 \<le> r \<and> r < 57344)"

definition esc_char :: "char \<Rightarrow> char" where
  "esc_char e = (if e = CHR ''b'' then CHR 0x08 else if e = CHR ''f'' then CHR 0x0C
     else if e = CHR ''n'' then CHR 0x0A else if e = CHR ''r'' then CHR 0x0D
     else if e = CHR ''t'' then CHR 0x09 else e)"

text \<open>
  \<open>unquote\<close> on a valid literal: escapes, surrogate pairs, and the replacement rune for a lone
  surrogate and for a byte that is not UTF-8.
\<close>

function unquote :: "string \<Rightarrow> string" where
  "unquote s = (case s of [] \<Rightarrow> []
     | c # t \<Rightarrow>
       if c = bslash then
         (case t of [] \<Rightarrow> []
          | e # t1 \<Rightarrow>
            if e = CHR ''u'' then
              (case hex4 t1 of None \<Rightarrow> []
               | Some r \<Rightarrow>
                 let t2 = drop 4 t1 in
                 if is_high r \<and> take 2 t2 = [bslash, CHR ''u''] \<and>
                    (case hex4 (drop 2 t2) of None \<Rightarrow> False | Some r2 \<Rightarrow> is_low r2)
                 then encode_rune (65536 + (r - 55296) * 1024 + (the (hex4 (drop 2 t2)) - 56320))
                      @ unquote (drop 6 t2)
                 else encode_rune r @ unquote t2)
            else esc_char e # unquote t1)
       else (let (r, n) = decode_rune s in encode_rune r @ unquote (drop n s)))"
  by pat_completeness auto
termination
proof (relation "measure length", goal_cases)
  case (5 s x21 x22 x xa)
  then show ?case using decode_rune_width [of s] by (cases "decode_rune s") auto
qed auto

declare unquote.simps [simp del]

section \<open>Parsing\<close>

definition maxNestingDepth :: int where "maxNestingDepth = 10000"

text \<open>
  A value, the elements of an array after its first bracket or a comma, the members of an object
  likewise. Every recursive call is made after at least one character was consumed, so fuel beyond
  the length of the text is never used up.
\<close>

fun parse_value :: "nat \<Rightarrow> int \<Rightarrow> string \<Rightarrow> (json \<times> string) option"
and parse_elems :: "nat \<Rightarrow> int \<Rightarrow> string \<Rightarrow> (json list \<times> string) option"
and parse_members :: "nat \<Rightarrow> int \<Rightarrow> string \<Rightarrow> ((string \<times> json) list \<times> string) option" where
  "parse_value 0 d s = None"
| "parse_value (Suc n) d s = (case s of [] \<Rightarrow> None
     | c # t \<Rightarrow>
       if c = quot then map_option (\<lambda>(a, r). (JStr (unquote a), r)) (scan_str t)
       else if c = CHR ''['' then
         (if d \<le> 0 then None
          else case skip_ws t of [] \<Rightarrow> None
            | x # u \<Rightarrow> if x = CHR '']'' then Some (JArr [], u)
                else map_option (\<lambda>(vs, r). (JArr vs, r)) (parse_elems n (d - 1) (x # u)))
       else if c = CHR ''{'' then
         (if d \<le> 0 then None
          else case skip_ws t of [] \<Rightarrow> None
            | x # u \<Rightarrow> if x = CHR ''}'' then Some (JObj [], u)
                else map_option (\<lambda>(ms, r). (JObj ms, r)) (parse_members n (d - 1) (x # u)))
       else if hasPrefix s ''null'' then Some (JNull, drop 4 s)
       else if hasPrefix s ''true'' then Some (JBool True, drop 4 s)
       else if hasPrefix s ''false'' then Some (JBool False, drop 5 s)
       else map_option (\<lambda>(a, r). (JNum a, r)) (scan_num s))"
| "parse_elems 0 d s = None"
| "parse_elems (Suc n) d s = (case parse_value n d s of None \<Rightarrow> None
     | Some (v, r) \<Rightarrow> (case skip_ws r of [] \<Rightarrow> None
         | x # u \<Rightarrow> if x = CHR '']'' then Some ([v], u)
             else if x = CHR '','' then map_option (\<lambda>(vs, q). (v # vs, q)) (parse_elems n d (skip_ws u))
             else None))"
| "parse_members 0 d s = None"
| "parse_members (Suc n) d s = (case s of [] \<Rightarrow> None
     | c # t \<Rightarrow> if c \<noteq> quot then None else (case scan_str t of None \<Rightarrow> None
       | Some (k, r) \<Rightarrow> (case skip_ws r of [] \<Rightarrow> None
         | x # u \<Rightarrow> if x \<noteq> CHR '':'' then None else (case parse_value n d (skip_ws u) of None \<Rightarrow> None
           | Some (v, r1) \<Rightarrow> (case skip_ws r1 of [] \<Rightarrow> None
             | y # w \<Rightarrow> if y = CHR ''}'' then Some ([(unquote k, v)], w)
                 else if y = CHR '','' then map_option (\<lambda>(ms, q). ((unquote k, v) # ms, q)) (parse_members n d (skip_ws w))
                 else None)))))"

text \<open>\<open>checkValid\<close> and the parse of the whole text.\<close>

definition parse_json :: "string \<Rightarrow> json option" where
  "parse_json s = (case parse_value (Suc (length s)) maxNestingDepth (skip_ws s) of
     Some (v, r) \<Rightarrow> if skip_ws r = [] then Some v else None | None \<Rightarrow> None)"

text \<open>The members of a top-level object with the source text of their values.\<close>

fun raw_loop :: "nat \<Rightarrow> string \<Rightarrow> (string \<times> string) list" where
  "raw_loop 0 s = []"
| "raw_loop (Suc n) s = (case s of [] \<Rightarrow> []
     | c # t \<Rightarrow> if c \<noteq> quot then [] else (case scan_str t of None \<Rightarrow> []
       | Some (k, r) \<Rightarrow>
         let s1 = skip_ws (drop 1 (skip_ws r)) in
         (case parse_value (Suc (length s1)) maxNestingDepth s1 of None \<Rightarrow> []
          | Some (v, r1) \<Rightarrow> (unquote k, take (length s1 - length r1) s1) #
              (case skip_ws r1 of y # w \<Rightarrow> if y = CHR '','' then raw_loop n (skip_ws w) else [] | [] \<Rightarrow> []))))"

definition raw_members :: "string \<Rightarrow> (string \<times> string) list" where
  "raw_members s = (case skip_ws s of c # t \<Rightarrow> if c = CHR ''{'' then raw_loop (length t) (skip_ws t) else []
     | [] \<Rightarrow> [])"

section \<open>Numbers\<close>

text \<open>The rational a literal denotes.\<close>

definition num_rat :: "string \<Rightarrow> rat" where
  "num_rat s =
     (let neg = (take 1 s = ''-''); u = (if neg then drop 1 s else s);
          i = takeWhile is_dec u; u1 = dropWhile is_dec u;
          f = (if take 1 u1 = ''.'' then takeWhile is_dec (drop 1 u1) else []);
          u2 = (if take 1 u1 = ''.'' then dropWhile is_dec (drop 1 u1) else u1);
          e = (case u2 of [] \<Rightarrow> 0 | _ # x \<Rightarrow>
                 (case x of [] \<Rightarrow> 0 | c # y \<Rightarrow> if c = CHR ''-'' then - int (dec_value y)
                    else if c = CHR ''+'' then int (dec_value y) else int (dec_value x)));
          m = of_nat (dec_value (i @ f)); k = e - int (length f);
          v = (if 0 \<le> k then m * 10 ^ nat k else m / 10 ^ nat (- k))
      in if neg then - v else v)"

text \<open>\<open>strconv.ParseFloat\<close>: an error when the value is out of range.\<close>

definition parse_float :: "string \<Rightarrow> f64 option" where
  "parse_float s = (case f64_of_rat (num_rat s) of Fin q \<Rightarrow> Some (Fin q) | _ \<Rightarrow> None)"

fun strip_zeros :: "nat \<Rightarrow> nat \<times> nat" where
  "strip_zeros n = (if n = 0 \<or> n mod 10 \<noteq> 0 then (n, 0) else (let (m, k) = strip_zeros (n div 10) in (m, Suc k)))"

declare strip_zeros.simps [simp del]

definition pow10 :: "int \<Rightarrow> rat" where
  "pow10 k = (if 0 \<le> k then 10 ^ nat k else 1 / 10 ^ nat (- k))"

text \<open>
  The shortest decimal \<open>d * 10 ^ k\<close> that reads back as the positive float \<open>q\<close>, and among the
  shortest the nearest to it: for every number of digits the two decimals next to \<open>q\<close> are tried.
\<close>

fun dec_exp :: "nat \<Rightarrow> rat \<Rightarrow> int \<Rightarrow> int" where
  "dec_exp 0 q e = e"
| "dec_exp (Suc n) q e = (if pow10 (e + 1) \<le> q then dec_exp n q (e + 1)
     else if q < pow10 e then dec_exp n q (e - 1) else e)"

definition short_at :: "rat \<Rightarrow> int \<Rightarrow> nat option" where
  "short_at q k =
     (let lo = nat \<lfloor>q / pow10 k\<rfloor>; hi = Suc lo;
          okd = (\<lambda>d. f64_of_rat (of_nat d * pow10 k) = Fin q);
          near = (q / pow10 k - of_nat lo \<le> of_nat hi - q / pow10 k)
      in if okd lo \<and> (near \<or> \<not> okd hi) then Some lo else if okd hi then Some hi else None)"

fun shortest_loop :: "nat \<Rightarrow> rat \<Rightarrow> int \<Rightarrow> nat \<times> int" where
  "shortest_loop 0 q k = (nat \<lfloor>q / pow10 k\<rfloor>, k)"
| "shortest_loop (Suc n) q k =
     (case short_at q k of Some d \<Rightarrow> (d, k) | None \<Rightarrow> shortest_loop n q (k - 1))"

definition shortest :: "rat \<Rightarrow> nat \<times> int" where
  "shortest q =
     (let (d, k) = shortest_loop 17 q (dec_exp 700 q 0); (m, z) = strip_zeros d in (m, k + int z))"

text \<open>
  \<open>floatEncoder\<close>: digits without exponent between 1e-6 and 1e21, else scientific notation with
  the exponent's leading zero removed.
\<close>

definition fmt_pos :: "rat \<Rightarrow> string" where
  "fmt_pos q =
     (let (m, k) = shortest q; ds = digits10 m; e = k + int (length ds) - 1 in
      if q < 1 / 1000000 \<or> 10 ^ 21 \<le> q then
        take 1 ds @ (if length ds = 1 then [] else ''.'' @ drop 1 ds) @ ''e'' @
          (if e < 0 then ''-'' else ''+'') @
          (if 0 \<le> e \<and> e < 10 then ''0'' else []) @ digits10 (nat \<bar>e\<bar>)
      else if 0 \<le> k then ds @ replicate (nat k) (CHR ''0'')
      else if 0 \<le> e then take (nat (e + 1)) ds @ ''.'' @ drop (nat (e + 1)) ds
      else ''0.'' @ replicate (nat (- e - 1)) (CHR ''0'') @ ds)"

definition fmt_float :: "f64 \<Rightarrow> string" where
  "fmt_float x = (case x of Fin q \<Rightarrow> if q = 0 then ''0'' else if q < 0 then ''-'' @ fmt_pos (- q) else fmt_pos q
     | _ \<Rightarrow> [])"

text \<open>The literal \<open>Marshal\<close> writes for a literal read into \<open>any\<close>; the sign of a zero stays.\<close>

definition renumber :: "string \<Rightarrow> string option" where
  "renumber s = map_option (\<lambda>x. if x = Fin 0 \<and> take 1 s = ''-'' then ''-0'' else fmt_float x) (parse_float s)"

section \<open>Values of type \<open>any\<close>\<close>

text \<open>Map assignment: a later member replaces an earlier one of the same key. Keys are kept sorted.\<close>

fun put_key :: "string \<Rightarrow> 'a \<Rightarrow> (string \<times> 'a) list \<Rightarrow> (string \<times> 'a) list" where
  "put_key k v [] = [(k, v)]"
| "put_key k v ((k1, v1) # ms) =
     (if k = k1 then (k, v) # ms else if k < k1 then (k, v) # (k1, v1) # ms else (k1, v1) # put_key k v ms)"

fun to_any :: "json \<Rightarrow> json option"
and to_any_list :: "json list \<Rightarrow> json list option"
and to_any_members :: "(string \<times> json) list \<Rightarrow> (string \<times> json) list \<Rightarrow> (string \<times> json) list option" where
  "to_any (JNum s) = map_option JNum (renumber s)"
| "to_any (JArr vs) = map_option JArr (to_any_list vs)"
| "to_any (JObj ms) = map_option JObj (to_any_members ms [])"
| "to_any v = Some v"
| "to_any_list [] = Some []"
| "to_any_list (v # vs) = (case to_any v of None \<Rightarrow> None
     | Some w \<Rightarrow> map_option (\<lambda>ws. w # ws) (to_any_list vs))"
| "to_any_members [] acc = Some acc"
| "to_any_members ((k, v) # ms) acc = (case to_any v of None \<Rightarrow> None
     | Some w \<Rightarrow> to_any_members ms (put_key k w acc))"

text \<open>\<open>json.Unmarshal(raw, &v)\<close> with \<open>v\<close> of type \<open>any\<close>.\<close>

definition unmarshal_any :: "string \<Rightarrow> json option" where
  "unmarshal_any s = (case parse_json s of None \<Rightarrow> None | Some v \<Rightarrow> to_any v)"

section \<open>Marshalling\<close>

definition hexdigit :: "nat \<Rightarrow> char" where
  "hexdigit n = (if n < 10 then char_n (48 + n) else char_n (87 + n))"

definition u_escape :: "nat \<Rightarrow> string" where
  "u_escape r = [bslash, CHR ''u'', hexdigit (r div 4096 mod 16), hexdigit (r div 256 mod 16),
     hexdigit (r div 16 mod 16), hexdigit (r mod 16)]"

definition escape_chunk :: "rune \<times> string \<Rightarrow> string" where
  "escape_chunk rb = (let r = fst rb; b = snd rb in
     if r < 128 then
       (if r = 34 \<or> r = 92 then bslash # b
        else if r = 8 then [bslash, CHR ''b''] else if r = 12 then [bslash, CHR ''f'']
        else if r = 10 then [bslash, CHR ''n''] else if r = 13 then [bslash, CHR ''r'']
        else if r = 9 then [bslash, CHR ''t'']
        else if r < 32 \<or> r = 60 \<or> r = 62 \<or> r = 38 then u_escape r else b)
     else if r = runeError \<and> length b = 1 then u_escape runeError
     else if r = 8232 \<or> r = 8233 then u_escape r
     else b)"

definition encode_str :: "string \<Rightarrow> string" where
  "encode_str s = [quot] @ concat (map escape_chunk (rune_chunks s)) @ [quot]"

fun marshal :: "json \<Rightarrow> string"
and marshal_list :: "json list \<Rightarrow> string list"
and marshal_members :: "(string \<times> json) list \<Rightarrow> string list" where
  "marshal JNull = ''null''"
| "marshal (JBool b) = (if b then ''true'' else ''false'')"
| "marshal (JNum s) = s"
| "marshal (JStr s) = encode_str s"
| "marshal (JArr vs) = ''['' @ join '','' (marshal_list vs) @ '']''"
| "marshal (JObj ms) = ''{'' @ join '','' (marshal_members ms) @ ''}''"
| "marshal_list [] = []"
| "marshal_list (v # vs) = marshal v # marshal_list vs"
| "marshal_members [] = []"
| "marshal_members ((k, v) # ms) = (encode_str k @ '':'' @ marshal v) # marshal_members ms"

definition JInt :: "int \<Rightarrow> json" where "JInt n = JNum (itoa n)"

text \<open>
  \<open>compact\<close> with HTML escaping, what \<open>Marshal\<close> does to a raw message: white space outside strings
  goes, the three HTML characters and the two line separators are escaped.
\<close>

fun compact_loop :: "bool \<Rightarrow> string \<Rightarrow> string" where
  "compact_loop q [] = []"
| "compact_loop q (c # s) =
     (if byte c = 60 \<or> byte c = 62 \<or> byte c = 38 then u_escape (byte c) @ compact_loop q s
      else if byte c = 226 \<and> take 2 s = [char_n 128, char_n 168] then u_escape 8232 @ compact_loop q (drop 2 s)
      else if byte c = 226 \<and> take 2 s = [char_n 128, char_n 169] then u_escape 8233 @ compact_loop q (drop 2 s)
      else if q then
        (if c = bslash then (case s of [] \<Rightarrow> [c] | e # t \<Rightarrow> c # e # compact_loop True t)
         else c # compact_loop (c \<noteq> quot) s)
      else if is_ws c then compact_loop False s
      else c # compact_loop (c = quot) s)"

definition marshal_raw :: "string option \<Rightarrow> string" where
  "marshal_raw r = (case r of None \<Rightarrow> ''null'' | Some s \<Rightarrow> compact_loop False s)"

section \<open>Struct fields\<close>

text \<open>Field names match exactly or up to case folding; a later member overwrites an earlier one.\<close>

definition fold_rune :: "rune \<Rightarrow> rune" where
  "fold_rune r = (if 97 \<le> r \<and> r \<le> 122 then r - 32 else if r = 383 then 83 else if r = 8490 then 75 else r)"

definition key_matches :: "string \<Rightarrow> string \<Rightarrow> bool" where
  "key_matches name k = (map fold_rune (runes k) = map fold_rune (runes name))"

text \<open>
  The value a field ends up with: every member of its name is stored in turn by \<open>put\<close>, which may
  reject it.
\<close>

fun field_loop :: "('a \<Rightarrow> json \<Rightarrow> 'a option) \<Rightarrow> string \<Rightarrow> 'a \<Rightarrow> (string \<times> json) list \<Rightarrow> 'a option" where
  "field_loop put name a [] = Some a"
| "field_loop put name a ((k, v) # ms) =
     (if key_matches name k then (case put a v of None \<Rightarrow> None | Some b \<Rightarrow> field_loop put name b ms)
      else field_loop put name a ms)"

definition put_str :: "string \<Rightarrow> json \<Rightarrow> string option" where
  "put_str a v = (case v of JStr s \<Rightarrow> Some s | JNull \<Rightarrow> Some a | _ \<Rightarrow> None)"

definition put_bool :: "bool \<Rightarrow> json \<Rightarrow> bool option" where
  "put_bool a v = (case v of JBool b \<Rightarrow> Some b | JNull \<Rightarrow> Some a | _ \<Rightarrow> None)"

definition put_int :: "int \<Rightarrow> json \<Rightarrow> int option" where
  "put_int a v = (case v of JNum s \<Rightarrow> parse_int s | JNull \<Rightarrow> Some a | _ \<Rightarrow> None)"

definition put_float :: "f64 \<Rightarrow> json \<Rightarrow> f64 option" where
  "put_float a v = (case v of JNum s \<Rightarrow> parse_float s | JNull \<Rightarrow> Some a | _ \<Rightarrow> None)"

text \<open>A pointer field: \<open>null\<close> resets it, any other value is stored behind a new pointer.\<close>

definition put_ptr :: "('a \<Rightarrow> json \<Rightarrow> 'a option) \<Rightarrow> 'a \<Rightarrow> 'a option \<Rightarrow> json \<Rightarrow> 'a option option" where
  "put_ptr put zero a v = (if v = JNull then Some None
     else map_option Some (put (case a of None \<Rightarrow> zero | Some x \<Rightarrow> x) v))"

text \<open>A slice of strings: \<open>null\<close> makes it nil; a \<open>null\<close> element leaves what the slot held.\<close>

fun put_elems :: "('a \<Rightarrow> json \<Rightarrow> 'a option) \<Rightarrow> 'a \<Rightarrow> 'a list \<Rightarrow> json list \<Rightarrow> 'a list option" where
  "put_elems put zero old [] = Some []"
| "put_elems put zero old (v # vs) =
     (case put (case old of [] \<Rightarrow> zero | x # _ \<Rightarrow> x) v of None \<Rightarrow> None
      | Some y \<Rightarrow> map_option (\<lambda>ys. y # ys) (put_elems put zero (drop 1 old) vs))"

definition put_list :: "('a \<Rightarrow> json \<Rightarrow> 'a option) \<Rightarrow> 'a \<Rightarrow> 'a list \<Rightarrow> json \<Rightarrow> 'a list option" where
  "put_list put zero a v = (case v of JArr vs \<Rightarrow> put_elems put zero a vs | JNull \<Rightarrow> Some [] | _ \<Rightarrow> None)"

definition put_any :: "json option \<Rightarrow> json \<Rightarrow> json option option" where
  "put_any a v = Some (Some v)"

text \<open>The members of a struct's source: an object, or nothing for \<open>null\<close>.\<close>

definition struct_members :: "json \<Rightarrow> (string \<times> json) list option" where
  "struct_members v = (case v of JObj ms \<Rightarrow> Some ms | JNull \<Rightarrow> Some [] | _ \<Rightarrow> None)"

definition str_field :: "string \<Rightarrow> (string \<times> json) list \<Rightarrow> string option" where
  "str_field name ms = field_loop put_str name [] ms"

definition int_field :: "string \<Rightarrow> (string \<times> json) list \<Rightarrow> int option" where
  "int_field name ms = field_loop put_int name 0 ms"

definition bool_field :: "string \<Rightarrow> (string \<times> json) list \<Rightarrow> bool option" where
  "bool_field name ms = field_loop put_bool name False ms"

definition strs_field :: "string \<Rightarrow> (string \<times> json) list \<Rightarrow> string list option" where
  "strs_field name ms = field_loop (put_list put_str []) name [] ms"

definition raw_field :: "string \<Rightarrow> string \<Rightarrow> string option" where
  "raw_field name s = map_option snd (find (\<lambda>(k, _). key_matches name k) (rev (raw_members s)))"

section \<open>Evaluation\<close>

text \<open>Unfolding on concrete texts, with the fuel as a numeral.\<close>

lemmas parse_numeral =
  parse_value.simps(2) [of "pred_numeral k" for k, folded numeral_eq_Suc]
  parse_elems.simps(2) [of "pred_numeral k" for k, folded numeral_eq_Suc]
  parse_members.simps(2) [of "pred_numeral k" for k, folded numeral_eq_Suc]
  raw_loop.simps(2) [of "pred_numeral k" for k, folded numeral_eq_Suc]

lemma unquote_plain:
  "unquote [] = []"
  "c \<noteq> bslash \<Longrightarrow> byte c < 128 \<Longrightarrow> unquote (c # s) = c # unquote s"
  by (subst unquote.simps, simp add: decode_rune_def encode_rune_def valid_rune_def Let_def)+

lemmas json_eval = parse_numeral unquote_plain quot_def bslash_def skip_ws_def is_ws_def maxNestingDepth_def
  hasPrefix_def scan_num_def scan_int_def scan_frac_def scan_exp_def take_digits_def is_dec_def

end
