(* ===== verification/Strconv.thy ===== *)
theory Strconv
  imports Json "HOL-Library.Monad_Syntax"
begin

text \<open>
  What the command line, the configuration and the import use of \<open>strconv\<close>, \<open>time\<close>, \<open>bufio\<close> and
  \<open>path/filepath\<close>: floats as \<open>ParseFloat\<close> reads them, RFC 3339 times as \<open>time.Parse\<close> does, the lines
  of a scanner with a limit, and the last element and the extension of a path.
\<close>

section \<open>ParseFloat\<close>

definition lower_ascii :: "char \<Rightarrow> char" where
  "lower_ascii c = (if 65 \<le> byte c \<and> byte c \<le> 90 then char_n (byte c + 32) else c)"

text \<open>\<open>underscoreOK\<close>: an underscore stands between digits, or between the base prefix and a digit.\<close>

datatype saw = SawStart | SawDigit | SawUnderscore | SawOther

fun underscore_loop :: "bool \<Rightarrow> saw \<Rightarrow> string \<Rightarrow> bool" where
  "underscore_loop hex k [] = (k \<noteq> SawUnderscore)"
| "underscore_loop hex k (c # s) =
     (if is_dec c \<or> hex \<and> hexval c \<noteq> None then underscore_loop hex SawDigit s
      else if c = CHR ''_'' then k = SawDigit \<and> underscore_loop hex SawUnderscore s
      else k \<noteq> SawUnderscore \<and> underscore_loop hex SawOther s)"

definition drop_sign :: "string \<Rightarrow> bool \<times> string" where
  "drop_sign s = (case s of c # t \<Rightarrow> if c = CHR ''-'' then (True, t) else if c = CHR ''+'' then (False, t) else (False, s)
     | [] \<Rightarrow> (False, s))"

definition underscoreOK :: "string \<Rightarrow> bool" where
  "underscoreOK s0 =
     (let s = snd (drop_sign s0); x = map lower_ascii (take 2 s) in
      if x \<in> {''0b'', ''0o'', ''0x''} then underscore_loop (x = ''0x'') SawDigit (drop 2 s)
      else underscore_loop False SawStart s)"

text \<open>
  The mantissa: digits of the base and underscores, with at most one point; the digits, how many
  of them stand behind the point, whether there was a point, and what follows.
\<close>

fun mantissa :: "bool \<Rightarrow> bool \<Rightarrow> string \<Rightarrow> nat list \<times> nat \<times> string" where
  "mantissa hex point [] = ([], 0, [])"
| "mantissa hex point (c # s) =
     (if c = CHR ''_'' then mantissa hex point s
      else if c = CHR ''.'' \<and> \<not> point then mantissa hex True s
      else if is_dec c \<or> hex \<and> hexval c \<noteq> None then
        (case mantissa hex point s of (ds, n, r) \<Rightarrow>
           (the (hexval c) # ds, (if point then Suc (length ds) else n), r))
      else ([], 0, c # s))"

text \<open>The exponent saturates.\<close>

definition exponent_value :: "string \<Rightarrow> int" where
  "exponent_value s = foldl (\<lambda>e c. if e < 10000 then e * 10 + int (byte c - 48) else e) 0 (filter (\<lambda>c. c \<noteq> CHR ''_'') s)"

definition read_exponent :: "char \<Rightarrow> string \<Rightarrow> (int \<times> string) option" where
  "read_exponent mark s = (case s of c # t \<Rightarrow>
       if lower_ascii c = mark then
         (let (neg, u) = drop_sign t; ds = takeWhile (\<lambda>c. is_dec c \<or> c = CHR ''_'') u in
          if take 1 u = [] \<or> \<not> is_dec (hd u) then None
          else Some (if neg then - exponent_value ds else exponent_value ds, dropWhile (\<lambda>c. is_dec c \<or> c = CHR ''_'') u))
       else Some (0, s)
     | [] \<Rightarrow> Some (0, s))"

text \<open>The value of a well-formed literal of the whole text.\<close>

definition read_float :: "string \<Rightarrow> (bool \<times> rat) option" where
  "read_float s0 =
     (let (neg, s) = drop_sign s0;
          hex = (length s \<ge> 3 \<and> hd s = CHR ''0'' \<and> lower_ascii (s ! 1) = CHR ''x'');
          (ds, n, r) = mantissa hex False (if hex then drop 2 s else s) in
      if ds = [] then None
      else if hex \<and> (r = [] \<or> lower_ascii (hd r) \<noteq> CHR ''p'') then None
      else case read_exponent (if hex then CHR ''p'' else CHR ''e'') r of None \<Rightarrow> None
        | Some (e, rest) \<Rightarrow>
          if rest \<noteq> [] \<or> CHR ''_'' \<in> set s0 \<and> \<not> underscoreOK s0 then None
          else let m = of_nat (foldl (\<lambda>a d. a * (if hex then 16 else 10) + d) 0 ds)
               in Some (neg, m * (if hex then pow2 (e - 4 * int n) else pow10 (e - int n))))"

text \<open>The special values, in any case; only the infinities have a sign.\<close>

definition special :: "string \<Rightarrow> f64 option" where
  "special s0 =
     (let (neg, s) = drop_sign s0; t = map lower_ascii s in
      if t = ''inf'' \<or> t = ''infinity'' then Some (if neg then NInf else PInf)
      else if map lower_ascii s0 = ''nan'' then Some NaN else None)"

definition ParseFloat :: "string \<Rightarrow> f64 option" where
  "ParseFloat s = (case special s of Some x \<Rightarrow> Some x
     | None \<Rightarrow> (case read_float s of None \<Rightarrow> None
       | Some (neg, q) \<Rightarrow> (case f64_of_rat (if neg then - q else q) of Fin x \<Rightarrow> Some (Fin x) | _ \<Rightarrow> None)))"

section \<open>Times\<close>

definition is_leap :: "int \<Rightarrow> bool" where
  "is_leap y = (y mod 4 = 0 \<and> (y mod 100 \<noteq> 0 \<or> y mod 400 = 0))"

definition daysIn :: "int \<Rightarrow> int \<Rightarrow> int" where
  "daysIn m y = (if m = 2 then (if is_leap y then 29 else 28) else if m \<in> {4, 6, 9, 11} then 30 else 31)"

text \<open>Days since 1970-01-01 of a date of the Gregorian calendar.\<close>

definition civil_days :: "int \<Rightarrow> int \<Rightarrow> int \<Rightarrow> int" where
  "civil_days y m d =
     (let y1 = y - 1 in 365 * y + y1 div 4 - y1 div 100 + y1 div 400 +
        sum_list (map (\<lambda>k. daysIn k y) [1..m - 1]) + d - 719528)"

text \<open>\<open>getnum\<close>: one or two digits, two when \<open>fixed\<close>.\<close>

definition getnum :: "bool \<Rightarrow> string \<Rightarrow> (int \<times> string) option" where
  "getnum fixed s = (case s of
     a # b # t \<Rightarrow> if \<not> is_dec a then None
        else if is_dec b then Some (int (dec_value [a, b]), t)
        else if fixed then None else Some (int (dec_value [a]), b # t)
   | [a] \<Rightarrow> if is_dec a \<and> \<not> fixed then Some (int (dec_value [a]), []) else None
   | [] \<Rightarrow> None)"

definition between :: "int \<Rightarrow> int \<Rightarrow> (int \<times> string) option \<Rightarrow> (int \<times> string) option" where
  "between lo hi r = (case r of Some (n, s) \<Rightarrow> if lo \<le> n \<and> n \<le> hi then Some (n, s) else None | None \<Rightarrow> None)"

definition skip_char :: "char \<Rightarrow> string \<Rightarrow> string option" where
  "skip_char c s = (case s of x # t \<Rightarrow> if x = c then Some t else None | [] \<Rightarrow> None)"

text \<open>The fraction of a second in nanoseconds; a point or comma without a digit is left alone.\<close>

definition fraction :: "string \<Rightarrow> int \<times> string" where
  "fraction s = (case s of c # t \<Rightarrow>
       if (c = CHR ''.'' \<or> c = CHR '','') \<and> takeWhile is_dec t \<noteq> [] then
         (let ds = take 9 (takeWhile is_dec t) in (int (dec_value ds) * 10 ^ (9 - length ds), dropWhile is_dec t))
       else (0, s)
     | [] \<Rightarrow> (0, s))"

text \<open>\<open>Z\<close> or a signed offset in seconds.\<close>

definition zone :: "string \<Rightarrow> (int \<times> string) option" where
  "zone s = (case s of [] \<Rightarrow> None
     | c # t \<Rightarrow> if c = CHR ''Z'' then Some (0, t)
        else if length s < 6 \<or> s ! 3 \<noteq> CHR '':'' \<or> c \<notin> {CHR ''+'', CHR ''-''} then None
        else (case (between 0 24 (getnum True (take 2 (drop 1 s))), between 0 60 (getnum True (take 2 (drop 4 s)))) of
            (Some (h, _), Some (m, _)) \<Rightarrow>
              Some ((if c = CHR ''-'' then - 1 else 1) * (h * 60 + m) * 60, drop 6 s)
          | _ \<Rightarrow> None))"

text \<open>\<open>time.Parse(time.RFC3339Nano, s)\<close> and \<open>UnixMilli\<close>.\<close>

definition parse_rfc3339 :: "string \<Rightarrow> int option" where
  "parse_rfc3339 s =
     (if length s < 4 \<or> \<not> list_all is_dec (take 4 s) then None
      else do {
        s1 \<leftarrow> skip_char (CHR ''-'') (drop 4 s);
        (mo, s2) \<leftarrow> between 1 12 (getnum True s1);
        s3 \<leftarrow> skip_char (CHR ''-'') s2;
        (dy, s4) \<leftarrow> getnum True s3;
        s5 \<leftarrow> skip_char (CHR ''T'') s4;
        (h, s6) \<leftarrow> between 0 23 (getnum False s5);
        s7 \<leftarrow> skip_char (CHR '':'') s6;
        (mi, s8) \<leftarrow> between 0 59 (getnum True s7);
        s9 \<leftarrow> skip_char (CHR '':'') s8;
        (sc, s10) \<leftarrow> between 0 59 (getnum True s9);
        (off, s12) \<leftarrow> zone (snd (fraction s10));
        let y = int (dec_value (take 4 s));
        if s12 \<noteq> [] \<or> dy < 1 \<or> daysIn mo y < dy then None
        else Some ((civil_days y mo dy * 86400 + h * 3600 + mi * 60 + sc - off) * 1000 + fst (fraction s10) div 1000000)
      })"

section \<open>Lines\<close>

text \<open>
  \<open>bufio.Scanner\<close> with a buffer of at most \<open>mx\<close> bytes: the lines, without their line ends, up to
  the first that does not fit, and whether there was one.
\<close>

function scan_lines :: "nat \<Rightarrow> string \<Rightarrow> string list \<times> bool" where
  "scan_lines mx s =
     (if s = [] then ([], False)
      else let l = takeWhile (\<lambda>c. c \<noteq> CHR 0x0A) s; r = dropWhile (\<lambda>c. c \<noteq> CHR 0x0A) s in
        if mx \<le> length l then ([], True)
        else (case scan_lines mx (drop 1 r) of (ls, e) \<Rightarrow> (trimSuffix l [CHR 0x0D] # ls, e)))"
  by pat_completeness auto
termination
proof (relation "measure (length \<circ> snd)", goal_cases)
  case (2 mx s l r)
  then show ?case using length_dropWhile_le [of "\<lambda>c. c \<noteq> CHR 0x0A" s] by (cases s) (auto simp: less_Suc_eq_le length_dropWhile_le le_diff_conv order.trans)
qed simp

declare scan_lines.simps [simp del]

section \<open>Paths\<close>

definition slash :: char where "slash = CHR ''/''"

definition last_element :: "string \<Rightarrow> string" where
  "last_element s = rev (takeWhile (\<lambda>c. c \<noteq> slash) (rev s))"

definition path_Base :: "string \<Rightarrow> string" where
  "path_Base p =
     (if p = [] then ''.''
      else let q = rev (dropWhile (\<lambda>c. c = slash) (rev p)) in if q = [] then [slash] else last_element q)"

definition path_Ext :: "string \<Rightarrow> string" where
  "path_Ext p =
     (let e = last_element p in
      if CHR ''.'' \<in> set e then CHR ''.'' # rev (takeWhile (\<lambda>c. c \<noteq> CHR ''.'') (rev e)) else [])"

definition EqualFold :: "string \<Rightarrow> string \<Rightarrow> bool" where
  "EqualFold s ascii = (map fold_rune (runes s) = map fold_rune (runes ascii))"

section \<open>Examples\<close>

lemma example_times:
  "parse_rfc3339 ''2024-02-29T12:00:00Z'' = Some 1709208000000"
  "parse_rfc3339 ''1970-01-01T00:00:00.5+01:00'' = Some (- 3599500)"
  "parse_rfc3339 ''2023-02-29T12:00:00Z'' = None"
  by code_simp+

lemma example_floats:
  "read_float ''-1_0.5e1'' = Some (True, 105)" "read_float ''1_.5'' = None" "read_float ''0x1p-2'' = Some (False, 1 / 4)"
  "read_float ''0x1'' = None" "ParseFloat ''NaN'' = Some NaN" "ParseFloat ''+Inf'' = Some PInf" "ParseFloat [] = None"
  by code_simp+

lemma example_lines:
  "scan_lines 9 [CHR ''a'', CHR 0x0D, CHR 0x0A, CHR 0x0A, CHR ''b''] = ([''a'', [], ''b''], False)"
  "scan_lines 2 ''ab'' = ([], True)"
  "path_Base ''/x/y.d/t.jsonl'' = ''t.jsonl''" "path_Ext ''/x/y.d/t.jsonl'' = ''.jsonl''" "path_Ext ''/x.d/t'' = []"
  by code_simp+

end
