(* ===== verification/Rrf.thy ===== *)
theory Rrf
  imports Float64 "HOL-Library.Sublist"
begin

text \<open>
  \<open>internal/search/rrf.go\<close>: reciprocal rank fusion of the full-text and the vector ranking, with a
  cap on the results of one session. Go's map is the list of its entries, and a range over it
  visits them in an arbitrary order: the argument \<open>iter\<close> of \<open>FuseRRF\<close>.
\<close>

section \<open>Definitions\<close>

record Ranked =
  rk_ID :: int
  rk_SessionID :: string
  rk_Score :: f64
  rk_BM25Rank :: int
  rk_VecRank :: int

definition no_entry :: "int \<Rightarrow> Ranked" where
  "no_entry i = \<lparr>rk_ID = i, rk_SessionID = [], rk_Score = Fin 0, rk_BM25Rank = 0, rk_VecRank = 0\<rparr>"

text \<open>\<open>byID[id]\<close> (the zero value when absent, its ID set) and \<open>byID[id] = v\<close>.\<close>

definition lookup_id :: "int \<Rightarrow> Ranked list \<Rightarrow> Ranked" where
  "lookup_id i m = (case find (\<lambda>r. rk_ID r = i) m of None \<Rightarrow> no_entry i | Some r \<Rightarrow> r)"

fun store_id :: "Ranked \<Rightarrow> Ranked list \<Rightarrow> Ranked list" where
  "store_id r [] = [r]"
| "store_id r (x # xs) = (if rk_ID x = rk_ID r then r # xs else x # store_id r xs)"

definition rrf_term :: "int \<Rightarrow> int \<Rightarrow> f64" where
  "rrf_term rrfK rank = f64_div (Fin 1) (f64_of_int (i64 (rrfK + rank)))"

definition add_bm25 :: "int \<Rightarrow> int \<Rightarrow> Ranked \<Rightarrow> Ranked list \<Rightarrow> Ranked list" where
  "add_bm25 rrfK rank item m = (let merged = lookup_id (rk_ID item) m in
     store_id (merged\<lparr>rk_SessionID := rk_SessionID item, rk_BM25Rank := rank,
       rk_Score := f64_add (rk_Score merged) (rrf_term rrfK rank)\<rparr>) m)"

definition add_vector :: "int \<Rightarrow> int \<Rightarrow> Ranked \<Rightarrow> Ranked list \<Rightarrow> Ranked list" where
  "add_vector rrfK rank item m = (let merged = lookup_id (rk_ID item) m in
     store_id (merged\<lparr>rk_SessionID := (if rk_SessionID merged = [] then rk_SessionID item else rk_SessionID merged),
       rk_VecRank := rank, rk_Score := f64_add (rk_Score merged) (rrf_term rrfK rank)\<rparr>) m)"

fun add_all :: "(int \<Rightarrow> Ranked \<Rightarrow> Ranked list \<Rightarrow> Ranked list) \<Rightarrow> int \<Rightarrow> Ranked list \<Rightarrow> Ranked list \<Rightarrow> Ranked list" where
  "add_all f rank [] m = m"
| "add_all f rank (x # xs) m = add_all f (rank + 1) xs (f rank x m)"

definition rrf_less :: "Ranked \<Rightarrow> Ranked \<Rightarrow> bool" where
  "rrf_less a b = (if f64_eq (rk_Score a) (rk_Score b) then rk_ID a < rk_ID b
     else f64_less (rk_Score b) (rk_Score a))"

text \<open>The loop over the sorted items, with the number of results so far.\<close>

fun cap_loop :: "int \<Rightarrow> int \<Rightarrow> (string \<Rightarrow> int) \<Rightarrow> int \<Rightarrow> Ranked list \<Rightarrow> Ranked list" where
  "cap_loop finalK mx per n [] = []"
| "cap_loop finalK mx per n (x # xs) =
     (if rk_SessionID x \<noteq> [] \<and> per (rk_SessionID x) \<ge> mx then cap_loop finalK mx per n xs
      else x # (if n + 1 \<ge> finalK then []
        else cap_loop finalK mx
          (if rk_SessionID x \<noteq> [] then per(rk_SessionID x := per (rk_SessionID x) + 1) else per) (n + 1) xs))"

definition default_pos :: "int \<Rightarrow> int \<Rightarrow> int" where
  "default_pos v dflt = (if v \<le> 0 then dflt else v)"

definition fuse_items :: "int \<Rightarrow> Ranked list \<Rightarrow> Ranked list \<Rightarrow> Ranked list" where
  "fuse_items rrfK bm25 vector = add_all (add_vector rrfK) 1 vector (add_all (add_bm25 rrfK) 1 bm25 [])"

definition FuseRRF :: "(Ranked list \<Rightarrow> Ranked list) \<Rightarrow> Ranked list \<Rightarrow> Ranked list \<Rightarrow> int \<Rightarrow> int \<Rightarrow> int \<Rightarrow> Ranked list" where
  "FuseRRF iter bm25 vector rrfK0 finalK0 maxPerSession0 =
     (let rrfK = default_pos rrfK0 60; finalK = default_pos finalK0 10; mx = default_pos maxPerSession0 3;
          byID = fuse_items rrfK bm25 vector;
          items = sort_by rrf_less (iter byID)
      in cap_loop finalK mx (\<lambda>_. 0) 0 items)"

section \<open>The merged entries\<close>

lemma set_store_id: "set (map rk_ID (store_id r m)) = insert (rk_ID r) (set (map rk_ID m))"
  by (induction m) auto

lemma distinct_store_id: "distinct (map rk_ID m) \<Longrightarrow> distinct (map rk_ID (store_id r m))"
proof (induction m)
  case (Cons x m)
  then show ?case using set_store_id [of r m] by (auto simp del: set_map; fastforce)
qed simp

lemma lookup_id_ID [simp]: "rk_ID (lookup_id i m) = i"
  by (auto simp: lookup_id_def no_entry_def find_Some_iff split: option.splits)

lemma lookup_store_id: "lookup_id i (store_id r m) = (if i = rk_ID r then r else lookup_id i m)"
  by (induction m) (auto simp: lookup_id_def)

lemma set_store_id_sub: "x \<in> set (store_id r m) \<Longrightarrow> x = r \<or> x \<in> set m"
  by (induction m) (auto split: if_splits)

lemma lookup_in: "distinct (map rk_ID m) \<Longrightarrow> x \<in> set m \<Longrightarrow> lookup_id (rk_ID x) m = x"
  by (simp add: lookup_id_def find_Some_iff_key)

text \<open>Scores are never NaN: they stay within 2^60 or are infinite (when a rank wraps around to 0).\<close>

definition good_score :: "f64 \<Rightarrow> bool" where
  "good_score x = (x = PInf \<or> (\<exists>q. x = Fin q \<and> \<bar>q\<bar> \<le> 1152921504606846976))"

lemma rnd_top: "rnd 1152921504606846977 = 1152921504606846976"
proof -
  have "ilog2 1152921504606846977 < 61" by (rule ilog2_less) simp_all
  moreover have "60 \<le> ilog2 1152921504606846977"
  proof (rule ccontr)
    assume "\<not> 60 \<le> ilog2 1152921504606846977"
    then have "pow2 (ilog2 1152921504606846977 + 1) \<le> pow2 60" by (intro pow2_mono) simp
    then show False using ilog2_bounds [of 1152921504606846977] by simp
  qed
  ultimately have "ilog2 1152921504606846977 = 60" by simp
  then have u: "ulp_exp 1152921504606846977 = 8" by (simp add: ulp_exp_def)
  have "\<lfloor>1152921504606846977 / 256 :: rat\<rfloor> = 4503599627370496" by (rule floor_unique) simp_all
  then have "rne (1152921504606846977 / 256) = 4503599627370496" by (simp add: rne_def Let_def)
  then show ?thesis by (simp add: rnd_def u)
qed

lemma good_fin:
  assumes "\<bar>q\<bar> \<le> 1152921504606846976" "\<bar>t\<bar> \<le> 1"
  shows "good_score (f64_of_rat (q + t))"
proof -
  have "rnd (q + t) \<le> 1152921504606846976"
    using rnd_mono [of "q + t" 1152921504606846977] assms by (simp add: rnd_top)
  moreover have "- 1152921504606846976 \<le> rnd (q + t)"
    using rnd_mono [of "- 1152921504606846977" "q + t"] assms by (simp add: rnd_top rnd_minus)
  moreover have "(1152921504606846976::rat) < pow2 1024" by simp
  ultimately show ?thesis by (auto simp: f64_of_rat_def Let_def good_score_def)
qed

lemma rnd_int_ge1: "n \<noteq> 0 \<Longrightarrow> 1 \<le> \<bar>rnd (of_int n)\<bar>"
proof -
  assume "n \<noteq> 0"
  then consider "1 \<le> n" | "n \<le> - 1" by linarith
  then show ?thesis
  proof cases
    case 1
    then have "rnd 1 \<le> rnd (of_int n)" by (intro rnd_mono) simp
    then show ?thesis by simp
  next
    case 2
    then have "rnd (of_int n) \<le> rnd (- 1)" by (intro rnd_mono) simp
    then show ?thesis by (simp add: rnd_minus)
  qed
qed

lemma rrf_term_range: "rrf_term k r = PInf \<or> (\<exists>t. rrf_term k r = Fin t \<and> \<bar>t\<bar> \<le> 1)"
proof -
  let ?n = "i64 (k + r)"
  have "\<bar>rnd (of_int ?n)\<bar> \<le> 9223372036854775808"
  proof -
    have n: "- 9223372036854775808 \<le> ?n" "?n \<le> 9223372036854775808" using i64_range [of "k + r"] by simp_all
    have r: "rnd 9223372036854775808 = 9223372036854775808" using rnd_dyadic [of 1 63] by simp
    have "rnd (of_int ?n) \<le> 9223372036854775808"
      using rnd_mono [of "of_int ?n" 9223372036854775808] n by (simp add: r)
    moreover have "- 9223372036854775808 \<le> rnd (of_int ?n)"
      using rnd_mono [of "- 9223372036854775808" "of_int ?n"] n by (simp add: r rnd_minus)
    ultimately show ?thesis by simp
  qed
  moreover have "(9223372036854775808::rat) < pow2 1024" by simp
  ultimately have f: "f64_of_int ?n = Fin (rnd (of_int ?n))"
    by (auto simp: f64_of_int_def f64_of_rat_def Let_def)
  show ?thesis
  proof (cases "?n = 0")
    case True
    then show ?thesis using f by (simp add: rrf_term_def)
  next
    case False
    then have b: "1 \<le> \<bar>rnd (of_int ?n)\<bar>" by (rule rnd_int_ge1)
    then have s: "\<bar>1 / rnd (of_int ?n)\<bar> \<le> 1" by (simp add: divide_le_eq)
    have "1 / rnd (of_int ?n) \<le> 1" "- 1 \<le> 1 / rnd (of_int ?n)" using s unfolding abs_le_iff by linarith+
    then have "rnd (1 / rnd (of_int ?n)) \<le> 1" "- 1 \<le> rnd (1 / rnd (of_int ?n))"
      using rnd_mono [of "1 / rnd (of_int ?n)" 1] rnd_mono [of "- 1" "1 / rnd (of_int ?n)"]
      by (simp_all add: rnd_minus)
    then show ?thesis using b f64_of_rat_small [OF s] by (auto simp: rrf_term_def f)
  qed
qed

lemma good_add: "good_score x \<Longrightarrow> good_score (f64_add x (rrf_term k r))"
proof -
  assume x: "good_score x"
  from rrf_term_range [of k r] show ?thesis
  proof (elim disjE exE conjE)
    fix t assume t: "rrf_term k r = Fin t" "\<bar>t\<bar> \<le> 1"
    from x show ?thesis unfolding good_score_def [of x]
    proof (elim disjE exE conjE)
      fix q assume "x = Fin q" "\<bar>q\<bar> \<le> 1152921504606846976"
      then show ?thesis using good_fin t by simp
    qed (use t in \<open>simp add: good_score_def\<close>)
  qed (use x in \<open>auto simp: good_score_def\<close>)
qed

locale merge_step =
  fixes f :: "int \<Rightarrow> Ranked \<Rightarrow> Ranked list \<Rightarrow> Ranked list" and rrfK :: int
    and g :: "int \<Rightarrow> Ranked \<Rightarrow> Ranked \<Rightarrow> Ranked"
  assumes step: "f rank x m = store_id (g rank x (lookup_id (rk_ID x) m)) m"
    and g_id: "rk_ID (g rank x e) = rk_ID e"
    and g_score: "rk_Score (g rank x e) = f64_add (rk_Score e) (rrf_term rrfK rank)"
begin

lemma distinct_all: "distinct (map rk_ID m) \<Longrightarrow> distinct (map rk_ID (add_all f rank xs m))"
  by (induction xs arbitrary: rank m) (simp_all add: step distinct_store_id)

lemma ids_all: "rk_ID ` set (add_all f rank xs m) = rk_ID ` set xs \<union> rk_ID ` set m"
proof (induction xs arbitrary: rank m)
  case (Cons x xs)
  have "rk_ID ` set (f rank x m) = insert (rk_ID x) (rk_ID ` set m)"
    using set_store_id [of "g rank x (lookup_id (rk_ID x) m)" m] by (simp add: step g_id)
  then show ?case using Cons by simp
qed simp

lemma absent: "i \<notin> rk_ID ` set xs \<Longrightarrow> lookup_id i (add_all f rank xs m) = lookup_id i m"
  by (induction xs arbitrary: rank m) (auto simp: step lookup_store_id g_id)

text \<open>An identifier that occurs once gets the term of its rank.\<close>

lemma present:
  "distinct (map rk_ID xs) \<Longrightarrow> k < length xs \<Longrightarrow>
     rk_Score (lookup_id (rk_ID (xs ! k)) (add_all f rank xs m)) =
       f64_add (rk_Score (lookup_id (rk_ID (xs ! k)) m)) (rrf_term rrfK (rank + int k))"
proof (induction xs arbitrary: rank m k)
  case (Cons x xs)
  show ?case
  proof (cases k)
    case 0
    then have "lookup_id (rk_ID x) (add_all f (rank + 1) xs (f rank x m)) = g rank x (lookup_id (rk_ID x) m)"
      using Cons.prems by (subst absent) (auto simp: step lookup_store_id g_id)
    then show ?thesis using 0 by (simp add: g_score)
  next
    case (Suc j)
    then have "xs ! j \<in> set xs" using Cons.prems by simp
    then have "rk_ID (xs ! j) \<noteq> rk_ID x" using Cons.prems(1) by (metis distinct.simps(2) imageI list.simps(9) list.set_map)
    then have "lookup_id (rk_ID (xs ! j)) (f rank x m) = lookup_id (rk_ID (xs ! j)) m"
      by (simp add: step lookup_store_id g_id)
    then show ?thesis using Cons.IH [of j "rank + 1" "f rank x m"] Cons.prems Suc by (simp add: add.assoc)
  qed
qed simp

lemma good_all:
  "(\<forall>r \<in> set m. good_score (rk_Score r)) \<Longrightarrow> (\<forall>r \<in> set (add_all f rank xs m). good_score (rk_Score r))"
proof (induction xs arbitrary: rank m)
  case (Cons x xs)
  have "good_score (rk_Score (lookup_id (rk_ID x) m))"
    using Cons.prems by (auto simp: lookup_id_def no_entry_def good_score_def dest: find_Some_mem split: option.splits)
  then have "\<forall>r \<in> set (f rank x m). good_score (rk_Score r)"
    using Cons.prems by (auto simp: step g_score good_add dest!: set_store_id_sub)
  then show ?case using Cons.IH by simp
qed simp

end

interpretation bm: merge_step "add_bm25 k" k
  "\<lambda>rank x e. e\<lparr>rk_SessionID := rk_SessionID x, rk_BM25Rank := rank,
     rk_Score := f64_add (rk_Score e) (rrf_term k rank)\<rparr>"
  by unfold_locales (simp_all add: add_bm25_def Let_def)

interpretation vec: merge_step "add_vector k" k
  "\<lambda>rank x e. e\<lparr>rk_SessionID := (if rk_SessionID e = [] then rk_SessionID x else rk_SessionID e),
     rk_VecRank := rank, rk_Score := f64_add (rk_Score e) (rrf_term k rank)\<rparr>"
  by unfold_locales (simp_all add: add_vector_def Let_def)

lemma distinct_fuse_items: "distinct (map rk_ID (fuse_items k bm25 vector))"
  unfolding fuse_items_def by (intro vec.distinct_all bm.distinct_all) simp

lemma ids_fuse_items: "rk_ID ` set (fuse_items k bm25 vector) = rk_ID ` set bm25 \<union> rk_ID ` set vector"
  unfolding fuse_items_def vec.ids_all bm.ids_all by auto

lemma good_fuse_items: "\<forall>r \<in> set (fuse_items k bm25 vector). good_score (rk_Score r)"
  unfolding fuse_items_def by (intro vec.good_all bm.good_all) simp

section \<open>Sorting\<close>

definition rrf_total :: "Ranked \<Rightarrow> Ranked \<Rightarrow> bool" where
  "rrf_total = then_by (desc rk_Score) (asc rk_ID)"

interpretation rrf_order: weak_order rrf_total
  unfolding rrf_total_def by (intro weak_order_intros)

lemma rrf_less_total:
  "good_score (rk_Score a) \<Longrightarrow> good_score (rk_Score b) \<Longrightarrow> rrf_less a b = rrf_total a b"
proof -
  assume "good_score (rk_Score a)" "good_score (rk_Score b)"
  then have "rk_Score a \<noteq> NaN" "rk_Score b \<noteq> NaN" by (auto simp: good_score_def)
  then show ?thesis
    by (auto simp: rrf_less_def rrf_total_def then_by_def desc_def asc_def f64_less_iff f64_eq_iff)
qed

lemma sort_rrf: "(\<forall>r \<in> set xs. good_score (rk_Score r)) \<Longrightarrow> sort_by rrf_less xs = sort_by rrf_total xs"
  by (rule sort_by_cong) (simp add: rrf_less_total)

lemma rrf_total_separates: "rk_ID x \<noteq> rk_ID y \<Longrightarrow> rrf_total x y \<or> rrf_total y x"
  by (auto simp: rrf_total_def then_by_def desc_def asc_def)

lemma sort_rrf_iter:
  assumes "mset (iter (fuse_items k bm25 vector)) = mset (fuse_items k bm25 vector)"
  shows "sort_by rrf_less (iter (fuse_items k bm25 vector)) = sort_by rrf_total (fuse_items k bm25 vector)"
proof -
  let ?b = "fuse_items k bm25 vector"
  have s: "set (iter ?b) = set ?b" using assms by (rule mset_eq_setD)
  then have "sort_by rrf_less (iter ?b) = sort_by rrf_total (iter ?b)"
    using good_fuse_items by (intro sort_rrf) auto
  also have "\<dots> = sort_by rrf_total ?b"
  proof (rule rrf_order.sort_by_perm [OF assms])
    have d: "distinct ?b" using distinct_fuse_items [of k bm25 vector] by (simp add: distinct_map)
    then show "distinct (iter ?b)" using assms by (metis mset_eq_imp_distinct_iff)
    show "x \<in> set (iter ?b) \<Longrightarrow> y \<in> set (iter ?b) \<Longrightarrow> x \<noteq> y \<Longrightarrow> rrf_total x y \<or> rrf_total y x" for x y
      using distinct_fuse_items s by (intro rrf_total_separates) (auto simp: distinct_map inj_on_def)
  qed
  finally show ?thesis .
qed

section \<open>The cap\<close>

definition in_session :: "string \<Rightarrow> Ranked list \<Rightarrow> Ranked list" where
  "in_session sid xs = filter (\<lambda>r. rk_SessionID r = sid) xs"

lemma cap_subseq: "subseq (cap_loop K mx per n xs) xs"
  by (induction xs arbitrary: per n) auto

lemma cap_length: "n < K \<Longrightarrow> int (length (cap_loop K mx per n xs)) \<le> K - n"
proof (induction xs arbitrary: per n)
  case (Cons x xs)
  have more: "\<not> K \<le> n + 1 \<Longrightarrow> 1 + int (length (cap_loop K mx p (n + 1) xs)) \<le> K - n" for p
    using Cons.IH [of "n + 1" p] by simp
  then show ?case using Cons by auto
qed simp

lemma cap_session:
  "sid \<noteq> [] \<Longrightarrow> per sid \<le> mx \<Longrightarrow> int (length (in_session sid (cap_loop K mx per n xs))) \<le> mx - per sid"
proof (induction xs arbitrary: per n)
  case (Cons x xs)
  show ?case
  proof (cases "rk_SessionID x \<noteq> [] \<and> per (rk_SessionID x) \<ge> mx")
    case True
    then show ?thesis using Cons by simp
  next
    case False
    let ?p = "if rk_SessionID x \<noteq> [] then per(rk_SessionID x := per (rk_SessionID x) + 1) else per"
    have "?p sid \<le> mx" using Cons.prems False by auto
    then have "int (length (in_session sid (cap_loop K mx ?p (n + 1) xs))) \<le> mx - ?p sid"
      using Cons.IH Cons.prems(1) by blast
    then show ?thesis using False Cons.prems by (auto simp: in_session_def split: if_splits)
  qed
qed (simp add: in_session_def)

text \<open>What is left out: the results are full before it, or its session already has its share.\<close>

lemma cap_complete:
  assumes "cap_loop K mx per n (ys @ x # zs) = rs" and "n < K" and "x \<notin> set rs"
  shows "int (length (filter (\<lambda>r. r \<in> set ys) rs)) \<ge> K - n \<or>
     (rk_SessionID x \<noteq> [] \<and>
      int (length (filter (\<lambda>r. r \<in> set ys) (in_session (rk_SessionID x) rs))) \<ge> mx - per (rk_SessionID x))"
  using assms
proof (induction ys arbitrary: per n rs)
  case Nil
  then show ?case by (auto split: if_splits)
next
  case (Cons y ys)
  have more: "length (filter (\<lambda>r. r \<in> set ys) l) \<le> length (filter (\<lambda>r. r \<in> set (y # ys)) l)" for l :: "Ranked list"
    by (induction l) auto
  show ?case
  proof (cases "rk_SessionID y \<noteq> [] \<and> per (rk_SessionID y) \<ge> mx")
    case True
    then have "cap_loop K mx per n (ys @ x # zs) = rs" using Cons.prems(1) by simp
    from Cons.IH [OF this Cons.prems(2,3)] show ?thesis
      using more [of rs] more [of "in_session (rk_SessionID x) rs"] by linarith
  next
    case False
    let ?p = "if rk_SessionID y \<noteq> [] then per(rk_SessionID y := per (rk_SessionID y) + 1) else per"
    show ?thesis
    proof (cases "n + 1 \<ge> K")
      case True
      then have "rs = [y]" using False Cons.prems(1) by (auto split: if_splits)
      then show ?thesis using True by simp
    next
      case less: False
      let ?rs = "cap_loop K mx ?p (n + 1) (ys @ x # zs)"
      have rs: "rs = y # ?rs" using False less Cons.prems(1) by (auto split: if_splits)
      have "int (length (filter (\<lambda>r. r \<in> set ys) ?rs)) \<ge> K - (n + 1) \<or> (rk_SessionID x \<noteq> [] \<and>
          int (length (filter (\<lambda>r. r \<in> set ys) (in_session (rk_SessionID x) ?rs))) \<ge> mx - ?p (rk_SessionID x))"
        by (rule Cons.IH [OF refl]) (use less Cons.prems(3) rs in auto)
      then show ?thesis
        using more [of ?rs] more [of "in_session (rk_SessionID x) ?rs"]
        by (auto simp: rs in_session_def split: if_splits)
    qed
  qed
qed

lemma FuseRRF_sorted_items:
  assumes "\<And>m. mset (iter m) = mset m"
  shows "FuseRRF iter bm25 vector k f m = cap_loop (default_pos f 10) (default_pos m 3) (\<lambda>_. 0) 0
     (sort_by rrf_total (fuse_items (default_pos k 60) bm25 vector))"
  using assms by (simp add: FuseRRF_def Let_def sort_rrf_iter)

lemma subseq_keeps:
  "subseq xs ys \<Longrightarrow> set xs \<subseteq> set ys \<and> (distinct (map f ys) \<longrightarrow> distinct (map f xs)) \<and>
     (sorted_wrt R ys \<longrightarrow> sorted_wrt R xs)"
  by (induction rule: list_emb.induct) (auto simp: subset_iff)

lemma strict_sorted:
  "sorted_wrt (\<lambda>x y. \<not> rrf_total y x) xs \<Longrightarrow> distinct (map rk_ID xs) \<Longrightarrow> sorted_wrt rrf_total xs"
proof (induction xs)
  case (Cons x xs)
  then have "rrf_total x y" if "y \<in> set xs" for y
    using that rrf_total_separates [of x y] by (auto simp: rev_image_eqI)
  then show ?case using Cons by simp
qed simp

lemma sorted_items:
  "sorted_wrt rrf_total (sort_by rrf_total (fuse_items k bm25 vector))"
  "distinct (map rk_ID (sort_by rrf_total (fuse_items k bm25 vector)))"
proof -
  show d: "distinct (map rk_ID (sort_by rrf_total (fuse_items k bm25 vector)))"
    using distinct_fuse_items [of k bm25 vector] by (metis mset_eq_imp_distinct_iff mset_map mset_sort_by)
  show "sorted_wrt rrf_total (sort_by rrf_total (fuse_items k bm25 vector))"
    by (rule strict_sorted [OF rrf_order.sorted d])
qed

lemma fused_ids:
  assumes "\<And>m. mset (iter m) = mset m"
  shows "rk_ID ` set (FuseRRF iter bm25 vector k f mx) \<subseteq> rk_ID ` set bm25 \<union> rk_ID ` set vector"
  using subseq_keeps [OF cap_subseq, THEN conjunct1] ids_fuse_items
  unfolding FuseRRF_sorted_items [of iter, OF assms] by (metis image_mono set_sort_by)

section \<open>Properties\<close>

text \<open>The fused ranking does not depend on the order in which Go iterates over the map.\<close>

theorem FuseRRF_deterministic:
  assumes "\<And>m. mset (iter m) = mset m"
  shows "FuseRRF iter bm25 vector k f mx = FuseRRF (\<lambda>m. m) bm25 vector k f mx"
  by (simp add: FuseRRF_sorted_items assms)

definition ex_ranked :: "int \<Rightarrow> string \<Rightarrow> Ranked" where
  "ex_ranked i sid = (no_entry i)\<lparr>rk_SessionID := sid\<rparr>"

theorem FuseRRF_deterministic_witness:
  "FuseRRF rev [ex_ranked 4 ''s'', ex_ranked 7 []] [ex_ranked 7 []] 0 5 1 =
   FuseRRF (\<lambda>m. m) [ex_ranked 4 ''s'', ex_ranked 7 []] [ex_ranked 7 []] 0 5 1"
  by (rule FuseRRF_deterministic) simp

text \<open>
  C10. The results are entries of the two rankings without repetition, at most \<open>finalK\<close>, at most
  \<open>maxPerSession\<close> of any one session, and in descending order of score, ties by identifier.
\<close>

theorem FuseRRF_results:
  assumes "\<And>m. mset (iter m) = mset m" and "rs = FuseRRF iter bm25 vector k f mx"
  shows "distinct (map rk_ID rs) \<and> rk_ID ` set rs \<subseteq> rk_ID ` set bm25 \<union> rk_ID ` set vector \<and>
    int (length rs) \<le> default_pos f 10 \<and>
    (\<forall>sid. sid \<noteq> [] \<longrightarrow> int (length (filter (\<lambda>r. rk_SessionID r = sid) rs)) \<le> default_pos mx 3) \<and>
    sorted_wrt (\<lambda>x y. f64_less (rk_Score y) (rk_Score x) \<or> (rk_Score x = rk_Score y \<and> rk_ID x < rk_ID y)) rs"
proof -
  let ?items = "sort_by rrf_total (fuse_items (default_pos k 60) bm25 vector)"
  have rs: "rs = cap_loop (default_pos f 10) (default_pos mx 3) (\<lambda>_. 0) 0 ?items"
    unfolding assms(2) by (rule FuseRRF_sorted_items [OF assms(1)])
  have sub: "subseq rs ?items" unfolding rs by (rule cap_subseq)
  have pos: "0 < default_pos f 10" "0 < default_pos mx 3" by (simp_all add: default_pos_def)
  note k = subseq_keeps [OF sub, where f = rk_ID and R = rrf_total]
  have d: "distinct (map rk_ID rs)" and st: "sorted_wrt rrf_total rs" and inc: "set rs \<subseteq> set ?items"
    using k sorted_items by blast+
  have i: "rk_ID ` set rs \<subseteq> rk_ID ` set bm25 \<union> rk_ID ` set vector"
    using inc ids_fuse_items by (metis image_mono set_sort_by)
  have "x \<in> set rs \<Longrightarrow> y \<in> set rs \<Longrightarrow> rrf_total x y \<Longrightarrow>
      f64_less (rk_Score y) (rk_Score x) \<or> (rk_Score x = rk_Score y \<and> rk_ID x < rk_ID y)" for x y
  proof -
    assume "x \<in> set rs" "y \<in> set rs" "rrf_total x y"
    moreover have "good_score (rk_Score x)" "good_score (rk_Score y)"
      using calculation(1,2) inc good_fuse_items [of "default_pos k 60" bm25 vector] by auto
    ultimately have "rrf_less x y" by (simp add: rrf_less_total)
    then show ?thesis by (auto simp: rrf_less_def f64_eq_def split: if_splits)
  qed
  then have "sorted_wrt (\<lambda>x y. f64_less (rk_Score y) (rk_Score x) \<or> (rk_Score x = rk_Score y \<and> rk_ID x < rk_ID y)) rs"
    by (intro sorted_wrt_mono_rel [OF _ st]) blast
  moreover have "int (length rs) \<le> default_pos f 10"
    using cap_length [of 0 "default_pos f 10"] pos rs by fastforce
  moreover have "\<forall>sid. sid \<noteq> [] \<longrightarrow> int (length (filter (\<lambda>r. rk_SessionID r = sid) rs)) \<le> default_pos mx 3"
    using cap_session [of _ "\<lambda>_. 0" "default_pos mx 3"] pos by (force simp: rs in_session_def)
  ultimately show ?thesis using d i by blast
qed

theorem FuseRRF_results_witness:
  "distinct (map rk_ID (FuseRRF rev [ex_ranked 4 ''s'', ex_ranked 7 ''s''] [ex_ranked 9 []] 0 5 1))"
  using FuseRRF_results [of rev "FuseRRF rev [ex_ranked 4 ''s'', ex_ranked 7 ''s''] [ex_ranked 9 []] 0 5 1"]
  by simp


lemma rrf_term_half: "rrf_term 1 1 = Fin (1 / 2)" "f64_add (Fin 0) (Fin (1 / 2)) = Fin (1 / 2)"
proof -
  have r2: "rnd 2 = 2" using rnd_of_int [of 2] by simp
  have rh: "rnd (1 / 2) = 1 / 2" using rnd_dyadic [of 1 "- 1"] by (simp add: power_int_minus)
  have "f64_of_int 2 = Fin 2" by (simp add: f64_of_int_def f64_of_rat_def r2 Let_def)
  moreover have h: "f64_of_rat (1 / 2) = Fin (1 / 2)" using f64_of_rat_small [of "1 / 2"] rh by simp
  ultimately show "rrf_term 1 1 = Fin (1 / 2)" by (simp add: rrf_term_def)
  show "f64_add (Fin 0) (Fin (1 / 2)) = Fin (1 / 2)" using h by simp
qed

definition ex_half :: "int \<Rightarrow> string \<Rightarrow> int \<Rightarrow> int \<Rightarrow> Ranked" where
  "ex_half i sid b v = \<lparr>rk_ID = i, rk_SessionID = sid, rk_Score = Fin (1 / 2), rk_BM25Rank = b, rk_VecRank = v\<rparr>"

lemma ex_half_simps [simp]:
  "rk_ID (ex_half i sid b v) = i" "rk_SessionID (ex_half i sid b v) = sid"
  "rk_Score (ex_half i sid b v) = Fin (1 / 2)" "ex_half i sid b v = ex_half i' sid' b' v' \<longleftrightarrow> i = i' \<and> sid = sid' \<and> b = b' \<and> v = v'"
  by (simp_all add: ex_half_def)

lemma ex_less: "rrf_less (ex_half i sid b v) (ex_half i' sid' b' v') = (i < i')"
  by (simp add: rrf_less_def f64_eq_def)

lemma ex_fuse:
  "fuse_items 1 [ex_ranked 4 ''s''] [ex_ranked 7 ''s''] = [ex_half 4 ''s'' 1 0, ex_half 7 ''s'' 0 1]"
  by (simp add: fuse_items_def add_bm25_def add_vector_def lookup_id_def no_entry_def ex_ranked_def ex_half_def
      Let_def rrf_term_half del: f64_add.simps)

lemma ex_result: "FuseRRF rev [ex_ranked 4 ''s''] [ex_ranked 7 ''s''] 1 5 1 = [ex_half 4 ''s'' 1 0]"
  by (simp add: FuseRRF_def default_pos_def ex_fuse Let_def ex_less)


definition rank_of :: "int \<Rightarrow> Ranked list \<Rightarrow> int option" where
  "rank_of i xs = (let k = length (takeWhile (\<lambda>r. rk_ID r \<noteq> i) xs) in
     if k < length xs then Some (int k + 1) else None)"

definition add_rank :: "int \<Rightarrow> Ranked list \<Rightarrow> int \<Rightarrow> f64 \<Rightarrow> f64" where
  "add_rank k xs i acc = (case rank_of i xs of None \<Rightarrow> acc | Some r \<Rightarrow> f64_add acc (f64_div (Fin 1) (f64_of_int (i64 (k + r)))))"

lemma rank_of_cases:
  "(rank_of i xs = None \<and> i \<notin> rk_ID ` set xs) \<or>
   (\<exists>k. rank_of i xs = Some (int k + 1) \<and> k < length xs \<and> rk_ID (xs ! k) = i)"
proof (cases "length (takeWhile (\<lambda>r. rk_ID r \<noteq> i) xs) < length xs")
  case True
  then show ?thesis using nth_length_takeWhile [OF True] by (auto simp: rank_of_def Let_def)
next
  case False
  then have "takeWhile (\<lambda>r. rk_ID r \<noteq> i) xs = xs"
    by (metis length_takeWhile_le le_neq_implies_less takeWhile_eq_take take_all_iff order_refl)
  then have "\<forall>r \<in> set xs. rk_ID r \<noteq> i" by (simp add: takeWhile_eq_all_conv)
  then show ?thesis using False by (auto simp: rank_of_def Let_def)
qed

lemma add_rank_bm:
  "distinct (map rk_ID xs) \<Longrightarrow> rk_Score (lookup_id i (add_all (add_bm25 k) 1 xs m)) = add_rank k xs i (rk_Score (lookup_id i m))"
  using rank_of_cases [of i xs] bm.present [of xs _ k 1 m] bm.absent [of i xs k 1 m]
  by (auto simp: add_rank_def rrf_term_def add.commute add.left_commute)

lemma add_rank_vec:
  "distinct (map rk_ID xs) \<Longrightarrow> rk_Score (lookup_id i (add_all (add_vector k) 1 xs m)) = add_rank k xs i (rk_Score (lookup_id i m))"
  using rank_of_cases [of i xs] vec.present [of xs _ k 1 m] vec.absent [of i xs k 1 m]
  by (auto simp: add_rank_def rrf_term_def add.commute add.left_commute)

lemma lookup_nil: "rk_Score (lookup_id i []) = Fin 0"
  by (simp add: lookup_id_def no_entry_def)

text \<open>
  C22. The score of a result is the sum of the reciprocal terms of its positions, the full-text
  term added before the vector term.
\<close>

theorem FuseRRF_score:
  assumes "\<And>m. mset (iter m) = mset m" and "r \<in> set (FuseRRF iter bm25 vector k f mx)"
    and "distinct (map rk_ID bm25)" and "distinct (map rk_ID vector)"
  shows "rk_Score r = add_rank (default_pos k 60) vector (rk_ID r) (add_rank (default_pos k 60) bm25 (rk_ID r) (Fin 0))"
proof -
  let ?items = "fuse_items (default_pos k 60) bm25 vector"
  have "r \<in> set ?items"
    using subsetD [OF subseq_keeps [OF cap_subseq, THEN conjunct1]
      assms(2) [unfolded FuseRRF_sorted_items [of iter, OF assms(1)]]] by simp
  then have "rk_Score r = rk_Score (lookup_id (rk_ID r) ?items)"
    by (simp only: lookup_in [OF distinct_fuse_items])
  then show ?thesis
    by (simp only: fuse_items_def add_rank_vec [OF assms(4)] add_rank_bm [OF assms(3)] lookup_nil)
qed

theorem FuseRRF_score_witness:
  "add_rank 1 [ex_ranked 7 ''s''] 4 (add_rank 1 [ex_ranked 4 ''s''] 4 (Fin 0)) = Fin (1 / 2)"
  using FuseRRF_score [of rev "ex_half 4 ''s'' 1 0" "[ex_ranked 4 ''s'']" "[ex_ranked 7 ''s'']" 1 5 1]
  by (simp add: default_pos_def ex_result)

end
