(* ===== verification/Db.thy ===== *)
theory Db
  imports Prelude GoStrings Float64
begin

text \<open>
  The SQLite database behind \<open>internal/store\<close>, as the migrations lay it out, and the way the
  package talks to it. A table is the list of its rows in insertion order. Every call of
  \<open>database/sql\<close> (begin, exec, query, scan of a row, end of an iteration, commit) may fail: a
  store carries the list of the failures to come, one entry for each call, and no failures once the
  list is used up. \<open>Result.RowsAffected\<close> and \<open>Result.LastInsertId\<close> of the SQLite driver return
  no errors. Statements run with foreign keys on (the DSN has \<open>_foreign_keys=on\<close>).
\<close>

section \<open>Rows\<close>

record session_row =
  s_id :: string
  s_agent :: string
  s_external :: string
  s_project :: string
  s_started :: int
  s_ended :: "int option"
  s_summary :: "string option"
  s_nobs :: int

record obs_row =
  o_id :: int
  o_session :: string
  o_cwd :: string
  o_ts :: int
  o_kind :: string
  o_tool :: string
  o_payload :: string
  o_plen :: int
  o_encoding :: string
  o_schema :: int
  o_hash :: string

record mem_row =
  m_id :: int
  m_project :: string
  m_text :: string
  m_tier :: string
  m_source :: string
  m_importance :: f64
  m_session :: "string option"
  m_created :: int
  m_updated :: int
  m_accessed :: int
  m_superseded :: "int option"
  m_access_cnt :: int

record emb_row =
  e_memory :: int
  e_model :: string
  e_dim :: int
  e_vec :: string

record att_row =
  a_id :: int
  a_session :: string
  a_status :: string
  a_reason :: string
  a_attempted :: int
  a_completed :: "int option"

record audit_row =
  u_id :: int
  u_ts :: int
  u_action :: string
  u_memory :: "int option"
  u_session :: "string option"
  u_project :: "string option"
  u_payload :: string

record import_row =
  i_id :: int
  i_path :: string
  i_event :: string
  i_at :: int

text \<open>
  The tables, and the last rowids given out by \<open>AUTOINCREMENT\<close>. The full-text table holds
  (rowid, text) pairs.
\<close>

record db =
  sessions :: "session_row list"
  observations :: "obs_row list"
  memories :: "mem_row list"
  embeddings :: "emb_row list"
  attempts :: "att_row list"
  audits :: "audit_row list"
  imports_t :: "import_row list"
  fts :: "(int \<times> string) list"
  seq_obs :: int
  seq_mem :: int
  seq_att :: int
  seq_audit :: int
  seq_import :: int

definition empty_db :: db where
  "empty_db = \<lparr>sessions = [], observations = [], memories = [], embeddings = [], attempts = [],
     audits = [], imports_t = [], fts = [], seq_obs = 0, seq_mem = 0, seq_att = 0, seq_audit = 0,
     seq_import = 0\<rparr>"

section \<open>Errors\<close>

text \<open>\<open>Wrap l e\<close> is \<open>fmt.Errorf("l: %w", e)\<close>; \<open>Msg\<close> an error made from a message alone.\<close>

datatype err = Driver | ForeignKey | Unique | NotNull | NoRows | FTS5Unavailable | Msg string
  | Wrap string err

text \<open>\<open>errors.Is\<close>.\<close>

fun err_is :: "err \<Rightarrow> err \<Rightarrow> bool" where
  "err_is (Wrap l e) t = (Wrap l e = t \<or> err_is e t)"
| "err_is e t = (e = t)"

text \<open>\<open>err.Error()\<close>; \<open>drv\<close> gives the text of errors made outside the repository.\<close>

fun err_text :: "(err \<Rightarrow> string) \<Rightarrow> err \<Rightarrow> string" where
  "err_text drv (Msg m) = m"
| "err_text drv (Wrap l e) = l @ '': '' @ err_text drv e"
| "err_text drv NoRows = ''sql: no rows in result set''"
| "err_text drv FTS5Unavailable = ''sqlite fts5 unavailable: rebuild with -tags sqlite_fts5''"
| "err_text drv e = drv e"

section \<open>Code outside the repository\<close>

text \<open>
  The functions the program calls that are neither its own nor plain library arithmetic: the
  Unicode tables, the zstd codec (\<open>klauspost/compress\<close>), the exponential of the \<open>math\<close>
  package (whose rounding is not specified), and the full-text index of SQLite (whether a text
  matches a query, and the rank of a row), and the text of the errors of the SQL driver and of the
  embedding service.
\<close>

record ext =
  uni :: unicode
  zstd_enc :: "string \<Rightarrow> string"
  zstd_dec :: "string \<Rightarrow> string option"
  exp64 :: "f64 \<Rightarrow> f64"
  fts_match :: "string \<Rightarrow> string \<Rightarrow> bool"
  driver_text :: "err \<Rightarrow> string"
  bm25_rank :: "(int \<times> string) list \<Rightarrow> string \<Rightarrow> int \<Rightarrow> f64"

section \<open>The store\<close>

record store =
  db :: db
  fts5 :: bool
  faults :: "bool list"

type_synonym ('s, 'a) mon = "'s \<Rightarrow> (err + 'a) \<times> 's"
type_synonym 'a op = "(store, 'a) mon"

definition ok :: "'a \<Rightarrow> ('s, 'a) mon" where "ok x s = (Inr x, s)"

definition fail :: "err \<Rightarrow> ('s, 'a) mon" where "fail e s = (Inl e, s)"

definition andThen :: "('s, 'a) mon \<Rightarrow> ('a \<Rightarrow> ('s, 'b) mon) \<Rightarrow> ('s, 'b) mon" where
  "andThen m k s = (case m s of (Inl e, s1) \<Rightarrow> (Inl e, s1) | (Inr x, s1) \<Rightarrow> k x s1)"

text \<open>\<open>_ = op\<close>: the error is dropped, the effects stay.\<close>

definition ignore :: "('s, 'a) mon \<Rightarrow> ('s, unit) mon" where "ignore m s = (Inr (), snd (m s))"

definition withFts :: "(bool \<Rightarrow> 'a op) \<Rightarrow> 'a op" where "withFts k s = k (fts5 s) s"

fun each :: "('a \<Rightarrow> ('s, 'b) mon) \<Rightarrow> 'a list \<Rightarrow> ('s, 'b list) mon" where
  "each f [] = ok []"
| "each f (x # xs) = andThen (f x) (\<lambda>y. andThen (each f xs) (\<lambda>ys. ok (y # ys)))"

section \<open>Driver calls\<close>

definition fault :: "store \<Rightarrow> bool \<times> store" where
  "fault s = (case faults s of [] \<Rightarrow> (False, s) | b # bs \<Rightarrow> (b, s\<lparr>faults := bs\<rparr>))"

definition call :: "string \<Rightarrow> (db \<Rightarrow> err + ('a \<times> db)) \<Rightarrow> 'a op" where
  "call l f s = (case fault s of
     (True, s1) \<Rightarrow> (Inl (Wrap l Driver), s1)
   | (False, s1) \<Rightarrow> (case f (db s1) of
       Inl e \<Rightarrow> (Inl (Wrap l e), s1) | Inr (x, d) \<Rightarrow> (Inr x, s1\<lparr>db := d\<rparr>)))"

text \<open>\<open>QueryRowContext(...).Scan(...)\<close>, with \<open>NoRows\<close> when there is no row.\<close>

definition query :: "string \<Rightarrow> (db \<Rightarrow> err + 'a) \<Rightarrow> 'a op" where
  "query l q = call l (\<lambda>d. case q d of Inl e \<Rightarrow> Inl e | Inr x \<Rightarrow> Inr (x, d))"

definition first_row :: "'a list \<Rightarrow> err + 'a" where
  "first_row xs = (case xs of [] \<Rightarrow> Inl NoRows | x # _ \<Rightarrow> Inr x)"

definition check :: "string \<Rightarrow> unit op" where
  "check l = query l (\<lambda>d. Inr ())"

text \<open>\<open>Store.Ping\<close> of an open store.\<close>

definition Ping :: "unit op" where "Ping = check ''ping store''"

text \<open>
  \<open>QueryContext\<close>, the loop over \<open>rows.Next()\<close> with its \<open>Scan\<close> (converted by \<open>conv\<close>) and the
  final \<open>rows.Err()\<close>, with the three messages they are wrapped in.
\<close>

definition query_rows ::
  "string \<Rightarrow> string \<Rightarrow> string \<Rightarrow> (db \<Rightarrow> 'r list) \<Rightarrow> ('r \<Rightarrow> 'a op) \<Rightarrow> 'a list op" where
  "query_rows lq ls li q conv =
     andThen (query lq (\<lambda>d. Inr (q d))) (\<lambda>rows.
     andThen (each (\<lambda>r. andThen (check ls) (\<lambda>_. conv r)) rows) (\<lambda>xs.
     andThen (check li) (\<lambda>_. ok xs)))"

text \<open>
  \<open>BeginTx\<close>, the body, \<open>Commit\<close> (its message may depend on the way through the body), and the
  deferred \<open>Rollback\<close> on every other way out.
\<close>

definition in_tx :: "string \<Rightarrow> ('a \<Rightarrow> string) \<Rightarrow> 'a op \<Rightarrow> 'a op" where
  "in_tx lb lc body s = (case fault s of
     (True, s1) \<Rightarrow> (Inl (Wrap lb Driver), s1)
   | (False, s1) \<Rightarrow> (case body s1 of
       (Inl e, s2) \<Rightarrow> (Inl e, s2\<lparr>db := db s1\<rparr>)
     | (Inr x, s2) \<Rightarrow> (case fault s2 of
         (True, s3) \<Rightarrow> (Inl (Wrap (lc x) Driver), s3\<lparr>db := db s1\<rparr>)
       | (False, s3) \<Rightarrow> (Inr x, s3))))"

section \<open>Failures only ever stop an operation\<close>

text \<open>
  \<open>transparent\<close>: under any failures the operation returns an error or does what it does without
  failures. \<open>atomic_op\<close>: besides, an error leaves the database as it was. \<open>readonly\<close>: the
  database never changes.
\<close>

definition quiet :: "store \<Rightarrow> store" where "quiet s = s\<lparr>faults := []\<rparr>"

definition transparent :: "'a op \<Rightarrow> bool" where
  "transparent m = (\<forall>s. fts5 (snd (m s)) = fts5 s \<and>
     (faults s = [] \<longrightarrow> faults (snd (m s)) = []) \<and>
     (isl (fst (m s)) \<or>
       fst (m s) = fst (m (quiet s)) \<and> quiet (snd (m s)) = snd (m (quiet s))))"

definition atomic_op :: "'a op \<Rightarrow> bool" where
  "atomic_op m = (transparent m \<and> (\<forall>s. isl (fst (m s)) \<longrightarrow> db (snd (m s)) = db s))"

definition readonly :: "'a op \<Rightarrow> bool" where
  "readonly m = (transparent m \<and> (\<forall>s. db (snd (m s)) = db s))"

lemma quiet_simps [simp]:
  "db (quiet s) = db s" "fts5 (quiet s) = fts5 s" "faults (quiet s) = []" "quiet (quiet s) = quiet s"
  "quiet (s\<lparr>faults := f\<rparr>) = quiet s" "quiet (s\<lparr>db := d\<rparr>) = (quiet s)\<lparr>db := d\<rparr>"
  by (simp_all add: quiet_def)

lemma quiet_id: "faults s = [] \<Longrightarrow> quiet s = s"
  by (simp add: quiet_def)

lemma fault_simps [simp]:
  "db (snd (fault s)) = db s" "fts5 (snd (fault s)) = fts5 s" "quiet (snd (fault s)) = quiet s"
  "fault (quiet s) = (False, quiet s)" "faults s = [] \<Longrightarrow> fault s = (False, s)"
  by (auto simp: fault_def split: list.splits)

lemma fault_cases:
  obtains (fails) s1 where "fault s = (True, s1)" "quiet s1 = quiet s" "db s1 = db s" "fts5 s1 = fts5 s"
      "faults s \<noteq> []"
  | (runs) s1 where "fault s = (False, s1)" "quiet s1 = quiet s" "db s1 = db s" "fts5 s1 = fts5 s"
      "faults s = [] \<longrightarrow> faults s1 = []"
  by (cases "faults s") (auto simp: fault_def intro: that)

lemma atomic_transparent: "atomic_op m \<Longrightarrow> transparent m"
  by (simp add: atomic_op_def)

lemma readonly_transparent: "readonly m \<Longrightarrow> transparent m"
  by (simp add: readonly_def)

lemma readonly_atomic: "readonly m \<Longrightarrow> atomic_op m"
  by (simp add: atomic_op_def readonly_def)

named_theorems op_intros \<open>transparent, atomic and read-only operations\<close>

lemma transparent_basic [op_intros]: "transparent (ok x)" "transparent (fail e)"
  by (auto simp: transparent_def ok_def fail_def quiet_id)

lemma readonly_basic [op_intros]: "readonly (ok x)" "readonly (fail e)"
  by (auto simp: readonly_def transparent_basic) (auto simp: ok_def fail_def)

lemma transparentD:
  assumes "transparent m"
  shows "fts5 (snd (m s)) = fts5 s" and "faults s = [] \<Longrightarrow> faults (snd (m s)) = []"
    and "isl (fst (m s)) \<or> fst (m s) = fst (m (quiet s)) \<and> quiet (snd (m s)) = snd (m (quiet s))"
  using assms by (auto simp: transparent_def)

lemma transparent_andThen [op_intros]:
  assumes m: "transparent m" and k: "\<And>x. transparent (k x)"
  shows "transparent (andThen m k)"
  unfolding transparent_def
proof (intro allI conjI impI)
  fix s
  show "fts5 (snd (andThen m k s)) = fts5 s"
    using transparentD(1) [OF m, of s] transparentD(1) [OF k]
    by (auto simp: andThen_def split: prod.splits sum.splits)
  show "faults (snd (andThen m k s)) = []" if "faults s = []"
    using transparentD(2) [OF m that] transparentD(2) [OF k]
    by (auto simp: andThen_def split: prod.splits sum.splits)
  show "isl (fst (andThen m k s)) \<or> fst (andThen m k s) = fst (andThen m k (quiet s)) \<and>
      quiet (snd (andThen m k s)) = snd (andThen m k (quiet s))"
  proof (cases "m s")
    case (Pair r s1)
    show ?thesis
    proof (cases r)
      case (Inl e)
      then show ?thesis using Pair by (simp add: andThen_def)
    next
      case (Inr x)
      then have "m (quiet s) = (Inr x, quiet s1)"
        using transparentD(3) [OF m, of s] Pair by (cases "m (quiet s)") auto
      then show ?thesis
        using transparentD(3) [OF k, of x s1] Pair Inr by (simp add: andThen_def)
    qed
  qed
qed

lemma readonly_andThen [op_intros]:
  assumes m: "readonly m" and k: "\<And>x. readonly (k x)"
  shows "readonly (andThen m k)"
proof -
  have "db (snd (andThen m k s)) = db s" for s
    using assms by (auto simp: andThen_def readonly_def split: prod.splits sum.splits) (metis snd_conv)+
  then show ?thesis
    using assms by (auto simp: readonly_def transparent_andThen)
qed

lemma transparent_call [op_intros]: "transparent (call l f)"
  unfolding transparent_def
proof (intro allI conjI impI)
  fix s
  show "fts5 (snd (call l f s)) = fts5 s"
    by (cases s rule: fault_cases) (auto simp: call_def split: sum.splits)
  show "faults (snd (call l f s)) = []" if "faults s = []"
    using that by (auto simp: call_def split: sum.splits)
  show "isl (fst (call l f s)) \<or> fst (call l f s) = fst (call l f (quiet s)) \<and>
      quiet (snd (call l f s)) = snd (call l f (quiet s))"
    by (cases s rule: fault_cases) (auto simp: call_def split: sum.splits)
qed

lemma atomic_call [op_intros]: "atomic_op (call l f)"
  unfolding atomic_op_def
proof (intro conjI allI impI)
  fix s assume "isl (fst (call l f s))"
  then show "db (snd (call l f s)) = db s"
    by (cases s rule: fault_cases) (auto simp: call_def split: sum.splits)
qed (rule transparent_call)

lemma readonly_query [op_intros]: "readonly (query l q)"
  unfolding readonly_def query_def
proof (intro conjI allI)
  fix s
  show "db (snd (call l (\<lambda>d. case q d of Inl e \<Rightarrow> Inl e | Inr x \<Rightarrow> Inr (x, d)) s)) = db s"
    by (cases s rule: fault_cases) (auto simp: call_def split: sum.splits)
qed (rule transparent_call)

lemma readonly_check [op_intros]: "readonly (check l)" "readonly Ping"
  by (simp_all add: check_def Ping_def op_intros)

lemma transparent_each [op_intros]: "(\<And>x. transparent (f x)) \<Longrightarrow> transparent (each f xs)"
  by (induction xs) (auto intro!: op_intros)

lemma readonly_each [op_intros]: "(\<And>x. readonly (f x)) \<Longrightarrow> readonly (each f xs)"
  by (induction xs) (auto intro!: op_intros)

lemma readonly_query_rows [op_intros]:
  "(\<And>r. readonly (conv r)) \<Longrightarrow> readonly (query_rows lq ls li q conv)"
  unfolding query_rows_def by (intro op_intros)

lemmas transparent_reads [op_intros] = readonly_query [THEN readonly_transparent]
  readonly_check [THEN readonly_transparent]

lemma transparent_withFts [op_intros]: "(\<And>b. transparent (k b)) \<Longrightarrow> transparent (withFts k)"
  by (auto simp: transparent_def withFts_def)

lemma readonly_withFts [op_intros]: "(\<And>b. readonly (k b)) \<Longrightarrow> readonly (withFts k)"
  by (auto simp: readonly_def transparent_withFts) (auto simp: withFts_def)

lemma atomic_in_tx [op_intros]:
  assumes "transparent body"
  shows "atomic_op (in_tx lb lc body)"
proof -
  have "fts5 (snd (in_tx lb lc body s)) = fts5 s \<and>
      (faults s = [] \<longrightarrow> faults (snd (in_tx lb lc body s)) = []) \<and>
      (isl (fst (in_tx lb lc body s)) \<longrightarrow> db (snd (in_tx lb lc body s)) = db s) \<and>
      (isl (fst (in_tx lb lc body s)) \<or>
        fst (in_tx lb lc body s) = fst (in_tx lb lc body (quiet s)) \<and>
        quiet (snd (in_tx lb lc body s)) = snd (in_tx lb lc body (quiet s)))" for s
  proof (cases s rule: fault_cases)
    case (fails s1)
    then show ?thesis by (simp add: in_tx_def)
  next
    case (runs s1)
    obtain r s2 where b: "body s1 = (r, s2)" by (cases "body s1")
    have t: "fts5 s2 = fts5 s1" "faults s1 = [] \<longrightarrow> faults s2 = []"
      "isl r \<or> body (quiet s1) = (r, quiet s2)"
      using transparentD [OF assms, of s1] b by (auto simp: prod_eq_iff)
    show ?thesis
    proof (cases r)
      case (Inl e)
      then show ?thesis using runs b t by (auto simp: in_tx_def)
    next
      case (Inr x)
      then have bq: "body (quiet s) = (Inr x, quiet s2)" using t(3) runs(2) by simp
      show ?thesis using runs b t Inr bq
        by (cases s2 rule: fault_cases) (auto simp: in_tx_def)
    qed
  qed
  then show ?thesis by (auto simp: atomic_op_def transparent_def)
qed

text \<open>The two outcomes of an atomic operation.\<close>

lemma atomic_cases [consumes 1]:
  assumes "atomic_op m"
  obtains (failed) e where "fst (m s) = Inl e" "db (snd (m s)) = db s" "fts5 (snd (m s)) = fts5 s"
  | (succeeded) x where "fst (m s) = Inr x" "fst (m (quiet s)) = Inr x"
      "db (snd (m s)) = db (snd (m (quiet s)))" "fts5 (snd (m s)) = fts5 s"
proof (cases "fst (m s)")
  case (Inl e)
  then show ?thesis using assms failed by (auto simp: atomic_op_def transparent_def)
next
  case (Inr x)
  then have "fst (m (quiet s)) = Inr x" "quiet (snd (m s)) = snd (m (quiet s))"
    using transparentD(3) [OF atomic_transparent [OF assms], of s] by auto
  then show ?thesis
    using succeeded [of x] Inr transparentD(1) [OF atomic_transparent [OF assms]] by (metis quiet_simps(1))
qed

section \<open>Preserved predicates\<close>

definition keeps :: "(bool \<Rightarrow> db \<Rightarrow> bool) \<Rightarrow> 'a op \<Rightarrow> bool" where
  "keeps I m = (\<forall>s. fts5 (snd (m s)) = fts5 s \<and>
     (I (fts5 s) (db s) \<longrightarrow> I (fts5 s) (db (snd (m s)))))"

lemma keepsD: "keeps I m \<Longrightarrow> I (fts5 s) (db s) \<Longrightarrow> I (fts5 (snd (m s))) (db (snd (m s)))"
  by (simp add: keeps_def)

lemma keeps_readonly: "readonly m \<Longrightarrow> keeps I m"
  by (simp add: keeps_def readonly_def transparent_def)

lemmas keeps_reads [keeps_intros] = readonly_basic [THEN keeps_readonly] readonly_query [THEN keeps_readonly]
  readonly_check [THEN keeps_readonly] readonly_query_rows [THEN keeps_readonly]

text \<open>For an atomic operation the runs without failures are enough.\<close>

lemma keeps_atomic:
  assumes "atomic_op m"
    and "\<And>s x s1. faults s = [] \<Longrightarrow> m s = (Inr x, s1) \<Longrightarrow> I (fts5 s) (db s) \<Longrightarrow> I (fts5 s) (db s1)"
  shows "keeps I m"
  unfolding keeps_def
proof (intro allI conjI impI)
  fix s
  show "fts5 (snd (m s)) = fts5 s" using assms(1) by (auto simp: atomic_op_def transparent_def)
  assume i: "I (fts5 s) (db s)"
  show "I (fts5 s) (db (snd (m s)))" using assms(1)
  proof (cases rule: atomic_cases [where s = s])
    case (failed e)
    then show ?thesis using i by simp
  next
    case (succeeded x)
    obtain s1 where "m (quiet s) = (Inr x, s1)" using succeeded(2) by (cases "m (quiet s)") auto
    then show ?thesis using assms(2) [of "quiet s" x s1] i succeeded(3) by simp
  qed
qed

lemma keeps_andThen [keeps_intros]:
  "keeps I m \<Longrightarrow> (\<And>x. keeps I (k x)) \<Longrightarrow> keeps I (andThen m k)"
proof -
  assume m: "keeps I m" and k: "\<And>x. keeps I (k x)"
  show "keeps I (andThen m k)"
    unfolding keeps_def
  proof
    fix s
    show "fts5 (snd (andThen m k s)) = fts5 s \<and>
        (I (fts5 s) (db s) \<longrightarrow> I (fts5 s) (db (snd (andThen m k s))))"
    proof (cases "m s")
      case (Pair r s1)
      then have "fts5 s1 = fts5 s" "I (fts5 s) (db s) \<longrightarrow> I (fts5 s1) (db s1)"
        using m [unfolded keeps_def, rule_format, of s] by auto
      moreover have "fts5 (snd (k x s1)) = fts5 s1 \<and>
          (I (fts5 s1) (db s1) \<longrightarrow> I (fts5 s1) (db (snd (k x s1))))" for x
        using k [of x] unfolding keeps_def by blast
      ultimately show ?thesis using Pair by (cases r) (simp_all add: andThen_def)
    qed
  qed
qed

lemma keeps_ignore [keeps_intros]: "keeps I m \<Longrightarrow> keeps I (ignore m)"
  by (simp add: keeps_def ignore_def)

lemma keeps_each [keeps_intros]: "(\<And>x. keeps I (f x)) \<Longrightarrow> keeps I (each f xs)"
  by (induction xs) (simp_all add: keeps_readonly readonly_basic keeps_andThen)

lemma keeps_call:
  "(\<And>b d x d'. I b d \<Longrightarrow> f d = Inr (x, d') \<Longrightarrow> I b d') \<Longrightarrow> keeps I (call l f)"
  unfolding keeps_def
proof
  fix s
  assume f: "\<And>b d x d'. I b d \<Longrightarrow> f d = Inr (x, d') \<Longrightarrow> I b d'"
  show "fts5 (snd (call l f s)) = fts5 s \<and>
      (I (fts5 s) (db s) \<longrightarrow> I (fts5 s) (db (snd (call l f s))))"
    using f [of "fts5 s" "db s"]
    by (cases s rule: fault_cases) (auto simp: call_def split: sum.splits)
qed

lemma keeps_withFts [keeps_intros]: "(\<And>b. keeps I (k b)) \<Longrightarrow> keeps I (withFts k)"
  by (simp add: keeps_def withFts_def)

lemma keeps_in_tx [keeps_intros]:
  assumes body: "keeps I body"
  shows "keeps I (in_tx lb lc body)"
  unfolding keeps_def
proof
  fix s
  show "fts5 (snd (in_tx lb lc body s)) = fts5 s \<and>
      (I (fts5 s) (db s) \<longrightarrow> I (fts5 s) (db (snd (in_tx lb lc body s))))"
  proof (cases s rule: fault_cases)
    case (fails s1)
    then show ?thesis by (simp add: in_tx_def)
  next
    case (runs s1)
    obtain r s2 where b: "body s1 = (r, s2)" by (cases "body s1")
    have "fts5 s2 = fts5 s1 \<and> (I (fts5 s1) (db s1) \<longrightarrow> I (fts5 s1) (db s2))"
      using body [unfolded keeps_def, rule_format, of s1] b by simp
    then show ?thesis using runs b
      by (cases s2 rule: fault_cases) (auto simp: in_tx_def split: sum.splits)
  qed
qed

section \<open>Triples over runs without failures\<close>

text \<open>
  From a database with \<open>P\<close> a successful run without failures that returns \<open>x\<close> ends in one with
  \<open>Q x\<close>.
\<close>

definition triple :: "(bool \<Rightarrow> db \<Rightarrow> bool) \<Rightarrow> 'a op \<Rightarrow> ('a \<Rightarrow> bool \<Rightarrow> db \<Rightarrow> bool) \<Rightarrow> bool" where
  "triple P m Q = (\<forall>s x s1. faults s = [] \<longrightarrow> m s = (Inr x, s1) \<longrightarrow> P (fts5 s) (db s) \<longrightarrow>
     Q x (fts5 s) (db s1))"

named_theorems triple_intros \<open>proof rules of triples\<close>

lemma tripleD: "triple P m Q \<Longrightarrow> faults s = [] \<Longrightarrow> m s = (Inr x, s1) \<Longrightarrow> P (fts5 s) (db s) \<Longrightarrow> Q x (fts5 s) (db s1)"
  by (auto simp: triple_def)

lemma triple_keeps: "keeps I m \<Longrightarrow> triple I m (\<lambda>_. I)"
  unfolding keeps_def triple_def by (metis snd_conv)

lemma keeps_triple: "atomic_op m \<Longrightarrow> triple I m (\<lambda>_. I) \<Longrightarrow> keeps I m"
  by (rule keeps_atomic) (auto dest: tripleD)

lemma triple_andThen [triple_intros]:
  assumes m: "triple P m R" and t: "transparent m" and k: "\<And>x. triple (R x) (k x) Q"
  shows "triple P (andThen m k) Q"
  unfolding triple_def
proof (intro allI impI)
  fix s y s2
  assume f: "faults s = []" and r: "andThen m k s = (Inr y, s2)" and i: "P (fts5 s) (db s)"
  obtain x s1 where m1: "m s = (Inr x, s1)" and k1: "k x s1 = (Inr y, s2)"
    using r by (cases "m s") (auto simp: andThen_def split: sum.splits)
  have "faults s1 = []" "fts5 s1 = fts5 s"
    using transparentD(1,2) [OF t, of s] f m1 by simp_all
  moreover have "R x (fts5 s) (db s1)" using tripleD [OF m f m1 i] .
  ultimately show "Q y (fts5 s) (db s2)" using tripleD [OF k, of s1 x y s2] k1 by simp
qed

lemma triple_ok: "(\<And>b d. P b d \<Longrightarrow> Q x b d) \<Longrightarrow> triple P (ok x) Q"
  by (simp add: triple_def ok_def)

lemma triple_fail: "triple P (fail e) Q"
  by (simp add: triple_def fail_def)

lemma triple_call: "(\<And>b d x d'. P b d \<Longrightarrow> f d = Inr (x, d') \<Longrightarrow> Q x b d') \<Longrightarrow> triple P (call l f) Q"
  unfolding triple_def call_def by (auto split: sum.splits)

lemma triple_query: "(\<And>b d x. P b d \<Longrightarrow> q d = Inr x \<Longrightarrow> Q x b d) \<Longrightarrow> triple P (query l q) Q"
  unfolding query_def by (rule triple_call) (auto split: sum.splits)

lemma triple_withFts: "(\<And>b. triple (\<lambda>b' d. b' = b \<and> P b d) (k b) Q) \<Longrightarrow> triple P (withFts k) Q"
  by (auto simp: triple_def withFts_def)

lemma triple_pre: "triple P m Q \<Longrightarrow> (\<And>b d. P' b d \<Longrightarrow> P b d) \<Longrightarrow> triple P' m Q"
  by (auto simp: triple_def)

lemma triple_post: "triple P m Q \<Longrightarrow> (\<And>x b d. Q x b d \<Longrightarrow> Q' x b d) \<Longrightarrow> triple P m Q'"
  by (auto simp: triple_def)

lemma triple_each:
  assumes "\<And>x. triple I (f x) (\<lambda>_. I)" and "\<And>x. transparent (f x)"
  shows "triple I (each f xs) (\<lambda>_. I)"
proof (induction xs)
  case (Cons x xs)
  then show ?case by (auto intro!: triple_andThen [where R = "\<lambda>_. I"] triple_ok assms transparent_each)
qed (auto intro: triple_ok)

lemma triple_in_tx:
  assumes "triple P body Q"
  shows "triple P (in_tx lb lc body) Q"
  unfolding triple_def
proof (intro allI impI)
  fix s x s1
  assume a: "faults s = []" "in_tx lb lc body s = (Inr x, s1)" "P (fts5 s) (db s)"
  then obtain s2 where b: "body s = (Inr x, s2)"
    by (auto simp: in_tx_def split: prod.splits sum.splits bool.splits)
  then have "db s1 = db s2" using a by (cases s2 rule: fault_cases) (auto simp: in_tx_def)
  then show "Q x (fts5 s) (db s1)" using tripleD [OF assms a(1) b a(3)] by simp
qed

section \<open>Runs without failures\<close>

lemma quiet_run [simp]:
  "faults s = [] \<Longrightarrow> call l f s =
     (case f (db s) of Inl e \<Rightarrow> (Inl (Wrap l e), s) | Inr (x, d) \<Rightarrow> (Inr x, s\<lparr>db := d\<rparr>))"
  "faults s = [] \<Longrightarrow> query l q s =
     (case q (db s) of Inl e \<Rightarrow> (Inl (Wrap l e), s) | Inr x \<Rightarrow> (Inr x, s))"
  "faults s = [] \<Longrightarrow> check l s = (Inr (), s)"
  by (auto simp: call_def query_def check_def split: sum.splits)

lemma ok_run [simp]: "ok x s = (Inr x, s)" and fail_run [simp]: "fail e s = (Inl e, s)"
  by (simp_all add: ok_def fail_def)

lemma quiet_each:
  "faults s = [] \<Longrightarrow> (\<And>x. x \<in> set xs \<Longrightarrow> f x s = (Inr (g x), s)) \<Longrightarrow> each f xs s = (Inr (map g xs), s)"
  by (induction xs) (auto simp: andThen_def)

lemma quiet_query_rows:
  "faults s = [] \<Longrightarrow> (\<And>r. r \<in> set (q (db s)) \<Longrightarrow> conv r s = (Inr (g r), s)) \<Longrightarrow>
     query_rows lq ls li q conv s = (Inr (map g (q (db s))), s)"
  by (simp add: query_rows_def andThen_def quiet_each [where g = g])

lemma quiet_in_tx:
  assumes "transparent body" and "faults s = []"
  shows "in_tx lb lc body s = (case body s of (Inl e, s1) \<Rightarrow> (Inl e, s1\<lparr>db := db s\<rparr>) | r \<Rightarrow> r)"
  using transparentD(2) [OF assms] assms(2)
  by (auto simp: in_tx_def split: prod.splits sum.splits)

text \<open>The answer of a read-only operation is the answer it gives without failures.\<close>

lemma readonly_result:
  assumes "readonly m" and "fst (m s) = Inr x"
  shows "m (quiet s) = (Inr x, quiet s)"
proof -
  have "fst (m (quiet s)) = Inr x" "snd (m (quiet s)) = quiet (snd (m s))"
    using transparentD(3) [OF readonly_transparent [OF assms(1)], of s] assms(2) by auto
  moreover have "quiet (snd (m s)) = quiet s"
    using assms(1) transparentD(1) [OF readonly_transparent [OF assms(1)], of s]
    by (simp add: readonly_def quiet_def)
  ultimately show ?thesis by (metis prod.collapse)
qed

lemma readonly_db: "readonly m \<Longrightarrow> db (snd (m s)) = db s \<and> fts5 (snd (m s)) = fts5 s"
  by (auto simp: readonly_def transparent_def)

text \<open>A successful sequence taken apart.\<close>

lemma andThen_Inr:
  "andThen m k s = (Inr y, s2) \<longleftrightarrow> (\<exists>x s1. m s = (Inr x, s1) \<and> k x s1 = (Inr y, s2))"
  by (auto simp: andThen_def split: prod.splits sum.splits)

lemma each_Inr:
  "each f xs s = (Inr ys, s1) \<Longrightarrow> y \<in> set ys \<Longrightarrow> \<exists>x s2 s3. x \<in> set xs \<and> f x s2 = (Inr y, s3)"
proof (induction xs arbitrary: s ys s1)
  case (Cons x xs)
  then obtain z s2 zs s3 where "f x s = (Inr z, s2)" "each f xs s2 = (Inr zs, s3)" "ys = z # zs"
    by (auto simp: andThen_Inr)
  then show ?case using Cons.IH [of s2 zs s3] Cons.prems(2) by (cases "y = z") auto
qed simp

lemma query_rows_Inr:
  assumes "faults s = []" and "query_rows lq ls li q conv s = (Inr ys, s1)" and "y \<in> set ys"
  shows "\<exists>x s2 s3. x \<in> set (q (db s)) \<and> conv x s2 = (Inr y, s3)"
proof -
  obtain s2 where "each (\<lambda>r. andThen (check ls) (\<lambda>_. conv r)) (q (db s)) s = (Inr ys, s2)"
    using assms(1,2) by (auto simp: query_rows_def andThen_Inr)
  from each_Inr [OF this assms(3)] show ?thesis
    unfolding andThen_Inr by blast
qed

section \<open>Partial correctness under failures\<close>

text \<open>Whatever fails on the way: a run from \<open>P\<close> that returns \<open>x\<close> ends in \<open>Q x\<close>.\<close>

definition yields :: "('s \<Rightarrow> bool) \<Rightarrow> ('s, 'a) mon \<Rightarrow> ('a \<Rightarrow> 's \<Rightarrow> bool) \<Rightarrow> bool" where
  "yields P m Q = (\<forall>s x s1. P s \<longrightarrow> m s = (Inr x, s1) \<longrightarrow> Q x s1)"

named_theorems yields_intros \<open>partial correctness rules\<close>

lemma yieldsD: "yields P m Q \<Longrightarrow> P s \<Longrightarrow> m s = (Inr x, s1) \<Longrightarrow> Q x s1"
  by (auto simp: yields_def)

lemma yields_andThen: "yields P m R \<Longrightarrow> (\<And>x. yields (R x) (k x) Q) \<Longrightarrow> yields P (andThen m k) Q"
  unfolding yields_def andThen_Inr by blast

lemma yields_ok: "(\<And>s. P s \<Longrightarrow> Q x s) \<Longrightarrow> yields P (ok x) Q"
  by (simp add: yields_def ok_def)

lemma yields_fail [yields_intros]: "yields P (fail e) Q"
  by (simp add: yields_def fail_def)

lemma yields_post: "yields P m Q \<Longrightarrow> (\<And>x s. Q x s \<Longrightarrow> Q' x s) \<Longrightarrow> yields P m Q'"
  by (auto simp: yields_def)

lemma yields_pre: "yields P m Q \<Longrightarrow> (\<And>s. P' s \<Longrightarrow> P s) \<Longrightarrow> yields P' m Q"
  by (auto simp: yields_def)

lemma yields_result: "(\<And>s x. fst (m s) = Inr x \<Longrightarrow> P s \<Longrightarrow> Q x) \<Longrightarrow> yields P m (\<lambda>x _. Q x)"
  unfolding yields_def by (metis fst_conv)

lemma yields_conj: "yields P m Q \<Longrightarrow> yields P m R \<Longrightarrow> yields P m (\<lambda>x s. Q x s \<and> R x s)"
  by (auto simp: yields_def)

end
