(* ===== verification/Breaker.thy ===== *)
theory Breaker
  imports Db Json "HOL-Library.Word"
begin

text \<open>
  \<open>internal/embed/ollama.go\<close>: the client of the embedding service (the HTTP round trip is an
  argument: its outcome) and the circuit breaker. Times are nanoseconds; the zero \<open>time.Time\<close> is
  \<open>None\<close>.
\<close>

section \<open>Numbers of type \<open>float32\<close>\<close>

text \<open>\<open>strconv.ParseFloat(s, 32)\<close> as a bit pattern; none when out of range.\<close>

definition f32_of_rat :: "bool \<Rightarrow> rat \<Rightarrow> 32 word option" where
  "f32_of_rat neg x =
     (let sgn = (if neg then 2147483648 else 0 :: int) in
      if x = 0 then Some (of_int sgn)
      else let e = max (ilog2 \<bar>x\<bar>) (- 126); m = rne (\<bar>x\<bar> / pow2 (e - 23));
               (m', e') = (if m = 16777216 then (8388608, e + 1) else (m, e)) in
        if 128 \<le> e' then None
        else if m' < 8388608 then Some (of_int (sgn + m'))
        else Some (of_int (sgn + (e' + 127) * 8388608 + (m' - 8388608))))"

definition put_f32 :: "32 word \<Rightarrow> json \<Rightarrow> 32 word option" where
  "put_f32 a v = (case v of JNum s \<Rightarrow> f32_of_rat (take 1 s = ''-'') (num_rat s) | JNull \<Rightarrow> Some a | _ \<Rightarrow> None)"

section \<open>The client\<close>

record Client =
  cl_URL :: string
  cl_Model :: string
  cl_Dim :: int
  cl_detectedDim :: int

datatype http_outcome = NoRequest | NoResponse | Response int string

definition ModelName :: "Client \<Rightarrow> string" where
  "ModelName c = (if cl_Model c = [] then ''nomic-embed-text'' else cl_Model c)"

definition CurrentDim :: "Client \<Rightarrow> int" where
  "CurrentDim c = (if cl_Dim c > 0 then cl_Dim c else cl_detectedDim c)"

definition validateDim :: "int \<Rightarrow> Client \<Rightarrow> err option \<times> Client" where
  "validateDim d c =
     (if cl_Dim c > 0 then
        (if d \<noteq> cl_Dim c then Some (Msg (''embedding dimension = '' @ itoa d @ '', want '' @ itoa (cl_Dim c))) else None, c)
      else if cl_detectedDim c = 0 then (None, c\<lparr>cl_detectedDim := d\<rparr>)
      else if d \<noteq> cl_detectedDim c then
        (Some (Msg (''embedding dimension = '' @ itoa d @ '', want detected '' @ itoa (cl_detectedDim c))), c)
      else (None, c))"

text \<open>\<open>json.NewDecoder(body).Decode(&out)\<close>: the first value of the body.\<close>

definition decode_embedding :: "string \<Rightarrow> 32 word list option" where
  "decode_embedding body = (case parse_value (Suc (length body)) maxNestingDepth (skip_ws body) of None \<Rightarrow> None
     | Some (v, _) \<Rightarrow> (case struct_members v of None \<Rightarrow> None
         | Some ms \<Rightarrow> field_loop (put_list put_f32 0) ''embedding'' [] ms))"

definition Embed :: "http_outcome \<Rightarrow> Client \<Rightarrow> (err + 32 word list) \<times> Client" where
  "Embed http c =
     (if cl_URL c = [] then (Inl (Msg ''ollama url is empty''), c)
      else case http of
        NoRequest \<Rightarrow> (Inl (Wrap ''build embedding request'' Driver), c)
      | NoResponse \<Rightarrow> (Inl (Wrap ''call ollama embeddings'' Driver), c)
      | Response status body \<Rightarrow>
          if status \<ge> 400 then (Inl (Msg (''ollama embeddings status '' @ itoa status)), c)
          else (case decode_embedding body of
            None \<Rightarrow> (Inl (Wrap ''decode embedding response'' Driver), c)
          | Some vec \<Rightarrow>
              if vec = [] then (Inl (Msg ''ollama returned empty embedding''), c)
              else (case validateDim (int (length vec)) c of
                (Some e, c1) \<Rightarrow> (Inl e, c1) | (None, c1) \<Rightarrow> (Inr vec, c1))))"

definition Healthy :: "http_outcome \<Rightarrow> Client \<Rightarrow> bool" where
  "Healthy http c = (cl_URL c \<noteq> [] \<and> (case http of Response status _ \<Rightarrow> status < 400 | _ \<Rightarrow> False))"

section \<open>The circuit breaker\<close>

record CircuitBreaker =
  cb_failures :: int
  cb_threshold :: int
  cb_cooldown :: int
  cb_openedAt :: "int option"

definition NewCircuitBreaker :: "int \<Rightarrow> int \<Rightarrow> CircuitBreaker" where
  "NewCircuitBreaker threshold cooldown = \<lparr>cb_failures = 0,
     cb_threshold = (if threshold \<le> 0 then 3 else threshold),
     cb_cooldown = (if cooldown \<le> 0 then 120 * 10 ^ 9 else cooldown), cb_openedAt = None\<rparr>"

text \<open>\<open>time.Time.Sub\<close> saturates.\<close>

definition time_sub :: "int \<Rightarrow> int \<Rightarrow> int" where
  "time_sub a b = max (- (2 ^ 63)) (min (2 ^ 63 - 1) (a - b))"

definition Open :: "int \<Rightarrow> CircuitBreaker \<Rightarrow> bool \<times> CircuitBreaker" where
  "Open now b = (case cb_openedAt b of None \<Rightarrow> (False, b)
     | Some t \<Rightarrow> if time_sub now t \<ge> cb_cooldown b then (False, b\<lparr>cb_failures := 0, cb_openedAt := None\<rparr>)
         else (True, b))"

definition RecordFailure :: "int \<Rightarrow> CircuitBreaker \<Rightarrow> CircuitBreaker" where
  "RecordFailure now b = (let n = i64 (cb_failures b + 1) in
     if n \<ge> cb_threshold b then b\<lparr>cb_failures := n, cb_openedAt := Some now\<rparr> else b\<lparr>cb_failures := n\<rparr>)"

definition RecordSuccess :: "CircuitBreaker \<Rightarrow> CircuitBreaker" where
  "RecordSuccess b = b\<lparr>cb_failures := 0, cb_openedAt := None\<rparr>"

section \<open>The breaker as a state machine\<close>

text \<open>What a caller does to it, with the clock reading of the call.\<close>

datatype event = Asked int | Failed int | Succeeded

fun apply_event :: "event \<Rightarrow> CircuitBreaker \<Rightarrow> CircuitBreaker" where
  "apply_event (Asked now) b = snd (Open now b)"
| "apply_event (Failed now) b = RecordFailure now b"
| "apply_event Succeeded b = RecordSuccess b"

inductive breaker_step :: "CircuitBreaker \<Rightarrow> event \<Rightarrow> CircuitBreaker \<Rightarrow> bool" where
  asked: "Open now b = (r, b') \<Longrightarrow> breaker_step b (Asked now) b'"
| failed: "RecordFailure now b = b' \<Longrightarrow> breaker_step b (Failed now) b'"
| succeeded: "RecordSuccess b = b' \<Longrightarrow> breaker_step b Succeeded b'"

code_pred breaker_step .

inductive_cases asked_cases: "breaker_step b (Asked now) b'"
inductive_cases failed_cases: "breaker_step b (Failed now) b'"
inductive_simps succeeded_simps: "breaker_step b Succeeded b'"

inductive breaker_reach :: "int \<Rightarrow> int \<Rightarrow> event list \<Rightarrow> CircuitBreaker \<Rightarrow> bool" for th cd where
  start: "breaker_reach th cd [] (NewCircuitBreaker th cd)"
| step: "breaker_reach th cd es b \<Longrightarrow> breaker_step b e b' \<Longrightarrow> breaker_reach th cd (es @ [e]) b'"

lemma breaker_step_apply: "breaker_step b e b' \<longleftrightarrow> b' = apply_event e b"
  by (cases e) (auto intro: breaker_step.intros elim: asked_cases failed_cases simp: succeeded_simps prod_eq_iff)

lemma breaker_reach_foldl: "breaker_reach th cd es b \<longleftrightarrow> b = foldl (\<lambda>b e. apply_event e b) (NewCircuitBreaker th cd) es"
proof
  show "breaker_reach th cd es b \<Longrightarrow> b = foldl (\<lambda>b e. apply_event e b) (NewCircuitBreaker th cd) es"
    by (induction rule: breaker_reach.induct) (auto simp: breaker_step_apply)
  show "b = foldl (\<lambda>b e. apply_event e b) (NewCircuitBreaker th cd) es \<Longrightarrow> breaker_reach th cd es b"
    by (induction es arbitrary: b rule: rev_induct) (auto intro: breaker_reach.intros simp: breaker_step_apply)
qed

text \<open>
  The specification over the history: the failures since the last success or expiry, and the time
  of the last failure at or beyond the threshold.
\<close>

datatype abstract = Closed nat | Opened nat int

fun abs_event :: "nat \<Rightarrow> int \<Rightarrow> event \<Rightarrow> abstract \<Rightarrow> abstract" where
  "abs_event th cd Succeeded a = Closed 0"
| "abs_event th cd (Failed now) (Closed n) = (if Suc n \<ge> th then Opened (Suc n) now else Closed (Suc n))"
| "abs_event th cd (Failed now) (Opened n t) = Opened (Suc n) now"
| "abs_event th cd (Asked now) (Closed n) = Closed n"
| "abs_event th cd (Asked now) (Opened n t) = (if time_sub now t \<ge> cd then Closed 0 else Opened n t)"

definition abs_of :: "CircuitBreaker \<Rightarrow> abstract" where
  "abs_of b = (case cb_openedAt b of None \<Rightarrow> Closed (nat (cb_failures b)) | Some t \<Rightarrow> Opened (nat (cb_failures b)) t)"

definition breaker_ok :: "int \<Rightarrow> int \<Rightarrow> nat \<Rightarrow> CircuitBreaker \<Rightarrow> bool" where
  "breaker_ok th cd k b = (cb_threshold b = th \<and> cb_cooldown b = cd \<and> 0 < th \<and> 0 \<le> cb_failures b \<and>
     cb_failures b \<le> int k \<and> (cb_openedAt b = None \<longleftrightarrow> cb_failures b < th))"

lemma breaker_step_ok:
  assumes "breaker_ok th cd k b" "int k < 2 ^ 63 - 1"
  shows "breaker_ok th cd (Suc k) (apply_event e b) \<and> abs_of (apply_event e b) = abs_event (nat th) cd e (abs_of b)"
proof (cases e)
  case (Failed now)
  have "i64 (cb_failures b + 1) = cb_failures b + 1"
    using assms by (intro i64_id) (auto simp: breaker_ok_def)
  then show ?thesis using assms(1) Failed
    by (auto simp: breaker_ok_def RecordFailure_def Let_def abs_of_def nat_le_iff Suc_nat_eq_nat_zadd1 add.commute split: option.splits)
next
  case (Asked now)
  then show ?thesis using assms(1)
    by (auto simp: breaker_ok_def Open_def abs_of_def split: option.splits)
next
  case Succeeded
  then show ?thesis using assms(1)
    by (auto simp: breaker_ok_def RecordSuccess_def abs_of_def)
qed

lemma breaker_history:
  assumes "breaker_reach th cd es b" "0 < th" "0 < cd" "int (length es) < 2 ^ 63"
  shows "breaker_ok th cd (length es) b \<and> abs_of b = foldl (\<lambda>a e. abs_event (nat th) cd e a) (Closed 0) es"
  using assms
proof (induction rule: breaker_reach.induct)
  case start
  then show ?case by (simp add: breaker_ok_def NewCircuitBreaker_def abs_of_def)
next
  case (step es b e b')
  then have "breaker_ok th cd (length es) b" "abs_of b = foldl (\<lambda>a e. abs_event (nat th) cd e a) (Closed 0) es"
    by simp_all
  then show ?case using breaker_step_ok [of th cd "length es" b e] step by (simp add: breaker_step_apply)
qed

section \<open>Properties\<close>

text \<open>
  C13. The breaker implements its history: after any calls its state is the one the specification
  computes from them, it is open only at \<open>threshold\<close> or more consecutive failures, and it says so
  until the cooldown has passed since the last of them.
\<close>

theorem breaker_refines:
  assumes "breaker_reach th cd es b" and "0 < th" and "0 < cd" and "int (length es) < 2 ^ 63"
  shows "abs_of b = foldl (\<lambda>a e. abs_event (nat th) cd e a) (Closed 0) es \<and>
    (fst (Open now b) \<longleftrightarrow> (\<exists>n t. abs_of b = Opened n t \<and> nat th \<le> n \<and> time_sub now t < cd))"
proof -
  note h = breaker_history [OF assms]
  from h [THEN conjunct1] have "fst (Open now b) \<longleftrightarrow> (\<exists>n t. abs_of b = Opened n t \<and> nat th \<le> n \<and> time_sub now t < cd)"
    by (auto simp: abs_of_def Open_def breaker_ok_def nat_le_eq_zle split: option.splits)
  with h show ?thesis by blast
qed

theorem breaker_refines_witness:
  "fst (Open 50 (foldl (\<lambda>b e. apply_event e b) (NewCircuitBreaker 2 100) [Failed 10, Failed 20])) \<longleftrightarrow>
   (\<exists>n t. abs_of (foldl (\<lambda>b e. apply_event e b) (NewCircuitBreaker 2 100) [Failed 10, Failed 20]) = Opened n t \<and>
      nat 2 \<le> n \<and> time_sub 50 t < 100)"
  using breaker_refines [of 2 100 "[Failed 10, Failed 20]"
      "foldl (\<lambda>b e. apply_event e b) (NewCircuitBreaker 2 100) [Failed 10, Failed 20]" 50]
  by (simp add: breaker_reach_foldl)

text \<open>
  A client with no fixed dimension keeps the first dimension it saw: once an embedding was
  accepted, every later accepted embedding has the same positive length.
\<close>

theorem Embed_dimension_stable:
  assumes "Embed h1 c = (Inr v1, c1)" and "Embed h2 c1 = (Inr v2, c2)"
  shows "length v1 = length v2 \<and> v1 \<noteq> [] \<and> CurrentDim c1 = int (length v1) \<and> CurrentDim c2 = CurrentDim c1"
proof -
  have one: "v \<noteq> [] \<and> CurrentDim d = int (length v) \<and> (cl_Dim c > 0 \<or> cl_detectedDim c \<noteq> 0 \<longrightarrow> d = c) \<and>
      cl_Dim d = cl_Dim c" if "Embed h c = (Inr v, d)" for h c v d
    using that
    by (auto simp: Embed_def validateDim_def CurrentDim_def split: http_outcome.splits option.splits prod.splits if_splits)
  show ?thesis using one [OF assms(1)] one [OF assms(2)]
    by (auto simp: CurrentDim_def split: if_splits)
qed

definition ex_client :: Client where
  "ex_client = \<lparr>cl_URL = ''u'', cl_Model = [], cl_Dim = 0, cl_detectedDim = 0\<rparr>"

definition ex_body :: string where
  "ex_body = ''{'' @ [quot] @ ''embedding'' @ [quot] @ '':[0]}''"

lemma ex_body_vec: "decode_embedding ex_body = Some [0]"
  by (simp add: decode_embedding_def ex_body_def json_eval struct_members_def key_matches_def runes_def
      rune_chunks.simps decode_rune_def fold_rune_def put_list_def put_f32_def num_rat_def dec_value_def f32_of_rat_def Let_def)

theorem Embed_dimension_stable_witness:
  "CurrentDim (snd (Embed (Response 200 ex_body) ex_client)) = 1"
proof -
  let ?c = "ex_client\<lparr>cl_detectedDim := 1\<rparr>"
  have "Embed (Response 200 ex_body) ex_client = (Inr [0], ?c)" "Embed (Response 200 ex_body) ?c = (Inr [0], ?c)"
    by (simp_all add: Embed_def ex_body_vec validateDim_def ex_client_def)
  then show ?thesis using Embed_dimension_stable by fastforce
qed

end
