(* ===== verification/Sessions.thy ===== *)
theory Sessions
  imports Db
begin

text \<open>
  \<open>internal/store/sessions.go\<close> and \<open>internal/store/imports.go\<close>: the sessions table, its
  operations and listings, and the log of imported transcript events.
\<close>

section \<open>Sessions\<close>

record Session =
  ses_ID :: string
  ses_Agent :: string
  ses_ExternalID :: string
  ses_Project :: string
  ses_StartedAt :: int
  ses_EndedAt :: int
  ses_Summary :: string
  ses_NObs :: int

text \<open>\<open>NullInt64\<close> and \<open>NullString\<close> read as zero values.\<close>

definition null_int :: "int option \<Rightarrow> int" where
  "null_int x = (case x of None \<Rightarrow> 0 | Some n \<Rightarrow> n)"

definition null_str :: "string option \<Rightarrow> string" where
  "null_str x = (case x of None \<Rightarrow> [] | Some s \<Rightarrow> s)"

definition scan_session :: "session_row \<Rightarrow> Session" where
  "scan_session r = \<lparr>ses_ID = s_id r, ses_Agent = s_agent r, ses_ExternalID = s_external r,
     ses_Project = s_project r, ses_StartedAt = s_started r, ses_EndedAt = null_int (s_ended r),
     ses_Summary = null_str (s_summary r), ses_NObs = s_nobs r\<rparr>"

text \<open>
  \<open>INSERT ... ON CONFLICT(agent, external_id) DO NOTHING\<close>: the conflict target is checked first;
  a clash on the primary key alone is an error.
\<close>

definition sql_insert_session :: "session_row \<Rightarrow> db \<Rightarrow> err + (int \<times> db)" where
  "sql_insert_session r d =
     (if \<exists>x \<in> set (sessions d). s_agent x = s_agent r \<and> s_external x = s_external r then Inr (0, d)
      else if s_id r \<in> s_id ` set (sessions d) then Inl Unique
      else Inr (1, d\<lparr>sessions := sessions d @ [r]\<rparr>))"

definition sql_update_session :: "string \<Rightarrow> (session_row \<Rightarrow> session_row) \<Rightarrow> db \<Rightarrow> err + (int \<times> db)" where
  "sql_update_session i f d =
     Inr (int (length (filter (\<lambda>x. s_id x = i) (sessions d))),
          d\<lparr>sessions := map (\<lambda>x. if s_id x = i then f x else x) (sessions d)\<rparr>)"

definition sessionID :: "string \<Rightarrow> string \<Rightarrow> string" where
  "sessionID agent externalID = agent @ '':'' @ externalID"

definition ensureSession :: "string \<Rightarrow> string \<Rightarrow> string \<Rightarrow> int \<Rightarrow> string op" where
  "ensureSession agent externalID project ts =
     andThen (call ''ensure session'' (sql_insert_session
       \<lparr>s_id = sessionID agent externalID, s_agent = agent, s_external = externalID, s_project = project,
        s_started = ts, s_ended = None, s_summary = None, s_nobs = 0\<rparr>))
     (\<lambda>_. ok (sessionID agent externalID))"

definition EnsureSession :: "string \<Rightarrow> string \<Rightarrow> string \<Rightarrow> int \<Rightarrow> string op" where
  "EnsureSession agent externalID project ts = ensureSession agent externalID project ts"

definition Session_op :: "string \<Rightarrow> Session op" where
  "Session_op i = andThen
     (query ''load session'' (\<lambda>d. first_row (filter (\<lambda>r. s_id r = i) (sessions d))))
     (\<lambda>r. ok (scan_session r))"

definition EndSession :: "string \<Rightarrow> int \<Rightarrow> unit op" where
  "EndSession i endedAt = andThen
     (call ''end session'' (sql_update_session i (\<lambda>r. r\<lparr>s_ended := Some endedAt\<rparr>))) (\<lambda>_. ok ())"

definition SaveSessionSummary :: "string \<Rightarrow> string \<Rightarrow> int \<Rightarrow> unit op" where
  "SaveSessionSummary i summary endedAt = andThen
     (call ''save session summary'' (sql_update_session i
       (\<lambda>r. r\<lparr>s_summary := Some summary,
              s_ended := (case s_ended r of None \<Rightarrow> Some endedAt | Some e \<Rightarrow> Some e)\<rparr>)))
     (\<lambda>_. ok ())"

definition summary_order :: "session_row \<Rightarrow> session_row \<Rightarrow> bool" where
  "summary_order = then_by
     (desc (\<lambda>r. case s_ended r of None \<Rightarrow> s_started r | Some e \<Rightarrow> e)) (desc s_id)"

definition RecentSessionSummaries :: "string \<Rightarrow> int \<Rightarrow> Session list op" where
  "RecentSessionSummaries project limit0 =
     (let limit = (if limit0 \<le> 0 then 3 else limit0) in
      query_rows ''recent session summaries'' ''scan session summary'' ''iterate session summaries''
        (\<lambda>d. sql_limit limit (sort_by summary_order
           (filter (\<lambda>r. s_project r = project \<and> s_summary r \<noteq> None \<and> s_summary r \<noteq> Some []) (sessions d))))
        (\<lambda>r. ok (scan_session r)))"

definition ListSessions :: "string \<Rightarrow> int \<Rightarrow> Session list op" where
  "ListSessions project limit0 =
     (let limit1 = (if limit0 \<le> 0 then 10 else limit0); limit = (if limit1 > 100 then 100 else limit1) in
      query_rows ''list sessions'' ''scan session'' ''iterate sessions''
        (\<lambda>d. sql_limit limit (sort_by (then_by (desc s_started) (desc s_id))
           (filter (\<lambda>r. project \<noteq> [] \<longrightarrow> s_project r = project) (sessions d))))
        (\<lambda>r. ok (scan_session r)))"

section \<open>Imported events\<close>

definition sql_insert_import :: "string \<Rightarrow> string \<Rightarrow> int \<Rightarrow> db \<Rightarrow> err + (int \<times> db)" where
  "sql_insert_import path ev ts d =
     (if \<exists>x \<in> set (imports_t d). i_path x = path \<and> i_event x = ev then Inr (0, d)
      else Inr (1, d\<lparr>imports_t := imports_t d @
        [\<lparr>i_id = seq_import d + 1, i_path = path, i_event = ev, i_at = ts\<rparr>], seq_import := seq_import d + 1\<rparr>))"

definition ImportedEventExists :: "string \<Rightarrow> string \<Rightarrow> bool op" where
  "ImportedEventExists path ev =
     query ''check imported event'' (\<lambda>d. Inr (case first_row
       (filter (\<lambda>x. i_path x = path \<and> i_event x = ev) (imports_t d)) of Inl _ \<Rightarrow> False | Inr _ \<Rightarrow> True))"

definition RecordImportedEvent :: "string \<Rightarrow> string \<Rightarrow> int \<Rightarrow> bool op" where
  "RecordImportedEvent path ev ts =
     andThen (call ''record imported event'' (sql_insert_import path ev ts)) (\<lambda>n. ok (n > 0))"

section \<open>Lemmas\<close>

lemma atomic_andThen_ok [op_intros]: "atomic_op m \<Longrightarrow> atomic_op (andThen m (\<lambda>x. ok (f x)))"
  by (auto simp: atomic_op_def transparent_andThen transparent_basic)
    (auto simp: andThen_def ok_def split: prod.splits sum.splits, metis fst_conv isl_def snd_conv)

lemma ensureSession_atomic [op_intros]: "atomic_op (ensureSession a e p t)"
  unfolding ensureSession_def by (intro op_intros)

lemmas ensureSession_transparent [op_intros] = ensureSession_atomic [THEN atomic_transparent]

lemma sessions_atomic [op_intros]:
  "atomic_op (EnsureSession a e p t)" "atomic_op (EndSession i t)"
  "atomic_op (SaveSessionSummary i sm t)" "atomic_op (RecordImportedEvent pa ev t)"
  by (auto simp: EnsureSession_def EndSession_def SaveSessionSummary_def RecordImportedEvent_def
      intro!: op_intros)

lemma sessions_readonly [op_intros]:
  "readonly (Session_op i)" "readonly (RecentSessionSummaries p n)" "readonly (ListSessions p n)"
  "readonly (ImportedEventExists pa ev)"
  by (auto simp: Session_op_def RecentSessionSummaries_def ListSessions_def ImportedEventExists_def Let_def
      intro!: op_intros)

lemmas sessions_keeps [keeps_intros] = sessions_readonly [THEN keeps_readonly]

interpretation summary_sort: weak_order summary_order
  unfolding summary_order_def by (intro weak_order_intros)

lemma quiet_rows_ok:
  "faults s = [] \<Longrightarrow> query_rows lq ls li q (\<lambda>r. ok (g r)) s = (Inr (map g (q (db s))), s)"
  by (rule quiet_query_rows) simp_all

text \<open>What the statements do to a run without failures.\<close>

lemma ensureSession_run:
  assumes "faults s = []"
  shows "ensureSession a e p t s =
    (if \<exists>x \<in> set (sessions (db s)). s_agent x = a \<and> s_external x = e then (Inr (sessionID a e), s)
     else if sessionID a e \<in> s_id ` set (sessions (db s)) then (Inl (Wrap ''ensure session'' Unique), s)
     else (Inr (sessionID a e), s\<lparr>db := (db s)\<lparr>sessions := sessions (db s) @
       [\<lparr>s_id = sessionID a e, s_agent = a, s_external = e, s_project = p, s_started = t,
         s_ended = None, s_summary = None, s_nobs = 0\<rparr>]\<rparr>\<rparr>))"
  using assms by (auto simp: ensureSession_def andThen_def sql_insert_session_def)

end
