(* ===== verification/Memories.thy ===== *)
theory Memories
  imports Sessions Json
begin

text \<open>
  \<open>internal/store/memories.go\<close>, the audit log of \<open>phase2_helpers.go\<close>, and the operations on
  memories of \<open>compaction.go\<close> (supersession, decay) and \<open>mcp_helpers.go\<close> (deletion).
\<close>

section \<open>Types\<close>

record MemoryInput =
  mi_Project :: string
  mi_Text :: string
  mi_Tier :: string
  mi_Source :: string
  mi_Importance :: f64
  mi_SessionID :: string
  mi_CreatedAt :: int

record MemorySearch =
  ms_Project :: string
  ms_Query :: string
  ms_Limit :: int

record MemoryUpdate =
  mu_ID :: int
  mu_Text :: "string option"
  mu_Tier :: "string option"
  mu_Importance :: "f64 option"
  mu_UpdatedAt :: int

record Memory =
  mem_ID :: int
  mem_Project :: string
  mem_Text :: string
  mem_Tier :: string
  mem_Source :: string
  mem_Importance :: f64
  mem_SessionID :: string
  mem_CreatedAt :: int
  mem_UpdatedAt :: int
  mem_AccessedAt :: int
  mem_SupersededBy :: int
  mem_Score :: f64

definition scanMemory :: "mem_row \<Rightarrow> Memory" where
  "scanMemory r = \<lparr>mem_ID = m_id r, mem_Project = m_project r, mem_Text = m_text r, mem_Tier = m_tier r,
     mem_Source = m_source r, mem_Importance = m_importance r, mem_SessionID = null_str (m_session r),
     mem_CreatedAt = m_created r, mem_UpdatedAt = m_updated r, mem_AccessedAt = m_accessed r,
     mem_SupersededBy = null_int (m_superseded r), mem_Score = Fin 0\<rparr>"

record AuditEvent =
  ae_ID :: int
  ae_TS :: int
  ae_Action :: string
  ae_MemoryID :: int
  ae_SessionID :: string
  ae_Project :: string
  ae_Payload :: string

definition nullif_str :: "string \<Rightarrow> string option" where
  "nullif_str s = (if s = [] then None else Some s)"

definition nullif_int :: "int \<Rightarrow> int option" where
  "nullif_int n = (if n = 0 then None else Some n)"

section \<open>Statements\<close>

definition sql_insert_audit :: "audit_row \<Rightarrow> db \<Rightarrow> err + (int \<times> db)" where
  "sql_insert_audit r d = Inr (seq_audit d + 1,
     d\<lparr>audits := audits d @ [r\<lparr>u_id := seq_audit d + 1\<rparr>], seq_audit := seq_audit d + 1\<rparr>)"

definition sql_insert_memory :: "mem_row \<Rightarrow> db \<Rightarrow> err + (int \<times> db)" where
  "sql_insert_memory r d =
     (if m_importance r = NaN then Inl NotNull
      else if \<not> (\<forall>i \<in> set_option (m_session r). i \<in> s_id ` set (sessions d)) then Inl ForeignKey
      else Inr (seq_mem d + 1,
        d\<lparr>memories := memories d @ [r\<lparr>m_id := seq_mem d + 1\<rparr>], seq_mem := seq_mem d + 1\<rparr>))"

definition sql_insert_fts :: "int \<Rightarrow> string \<Rightarrow> db \<Rightarrow> err + (int \<times> db)" where
  "sql_insert_fts i text d =
     (if i \<in> fst ` set (fts d) then Inl Unique else Inr (1, d\<lparr>fts := fts d @ [(i, text)]\<rparr>))"

definition sql_delete_fts :: "int \<Rightarrow> db \<Rightarrow> err + (int \<times> db)" where
  "sql_delete_fts i d = Inr (int (length (filter (\<lambda>x. fst x = i) (fts d))),
     d\<lparr>fts := filter (\<lambda>x. fst x \<noteq> i) (fts d)\<rparr>)"

text \<open>\<open>UPDATE memories SET ... WHERE id = ?\<close>: the new row must have an importance.\<close>

definition sql_update_memory :: "int \<Rightarrow> (mem_row \<Rightarrow> mem_row) \<Rightarrow> db \<Rightarrow> err + (int \<times> db)" where
  "sql_update_memory i f d =
     (if \<exists>x \<in> set (memories d). m_id x = i \<and> m_importance (f x) = NaN then Inl NotNull
      else Inr (int (length (filter (\<lambda>x. m_id x = i) (memories d))),
        d\<lparr>memories := map (\<lambda>x. if m_id x = i then f x else x) (memories d)\<rparr>))"

definition sql_supersede :: "int \<Rightarrow> int \<Rightarrow> db \<Rightarrow> err + (int \<times> db)" where
  "sql_supersede old new d =
     (if old \<in> m_id ` set (memories d) \<and> new \<notin> m_id ` set (memories d) then Inl ForeignKey
      else sql_update_memory old (\<lambda>r. r\<lparr>m_superseded := Some new\<rparr>) d)"

text \<open>\<open>DELETE FROM memories\<close>: refused while another row names it as its successor; embeddings go too.\<close>

definition sql_delete_memory :: "int \<Rightarrow> db \<Rightarrow> err + (int \<times> db)" where
  "sql_delete_memory i d =
     (if i \<notin> m_id ` set (memories d) then Inr (0, d)
      else if \<exists>x \<in> set (memories d). m_id x \<noteq> i \<and> m_superseded x = Some i then Inl ForeignKey
      else Inr (int (length (filter (\<lambda>x. m_id x = i) (memories d))),
        d\<lparr>memories := filter (\<lambda>x. m_id x \<noteq> i) (memories d),
          embeddings := filter (\<lambda>x. e_memory x \<noteq> i) (embeddings d)\<rparr>))"

section \<open>Audit\<close>

definition auditPayload :: "(string \<times> json) list \<Rightarrow> string" where
  "auditPayload values = marshal (JObj (foldr (\<lambda>(k, v). put_key k v) values []))"

definition insertAuditTx :: "AuditEvent \<Rightarrow> unit op" where
  "insertAuditTx event = andThen (call ''insert audit event'' (sql_insert_audit
     \<lparr>u_id = 0, u_ts = ae_TS event, u_action = ae_Action event, u_memory = nullif_int (ae_MemoryID event),
      u_session = nullif_str (ae_SessionID event), u_project = nullif_str (ae_Project event),
      u_payload = (if ae_Payload event = [] then ''{}'' else ae_Payload event)\<rparr>)) (\<lambda>_. ok ())"

definition audit_event :: "int \<Rightarrow> string \<Rightarrow> int \<Rightarrow> (string \<times> json) list \<Rightarrow> AuditEvent" where
  "audit_event ts action i values = \<lparr>ae_ID = 0, ae_TS = ts, ae_Action = action, ae_MemoryID = i,
     ae_SessionID = [], ae_Project = [], ae_Payload = auditPayload values\<rparr>"

section \<open>Operations\<close>

definition default_str :: "string \<Rightarrow> string \<Rightarrow> string" where
  "default_str s dflt = (if s = [] then dflt else s)"

definition AddMemory :: "MemoryInput \<Rightarrow> int op" where
  "AddMemory inp =
     (let tier = default_str (mi_Tier inp) ''fact''; source = default_str (mi_Source inp) ''manual'';
          importance = (if mi_Importance inp = Fin 0 then Fin 1 else mi_Importance inp);
          createdAt = mi_CreatedAt inp in
      in_tx ''begin memory insert'' (\<lambda>_. ''commit memory insert'')
     (andThen (call ''insert memory'' (sql_insert_memory
        \<lparr>m_id = 0, m_project = mi_Project inp, m_text = mi_Text inp, m_tier = tier, m_source = source,
         m_importance = importance, m_session = nullif_str (mi_SessionID inp), m_created = createdAt,
         m_updated = createdAt, m_accessed = createdAt, m_superseded = None, m_access_cnt = 0\<rparr>)) (\<lambda>i.
      andThen (withFts (\<lambda>b. if b then andThen (call ''insert memory fts'' (sql_insert_fts i (mi_Text inp))) (\<lambda>_. ok ()) else ok ())) (\<lambda>_.
      andThen (insertAuditTx (audit_event createdAt ''memory_create'' i
          [(''tier'', JStr tier), (''source'', JStr source)]\<lparr>ae_SessionID := mi_SessionID inp, ae_Project := mi_Project inp\<rparr>)) (\<lambda>_.
      ok i)))))"

definition Memory_op :: "int \<Rightarrow> Memory op" where
  "Memory_op i = andThen
     (query ''load memory'' (\<lambda>d. first_row (filter (\<lambda>r. m_id r = i) (memories d))))
     (\<lambda>r. ok (scanMemory r))"

definition not_found :: "int \<Rightarrow> err" where
  "not_found i = Msg (''memory '' @ itoa i @ '' not found'')"

definition UpdateMemory :: "MemoryUpdate \<Rightarrow> unit op" where
  "UpdateMemory u =
     (if mu_ID u \<le> 0 then fail (Msg ''memory id is required'')
      else if mu_Text u = None \<and> mu_Tier u = None \<and> mu_Importance u = None then ok ()
      else in_tx ''begin memory update'' (\<lambda>_. ''commit memory update'')
     (andThen (call ''update memory'' (sql_update_memory (mu_ID u) (\<lambda>r. r
          \<lparr>m_updated := mu_UpdatedAt u,
           m_text := (case mu_Text u of None \<Rightarrow> m_text r | Some t \<Rightarrow> t),
           m_tier := (case mu_Tier u of None \<Rightarrow> m_tier r | Some t \<Rightarrow> t),
           m_importance := (case mu_Importance u of None \<Rightarrow> m_importance r | Some x \<Rightarrow> x)\<rparr>))) (\<lambda>changed.
      if changed = 0 then fail (not_found (mu_ID u))
      else andThen (withFts (\<lambda>b. case mu_Text u of
          None \<Rightarrow> ok ()
        | Some t \<Rightarrow> if b then
            andThen (call ''delete old memory fts'' (sql_delete_fts (mu_ID u))) (\<lambda>_.
            andThen (call ''insert updated memory fts'' (sql_insert_fts (mu_ID u) t)) (\<lambda>_. ok ()))
          else ok ())) (\<lambda>_.
      insertAuditTx (audit_event (mu_UpdatedAt u) ''memory_update'' (mu_ID u)
        [(''text'', JBool (mu_Text u \<noteq> None)), (''tier'', JBool (mu_Tier u \<noteq> None)),
         (''importance'', JBool (mu_Importance u \<noteq> None))])))))"

text \<open>
  \<open>ftsQuery\<close>: the runs of letters, digits and underscores, each as a quoted token. A quote is
  never part of a run; the code doubles it all the same.
\<close>

definition token_rune :: "unicode \<Rightarrow> rune \<Rightarrow> bool" where
  "token_rune U r = (is_letter U r \<or> is_digit U r \<or> r = 95)"

definition double_quotes :: "string \<Rightarrow> string" where
  "double_quotes s = concat (map (\<lambda>c. if c = quot then [quot, quot] else [c]) s)"

definition ftsQuery :: "unicode \<Rightarrow> string \<Rightarrow> string" where
  "ftsQuery U q = join '' '' (map (\<lambda>t. [quot] @ double_quotes t @ [quot])
     (filter (\<lambda>t. t \<noteq> []) (fieldsFunc (\<lambda>r. \<not> token_rune U r) q)))"

definition mem_desc :: "mem_row \<Rightarrow> mem_row \<Rightarrow> bool" where
  "mem_desc = then_by (desc m_created) (desc m_id)"

definition score_order :: "mem_row \<times> f64 \<Rightarrow> mem_row \<times> f64 \<Rightarrow> bool" where
  "score_order = then_by (\<lambda>x y. f64_less (snd x) (snd y)) (desc (\<lambda>x. m_created (fst x)))"

definition search_rows :: "ext \<Rightarrow> string \<Rightarrow> string \<Rightarrow> int \<Rightarrow> db \<Rightarrow> (mem_row \<times> f64) list" where
  "search_rows E query_text project limit d =
     sql_limit limit (sort_by score_order
       (concat (map (\<lambda>(i, text). map (\<lambda>m. (m, bm25_rank E (fts d) query_text i))
            (filter (\<lambda>m. m_id m = i \<and> m_project m = project \<and> m_superseded m = None) (memories d)))
          (filter (\<lambda>(i, text). fts_match E query_text text) (fts d)))))"

definition SearchMemories :: "ext \<Rightarrow> MemorySearch \<Rightarrow> Memory list op" where
  "SearchMemories E search = withFts (\<lambda>b.
     if \<not> b then fail FTS5Unavailable
     else let q = ftsQuery (uni E) (ms_Query search) in
       if q = [] then ok []
       else let limit1 = (if ms_Limit search \<le> 0 then 10 else ms_Limit search);
                limit = (if limit1 > 100 then 100 else limit1) in
         query_rows ''search memories'' ''scan memory result'' ''iterate memory results''
           (search_rows E q (ms_Project search) limit)
           (\<lambda>(m, score). ok ((scanMemory m)\<lparr>mem_Score := score\<rparr>)))"

definition recent_rows :: "string \<Rightarrow> int \<Rightarrow> db \<Rightarrow> mem_row list" where
  "recent_rows project limit d = sql_limit limit (sort_by mem_desc
     (filter (\<lambda>m. m_project m = project \<and> m_superseded m = None) (memories d)))"

definition RecentMemories :: "string \<Rightarrow> int \<Rightarrow> Memory list op" where
  "RecentMemories project limit0 =
     (let limit1 = (if limit0 \<le> 0 then 10 else limit0); limit = (if limit1 > 100 then 100 else limit1) in
      query_rows ''recent memories'' ''scan recent memory'' ''iterate recent memories''
        (recent_rows project limit) (\<lambda>m. ok (scanMemory m)))"

definition SupersedeMemory :: "int \<Rightarrow> int \<Rightarrow> unit op" where
  "SupersedeMemory oldID newID =
     (if oldID \<le> 0 \<or> newID \<le> 0 \<or> oldID = newID then fail (Msg ''invalid supersession ids'')
      else in_tx ''begin supersede memory'' (\<lambda>_. ''commit supersede memory'')
     (andThen (call ''supersede memory'' (sql_supersede oldID newID)) (\<lambda>changed.
      if changed = 0 then fail (not_found oldID)
      else insertAuditTx (audit_event 0 ''memory_supersede'' oldID [(''new_id'', JInt newID)]))))"

definition deleteOne :: "int \<Rightarrow> int op" where
  "deleteOne i =
     andThen (withFts (\<lambda>b. if b then andThen (call (''delete memory fts '' @ itoa i) (sql_delete_fts i)) (\<lambda>_. ok ()) else ok ())) (\<lambda>_.
     andThen (call (''delete memory '' @ itoa i) (sql_delete_memory i)) (\<lambda>n.
     if n > 0 then andThen (insertAuditTx (audit_event 0 ''memory_delete'' i [(''explicit'', JBool True)])) (\<lambda>_. ok n)
     else ok n))"

definition DeleteMemories :: "int list \<Rightarrow> int op" where
  "DeleteMemories ids = (if ids = [] then ok 0
     else in_tx ''begin delete memories'' (\<lambda>_. ''commit delete memories'')
       (andThen (each deleteOne ids) (\<lambda>ns. ok (sum_list ns))))"

section \<open>Decay\<close>

record DecayOptions =
  do_Now :: int
  do_TauDays :: int
  do_MinImportance :: f64

record decayed =
  dc_id :: int
  dc_importance :: f64
  dc_delete :: bool

definition tau_millis :: "int \<Rightarrow> f64" where
  "tau_millis days = f64_mul (f64_mul (f64_mul (f64_mul (f64_of_int days) (Fin 24)) (Fin 60)) (Fin 60)) (Fin 1000)"

definition decay_age :: "int \<Rightarrow> int \<Rightarrow> f64" where
  "decay_age now accessed = (let age = f64_of_int (i64 (now - accessed)) in if f64_less age (Fin 0) then Fin 0 else age)"

definition decay_row :: "ext \<Rightarrow> int \<Rightarrow> int \<Rightarrow> f64 \<Rightarrow> mem_row \<Rightarrow> decayed" where
  "decay_row E now tauDays minImportance r =
     (let updated = f64_mul (m_importance r) (exp64 E (f64_div (f64_neg (decay_age now (m_accessed r))) (tau_millis tauDays)))
      in \<lparr>dc_id = m_id r, dc_importance = updated,
          dc_delete = (f64_less updated minImportance \<and> toLower (uni E) (m_tier r) \<noteq> ''procedural'')\<rparr>)"

definition decayOne :: "decayed \<Rightarrow> int op" where
  "decayOne u =
     (if dc_delete u then
        andThen (withFts (\<lambda>b. if b then andThen (call (''delete decayed fts memory '' @ itoa (dc_id u)) (sql_delete_fts (dc_id u))) (\<lambda>_. ok ()) else ok ())) (\<lambda>_.
        call (''delete decayed memory '' @ itoa (dc_id u)) (sql_delete_memory (dc_id u)))
      else andThen (call (''update decayed memory '' @ itoa (dc_id u))
          (sql_update_memory (dc_id u) (\<lambda>r. r\<lparr>m_importance := dc_importance u\<rparr>))) (\<lambda>_. ok 0))"

definition DecayMemories :: "ext \<Rightarrow> DecayOptions \<Rightarrow> int op" where
  "DecayMemories E opts =
     (let tauDays = (if do_TauDays opts \<le> 0 then 30 else do_TauDays opts);
          minImportance = (if f64_leq (do_MinImportance opts) (Fin 0) then f64_of_rat (5 / 100) else do_MinImportance opts) in
      andThen (query_rows ''list memories for decay'' ''scan memory for decay'' ''close decay rows''
        (\<lambda>d. sort_by (asc m_id) (memories d))
        (\<lambda>r. ok (decay_row E (do_Now opts) tauDays minImportance r))) (\<lambda>updates.
      andThen (check ''iterate memories for decay'') (\<lambda>_.
      in_tx ''begin decay'' (\<lambda>_. ''commit decay'')
        (andThen (each decayOne updates) (\<lambda>ns. ok (sum_list ns))))))"

section \<open>Lemmas\<close>

lemma insertAuditTx_transparent [op_intros]: "transparent (insertAuditTx e)"
  unfolding insertAuditTx_def by (intro op_intros)

lemma deleteOne_transparent [op_intros]: "transparent (deleteOne i)"
  unfolding deleteOne_def by (auto intro!: op_intros)

lemma decayOne_transparent [op_intros]: "transparent (decayOne u)"
  unfolding decayOne_def by (auto intro!: op_intros)

lemma atomic_simple [op_intros]: "atomic_op (ok x)" "atomic_op (fail e)"
  by (auto intro: readonly_atomic op_intros)

lemma memories_atomic [op_intros]:
  "atomic_op (AddMemory inp)" "atomic_op (UpdateMemory u)" "atomic_op (SupersedeMemory i j)"
  "atomic_op (DeleteMemories ids)"
  unfolding AddMemory_def UpdateMemory_def SupersedeMemory_def DeleteMemories_def Let_def
  by (auto intro!: op_intros split: option.splits)

lemma atomic_after_read [op_intros]:
  assumes m: "readonly m" and k: "\<And>x. atomic_op (k x)"
  shows "atomic_op (andThen m k)"
  unfolding atomic_op_def
proof (intro conjI allI impI)
  show "transparent (andThen m k)" using assms by (intro op_intros) (auto simp: readonly_def atomic_op_def)
  fix s assume e: "isl (fst (andThen m k s))"
  obtain r s1 where p: "m s = (r, s1)" by (cases "m s")
  have d: "db s1 = db s" using m p by (auto simp: readonly_def) (metis snd_conv)
  have "db (snd (k x s1)) = db s1" if "isl (fst (k x s1))" for x
    using k [of x] that by (simp add: atomic_op_def)
  then show "db (snd (andThen m k s)) = db s"
    using e p d by (auto simp: andThen_def split: sum.splits)
qed

lemma DecayMemories_atomic [op_intros]: "atomic_op (DecayMemories E opts)"
  unfolding DecayMemories_def Let_def by (intro op_intros)

lemma memories_readonly [op_intros]:
  "readonly (Memory_op i)" "readonly (SearchMemories E q)" "readonly (RecentMemories p n)"
  unfolding Memory_op_def SearchMemories_def RecentMemories_def Let_def
  by (auto intro!: op_intros split: prod.splits)

lemmas memories_keeps [keeps_intros] = memories_readonly [THEN keeps_readonly]

interpretation mem_desc_sort: weak_order mem_desc
  unfolding mem_desc_def by (intro weak_order_intros)

section \<open>What the listings answer\<close>

definition active_in :: "string \<Rightarrow> db \<Rightarrow> mem_row \<Rightarrow> bool" where
  "active_in project d m = (m \<in> set (memories d) \<and> m_project m = project \<and> m_superseded m = None)"

lemma quiet_rows_map:
  "faults s = [] \<Longrightarrow> (\<And>r. conv r = ok (g r)) \<Longrightarrow> query_rows lq ls li q conv s = (Inr (map g (q (db s))), s)"
  by (rule quiet_query_rows) simp_all

lemma search_rows_active: "(m, sc) \<in> set (search_rows E q p n d) \<Longrightarrow> active_in p d m"
  by (auto simp: search_rows_def active_in_def dest!: subsetD [OF set_sql_limit])

lemma SearchMemories_answer:
  assumes "fst (SearchMemories E search s) = Inr ms" and "x \<in> set ms"
  shows "\<exists>m. active_in (ms_Project search) (db s) m \<and> (\<exists>sc. x = (scanMemory m)\<lparr>mem_Score := sc\<rparr>)"
proof -
  have q: "SearchMemories E search (quiet s) = (Inr ms, quiet s)"
    using assms(1) by (intro readonly_result op_intros)
  let ?g = "\<lambda>(m, score). (scanMemory m)\<lparr>mem_Score := score\<rparr>"
  have "ms = [] \<or> (\<exists>n. ms = map ?g (search_rows E (ftsQuery (uni E) (ms_Query search)) (ms_Project search) n (db s)))"
    using q quiet_rows_map [of "quiet s" "\<lambda>(m, score). ok ((scanMemory m)\<lparr>mem_Score := score\<rparr>)" ?g]
    by (auto simp: SearchMemories_def withFts_def Let_def split: if_splits)
  then show ?thesis using assms(2) search_rows_active by fastforce
qed

end
