(* ===== verification/Embeddings.thy ===== *)
theory Embeddings
  imports Memories "HOL-Library.Word"
begin

text \<open>
  \<open>internal/store/embeddings.go\<close>: vectors as little-endian blobs of \<open>float32\<close> bit patterns, the
  embeddings table and its listings, and the access times of memories. A \<open>float32\<close> is its bit
  pattern (\<open>math.Float32bits\<close>).
\<close>

section \<open>Blobs\<close>

type_synonym f32 = "32 word"

definition put_u32le :: "f32 \<Rightarrow> string" where
  "put_u32le w = map (\<lambda>i. char_n (unat w div 256 ^ i mod 256)) [0, 1, 2, 3]"

definition u32le :: "string \<Rightarrow> f32" where
  "u32le b = of_nat (foldr (\<lambda>c a. byte c + 256 * a) b 0)"

definition encodeFloat32LE :: "f32 list \<Rightarrow> string" where
  "encodeFloat32LE vec = concat (map put_u32le vec)"

fun words_le :: "nat \<Rightarrow> string \<Rightarrow> f32 list" where
  "words_le 0 b = []"
| "words_le (Suc n) b = u32le (take 4 b) # words_le n (drop 4 b)"

definition decodeFloat32LE :: "string \<Rightarrow> int \<Rightarrow> err + f32 list" where
  "decodeFloat32LE blob dimn =
     (if int (length blob) \<noteq> i64 (dimn * 4)
      then Inl (Msg (''embedding blob length = '' @ itoa (int (length blob)) @ '', want '' @ itoa (i64 (dimn * 4))))
      else Inr (words_le (nat dimn) blob))"

lemma u32_split:
  "n < 4294967296 \<Longrightarrow> n mod 256 + 256 * (n div 256 mod 256 + 256 * (n div 65536 mod 256 + 256 * (n div 16777216 mod 256))) = (n::nat)"
proof -
  assume n: "n < 4294967296"
  define a b c where "a = n div 256" and "b = a div 256" and "c = b div 256"
  have e: "n div 65536 = b" "n div 16777216 = c"
    by (simp_all add: a_def b_def c_def flip: div_mult2_eq)
  have "c < 256" using n by (simp add: a_def b_def c_def flip: div_mult2_eq)
  moreover have "n = n mod 256 + 256 * a" "a = a mod 256 + 256 * b" "b = b mod 256 + 256 * c"
    by (simp_all add: a_def b_def c_def)
  ultimately show ?thesis unfolding e a_def [symmetric] by simp
qed

lemma byte_step:
  assumes "(a::nat) < 256"
  shows "x < n \<Longrightarrow> a + 256 * x < 256 * n" and "(a + 256 * x) mod 256 = a" and "(a + 256 * x) div 256 = x"
proof -
  assume "x < n"
  then have "256 * (x + 1) \<le> 256 * n" by (intro mult_le_mono) simp_all
  then show "a + 256 * x < 256 * n" using assms by simp
qed (use assms in simp_all)

lemma u32_bound:
  assumes "(a::nat) < 256" "b < 256" "c < 256" "d < 256"
  shows "a + 256 * (b + 256 * (c + 256 * d)) < 4294967296"
  using byte_step(1) [OF assms(1) byte_step(1) [OF assms(2) byte_step(1) [OF assms(3,4)]]] by simp

lemma u32_parts:
  assumes "(a::nat) < 256" "b < 256" "c < 256" "d < 256"
  defines "n \<equiv> a + 256 * (b + 256 * (c + 256 * d))"
  shows "n div 256 = b + 256 * (c + 256 * d)" and "n mod 256 = a"
    and "n div 65536 = c + 256 * d" and "n div 16777216 = d"
proof -
  show q1: "n div 256 = b + 256 * (c + 256 * d)" and "n mod 256 = a"
    unfolding n_def using byte_step(2,3) [OF assms(1)] by blast+
  have "n div 65536 = n div 256 div 256" by (simp flip: div_mult2_eq)
  then show q2: "n div 65536 = c + 256 * d" unfolding q1 using byte_step(3) [OF assms(2)] by simp
  have "n div 16777216 = n div 65536 div 256" by (simp flip: div_mult2_eq)
  then show "n div 16777216 = d" unfolding q2 using byte_step(3) [OF assms(3)] by simp
qed

lemma u32le_put [simp]: "u32le (put_u32le w) = w"
proof -
  have "unat w < 2 ^ 32" using unsigned_less [of w] by simp
  then show ?thesis using u32_split [of "unat w"] by (simp add: u32le_def put_u32le_def)
qed

lemma put_u32le_u32le: "length b = 4 \<Longrightarrow> put_u32le (u32le b) = b"
proof -
  assume "length b = 4"
  then obtain c0 c1 c2 c3 where b: "b = [c0, c1, c2, c3]"
    by (auto simp: numeral_eq_Suc length_Suc_conv)
  have lt: "byte c0 < 256" "byte c1 < 256" "byte c2 < 256" "byte c3 < 256" by simp_all
  define n where "n = byte c0 + 256 * (byte c1 + 256 * (byte c2 + 256 * byte c3))"
  have "n < 4294967296" unfolding n_def by (intro u32_bound lt)
  then have "unat (of_nat n :: f32) = n" by (simp add: unat_of_nat)
  moreover have "u32le b = of_nat n" by (simp only: u32le_def b n_def foldr.simps o_apply id_apply) simp
  ultimately have u: "unat (u32le b) = n" by simp
  note d1 = u32_parts [OF lt, folded n_def]
  have m: "(byte c1 + 256 * (byte c2 + 256 * byte c3)) mod 256 = byte c1"
    "(byte c2 + 256 * byte c3) mod 256 = byte c2" "byte c3 mod 256 = byte c3"
    using byte_step(2) [OF lt(2)] byte_step(2) [OF lt(3)] mod_less [OF lt(4)] by blast+
  have "put_u32le (u32le b) = [char_n (n mod 256), char_n (n div 256 mod 256),
      char_n (n div 65536 mod 256), char_n (n div 16777216 mod 256)]"
    unfolding put_u32le_def u by simp
  also have "\<dots> = b" unfolding d1 m b by simp
  finally show ?thesis .
qed

lemma length_put_u32le [simp]: "length (put_u32le w) = 4"
  by (simp add: put_u32le_def)

lemma length_encodeFloat32LE [simp]: "length (encodeFloat32LE vec) = 4 * length vec"
  by (induction vec) (simp_all add: encodeFloat32LE_def)

lemma words_le_encode: "words_le (length vec) (encodeFloat32LE vec) = vec"
  by (induction vec) (simp_all add: encodeFloat32LE_def)

lemma encode_words_le: "length b = 4 * n \<Longrightarrow> encodeFloat32LE (words_le n b) = b"
proof (induction n arbitrary: b)
  case (Suc n)
  have "put_u32le (u32le (take 4 b)) = take 4 b" using Suc.prems by (intro put_u32le_u32le) simp
  moreover have "encodeFloat32LE (words_le n (drop 4 b)) = drop 4 b" using Suc by simp
  ultimately show ?case by (simp add: encodeFloat32LE_def)
qed (simp add: encodeFloat32LE_def)

section \<open>Statements\<close>

definition sql_upsert_embedding :: "emb_row \<Rightarrow> db \<Rightarrow> err + (int \<times> db)" where
  "sql_upsert_embedding r d =
     (if e_memory r \<in> e_memory ` set (embeddings d)
      then Inr (1, d\<lparr>embeddings := map (\<lambda>x. if e_memory x = e_memory r then r else x) (embeddings d)\<rparr>)
      else if e_memory r \<notin> m_id ` set (memories d) then Inl ForeignKey
      else Inr (1, d\<lparr>embeddings := embeddings d @ [r]\<rparr>))"

definition sql_delete_embeddings :: "string \<Rightarrow> string \<Rightarrow> db \<Rightarrow> err + (int \<times> db)" where
  "sql_delete_embeddings project model d =
     (let gone = (\<lambda>x. (\<exists>m \<in> set (memories d). m_project m = project \<and> m_id m = e_memory x) \<and>
                      (model = [] \<or> e_model x = model)) in
      Inr (int (length (filter gone (embeddings d))),
           d\<lparr>embeddings := filter (\<lambda>x. \<not> gone x) (embeddings d)\<rparr>))"

section \<open>Operations\<close>

definition SaveMemoryEmbedding :: "int \<Rightarrow> string \<Rightarrow> f32 list \<Rightarrow> unit op" where
  "SaveMemoryEmbedding memoryID model vec =
     (if model = [] then fail (Msg ''embedding model is empty'')
      else if vec = [] then fail (Msg ''embedding vector is empty'')
      else andThen (call ''save memory embedding'' (sql_upsert_embedding
        \<lparr>e_memory = memoryID, e_model = model, e_dim = int (length vec), e_vec = encodeFloat32LE vec\<rparr>))
       (\<lambda>_. ok ()))"

record VectorSearch =
  vs_Project :: string
  vs_Model :: string
  vs_Dim :: int
  vs_Limit :: int

record VectorCandidate =
  vc_Memory :: Memory
  vc_Vector :: "f32 list"

definition candidate_rows :: "VectorSearch \<Rightarrow> int \<Rightarrow> db \<Rightarrow> (mem_row \<times> emb_row) list" where
  "candidate_rows search limit d =
     sql_limit limit (sort_by (\<lambda>x y. mem_desc (fst x) (fst y))
       (concat (map (\<lambda>e. map (\<lambda>m. (m, e)) (filter (\<lambda>m. m_id m = e_memory e \<and>
            m_project m = vs_Project search \<and> m_superseded m = None) (memories d)))
          (filter (\<lambda>e. e_model e = vs_Model search \<and> e_dim e = vs_Dim search) (embeddings d)))))"

definition scanVectorCandidate :: "int \<Rightarrow> mem_row \<times> emb_row \<Rightarrow> VectorCandidate op" where
  "scanVectorCandidate dimn r = (case decodeFloat32LE (e_vec (snd r)) dimn of
     Inl e \<Rightarrow> fail e | Inr vec \<Rightarrow> ok \<lparr>vc_Memory = scanMemory (fst r), vc_Vector = vec\<rparr>)"

definition VectorCandidates :: "VectorSearch \<Rightarrow> VectorCandidate list op" where
  "VectorCandidates search =
     (if vs_Model search = [] \<or> vs_Dim search \<le> 0 then ok []
      else let limit1 = (if vs_Limit search \<le> 0 then 10000 else vs_Limit search);
               limit = (if limit1 > 100000 then 100000 else limit1) in
        query_rows ''vector candidates'' ''scan vector candidate'' ''iterate vector candidates''
          (candidate_rows search limit) (scanVectorCandidate (vs_Dim search)))"

definition MissingEmbeddings :: "VectorSearch \<Rightarrow> Memory list op" where
  "MissingEmbeddings search =
     (if vs_Model search = [] \<or> vs_Dim search \<le> 0 then ok []
      else let limit1 = (if vs_Limit search \<le> 0 then 100 else vs_Limit search);
               limit = (if limit1 > 1000 then 1000 else limit1) in
        query_rows ''missing embeddings'' ''scan memory'' ''iterate missing embeddings''
          (\<lambda>d. sql_limit limit (sort_by (then_by (asc m_created) (asc m_id))
             (filter (\<lambda>m. m_project m = vs_Project search \<and> m_superseded m = None \<and>
                \<not> (\<exists>e \<in> set (embeddings d). e_memory e = m_id m \<and> e_model e = vs_Model search \<and>
                     e_dim e = vs_Dim search)) (memories d))))
          (\<lambda>m. ok (scanMemory m)))"

definition DeleteEmbeddings :: "string \<Rightarrow> string \<Rightarrow> unit op" where
  "DeleteEmbeddings project model =
     andThen (call ''delete embeddings'' (sql_delete_embeddings project model)) (\<lambda>_. ok ())"

definition touch :: "int \<Rightarrow> mem_row \<Rightarrow> mem_row" where
  "touch accessedAt r = r\<lparr>m_accessed := accessedAt, m_access_cnt := m_access_cnt r + 1\<rparr>"

definition TouchMemories :: "int list \<Rightarrow> int \<Rightarrow> unit op" where
  "TouchMemories ids accessedAt =
     (if ids = [] then ok ()
      else in_tx ''begin touch memories'' (\<lambda>_. ''commit touch memories'')
        (andThen (each (\<lambda>i. call (''touch memory '' @ itoa i) (sql_update_memory i (touch accessedAt))) ids)
          (\<lambda>_. ok ())))"

section \<open>Lemmas\<close>

lemma scanVectorCandidate_readonly [op_intros]: "readonly (scanVectorCandidate dimn r)"
  by (auto simp: scanVectorCandidate_def op_intros split: sum.splits)

lemma embeddings_atomic [op_intros]:
  "atomic_op (SaveMemoryEmbedding i m v)" "atomic_op (DeleteEmbeddings p m)" "atomic_op (TouchMemories ids t)"
  unfolding SaveMemoryEmbedding_def DeleteEmbeddings_def TouchMemories_def
  by (auto intro!: op_intros)

lemma embeddings_readonly [op_intros]:
  "readonly (VectorCandidates q)" "readonly (MissingEmbeddings q)"
  unfolding VectorCandidates_def MissingEmbeddings_def Let_def by (auto intro!: op_intros)

lemmas embeddings_keeps [keeps_intros] = embeddings_readonly [THEN keeps_readonly]

section \<open>What the vector listing answers\<close>

lemma candidate_rows_active: "(m, e) \<in> set (candidate_rows search n d) \<Longrightarrow> active_in (vs_Project search) d m"
  by (auto simp: candidate_rows_def active_in_def dest!: subsetD [OF set_sql_limit])

lemma VectorCandidates_answer:
  assumes "fst (VectorCandidates search s) = Inr cs" and "c \<in> set cs"
  shows "\<exists>m. active_in (vs_Project search) (db s) m \<and> vc_Memory c = scanMemory m"
proof -
  have q: "VectorCandidates search (quiet s) = (Inr cs, quiet s)"
    using assms(1) by (intro readonly_result op_intros)
  then obtain n where "query_rows ''vector candidates'' ''scan vector candidate'' ''iterate vector candidates''
      (candidate_rows search n) (scanVectorCandidate (vs_Dim search)) (quiet s) = (Inr cs, quiet s)"
    using assms(2) by (auto simp: VectorCandidates_def Let_def split: if_splits)
  from query_rows_Inr [OF _ this assms(2)] obtain r s2 s3 where
    "r \<in> set (candidate_rows search n (db s))" "scanVectorCandidate (vs_Dim search) r s2 = (Inr c, s3)" by auto
  then show ?thesis using candidate_rows_active [of "fst r" "snd r" search n "db s"]
    by (auto simp: scanVectorCandidate_def split: sum.splits)
qed

end
