(* ===== verification/Observations.thy ===== *)
theory Observations
  imports Sessions
begin

text \<open>
  \<open>internal/store/observations.go\<close> and the observation part of
  \<open>internal/store/mcp_helpers.go\<close>: capture with deduplication, the payload codec, and the
  listings of observations.
\<close>

section \<open>Payloads\<close>

text \<open>Payloads of at least 512 bytes are compressed.\<close>

definition encodePayload :: "ext \<Rightarrow> string \<Rightarrow> string \<times> string" where
  "encodePayload E raw = (if length raw < 512 then (raw, ''raw'') else (zstd_enc E raw, ''zstd''))"

definition decodePayload :: "ext \<Rightarrow> string \<Rightarrow> string \<Rightarrow> err + string" where
  "decodePayload E payload encoding =
     (if encoding = ''raw'' then Inr payload
      else if encoding = ''zstd'' then
        (case zstd_dec E payload of None \<Rightarrow> Inl (Wrap ''decode observation payload'' Driver) | Some r \<Rightarrow> Inr r)
      else Inl (Msg (''unknown payload encoding '' @ quote (uni E) encoding)))"

definition zstd_roundtrip :: "ext \<Rightarrow> bool" where
  "zstd_roundtrip E = (\<forall>r. zstd_dec E (zstd_enc E r) = Some r)"

lemma decode_encode_payload:
  "zstd_roundtrip E \<Longrightarrow> decodePayload E (fst (encodePayload E r)) (snd (encodePayload E r)) = Inr r"
  by (simp add: encodePayload_def decodePayload_def zstd_roundtrip_def)

section \<open>Capture\<close>

record ObservationInput =
  oi_Agent :: string
  oi_ExternalSessionID :: string
  oi_CWD :: string
  oi_TS :: int
  oi_Kind :: string
  oi_Tool :: string
  oi_PayloadJSON :: string
  oi_Hash :: string

definition sql_insert_obs :: "obs_row \<Rightarrow> db \<Rightarrow> err + (int \<times> db)" where
  "sql_insert_obs r d =
     (if o_session r \<notin> s_id ` set (sessions d) then Inl ForeignKey
      else Inr (seq_obs d + 1,
        d\<lparr>observations := observations d @ [r\<lparr>o_id := seq_obs d + 1\<rparr>], seq_obs := seq_obs d + 1\<rparr>))"

definition dedupHit :: "string \<Rightarrow> int \<Rightarrow> db \<Rightarrow> bool" where
  "dedupHit h after d = (\<exists>o' \<in> set (observations d). o_hash o' = h \<and> o_ts o' > after)"

definition captured_row :: "ext \<Rightarrow> ObservationInput \<Rightarrow> string \<Rightarrow> obs_row" where
  "captured_row E inp sid =
     (let (payload, encoding) = encodePayload E (oi_PayloadJSON inp) in
      \<lparr>o_id = 0, o_session = sid, o_cwd = oi_CWD inp, o_ts = oi_TS inp, o_kind = oi_Kind inp,
       o_tool = oi_Tool inp, o_payload = payload, o_plen = int (length (oi_PayloadJSON inp)),
       o_encoding = encoding, o_schema = 1, o_hash = oi_Hash inp\<rparr>)"

definition InsertObservation :: "ext \<Rightarrow> ObservationInput \<Rightarrow> int \<Rightarrow> bool op" where
  "InsertObservation E inp window =
     in_tx ''begin observation insert''
       (\<lambda>inserted. if inserted then ''commit observation insert'' else ''commit observation dedup'')
     (andThen (ensureSession (oi_Agent inp) (oi_ExternalSessionID inp) (oi_CWD inp) (oi_TS inp)) (\<lambda>sid.
      andThen (query ''check observation dedup''
        (\<lambda>d. Inr (dedupHit (oi_Hash inp) (i64 (oi_TS inp - i64 (window * 1000))) d))) (\<lambda>hit.
      if hit then ok False
      else
        andThen (call ''insert observation'' (sql_insert_obs (captured_row E inp sid))) (\<lambda>_.
        andThen (call ''increment observation count''
          (sql_update_session sid (\<lambda>r. r\<lparr>s_nobs := s_nobs r + 1\<rparr>))) (\<lambda>_.
        ok True)))))"

definition ObservationCount :: "string \<Rightarrow> int op" where
  "ObservationCount sid = query ''count observations''
     (\<lambda>d. Inr (int (length (filter (\<lambda>r. o_session r = sid) (observations d)))))"

section \<open>Reading\<close>

record Observation =
  obs_ID :: int
  obs_SessionID :: string
  obs_CWD :: string
  obs_TS :: int
  obs_Kind :: string
  obs_Tool :: string
  obs_PayloadJSON :: string
  obs_PayloadEncoding :: string
  obs_PayloadLen :: int
  obs_SchemaVersion :: int
  obs_Hash :: string

definition scanObservation :: "ext \<Rightarrow> obs_row \<Rightarrow> Observation op" where
  "scanObservation E r = (case decodePayload E (o_payload r) (o_encoding r) of
     Inl e \<Rightarrow> fail e
   | Inr p \<Rightarrow> ok \<lparr>obs_ID = o_id r, obs_SessionID = o_session r, obs_CWD = o_cwd r, obs_TS = o_ts r,
       obs_Kind = o_kind r, obs_Tool = o_tool r, obs_PayloadJSON = p, obs_PayloadEncoding = o_encoding r,
       obs_PayloadLen = o_plen r, obs_SchemaVersion = o_schema r, obs_Hash = o_hash r\<rparr>)"

definition obs_asc :: "obs_row \<Rightarrow> obs_row \<Rightarrow> bool" where
  "obs_asc = then_by (asc o_ts) (asc o_id)"

definition obs_desc :: "obs_row \<Rightarrow> obs_row \<Rightarrow> bool" where
  "obs_desc = then_by (desc o_ts) (desc o_id)"

definition ListSessionObservations :: "ext \<Rightarrow> string \<Rightarrow> int \<Rightarrow> Observation list op" where
  "ListSessionObservations E sid limit0 =
     (let limit1 = (if limit0 \<le> 0 then 100 else limit0); limit = (if limit1 > 1000 then 1000 else limit1) in
      query_rows ''list session observations'' ''scan observation'' ''iterate observations''
        (\<lambda>d. sql_limit limit (sort_by obs_asc (filter (\<lambda>r. o_session r = sid) (observations d))))
        (scanObservation E))"

text \<open>\<open>scanObservations\<close>, for the listings that give the query as text.\<close>

definition scanObservations :: "ext \<Rightarrow> (db \<Rightarrow> obs_row list) \<Rightarrow> Observation list op" where
  "scanObservations E q =
     query_rows ''scan observations query'' ''scan observation'' ''iterate observations'' q (scanObservation E)"

definition listProjectObservationPayloads :: "ext \<Rightarrow> string \<Rightarrow> int \<Rightarrow> string list op" where
  "listProjectObservationPayloads E project limit =
     query_rows ''list profile payloads'' ''scan profile payload'' ''iterate profile payloads''
       (\<lambda>d. sql_limit limit (sort_by obs_desc (filter (\<lambda>r. o_cwd r = project) (observations d))))
       (\<lambda>r. case decodePayload E (o_payload r) (o_encoding r) of Inl e \<Rightarrow> fail e | Inr p \<Rightarrow> ok p)"

text \<open>\<open>SELECT cwd ... GROUP BY cwd ORDER BY MIN(ts), MIN(id)\<close>.\<close>

definition group_min :: "(obs_row \<Rightarrow> int) \<Rightarrow> obs_row list \<Rightarrow> string \<Rightarrow> int" where
  "group_min key rs c = Min (key ` set (filter (\<lambda>r. o_cwd r = c) rs))"

definition SessionCWDs :: "string \<Rightarrow> int \<Rightarrow> string list op" where
  "SessionCWDs sid limit0 =
     (let limit = (if limit0 \<le> 0 then 10 else limit0) in
      query_rows ''session cwds'' ''scan session cwd'' ''iterate session cwds''
        (\<lambda>d. let rs = filter (\<lambda>r. o_session r = sid) (observations d) in
           sql_limit limit (sort_by (then_by (asc (group_min o_ts rs)) (asc (group_min o_id rs)))
             (remdups (map o_cwd rs))))
        ok)"

section \<open>Lemmas\<close>

lemma captured_row_simps [simp]:
  "o_session (captured_row E inp sid) = sid" "o_cwd (captured_row E inp sid) = oi_CWD inp"
  "o_ts (captured_row E inp sid) = oi_TS inp" "o_kind (captured_row E inp sid) = oi_Kind inp"
  "o_tool (captured_row E inp sid) = oi_Tool inp" "o_hash (captured_row E inp sid) = oi_Hash inp"
  "o_payload (captured_row E inp sid) = fst (encodePayload E (oi_PayloadJSON inp))"
  "o_encoding (captured_row E inp sid) = snd (encodePayload E (oi_PayloadJSON inp))"
  by (simp_all add: captured_row_def split_beta)

lemma captured_encoding: "o_encoding (captured_row E inp sid) \<in> {''raw'', ''zstd''}"
  by (simp add: encodePayload_def)

lemma InsertObservation_atomic [op_intros]: "atomic_op (InsertObservation E inp w)"
  unfolding InsertObservation_def
  by (auto intro!: op_intros split: prod.splits)

lemma scanObservation_readonly [op_intros]: "readonly (scanObservation E r)"
  by (auto simp: scanObservation_def op_intros split: sum.splits)

lemma observations_readonly [op_intros]:
  "readonly (ObservationCount i)" "readonly (ListSessionObservations E i n)"
  "readonly (scanObservations E q)" "readonly (listProjectObservationPayloads E p n)"
  "readonly (SessionCWDs i n)"
  unfolding ObservationCount_def ListSessionObservations_def scanObservations_def Let_def
    listProjectObservationPayloads_def SessionCWDs_def
  by (auto intro!: op_intros split: sum.splits)

lemmas observations_keeps [keeps_intros] = observations_readonly [THEN keeps_readonly]

interpretation obs_asc_sort: weak_order obs_asc
  unfolding obs_asc_def by (intro weak_order_intros)

interpretation obs_desc_sort: weak_order obs_desc
  unfolding obs_desc_def by (intro weak_order_intros)

end
