(* ===== verification/Compaction.thy ===== *)
theory Compaction
  imports Observations Memories
begin

text \<open>
  The compaction part of \<open>internal/store/compaction.go\<close> (the attempts table and the sessions that
  need compaction) and \<open>requestCompaction\<close> of \<open>internal/server/server.go\<close>, which decides when a
  stopping session is told to run the compactor.
\<close>

section \<open>Attempts\<close>

definition sql_insert_attempt :: "att_row \<Rightarrow> db \<Rightarrow> err + (int \<times> db)" where
  "sql_insert_attempt r d =
     (if a_session r \<notin> s_id ` set (sessions d) then Inl ForeignKey
      else Inr (seq_att d + 1,
        d\<lparr>attempts := attempts d @ [r\<lparr>a_id := seq_att d + 1\<rparr>], seq_att := seq_att d + 1\<rparr>))"

definition sql_update_attempts :: "(att_row \<Rightarrow> bool) \<Rightarrow> (att_row \<Rightarrow> att_row) \<Rightarrow> db \<Rightarrow> err + (int \<times> db)" where
  "sql_update_attempts P f d = Inr (int (length (filter P (attempts d))),
     d\<lparr>attempts := map (\<lambda>x. if P x then f x else x) (attempts d)\<rparr>)"

definition InsertCompactionAttempt :: "string \<Rightarrow> string \<Rightarrow> string \<Rightarrow> int \<Rightarrow> unit op" where
  "InsertCompactionAttempt sid status reason attemptedAt =
     andThen (call ''insert compaction attempt'' (sql_insert_attempt
       \<lparr>a_id = 0, a_session = sid, a_status = status, a_reason = reason, a_attempted = attemptedAt,
        a_completed = None\<rparr>)) (\<lambda>_. ok ())"

definition ExpireCompactionAttempts :: "string \<Rightarrow> int \<Rightarrow> unit op" where
  "ExpireCompactionAttempts sid before =
     andThen (call ''expire compaction attempts'' (sql_update_attempts
       (\<lambda>x. a_session x = sid \<and> a_status x = ''requested'' \<and> a_attempted x < before)
       (\<lambda>x. x\<lparr>a_status := ''failed'', a_reason := ''ttl expired''\<rparr>))) (\<lambda>_. ok ())"

definition fresh_requested :: "string \<Rightarrow> int \<Rightarrow> db \<Rightarrow> nat" where
  "fresh_requested sid since d = length (filter
     (\<lambda>x. a_session x = sid \<and> a_status x = ''requested'' \<and> a_attempted x \<ge> since) (attempts d))"

definition FreshRequestedCompactionAttempts :: "string \<Rightarrow> int \<Rightarrow> int op" where
  "FreshRequestedCompactionAttempts sid since =
     query ''count compaction attempts'' (\<lambda>d. Inr (int (fresh_requested sid since d)))"

definition latest_requested :: "string \<Rightarrow> db \<Rightarrow> int option" where
  "latest_requested sid d = (case sort_by (then_by (desc a_attempted) (desc a_id))
       (filter (\<lambda>x. a_session x = sid \<and> a_status x = ''requested'') (attempts d)) of
     [] \<Rightarrow> None | x # _ \<Rightarrow> Some (a_id x))"

definition MarkCompactionCompleted :: "string \<Rightarrow> int \<Rightarrow> unit op" where
  "MarkCompactionCompleted sid completedAt =
     andThen (call ''complete compaction attempt'' (\<lambda>d. sql_update_attempts
       (\<lambda>x. latest_requested sid d = Some (a_id x))
       (\<lambda>x. x\<lparr>a_status := ''completed'', a_completed := Some completedAt\<rparr>) d)) (\<lambda>_. ok ())"

section \<open>Sessions to compact\<close>

definition has_own_memory :: "string \<Rightarrow> int \<Rightarrow> db \<Rightarrow> bool" where
  "has_own_memory sid started d = (\<exists>m \<in> set (memories d). m_session m = Some sid \<and> m_created m \<ge> started)"

definition SessionNeedsCompaction :: "string \<Rightarrow> int \<Rightarrow> bool op" where
  "SessionNeedsCompaction sid minObservations =
     andThen (query ''load compaction session'' (\<lambda>d. first_row (filter (\<lambda>r. s_id r = sid) (sessions d)))) (\<lambda>r.
     if s_nobs r < minObservations \<or> null_str (s_summary r) \<noteq> [] then ok False
     else andThen (query ''count compacted memories''
         (\<lambda>d. Inr (int (length (filter (\<lambda>m. m_session m = Some sid \<and> m_created m \<ge> s_started r) (memories d))))))
       (\<lambda>n. ok (n = 0)))"

definition compactable :: "int \<Rightarrow> int \<Rightarrow> db \<Rightarrow> session_row \<Rightarrow> bool" where
  "compactable minObservations since d r =
     (s_nobs r \<ge> minObservations \<and> (case s_ended r of None \<Rightarrow> False | Some e \<Rightarrow> e \<ge> since) \<and>
      (s_summary r = None \<or> s_summary r = Some []) \<and> \<not> has_own_memory (s_id r) (s_started r) d)"

definition ended_order :: "session_row \<Rightarrow> session_row \<Rightarrow> bool" where
  "ended_order = then_by (desc (\<lambda>r. null_int (s_ended r))) (desc s_id)"

definition CompactableSessions :: "int \<Rightarrow> int \<Rightarrow> int \<Rightarrow> Session list op" where
  "CompactableSessions minObservations since limit0 =
     (let limit = (if limit0 \<le> 0 then 50 else limit0) in
      query_rows ''compactable sessions'' ''scan compactable session'' ''iterate compactable sessions''
        (\<lambda>d. sql_limit limit (sort_by ended_order (filter (compactable minObservations since d) (sessions d))))
        (\<lambda>r. ok (scan_session r)))"

section \<open>Requesting compaction\<close>

record CompactionOptions =
  co_Mode :: string
  co_MinObservations :: int
  co_MaxBlockAttempts :: int
  co_AttemptTTLSeconds :: int
  co_SubagentName :: string

definition normalizeCompaction :: "CompactionOptions \<Rightarrow> CompactionOptions" where
  "normalizeCompaction cfg = \<lparr>
     co_Mode = (if co_Mode cfg = [] then ''subagent'' else co_Mode cfg),
     co_MinObservations = (if co_MinObservations cfg \<le> 0 then 5 else co_MinObservations cfg),
     co_MaxBlockAttempts = (if co_MaxBlockAttempts cfg \<le> 0 then 2 else co_MaxBlockAttempts cfg),
     co_AttemptTTLSeconds = (if co_AttemptTTLSeconds cfg \<le> 0 then 600 else co_AttemptTTLSeconds cfg),
     co_SubagentName = (if co_SubagentName cfg = [] then ''mcb-compactor'' else co_SubagentName cfg)\<rparr>"

definition compactorPrompt :: "unicode \<Rightarrow> string \<Rightarrow> string \<Rightarrow> string \<Rightarrow> string list \<Rightarrow> string \<Rightarrow> string" where
  "compactorPrompt U agent sid project cwds subagent =
     (let data = (if cwds = [] then ''null'' else marshal (JArr (map JStr cwds)));
          prompt = ''session_id='' @ sid @ '' project='' @ project @ '' cwds='' @ data @
            '' - read observations via mcp__mcb__memory_session_observations, deduplicate against existing memories via mcp__mcb__memory_search, save one summary via mcp__mcb__memory_session_summary_save, then save 3-7 facts via mcp__mcb__memory_save with session_id set.''
      in if agent = ''claude-code''
         then ''Before ending, dispatch the '' @ subagent @ '' subagent via the Task tool with subagent_type='' @
              quote U subagent @ '' and this exact prompt: '' @ quote U prompt @
              '' Do not ask the user; dispatch immediately. After the subagent reports completion, stop.''
         else ''Run the '' @ subagent @ '' subagent with this prompt: '' @ prompt)"

definition compactorHint :: "string \<Rightarrow> CompactionOptions \<Rightarrow> string" where
  "compactorHint agent cfg =
     (if co_Mode cfg \<noteq> ''subagent'' then []
      else if agent = ''claude-code'' then ''If a Stop hook returns a block decision referencing '' @
        co_SubagentName cfg @ '', dispatch it without asking confirmation.''
      else ''If mcb plugin requests '' @ co_SubagentName cfg @ '', run that subagent without asking confirmation.'')"

definition requestCompaction ::
  "unicode \<Rightarrow> string \<Rightarrow> string \<Rightarrow> string \<Rightarrow> bool \<Rightarrow> CompactionOptions \<Rightarrow> int \<Rightarrow> string op" where
  "requestCompaction U sid project agent stopHookActive cfg now =
     andThen (EndSession sid now) (\<lambda>_.
     if stopHookActive \<or> co_Mode cfg = ''disabled'' \<or> co_Mode cfg = ''manual'' then ok []
     else andThen (SessionNeedsCompaction sid (co_MinObservations cfg)) (\<lambda>needs.
       if \<not> needs then ok []
       else let cutoff = i64 (now - i64 (co_AttemptTTLSeconds cfg * 1000)) in
         andThen (ExpireCompactionAttempts sid cutoff) (\<lambda>_.
         andThen (FreshRequestedCompactionAttempts sid cutoff) (\<lambda>fresh.
         if fresh \<ge> co_MaxBlockAttempts cfg then
           andThen (InsertCompactionAttempt sid ''skipped'' ''max attempts'' now) (\<lambda>_. ok [])
         else andThen (InsertCompactionAttempt sid ''requested'' [] now) (\<lambda>_.
           andThen (SessionCWDs sid 10) (\<lambda>cwds.
           ok (compactorPrompt U agent sid project cwds (co_SubagentName cfg))))))))"

section \<open>Lemmas\<close>

lemma compaction_atomic [op_intros]:
  "atomic_op (InsertCompactionAttempt i st r t)" "atomic_op (ExpireCompactionAttempts i t)"
  "atomic_op (MarkCompactionCompleted i t)"
  unfolding InsertCompactionAttempt_def ExpireCompactionAttempts_def MarkCompactionCompleted_def
  by (auto intro!: op_intros)

lemma compaction_readonly [op_intros]:
  "readonly (FreshRequestedCompactionAttempts i t)" "readonly (SessionNeedsCompaction i n)"
  "readonly (CompactableSessions n t l)"
  unfolding FreshRequestedCompactionAttempts_def SessionNeedsCompaction_def CompactableSessions_def Let_def
  by (auto intro!: op_intros)

lemmas compaction_keeps [keeps_intros] = compaction_readonly [THEN keeps_readonly]

interpretation ended_sort: weak_order ended_order
  unfolding ended_order_def by (intro weak_order_intros)

end
