(* ===== verification/Invariants.thy ===== *)
theory Invariants
  imports Embeddings Compaction
begin

text \<open>
  The contract the server and the MCP tools have with the store: a predicate of the database that
  every operation keeps (locale \<open>store_invariant\<close>), how it follows when every SQL statement keeps
  it (locale \<open>stmt_invariant\<close>), and the well-formedness of the database, which is such a
  predicate: primary keys, foreign keys, and the shape of the rows.
\<close>

section \<open>Contracts\<close>

definition session_update :: "(session_row \<Rightarrow> session_row) \<Rightarrow> bool" where
  "session_update f = (\<forall>r. s_id (f r) = s_id r \<and> s_agent (f r) = s_agent r \<and> s_external (f r) = s_external r)"

definition memory_update :: "(mem_row \<Rightarrow> mem_row) \<Rightarrow> bool" where
  "memory_update f = (\<forall>r. m_id (f r) = m_id r \<and> m_project (f r) = m_project r \<and>
     m_session (f r) = m_session r \<and> m_superseded (f r) = m_superseded r)"

definition attempt_update :: "(att_row \<Rightarrow> att_row) \<Rightarrow> bool" where
  "attempt_update f = (\<forall>r. a_id (f r) = a_id r \<and> a_session (f r) = a_session r)"

locale store_invariant =
  fixes I :: "bool \<Rightarrow> db \<Rightarrow> bool" and E :: ext and ok_obs :: "ObservationInput \<Rightarrow> bool"
  assumes EnsureSession [keeps_intros]: "keeps I (EnsureSession a e p t)"
    and EndSession [keeps_intros]: "keeps I (EndSession i t)"
    and SaveSessionSummary [keeps_intros]: "keeps I (SaveSessionSummary i sm t)"
    and RecordImportedEvent [keeps_intros]: "keeps I (RecordImportedEvent pa ev t)"
    and InsertObservation: "ok_obs inp \<Longrightarrow> keeps I (InsertObservation E inp w)"
    and AddMemory [keeps_intros]: "keeps I (AddMemory mi)"
    and UpdateMemory [keeps_intros]: "keeps I (UpdateMemory u)"
    and SupersedeMemory [keeps_intros]: "keeps I (SupersedeMemory x y)"
    and DeleteMemories [keeps_intros]: "keeps I (DeleteMemories ids)"
    and DecayMemories [keeps_intros]: "keeps I (DecayMemories E opts)"
    and SaveMemoryEmbedding [keeps_intros]: "keeps I (SaveMemoryEmbedding x m v)"
    and DeleteEmbeddings [keeps_intros]: "keeps I (DeleteEmbeddings p m)"
    and TouchMemories [keeps_intros]: "keeps I (TouchMemories ids t)"
    and InsertCompactionAttempt [keeps_intros]: "keeps I (InsertCompactionAttempt i st rs t)"
    and ExpireCompactionAttempts [keeps_intros]: "keeps I (ExpireCompactionAttempts i t)"
    and MarkCompactionCompleted [keeps_intros]: "keeps I (MarkCompactionCompleted i t)"
begin

lemma requestCompaction [keeps_intros]: "keeps I (requestCompaction U i p a b cfg t)"
  unfolding requestCompaction_def Let_def
  by (auto intro!: keeps_intros EndSession ExpireCompactionAttempts InsertCompactionAttempt op_intros)

end

locale stmt_invariant =
  fixes J :: "db \<Rightarrow> bool" and E :: ext and ok_obs :: "ObservationInput \<Rightarrow> bool" and ok_row :: "obs_row \<Rightarrow> bool"
  assumes ok_captured: "ok_obs inp \<Longrightarrow> ok_row (captured_row E inp sid)"
    and insert_session: "J d \<Longrightarrow> sql_insert_session r d = Inr (n, d') \<Longrightarrow>
      s_id r = sessionID (s_agent r) (s_external r) \<Longrightarrow> J d'"
    and update_session: "J d \<Longrightarrow> sql_update_session i fs d = Inr (n, d') \<Longrightarrow> session_update fs \<Longrightarrow> J d'"
    and insert_import: "J d \<Longrightarrow> sql_insert_import pa ev t d = Inr (n, d') \<Longrightarrow> J d'"
    and insert_obs: "J d \<Longrightarrow> sql_insert_obs ro d = Inr (n, d') \<Longrightarrow>
      ok_row ro \<Longrightarrow> J d'"
    and insert_audit: "J d \<Longrightarrow> sql_insert_audit ra d = Inr (n, d') \<Longrightarrow> J d'"
    and insert_memory: "J d \<Longrightarrow> sql_insert_memory rm d = Inr (n, d') \<Longrightarrow> m_superseded rm = None \<Longrightarrow> J d'"
    and insert_fts: "J d \<Longrightarrow> sql_insert_fts k t' d = Inr (n, d') \<Longrightarrow> J d'"
    and delete_fts: "J d \<Longrightarrow> sql_delete_fts k d = Inr (n, d') \<Longrightarrow> J d'"
    and update_memory: "J d \<Longrightarrow> sql_update_memory k fm d = Inr (n, d') \<Longrightarrow> memory_update fm \<Longrightarrow> J d'"
    and supersede: "J d \<Longrightarrow> sql_supersede k l d = Inr (n, d') \<Longrightarrow> J d'"
    and delete_memory: "J d \<Longrightarrow> sql_delete_memory k d = Inr (n, d') \<Longrightarrow> J d'"
    and upsert_embedding: "J d \<Longrightarrow> sql_upsert_embedding re d = Inr (n, d') \<Longrightarrow>
      0 < e_dim re \<Longrightarrow> int (length (e_vec re)) = 4 * e_dim re \<Longrightarrow> J d'"
    and delete_embeddings: "J d \<Longrightarrow> sql_delete_embeddings p m d = Inr (n, d') \<Longrightarrow> J d'"
    and insert_attempt: "J d \<Longrightarrow> sql_insert_attempt rt d = Inr (n, d') \<Longrightarrow> J d'"
    and update_attempts: "J d \<Longrightarrow> sql_update_attempts P ft d = Inr (n, d') \<Longrightarrow> attempt_update ft \<Longrightarrow> J d'"
begin

lemma kept_calls [keeps_intros]:
  "s_id r = sessionID (s_agent r) (s_external r) \<Longrightarrow> keeps (\<lambda>_. J) (call lb (sql_insert_session r))"
  "session_update fs \<Longrightarrow> keeps (\<lambda>_. J) (call lb (sql_update_session i fs))"
  "keeps (\<lambda>_. J) (call lb (sql_insert_import pa ev t))"
  "ok_row ro \<Longrightarrow> keeps (\<lambda>_. J) (call lb (sql_insert_obs ro))"
  "keeps (\<lambda>_. J) (call lb (sql_insert_audit ra))"
  "m_superseded rm = None \<Longrightarrow> keeps (\<lambda>_. J) (call lb (sql_insert_memory rm))"
  "keeps (\<lambda>_. J) (call lb (sql_insert_fts k t'))"
  "keeps (\<lambda>_. J) (call lb (sql_delete_fts k))"
  "memory_update fm \<Longrightarrow> keeps (\<lambda>_. J) (call lb (sql_update_memory k fm))"
  "keeps (\<lambda>_. J) (call lb (sql_supersede k l))"
  "keeps (\<lambda>_. J) (call lb (sql_delete_memory k))"
  "0 < e_dim re \<Longrightarrow> int (length (e_vec re)) = 4 * e_dim re \<Longrightarrow>
     keeps (\<lambda>_. J) (call lb (sql_upsert_embedding re))"
  "keeps (\<lambda>_. J) (call lb (sql_delete_embeddings p m))"
  "keeps (\<lambda>_. J) (call lb (sql_insert_attempt rt))"
  "attempt_update ft \<Longrightarrow> keeps (\<lambda>_. J) (call lb (\<lambda>d. sql_update_attempts (P d) ft d))"
  by (rule keeps_call, auto intro: insert_session update_session insert_import insert_obs insert_audit
      insert_memory insert_fts delete_fts update_memory supersede delete_memory upsert_embedding
      delete_embeddings insert_attempt update_attempts)+

lemma keeps_audit [keeps_intros]: "keeps (\<lambda>_. J) (insertAuditTx e)"
  unfolding insertAuditTx_def by (intro keeps_intros op_intros)

lemma keeps_ensureSession [keeps_intros]: "keeps (\<lambda>_. J) (ensureSession a e p t)"
  unfolding ensureSession_def by (intro keeps_intros op_intros) simp

lemma keeps_deleteOne [keeps_intros]: "keeps (\<lambda>_. J) (deleteOne i)"
  unfolding deleteOne_def by (auto intro!: keeps_intros op_intros)

lemma keeps_decayOne [keeps_intros]: "keeps (\<lambda>_. J) (decayOne u)"
  unfolding decayOne_def by (auto intro!: keeps_intros op_intros simp: memory_update_def)

end

sublocale stmt_invariant \<subseteq> store_invariant "\<lambda>_. J" E ok_obs
proof
  show "keeps (\<lambda>_. J) (InsertObservation E inp w)" if "ok_obs inp" for inp w
    unfolding InsertObservation_def
    by (auto simp: session_update_def intro!: keeps_intros op_intros ok_captured that)
  show "keeps (\<lambda>_. J) (AddMemory mi)" for mi
    unfolding AddMemory_def Let_def by (auto intro!: keeps_intros op_intros)
  show "keeps (\<lambda>_. J) (UpdateMemory u)" for u
    unfolding UpdateMemory_def
    by (auto simp: memory_update_def intro!: keeps_intros op_intros split: option.splits)
  show "keeps (\<lambda>_. J) (SupersedeMemory x y)" for x y
    unfolding SupersedeMemory_def by (auto intro!: keeps_intros op_intros)
  show "keeps (\<lambda>_. J) (DeleteMemories ids)" for ids
    unfolding DeleteMemories_def by (auto intro!: keeps_intros op_intros)
  show "keeps (\<lambda>_. J) (DecayMemories E opts)" for opts
    unfolding DecayMemories_def Let_def by (auto intro!: keeps_intros op_intros)
  show "keeps (\<lambda>_. J) (SaveMemoryEmbedding x m v)" for x m v
    unfolding SaveMemoryEmbedding_def by (auto intro!: keeps_intros op_intros)
  show "keeps (\<lambda>_. J) (TouchMemories ids t)" for ids t
    unfolding TouchMemories_def by (auto simp: memory_update_def touch_def intro!: keeps_intros op_intros)
qed (auto simp: EnsureSession_def EndSession_def SaveSessionSummary_def RecordImportedEvent_def
    DeleteEmbeddings_def InsertCompactionAttempt_def ExpireCompactionAttempts_def
    MarkCompactionCompleted_def session_update_def attempt_update_def
    intro!: keeps_intros op_intros)

end
