(* ===== verification/Hybrid.thy ===== *)
theory Hybrid
  imports Rrf Breaker Embeddings Invariants
begin

text \<open>
  \<open>internal/search/hybrid.go\<close>: full-text and vector search, fused. The searcher runs in a world:
  the store, the breaker (if any), the outcomes of the coming calls of the embedder, and the
  readings of the clocks (of the searcher and the servers in milliseconds, of the breaker in
  nanoseconds). Lists that are used up give an error of the embedder and the time 0.
\<close>

section \<open>The world\<close>

record world =
  store_of :: store
  brk :: "CircuitBreaker option"
  embeds :: "(err + f32 list) list"
  clock :: "int list"
  brk_clock :: "int list"

type_synonym 'a act = "(world, 'a) mon"

definition on_store :: "'a op \<Rightarrow> 'a act" where
  "on_store m w = (case m (store_of w) of (r, s) \<Rightarrow> (r, w\<lparr>store_of := s\<rparr>))"

definition now_ms :: "int act" where
  "now_ms w = (case clock w of [] \<Rightarrow> (Inr 0, w) | t # ts \<Rightarrow> (Inr t, w\<lparr>clock := ts\<rparr>))"

definition brk_now :: "int act" where
  "brk_now w = (case brk_clock w of [] \<Rightarrow> (Inr 0, w) | t # ts \<Rightarrow> (Inr t, w\<lparr>brk_clock := ts\<rparr>))"

definition call_embed :: "f32 list act" where
  "call_embed w = (case embeds w of [] \<Rightarrow> (Inl Driver, w) | r # rs \<Rightarrow> (r, w\<lparr>embeds := rs\<rparr>))"

definition get_brk :: "CircuitBreaker option act" where "get_brk w = (Inr (brk w), w)"

definition put_brk :: "CircuitBreaker \<Rightarrow> unit act" where "put_brk b w = (Inr (), w\<lparr>brk := Some b\<rparr>)"

text \<open>\<open>attempt m\<close>: the error as a value.\<close>

definition attempt :: "('s, 'a) mon \<Rightarrow> ('s, err + 'a) mon" where
  "attempt m s = (case m s of (r, s1) \<Rightarrow> (Inr r, s1))"

section \<open>Cosine similarity\<close>

text \<open>The value of a \<open>float32\<close> as a \<open>float64\<close>.\<close>

definition f32_val :: "f32 \<Rightarrow> f64" where
  "f32_val w = (let n = uint w; neg = (2147483648 \<le> n); k = n mod 2147483648;
       e = k div 8388608; m = k mod 8388608;
       mag = (if e = 255 then (if m = 0 then PInf else NaN)
              else if e = 0 then Fin (of_int m * pow2 (- 149))
              else Fin (of_int (m + 8388608) * pow2 (e - 150)))
     in if neg then f64_neg mag else mag)"

text \<open>\<open>math.Sqrt\<close>, correctly rounded: an integer square root at the precision of the result.\<close>

function isqrt :: "int \<Rightarrow> int" where
  "isqrt n = (if n \<le> 0 then 0 else let r = 2 * isqrt (n div 4) in if (r + 1) ^ 2 \<le> n then r + 1 else r)"
  by pat_completeness auto
termination
  by (relation "measure nat") auto

declare isqrt.simps [simp del]

definition f64_sqrt :: "f64 \<Rightarrow> f64" where
  "f64_sqrt x = (case x of Fin q \<Rightarrow>
      (if q < 0 then NaN else if q = 0 then Fin 0
       else let u = pow2 (ilog2 q div 2 - 52); y = q / u ^ 2; m = isqrt \<lfloor>y\<rfloor>;
                k = (if (of_int m + 1 / 2) ^ 2 < y then m + 1 else m)
            in Fin (of_int k * u))
    | PInf \<Rightarrow> PInf | NInf \<Rightarrow> NaN | NaN \<Rightarrow> NaN)"

fun cosine_sums :: "f32 list \<Rightarrow> f32 list \<Rightarrow> f64 \<times> f64 \<times> f64 \<Rightarrow> f64 \<times> f64 \<times> f64" where
  "cosine_sums (a # as) (b # bs) (dot, na, nb) =
     (let af = f32_val a; bf = f32_val b in
      cosine_sums as bs (f64_add dot (f64_mul af bf), f64_add na (f64_mul af af), f64_add nb (f64_mul bf bf)))"
| "cosine_sums _ _ acc = acc"

definition cosine :: "f32 list \<Rightarrow> f32 list \<Rightarrow> f64" where
  "cosine a b = (if a = [] \<or> length a \<noteq> length b then Fin 0
     else let (dot, na, nb) = cosine_sums a b (Fin 0, Fin 0, Fin 0) in
       if f64_eq na (Fin 0) \<or> f64_eq nb (Fin 0) then Fin 0
       else f64_div dot (f64_mul (f64_sqrt na) (f64_sqrt nb)))"

section \<open>Configuration\<close>

record Config =
  cf_BM25TopK :: int
  cf_VectorTopK :: int
  cf_FinalTopK :: int
  cf_RRFK :: int
  cf_MaxPerSession :: int
  cf_Model :: string
  cf_Dim :: int
  cf_SkipTouch :: bool

text \<open>An embedder, with the model and the dimension it reports if it does.\<close>

record Searcher =
  se_Embedder :: bool
  se_Info :: "(string \<times> int) option"
  se_Config :: Config

record Query =
  q_Text :: string
  q_Project :: string
  q_Limit :: int

record Result =
  rs_Memory :: Memory
  rs_Score :: f64
  rs_BM25Rank :: int
  rs_VecRank :: int

definition config :: "Config \<Rightarrow> int \<Rightarrow> Config" where
  "config c limit =
     (let final = default_pos (cf_FinalTopK c) 10 in
      c\<lparr>cf_BM25TopK := default_pos (cf_BM25TopK c) 50, cf_VectorTopK := default_pos (cf_VectorTopK c) 50,
        cf_FinalTopK := (if limit > 0 \<and> limit < final then limit else final),
        cf_RRFK := default_pos (cf_RRFK c) 60, cf_MaxPerSession := default_pos (cf_MaxPerSession c) 3\<rparr>)"

section \<open>Vector search\<close>

definition scored_less :: "VectorCandidate \<times> f64 \<Rightarrow> VectorCandidate \<times> f64 \<Rightarrow> bool" where
  "scored_less x y = (if f64_eq (snd x) (snd y) then mem_ID (vc_Memory (fst x)) < mem_ID (vc_Memory (fst y))
     else f64_less (snd y) (snd x))"

definition brk_open :: "bool act" where
  "brk_open = andThen get_brk (\<lambda>b. case b of None \<Rightarrow> ok False
     | Some c \<Rightarrow> (case cb_openedAt c of None \<Rightarrow> ok False
         | Some _ \<Rightarrow> andThen brk_now (\<lambda>t. andThen (put_brk (snd (Open t c))) (\<lambda>_. ok (fst (Open t c))))))"

definition brk_failure :: "unit act" where
  "brk_failure = andThen get_brk (\<lambda>b. case b of None \<Rightarrow> ok ()
     | Some c \<Rightarrow> if i64 (cb_failures c + 1) \<ge> cb_threshold c
         then andThen brk_now (\<lambda>t. put_brk (RecordFailure t c)) else put_brk (RecordFailure 0 c))"

definition brk_success :: "unit act" where
  "brk_success = andThen get_brk (\<lambda>b. case b of None \<Rightarrow> ok () | Some c \<Rightarrow> put_brk (RecordSuccess c))"

definition rank_candidates :: "f32 list \<Rightarrow> int \<Rightarrow> VectorCandidate list \<Rightarrow> VectorCandidate list" where
  "rank_candidates queryVec topK cands =
     map (\<lambda>(c, s). c\<lparr>vc_Memory := (vc_Memory c)\<lparr>mem_Score := s\<rparr>\<rparr>)
       (take (nat topK) (sort_by scored_less (map (\<lambda>c. (c, cosine queryVec (vc_Vector c))) cands)))"

definition vectorResults :: "Searcher \<Rightarrow> Query \<Rightarrow> Config \<Rightarrow> VectorCandidate list act" where
  "vectorResults s q cfg =
     (if \<not> se_Embedder s then ok []
      else andThen brk_open (\<lambda>open.
      if open then ok []
      else andThen (attempt call_embed) (\<lambda>r. case r of
        Inl e \<Rightarrow> andThen brk_failure (\<lambda>_. fail e)
      | Inr queryVec \<Rightarrow> andThen brk_success (\<lambda>_.
        let model0 = cf_Model cfg; d0 = cf_Dim cfg;
            model = (case se_Info s of Some (m, _) \<Rightarrow> if model0 = [] then m else model0 | None \<Rightarrow> model0);
            d1 = (case se_Info s of Some (_, d) \<Rightarrow> if d0 \<le> 0 then d else d0 | None \<Rightarrow> d0);
            d = (if d1 \<le> 0 then int (length queryVec) else d1)
        in if model = [] then fail (Msg ''embedding model is empty'')
           else if d \<noteq> int (length queryVec) then
             fail (Msg (''query embedding dimension = '' @ itoa (int (length queryVec)) @ '', want '' @ itoa d))
           else andThen (on_store (VectorCandidates
               \<lparr>vs_Project = q_Project q, vs_Model = model, vs_Dim = d, vs_Limit = 0\<rparr>)) (\<lambda>cands.
             ok (rank_candidates queryVec (cf_VectorTopK cfg) cands))))))"

section \<open>Hybrid search\<close>

definition ranked_of :: "Memory \<Rightarrow> Ranked" where
  "ranked_of m = \<lparr>rk_ID = mem_ID m, rk_SessionID = mem_SessionID m, rk_Score = Fin 0, rk_BM25Rank = 0, rk_VecRank = 0\<rparr>"

text \<open>The map of the memories found: the vector search writes last.\<close>

definition memory_of :: "Memory list \<Rightarrow> Memory list \<Rightarrow> int \<Rightarrow> Memory option" where
  "memory_of bm25 vector i = (case find (\<lambda>m. mem_ID m = i) (rev vector) of Some m \<Rightarrow> Some m
     | None \<Rightarrow> find (\<lambda>m. mem_ID m = i) (rev bm25))"

definition zero_memory :: Memory where
  "zero_memory = \<lparr>mem_ID = 0, mem_Project = [], mem_Text = [], mem_Tier = [], mem_Source = [],
     mem_Importance = Fin 0, mem_SessionID = [], mem_CreatedAt = 0, mem_UpdatedAt = 0, mem_AccessedAt = 0,
     mem_SupersededBy = 0, mem_Score = Fin 0\<rparr>"

definition fuse_results :: "(Ranked list \<Rightarrow> Ranked list) \<Rightarrow> Config \<Rightarrow> Memory list \<Rightarrow> Memory list \<Rightarrow> Result list" where
  "fuse_results iter cfg bm25 vector =
     map (\<lambda>item. let m = (case memory_of bm25 vector (rk_ID item) of Some m \<Rightarrow> m | None \<Rightarrow> zero_memory) in
         \<lparr>rs_Memory = m\<lparr>mem_Score := rk_Score item\<rparr>, rs_Score = rk_Score item,
          rs_BM25Rank = rk_BM25Rank item, rs_VecRank = rk_VecRank item\<rparr>)
       (FuseRRF iter (map ranked_of bm25) (map ranked_of vector) (cf_RRFK cfg) (cf_FinalTopK cfg) (cf_MaxPerSession cfg))"

definition finish :: "(Ranked list \<Rightarrow> Ranked list) \<Rightarrow> Config \<Rightarrow> Memory list \<Rightarrow> Memory list \<Rightarrow> Result list act" where
  "finish iter cfg bm25 vector =
     (let results = fuse_results iter cfg bm25 vector in
      if cf_SkipTouch cfg then ok results
      else andThen now_ms (\<lambda>t.
        andThen (on_store (TouchMemories (map (\<lambda>r. mem_ID (rs_Memory r)) results) t)) (\<lambda>_. ok results)))"

definition Hybrid :: "ext \<Rightarrow> (Ranked list \<Rightarrow> Ranked list) \<Rightarrow> Searcher \<Rightarrow> Query \<Rightarrow> Result list act" where
  "Hybrid E iter s q =
     (let cfg = config (se_Config s) (q_Limit q) in
      andThen (attempt (on_store (SearchMemories E
          \<lparr>ms_Project = q_Project q, ms_Query = q_Text q, ms_Limit = cf_BM25TopK cfg\<rparr>))) (\<lambda>bm25r.
      case bm25r of Inl e \<Rightarrow>
        if \<not> err_is e FTS5Unavailable then fail e
        else andThen (vectorResults s q cfg) (\<lambda>vector. finish iter cfg [] (map vc_Memory vector))
      | Inr bm25 \<Rightarrow>
        andThen (attempt (vectorResults s q cfg)) (\<lambda>vr.
        finish iter cfg bm25 (case vr of Inl _ \<Rightarrow> [] | Inr vector \<Rightarrow> map vc_Memory vector))))"

section \<open>Lemmas\<close>

text \<open>Operations of the world that keep a predicate of the store.\<close>

definition wkeeps :: "(bool \<Rightarrow> db \<Rightarrow> bool) \<Rightarrow> (world \<Rightarrow> 'r \<times> world) \<Rightarrow> bool" where
  "wkeeps I m = (\<forall>w. fts5 (store_of (snd (m w))) = fts5 (store_of w) \<and>
     (I (fts5 (store_of w)) (db (store_of w)) \<longrightarrow> I (fts5 (store_of w)) (db (store_of (snd (m w))))))"

named_theorems wkeeps_intros \<open>preservation of a database predicate by an operation of the world\<close>

lemma store_after [simp]:
  "store_of (snd (on_store m w)) = snd (m (store_of w))" "snd (attempt n v) = snd (n v)"
  by (auto simp: on_store_def attempt_def split: prod.splits)

lemma wkeeps_store [wkeeps_intros]: "keeps I m \<Longrightarrow> wkeeps I (on_store m)"
  unfolding keeps_def wkeeps_def store_after by blast

lemma wkeeps_snd: "wkeeps I m \<Longrightarrow> (\<And>w. snd (m' w) = snd (m w)) \<Longrightarrow> wkeeps I m'"
  by (simp add: wkeeps_def)

lemma wkeeps_attempt [wkeeps_intros]: "wkeeps I m \<Longrightarrow> wkeeps I (attempt m)"
  unfolding wkeeps_def store_after by blast

lemma wkeeps_same: "(\<And>w. store_of (snd (m w)) = store_of w) \<Longrightarrow> wkeeps I m"
  by (simp add: wkeeps_def)

lemma wkeeps_basic [wkeeps_intros]:
  "wkeeps I (ok x)" "wkeeps I (fail e)" "wkeeps I now_ms" "wkeeps I brk_now" "wkeeps I call_embed"
  "wkeeps I get_brk" "wkeeps I (put_brk b)"
  by (auto intro!: wkeeps_same simp: ok_def fail_def now_ms_def brk_now_def call_embed_def get_brk_def put_brk_def
      split: list.splits)

lemma wkeeps_andThen [wkeeps_intros]:
  assumes m: "wkeeps I m" and k: "\<And>x. wkeeps I (k x)"
  shows "wkeeps I (andThen m k)"
  unfolding wkeeps_def
proof
  fix w
  show "fts5 (store_of (snd (andThen m k w))) = fts5 (store_of w) \<and>
      (I (fts5 (store_of w)) (db (store_of w)) \<longrightarrow> I (fts5 (store_of w)) (db (store_of (snd (andThen m k w)))))"
  proof (cases "m w")
    case (Pair r w1)
    have "fts5 (store_of w1) = fts5 (store_of w) \<and>
        (I (fts5 (store_of w)) (db (store_of w)) \<longrightarrow> I (fts5 (store_of w)) (db (store_of w1)))"
      using m [unfolded wkeeps_def, rule_format, of w] Pair by simp
    moreover have "fts5 (store_of (snd (k x w1))) = fts5 (store_of w1) \<and>
        (I (fts5 (store_of w1)) (db (store_of w1)) \<longrightarrow> I (fts5 (store_of w1)) (db (store_of (snd (k x w1)))))" for x
      using k [of x] unfolding wkeeps_def by blast
    ultimately show ?thesis using Pair by (cases r) (simp_all add: andThen_def)
  qed
qed

lemma wkeeps_each [wkeeps_intros]: "(\<And>x. wkeeps I (f x)) \<Longrightarrow> wkeeps I (each f xs)"
  by (induction xs) (simp_all add: wkeeps_basic wkeeps_andThen)

text \<open>The shapes of control flow, one rule each.\<close>

lemma wkeeps_cases:
  "wkeeps I a \<Longrightarrow> wkeeps I b \<Longrightarrow> wkeeps I (if c then a else b)"
  "wkeeps I a \<Longrightarrow> (\<And>x. wkeeps I (f x)) \<Longrightarrow> wkeeps I (case v of None \<Rightarrow> a | Some x \<Rightarrow> f x)"
  "(\<And>e. wkeeps I (h e)) \<Longrightarrow> (\<And>x. wkeeps I (g x)) \<Longrightarrow> wkeeps I (case r of Inl e \<Rightarrow> h e | Inr x \<Rightarrow> g x)"
  "(\<And>x y. wkeeps I (k x y)) \<Longrightarrow> wkeeps I (case p of (x, y) \<Rightarrow> k x y)"
  by (simp_all split: option.splits sum.splits prod.splits)

lemma wkeeps_vectorResults [wkeeps_intros]: "wkeeps I (vectorResults s q cfg)"
  unfolding vectorResults_def brk_open_def brk_failure_def brk_success_def Let_def
  by (auto intro!: wkeeps_intros keeps_readonly op_intros split: option.splits sum.splits)

context store_invariant begin

lemma Hybrid [wkeeps_intros]: "wkeeps I (Hybrid E' iter s q)"
  unfolding Hybrid_def finish_def Let_def
  by (auto intro!: wkeeps_intros keeps_readonly op_intros TouchMemories split: sum.splits)

end

lemma no_touch_readonly: "se_Config s = c \<Longrightarrow> cf_SkipTouch c \<Longrightarrow> wkeeps (\<lambda>b d. d = d0) (Hybrid E iter s q)"
  unfolding Hybrid_def finish_def Let_def
  by (auto simp: config_def Let_def intro!: wkeeps_intros keeps_readonly op_intros split: sum.splits)

lemma on_store_readonly: "readonly m \<Longrightarrow> db (store_of (snd (on_store m w))) = db (store_of w)"
  by (simp add: readonly_db)

lemma wkeeps_db: "wkeeps (\<lambda>b d. d = db (store_of w)) m \<Longrightarrow> db (store_of (snd (m w))) = db (store_of w)"
  unfolding wkeeps_def by auto

text \<open>The memories a search may return.\<close>

definition found :: "string \<Rightarrow> db \<Rightarrow> Memory \<Rightarrow> bool" where
  "found p d x = (\<exists>m. active_in p d m \<and> (\<exists>sc. x = (scanMemory m)\<lparr>mem_Score := sc\<rparr>))"

lemma found_score: "found p d x \<Longrightarrow> found p d (x\<lparr>mem_Score := sc\<rparr>)"
  unfolding found_def by force

lemma foundD:
  "found p d x \<Longrightarrow> \<exists>m \<in> set (memories d). mem_ID x = m_id m \<and> mem_Text x = m_text m \<and> m_project m = p \<and> m_superseded m = None"
  by (auto simp: found_def active_in_def scanMemory_def)

lemma found_plain: "active_in p d m \<Longrightarrow> found p d (scanMemory m)"
  unfolding found_def by (rule exI [of _ m], rule conjI, assumption, rule exI [of _ "Fin 0"]) (simp add: scanMemory_def)

abbreviation same_db :: "db \<Rightarrow> world \<Rightarrow> bool" where
  "same_db d w \<equiv> db (store_of w) = d"

lemma yields_same_db: "wkeeps (\<lambda>b d'. d' = d) m \<Longrightarrow> yields (same_db d) m (\<lambda>_. same_db d)"
  unfolding yields_def wkeeps_def by (metis snd_conv)

lemma yields_attempt:
  assumes "yields P m Q" and "wkeeps (\<lambda>b d'. d' = d) m" and "\<And>w. P w \<Longrightarrow> same_db d w"
  shows "yields P (attempt m) (\<lambda>r w. same_db d w \<and> (\<forall>x. r = Inr x \<longrightarrow> Q x w))"
  using assms unfolding yields_def attempt_def wkeeps_def
  by (auto split: prod.splits) (metis snd_conv)

lemma yields_on_store:
  assumes "readonly m" and "\<And>s x. fst (m s) = Inr x \<Longrightarrow> db s = d \<Longrightarrow> Q x"
  shows "yields (same_db d) (on_store m) (\<lambda>x w. same_db d w \<and> Q x)"
  unfolding yields_def
proof (intro allI impI)
  fix w x w1 assume a: "same_db d w" "on_store m w = (Inr x, w1)"
  then have "fst (m (store_of w)) = Inr x" "w1 = w\<lparr>store_of := snd (m (store_of w))\<rparr>"
    by (auto simp: on_store_def split: prod.splits)
  then show "same_db d w1 \<and> Q x" using assms a(1) readonly_db [OF assms(1), of "store_of w"] by auto
qed

lemma rank_candidates_found:
  "\<forall>c \<in> set cs. found p d (vc_Memory c) \<Longrightarrow> \<forall>c \<in> set (rank_candidates v k cs). found p d (vc_Memory c)"
  by (auto simp: rank_candidates_def intro!: found_score dest!: in_set_takeD)

lemma vectorResults_found:
  "yields (same_db d) (vectorResults s q cfg) (\<lambda>cs w. same_db d w \<and> (\<forall>c \<in> set cs. found (q_Project q) d (vc_Memory c)))"
proof -
  note keep = yields_andThen [OF yields_same_db]
  have cand: "yields (same_db d) (on_store (VectorCandidates \<lparr>vs_Project = q_Project q, vs_Model = md, vs_Dim = n, vs_Limit = 0\<rparr>))
      (\<lambda>cs w. same_db d w \<and> (\<forall>c \<in> set cs. found (q_Project q) d (vc_Memory c)))" for md n
    by (rule yields_on_store [OF embeddings_readonly(1)]) (auto dest!: VectorCandidates_answer intro: found_plain)
  have ranked: "yields (\<lambda>w. same_db d w \<and> (\<forall>c \<in> set cs. found (q_Project q) d (vc_Memory c)))
      (ok (rank_candidates v k cs)) (\<lambda>cs w. same_db d w \<and> (\<forall>c \<in> set cs. found (q_Project q) d (vc_Memory c)))" for v k cs
    using rank_candidates_found by (intro yields_ok) blast
  show ?thesis
    unfolding vectorResults_def Let_def brk_open_def brk_failure_def brk_success_def
    by (auto intro!: keep yields_ok yields_intros wkeeps_intros yields_andThen [OF cand] ranked split: option.splits sum.splits)
qed

lemma fuse_results_found:
  assumes "\<And>m. mset (iter m) = mset m" and "\<forall>x \<in> set bm25 \<union> set vector. found p d x"
  shows "\<forall>r \<in> set (fuse_results iter cfg bm25 vector). found p d (rs_Memory r)"
proof
  fix r assume "r \<in> set (fuse_results iter cfg bm25 vector)"
  then obtain item where i: "item \<in> set (FuseRRF iter (map ranked_of bm25) (map ranked_of vector) (cf_RRFK cfg) (cf_FinalTopK cfg) (cf_MaxPerSession cfg))"
    and r: "rs_Memory r = (case memory_of bm25 vector (rk_ID item) of Some m \<Rightarrow> m | None \<Rightarrow> zero_memory)\<lparr>mem_Score := rk_Score item\<rparr>"
    by (auto simp: fuse_results_def Let_def)
  have "rk_ID item \<in> mem_ID ` (set bm25 \<union> set vector)"
    using fused_ids [OF assms(1)] i by (fastforce simp: ranked_of_def image_iff)
  moreover have "memory_of bm25 vector i = None \<Longrightarrow> i \<notin> mem_ID ` (set bm25 \<union> set vector)" for i
    by (auto simp: memory_of_def find_None_iff split: option.splits)
  ultimately have "memory_of bm25 vector (rk_ID item) \<noteq> None" by blast
  then obtain m where "memory_of bm25 vector (rk_ID item) = Some m" by auto
  moreover from this have "m \<in> set bm25 \<union> set vector"
    by (auto simp: memory_of_def dest!: find_Some_mem split: option.splits)
  ultimately show "found p d (rs_Memory r)" using assms(2) r by (auto intro: found_score)
qed

section \<open>Properties\<close>

definition perm_iter :: "(Ranked list \<Rightarrow> Ranked list) \<Rightarrow> bool" where
  "perm_iter iter = (\<forall>m. mset (iter m) = mset m)"

lemma finish_found:
  assumes "perm_iter iter" and "\<forall>x \<in> set bm25 \<union> set vector. found p d x"
  shows "yields P (finish iter cfg bm25 vector) (\<lambda>rs _. (\<forall>r \<in> set rs. found p d (rs_Memory r)) \<and>
    int (length rs) \<le> default_pos (cf_FinalTopK cfg) 10)"
proof -
  let ?rs = "fuse_results iter cfg bm25 vector"
  have "\<forall>r \<in> set ?rs. found p d (rs_Memory r)"
    using assms by (intro fuse_results_found) (auto simp: perm_iter_def)
  moreover have "int (length ?rs) \<le> default_pos (cf_FinalTopK cfg) 10"
    using cap_length [of 0 "default_pos (cf_FinalTopK cfg) 10"]
    by (simp add: fuse_results_def FuseRRF_def Let_def default_pos_def)
  ultimately show ?thesis
    by (auto simp: finish_def Let_def yields_def andThen_Inr ok_def)
qed


definition ex_ext :: ext where
  "ex_ext = \<lparr>uni = \<lparr>uni_letter = (\<lambda>_. False), uni_digit = (\<lambda>_. False), uni_lower = (\<lambda>r. r), uni_print = (\<lambda>_. False)\<rparr>,
     zstd_enc = (\<lambda>s. s), zstd_dec = Some, exp64 = (\<lambda>x. if x = Fin 0 then Fin 1 else Fin 0),
     fts_match = (\<lambda>q t. True), driver_text = (\<lambda>_. []), bm25_rank = (\<lambda>_ _ _. Fin 0)\<rparr>"

definition ex_mem :: mem_row where
  "ex_mem = \<lparr>m_id = 1, m_project = ''p'', m_text = ''t'', m_tier = ''fact'', m_source = ''manual'', m_importance = Fin 1,
     m_session = None, m_created = 5, m_updated = 5, m_accessed = 5, m_superseded = None, m_access_cnt = 0\<rparr>"

definition ex_db :: db where
  "ex_db = empty_db\<lparr>memories := [ex_mem], fts := [(1, ''t'')], seq_mem := 1\<rparr>"

definition ex_world :: world where
  "ex_world = \<lparr>store_of = \<lparr>db = ex_db, fts5 = True, faults = []\<rparr>, brk = None, embeds = [], clock = [7], brk_clock = []\<rparr>"

definition ex_searcher :: Searcher where
  "ex_searcher = \<lparr>se_Embedder = False, se_Info = None, se_Config = \<lparr>cf_BM25TopK = 0, cf_VectorTopK = 0, cf_FinalTopK = 0,
     cf_RRFK = 1, cf_MaxPerSession = 0, cf_Model = [], cf_Dim = 0, cf_SkipTouch = True\<rparr>\<rparr>"

definition ex_query :: Query where
  "ex_query = \<lparr>q_Text = ''t'', q_Project = ''p'', q_Limit = 3\<rparr>"

lemma ex_fts_query: "ftsQuery U ''t'' = [quot, CHR ''t'', quot]"
  by (simp add: ftsQuery_def fieldsFunc_def rune_chunks.simps decode_rune_def token_rune_def is_letter_def
      double_quotes_def quot_def)

definition ex_result_row :: Result where
  "ex_result_row = \<lparr>rs_Memory = (scanMemory ex_mem)\<lparr>mem_Score := Fin (1 / 2)\<rparr>, rs_Score = Fin (1 / 2), rs_BM25Rank = 1, rs_VecRank = 0\<rparr>"

lemma ex_search:
  "SearchMemories ex_ext \<lparr>ms_Project = ''p'', ms_Query = ''t'', ms_Limit = n\<rparr> (store_of ex_world) =
     (Inr [(scanMemory ex_mem)\<lparr>mem_Score := Fin 0\<rparr>], store_of ex_world)"
  by (simp add: SearchMemories_def withFts_def ex_fts_query ex_world_def quiet_rows_map
      [where g = "\<lambda>(m, score). (scanMemory m)\<lparr>mem_Score := score\<rparr>"] case_prod_unfold search_rows_def ex_db_def
      empty_db_def ex_mem_def ex_ext_def sql_limit_def Let_def)

lemma ex_hybrid:
  "Hybrid ex_ext rev ex_searcher ex_query ex_world = (Inr [ex_result_row], ex_world)"
proof -
  have f: "fuse_items 1 [ranked_of ((scanMemory ex_mem)\<lparr>mem_Score := Fin 0\<rparr>)] [] =
      [\<lparr>rk_ID = 1, rk_SessionID = [], rk_Score = Fin (1 / 2), rk_BM25Rank = 1, rk_VecRank = 0\<rparr>]"
    by (simp add: fuse_items_def add_bm25_def lookup_id_def no_entry_def ranked_of_def scanMemory_def ex_mem_def
        null_str_def Let_def rrf_term_half del: f64_add.simps)
  have r: "fuse_results rev c [(scanMemory ex_mem)\<lparr>mem_Score := Fin 0\<rparr>] [] = [ex_result_row]"
    if "cf_RRFK c = 1" "cf_FinalTopK c = 3" for c
    using that f by (simp add: fuse_results_def FuseRRF_def default_pos_def Let_def)
      (simp add: memory_of_def ex_result_row_def scanMemory_def ex_mem_def)
  show ?thesis
    by (simp add: Hybrid_def config_def default_pos_def ex_searcher_def ex_query_def Let_def andThen_def attempt_def
        on_store_def ex_search vectorResults_def finish_def r)
qed




end
