(* ===== verification/StoreQueries.thy ===== *)
theory StoreQueries
  imports Observations Memories
begin

text \<open>
  The read-only reports of \<open>internal/store/phase2_helpers.go\<close> (timeline, file history, patterns,
  export, audit log, verification) and of \<open>mcp_helpers.go\<close> (profiles and status). A Go map from
  names to counts is an association list sorted by name, as \<open>put_key\<close> keeps it.
\<close>

section \<open>Counts\<close>

text \<open>\<open>SELECT key, COUNT(*) ... GROUP BY key ORDER BY COUNT(*) DESC, key ASC LIMIT ?\<close>.\<close>

definition count_order :: "string \<times> int \<Rightarrow> string \<times> int \<Rightarrow> bool" where
  "count_order = then_by (desc snd) (asc fst)"

definition group_counts :: "('r \<Rightarrow> string) \<Rightarrow> int \<Rightarrow> 'r list \<Rightarrow> (string \<times> int) list" where
  "group_counts key limit rs = sql_limit limit (sort_by count_order
     (map (\<lambda>k. (k, int (length (filter (\<lambda>r. key r = k) rs)))) (remdups (map key rs))))"

definition scanCounts :: "(db \<Rightarrow> (string \<times> int) list) \<Rightarrow> (string \<times> int) list op" where
  "scanCounts q = andThen (query_rows ''profile counts'' ''scan profile count'' ''iterate profile counts'' q ok)
     (\<lambda>rows. ok (foldl (\<lambda>m (k, n). put_key k n m) [] rows))"

text \<open>\<open>m[k]++\<close>.\<close>

definition bump :: "string \<Rightarrow> (string \<times> int) list \<Rightarrow> (string \<times> int) list" where
  "bump k m = put_key k ((case map_of m k of None \<Rightarrow> 0 | Some n \<Rightarrow> n) + 1) m"

section \<open>Files named in a payload\<close>

definition isFileKey :: "unicode \<Rightarrow> string \<Rightarrow> bool" where
  "isFileKey U key = (let k = toLower U key in
     k = ''file'' \<or> k = ''filepath'' \<or> k = ''path'' \<or> hasSuffix k ''_file'' \<or> hasSuffix k ''_path'')"

text \<open>
  The walk over the decoded value. Go visits the members of an object in any order; here they come
  sorted. The callers only count the files, once per payload.
\<close>

fun walk :: "unicode \<Rightarrow> json \<Rightarrow> string list \<Rightarrow> string list"
  and walk_members :: "unicode \<Rightarrow> (string \<times> json) list \<Rightarrow> string list \<Rightarrow> string list"
  and walk_items :: "unicode \<Rightarrow> json list \<Rightarrow> string list \<Rightarrow> string list" where
  "walk U (JObj ms) files = walk_members U ms files"
| "walk U (JArr xs) files = walk_items U xs files"
| "walk U _ files = files"
| "walk_members U [] files = files"
| "walk_members U ((key, v) # ms) files =
     walk_members U ms (walk U v
       (if isFileKey U key then
          (case v of JStr s \<Rightarrow> if s \<noteq> [] \<and> s \<notin> set files then files @ [s] else files | _ \<Rightarrow> files)
        else files))"
| "walk_items U [] files = files"
| "walk_items U (x # xs) files = walk_items U xs (walk U x files)"

definition filesInPayload :: "unicode \<Rightarrow> string \<Rightarrow> string list" where
  "filesInPayload U payload = (case unmarshal_any payload of None \<Rightarrow> [] | Some v \<Rightarrow> walk U v [])"

definition count_files :: "unicode \<Rightarrow> string list \<Rightarrow> (string \<times> int) list" where
  "count_files U payloads = foldl (\<lambda>m p. foldl (\<lambda>m f. bump f m) m (filesInPayload U p)) [] payloads"

section \<open>Profiles and status\<close>

record ProjectProfile =
  pp_Project :: string
  pp_MemoryCount :: int
  pp_SessionCount :: int
  pp_ObservationCount :: int
  pp_TopTiers :: "(string \<times> int) list"
  pp_TopTools :: "(string \<times> int) list"
  pp_FilesTouched :: "(string \<times> int) list"

definition active :: "string \<Rightarrow> db \<Rightarrow> mem_row list" where
  "active project d = filter (\<lambda>m. m_project m = project \<and> m_superseded m = None) (memories d)"

definition count_query :: "string \<Rightarrow> (db \<Rightarrow> 'r list) \<Rightarrow> int op" where
  "count_query l rows = query l (\<lambda>d. Inr (int (length (rows d))))"

definition ProjectProfile_op :: "ext \<Rightarrow> string \<Rightarrow> ProjectProfile op" where
  "ProjectProfile_op E project =
     andThen (count_query ''count profile memories'' (active project)) (\<lambda>nm.
     andThen (count_query ''count profile sessions'' (\<lambda>d. filter (\<lambda>r. s_project r = project) (sessions d))) (\<lambda>ns.
     andThen (count_query ''count profile observations'' (\<lambda>d. filter (\<lambda>r. o_cwd r = project) (observations d))) (\<lambda>no.
     andThen (scanCounts (\<lambda>d. group_counts m_tier 10 (active project d))) (\<lambda>tiers.
     andThen (scanCounts (\<lambda>d. group_counts o_tool 10
         (filter (\<lambda>r. o_cwd r = project \<and> o_tool r \<noteq> []) (observations d)))) (\<lambda>tools.
     andThen (listProjectObservationPayloads E project 200) (\<lambda>payloads.
     ok \<lparr>pp_Project = project, pp_MemoryCount = nm, pp_SessionCount = ns, pp_ObservationCount = no,
         pp_TopTiers = tiers, pp_TopTools = tools, pp_FilesTouched = count_files (uni E) payloads\<rparr>))))))"

definition ProjectProfiles :: "ext \<Rightarrow> ProjectProfile list op" where
  "ProjectProfiles E =
     andThen (query_rows ''list profile projects'' ''scan profile project'' ''iterate profile projects''
       (\<lambda>d. sort_by (asc (\<lambda>p. p)) (remdups (map m_project (filter (\<lambda>m. m_superseded m = None) (memories d)))))
       ok) (\<lambda>projects.
     each (ProjectProfile_op E) projects)"

text \<open>The counts of \<open>Status\<close> are read in the order in which Go ranges over the map of queries: \<open>keys\<close>.\<close>

definition status_query :: "string \<Rightarrow> int op" where
  "status_query key = (let l = ''status '' @ key in
     if key = ''memory_count'' then count_query l (\<lambda>d. filter (\<lambda>m. m_superseded m = None) (memories d))
     else if key = ''session_count'' then count_query l sessions
     else count_query l observations)"

definition Status :: "string list \<Rightarrow> (string \<times> int) list op" where
  "Status keys = andThen (each (\<lambda>k. andThen (status_query k) (\<lambda>n. ok (k, n))) keys)
     (\<lambda>rows. ok (foldl (\<lambda>m (k, n). put_key k n m) [] rows))"

section \<open>Timeline\<close>

record TimelineItem =
  ti_Type :: string
  ti_ID :: int
  ti_Project :: string
  ti_SessionID :: string
  ti_TS :: int
  ti_Kind :: string
  ti_Tool :: string
  ti_Text :: string
  ti_PayloadJSON :: string

record TimelineFilter =
  tf_Project :: string
  tf_SessionID :: string
  tf_Limit :: int

definition scanMemories :: "(db \<Rightarrow> mem_row list) \<Rightarrow> Memory list op" where
  "scanMemories q = query_rows ''scan memories query'' ''scan memory'' ''iterate memories'' q (\<lambda>m. ok (scanMemory m))"

definition obs_item :: "Observation \<Rightarrow> TimelineItem" where
  "obs_item x = \<lparr>ti_Type = ''observation'', ti_ID = obs_ID x, ti_Project = obs_CWD x, ti_SessionID = obs_SessionID x,
     ti_TS = obs_TS x, ti_Kind = obs_Kind x, ti_Tool = obs_Tool x, ti_Text = [], ti_PayloadJSON = obs_PayloadJSON x\<rparr>"

definition mem_item :: "Memory \<Rightarrow> TimelineItem" where
  "mem_item m = \<lparr>ti_Type = ''memory'', ti_ID = mem_ID m, ti_Project = mem_Project m, ti_SessionID = mem_SessionID m,
     ti_TS = mem_CreatedAt m, ti_Kind = mem_Tier m, ti_Tool = [], ti_Text = mem_Text m, ti_PayloadJSON = []\<rparr>"

definition tl_less :: "TimelineItem \<Rightarrow> TimelineItem \<Rightarrow> bool" where
  "tl_less = then_by (asc ti_TS) (asc ti_ID)"

definition tl_obs :: "TimelineFilter \<Rightarrow> db \<Rightarrow> obs_row list" where
  "tl_obs f d = filter (\<lambda>r. (tf_Project f \<noteq> [] \<longrightarrow> o_cwd r = tf_Project f) \<and>
     (tf_SessionID f \<noteq> [] \<longrightarrow> o_session r = tf_SessionID f)) (observations d)"

definition tl_mems :: "TimelineFilter \<Rightarrow> db \<Rightarrow> mem_row list" where
  "tl_mems f d = filter (\<lambda>r. (tf_Project f \<noteq> [] \<longrightarrow> m_project r = tf_Project f) \<and>
     (tf_SessionID f \<noteq> [] \<longrightarrow> m_session r = Some (tf_SessionID f))) (memories d)"

text \<open>
  \<open>sort.Slice\<close> is not stable: an observation and a memory with the same time and identifier may come
  in either order. \<open>mix\<close> is the arrangement before a stable sort that has the same outcome.
\<close>

definition Timeline :: "ext \<Rightarrow> (TimelineItem list \<Rightarrow> TimelineItem list) \<Rightarrow> TimelineFilter \<Rightarrow> TimelineItem list op" where
  "Timeline E mix f =
     (let limit = normalizedStoreLimit (tf_Limit f) 50 500 in
      andThen (scanObservations E (\<lambda>d. sql_limit limit (sort_by obs_desc (tl_obs f d)))) (\<lambda>os.
      andThen (scanMemories (\<lambda>d. sql_limit limit (sort_by mem_desc (tl_mems f d)))) (\<lambda>ms.
      let items = sort_by tl_less (mix (map obs_item os @ map mem_item ms)) in
      ok (if int (length items) > limit then take (nat limit) items else items))))"

section \<open>File history\<close>

record FileHistoryFilter =
  fh_Project :: string
  fh_Files :: "string list"
  fh_Limit :: int

record FileHistory =
  fh_Memories :: "Memory list"
  fh_Observations :: "Observation list"

fun normalizedFiles_loop :: "unicode \<Rightarrow> string list \<Rightarrow> string list \<Rightarrow> string list" where
  "normalizedFiles_loop U [] out = out"
| "normalizedFiles_loop U (f # fs) out = (let file = toLower U (trimSpace f) in
     normalizedFiles_loop U fs (if file \<noteq> [] \<and> file \<notin> set out then out @ [file] else out))"

definition normalizedFiles :: "unicode \<Rightarrow> string list \<Rightarrow> string list" where
  "normalizedFiles U files = normalizedFiles_loop U files []"

definition containsAnyFile :: "unicode \<Rightarrow> string \<Rightarrow> string list \<Rightarrow> bool" where
  "containsAnyFile U text files = list_ex (\<lambda>f. contains (toLower U text) f) files"

text \<open>The loop that collects matches and leaves when it has \<open>limit\<close> of them.\<close>

fun match_loop :: "('a \<Rightarrow> bool) \<Rightarrow> int \<Rightarrow> 'a list \<Rightarrow> 'a list \<Rightarrow> 'a list" where
  "match_loop p limit [] out = out"
| "match_loop p limit (x # xs) out =
     (let out1 = (if p x then out @ [x] else out) in
      if int (length out1) \<ge> limit then out1 else match_loop p limit xs out1)"

definition FileHistory_op :: "ext \<Rightarrow> FileHistoryFilter \<Rightarrow> FileHistory op" where
  "FileHistory_op E f =
     (let limit = normalizedStoreLimit (fh_Limit f) 20 200; files = normalizedFiles (uni E) (fh_Files f) in
      if files = [] then ok \<lparr>fh_Memories = [], fh_Observations = []\<rparr>
      else andThen (scanMemories (\<lambda>d. sql_limit 500 (sort_by mem_desc (active (fh_Project f) d)))) (\<lambda>ms.
      andThen (scanObservations E (\<lambda>d. sql_limit 500 (sort_by obs_desc
          (filter (\<lambda>r. o_cwd r = fh_Project f) (observations d))))) (\<lambda>os.
      ok \<lparr>fh_Memories = match_loop (\<lambda>m. containsAnyFile (uni E) (mem_Text m) files) limit ms [],
          fh_Observations = match_loop (\<lambda>x. containsAnyFile (uni E) (obs_PayloadJSON x) files) limit os []\<rparr>)))"

section \<open>Patterns, export, audit log, verification\<close>

record PatternResult =
  pt_TopTools :: "(string \<times> int) list"
  pt_TopKinds :: "(string \<times> int) list"
  pt_Files :: "(string \<times> int) list"

definition Patterns :: "ext \<Rightarrow> string \<Rightarrow> int \<Rightarrow> PatternResult op" where
  "Patterns E project limit0 =
     (let limit = normalizedStoreLimit limit0 10 100 in
      andThen (scanCounts (\<lambda>d. group_counts o_tool limit
          (filter (\<lambda>r. o_cwd r = project \<and> o_tool r \<noteq> []) (observations d)))) (\<lambda>tools.
      andThen (scanCounts (\<lambda>d. group_counts o_kind limit
          (filter (\<lambda>r. o_cwd r = project) (observations d)))) (\<lambda>kinds.
      andThen (listProjectObservationPayloads E project 500) (\<lambda>payloads.
      ok \<lparr>pt_TopTools = tools, pt_TopKinds = kinds, pt_Files = count_files (uni E) payloads\<rparr>))))"

record ExportData =
  ex_Memories :: "Memory list"
  ex_Sessions :: "Session list"
  ex_Observations :: "Observation list"

definition Export :: "ext \<Rightarrow> string \<Rightarrow> int \<Rightarrow> ExportData op" where
  "Export E project limit0 =
     (let limit = normalizedStoreLimit limit0 100 1000 in
      andThen (scanMemories (\<lambda>d. sql_limit limit (sort_by mem_desc
          (filter (\<lambda>m. m_project m = project) (memories d))))) (\<lambda>ms.
      andThen (ListSessions project limit) (\<lambda>ss.
      andThen (scanObservations E (\<lambda>d. sql_limit limit (sort_by obs_desc
          (filter (\<lambda>r. o_cwd r = project) (observations d))))) (\<lambda>os.
      ok \<lparr>ex_Memories = ms, ex_Sessions = ss, ex_Observations = os\<rparr>))))"

definition audit_desc :: "audit_row \<Rightarrow> audit_row \<Rightarrow> bool" where
  "audit_desc = then_by (desc u_ts) (desc u_id)"

definition scan_audit :: "audit_row \<Rightarrow> AuditEvent" where
  "scan_audit r = \<lparr>ae_ID = u_id r, ae_TS = u_ts r, ae_Action = u_action r, ae_MemoryID = null_int (u_memory r),
     ae_SessionID = null_str (u_session r), ae_Project = null_str (u_project r), ae_Payload = u_payload r\<rparr>"

definition AuditEvents :: "int \<Rightarrow> int \<Rightarrow> AuditEvent list op" where
  "AuditEvents memoryID limit0 =
     (let limit = normalizedStoreLimit limit0 50 500 in
      query_rows ''audit events'' ''scan audit event'' ''iterate audit events''
        (\<lambda>d. sql_limit limit (sort_by audit_desc
           (filter (\<lambda>r. memoryID > 0 \<longrightarrow> u_memory r = Some memoryID) (audits d))))
        (\<lambda>r. ok (scan_audit r)))"

record VerifiedMemory =
  vm_Memory :: Memory
  vm_Observations :: "Observation list"
  vm_Audit :: "AuditEvent list"

definition VerifyMemory :: "ext \<Rightarrow> int \<Rightarrow> VerifiedMemory op" where
  "VerifyMemory E i =
     andThen (Memory_op i) (\<lambda>m.
     andThen (if mem_SessionID m \<noteq> [] then ListSessionObservations E (mem_SessionID m) 100 else ok []) (\<lambda>os.
     andThen (AuditEvents i 100) (\<lambda>audit.
     ok \<lparr>vm_Memory = m, vm_Observations = os, vm_Audit = audit\<rparr>)))"

section \<open>Lemmas\<close>

lemma count_readonly [op_intros]:
  "readonly (count_query l q)" "readonly (scanCounts g)" "readonly (scanMemories h)"
  unfolding count_query_def scanCounts_def scanMemories_def by (auto intro!: op_intros)

lemma profile_readonly [op_intros]: "readonly (ProjectProfile_op E p)"
  unfolding ProjectProfile_op_def by (intro op_intros)

lemma status_readonly [op_intros]: "readonly (status_query k)"
  unfolding status_query_def Let_def by (auto intro!: op_intros)

lemma reports_readonly [op_intros]:
  "readonly (ProjectProfiles E)" "readonly (Status ks)" "readonly (Timeline E mix f)"
  "readonly (FileHistory_op E fh)" "readonly (Patterns E p n)" "readonly (Export E p n)"
  "readonly (AuditEvents i n)" "readonly (VerifyMemory E i)"
  unfolding ProjectProfiles_def Status_def Timeline_def FileHistory_op_def Patterns_def Export_def
    AuditEvents_def VerifyMemory_def Let_def
  by (auto intro!: op_intros)

lemmas reports_keeps [keeps_intros] = reports_readonly [THEN keeps_readonly]

interpretation audit_sort: weak_order audit_desc
  unfolding audit_desc_def by (intro weak_order_intros)

interpretation tl_sort: weak_order tl_less
  unfolding tl_less_def by (intro weak_order_intros)

interpretation count_sort: weak_order count_order
  unfolding count_order_def by (intro weak_order_intros)

end
