(* ===== verification/Secrets.thy ===== *)
theory Secrets
  imports GoStrings
begin

text \<open>
  \<open>internal/secrets/filter.go\<close>: the three secret patterns and \<open>Redact\<close>. A pattern is a
  sequence of single characters of a class and greedy runs of a class with a least length. In each
  of the three patterns the character after a run is outside the run's class, so a greedy match
  never has to give a character back, and matching is the function below.
\<close>

section \<open>Patterns\<close>

datatype item = One "char \<Rightarrow> bool" | Run "char \<Rightarrow> bool" nat

text \<open>The length of the match at the start of the text, if there is one.\<close>

fun match_items :: "item list \<Rightarrow> string \<Rightarrow> nat option" where
  "match_items [] s = Some 0"
| "match_items (One P # is) s =
     (case s of [] \<Rightarrow> None | c # t \<Rightarrow> if P c then map_option Suc (match_items is t) else None)"
| "match_items (Run P k # is) s =
     (let r = length (takeWhile P s)
      in if r < k then None else map_option (\<lambda>n. r + n) (match_items is (drop r s)))"

definition upper_c :: "char \<Rightarrow> bool" where "upper_c c = (65 \<le> byte c \<and> byte c \<le> 90)"
definition lower_c :: "char \<Rightarrow> bool" where "lower_c c = (97 \<le> byte c \<and> byte c \<le> 122)"
definition alnum_upper :: "char \<Rightarrow> bool" where "alnum_upper c = (is_dec c \<or> upper_c c)"
definition alnum :: "char \<Rightarrow> bool" where "alnum c = (upper_c c \<or> lower_c c \<or> is_dec c)"
definition base64url :: "char \<Rightarrow> bool" where
  "base64url c = (alnum c \<or> c = CHR ''_'' \<or> c = CHR ''-'')"

definition lits :: "string \<Rightarrow> item list" where
  "lits s = map (\<lambda>a. One (\<lambda>c. c = a)) s"

definition akia_pattern :: "item list" where
  "akia_pattern = lits ''AKIA'' @ replicate 16 (One alnum_upper)"

definition gh_pattern :: "item list" where
  "gh_pattern = lits ''gh'' @ [One (\<lambda>c. c \<in> set ''pousr'')] @ lits ''_'' @ [Run alnum 36]"

definition jwt_pattern :: "item list" where
  "jwt_pattern = lits ''eyJ'' @ [Run base64url 9] @ lits ''.'' @ [Run base64url 10] @
     lits ''.'' @ [Run base64url 10]"

section \<open>Replacement\<close>

definition mask :: string where "mask = ''[REDACTED]''"

text \<open>\<open>Regexp.ReplaceAllString\<close>: leftmost matches, scanned on from the end of each.\<close>

function replaceAll :: "(string \<Rightarrow> nat option) \<Rightarrow> string \<Rightarrow> string" where
  "replaceAll m [] = []"
| "replaceAll m (c # s) =
     (case m (c # s) of None \<Rightarrow> c # replaceAll m s | Some n \<Rightarrow> mask @ replaceAll m (drop (n - 1) s))"
  by pat_completeness auto
termination
  by (relation "measure (\<lambda>(m, s). length s)") auto

definition Redact :: "string \<Rightarrow> string" where
  "Redact s = replaceAll (match_items jwt_pattern)
     (replaceAll (match_items gh_pattern) (replaceAll (match_items akia_pattern) s))"

text \<open>No match starts anywhere in the text.\<close>

definition clean :: "(string \<Rightarrow> nat option) \<Rightarrow> string \<Rightarrow> bool" where
  "clean m s = (\<forall>i \<le> length s. m (drop i s) = None)"

lemma clean_iff: "clean m s \<longleftrightarrow> (\<forall>u v. s = u @ v \<longrightarrow> m v = None)"
proof
  assume c: "clean m s"
  show "\<forall>u v. s = u @ v \<longrightarrow> m v = None"
  proof (intro allI impI)
    fix u v assume "s = u @ v"
    with c [unfolded clean_def, rule_format, of "length u"] show "m v = None" by simp
  qed
next
  assume r: "\<forall>u v. s = u @ v \<longrightarrow> m v = None"
  show "clean m s"
    unfolding clean_def using r by (metis append_take_drop_id)
qed

lemma clean_Cons: "clean m (c # s) \<longleftrightarrow> m (c # s) = None \<and> clean m s"
  by (auto simp: clean_iff Cons_eq_append_conv)

lemma clean_drop: "clean m s \<Longrightarrow> clean m (drop n s)"
  unfolding clean_iff by (metis append.assoc append_take_drop_id)

section \<open>What replacement needs of a pattern\<close>

locale secret_pattern =
  fixes m :: "string \<Rightarrow> nat option"
  assumes match_len: "m s = Some n \<Longrightarrow> 10 < n \<and> n \<le> length s"
    and match_brackets: "m s = Some n \<Longrightarrow> CHR ''['' \<notin> set (take n s) \<and> CHR '']'' \<notin> set (take n s)"
    and match_determined: "m s = Some n \<Longrightarrow> m (take n s) = Some n"
    and match_extends: "m s \<noteq> None \<Longrightarrow> m (s @ t) \<noteq> None"
begin

lemma match_prefix: "m s = Some n \<Longrightarrow> take n s = take n s' \<Longrightarrow> m s' \<noteq> None"
  using match_determined [of s n] match_extends [of "take n s'" "drop n s'"] by auto

lemma mask_clean:
  assumes "clean m t"
  shows "clean m (mask @ t)"
proof -
  have "m (drop j mask @ t) = None" if "j < 10" for j
  proof (rule ccontr)
    assume "m (drop j mask @ t) \<noteq> None"
    then obtain n where n: "m (drop j mask @ t) = Some n" by auto
    have "10 < n" using match_len [OF n] by simp
    then have "set (drop j mask) \<subseteq> set (take n (drop j mask @ t))"
      by (auto simp: mask_def)
    moreover have "CHR '']'' \<in> set (drop j mask)"
    proof -
      have "mask ! 9 \<in> set (drop j mask)"
        using that nth_mem [of "9 - j" "drop j mask"] by (simp add: mask_def)
      then show ?thesis by (simp add: mask_def)
    qed
    ultimately show False using match_brackets [OF n] by auto
  qed
  note inner = this
  have len: "length mask = 10" by (simp add: mask_def)
  show ?thesis unfolding clean_def
  proof (intro allI impI)
    fix i assume "i \<le> length (mask @ t)"
    show "m (drop i (mask @ t)) = None"
    proof (cases "i < 10")
      case True
      then have "drop i (mask @ t) = drop i mask @ t" by (simp add: len)
      then show ?thesis using inner [OF True] by simp
    next
      case False
      then have "drop i (mask @ t) = drop (i - 10) t" by (simp add: len)
      then show ?thesis using assms \<open>i \<le> length (mask @ t)\<close> by (auto simp: clean_def len)
    qed
  qed
qed

end

text \<open>
  A stretch of the output without an opening bracket is a stretch of the input: the text between
  two masks is copied.
\<close>

lemma replaceAll_prefix:
  "CHR ''['' \<notin> set (take n (replaceAll m s)) \<Longrightarrow> n \<le> length (replaceAll m s) \<Longrightarrow>
     take n (replaceAll m s) = take n s"
proof (induction m s arbitrary: n rule: replaceAll.induct)
  case (1 m)
  then show ?case by simp
next
  case (2 m c s)
  show ?case
  proof (cases "m (c # s)")
    case None
    then show ?thesis using 2 by (cases n) auto
  next
    case (Some k)
    then have "n = 0" using "2.prems" by (cases n) (auto simp: mask_def)
    then show ?thesis by simp
  qed
qed

text \<open>Replacing one pattern leaves the text clean of it, and of any pattern it was clean of.\<close>

lemma replaceAll_clean:
  assumes "secret_pattern m'" and "m' = m \<or> clean m' s"
  shows "clean m' (replaceAll m s)"
  using assms(2)
proof (induction m s rule: replaceAll.induct)
  case (1 m)
  have "m' [] = None"
    using secret_pattern.match_len [OF assms(1), of "[]"] by (cases "m' []") auto
  then show ?case by (simp add: clean_def)
next
  case (2 m c s)
  show ?case
  proof (cases "m (c # s)")
    case None
    have rest: "clean m' (replaceAll m s)"
      using 2(1) [OF None] "2.prems" by (auto simp: clean_Cons)
    have "m' (c # replaceAll m s) = None"
    proof (rule ccontr)
      assume "m' (c # replaceAll m s) \<noteq> None"
      then obtain n where n: "m' (replaceAll m (c # s)) = Some n" using None by auto
      have "take n (replaceAll m (c # s)) = take n (c # s)"
        using secret_pattern.match_brackets [OF assms(1) n] secret_pattern.match_len [OF assms(1) n]
        by (intro replaceAll_prefix) auto
      then have "m' (c # s) \<noteq> None" by (rule secret_pattern.match_prefix [OF assms(1) n])
      then show False using "2.prems" None by (auto simp: clean_Cons)
    qed
    then show ?thesis using rest None by (simp add: clean_Cons)
  next
    case (Some n)
    have "clean m' (replaceAll m (drop (n - 1) s))"
      using 2(2) [OF Some] "2.prems" by (auto simp: clean_Cons intro: clean_drop)
    then show ?thesis using Some secret_pattern.mask_clean [OF assms(1)] by simp
  qed
qed

lemma replaceAll_id: "clean m s \<Longrightarrow> replaceAll m s = s"
  by (induction m s rule: replaceAll.induct) (auto simp: clean_Cons)

section \<open>The three patterns meet it\<close>

text \<open>Runs are followed by a character outside their class, and no class has a bracket.\<close>

fun good_items :: "item list \<Rightarrow> bool" where
  "good_items [] = True"
| "good_items (One P # is) = (\<not> P CHR ''['' \<and> \<not> P CHR '']'' \<and> good_items is)"
| "good_items (Run P k # is) = (\<not> P CHR ''['' \<and> \<not> P CHR '']'' \<and> good_items is \<and>
     (case is of [] \<Rightarrow> True | One Q # _ \<Rightarrow> (\<forall>c. Q c \<longrightarrow> \<not> P c) | Run Q j # _ \<Rightarrow> False))"

fun min_len :: "item list \<Rightarrow> nat" where
  "min_len [] = 0"
| "min_len (One P # is) = Suc (min_len is)"
| "min_len (Run P k # is) = k + min_len is"

lemma match_items_len: "match_items is s = Some n \<Longrightarrow> min_len is \<le> n \<and> n \<le> length s"
proof (induction "is" s arbitrary: n rule: match_items.induct)
  case (3 P k "is" s)
  have "length (takeWhile P s) \<le> length s" by (rule length_takeWhile_le)
  then show ?case using 3 by (fastforce simp: Let_def split: if_splits)
qed (auto split: list.splits if_splits)

lemma match_items_brackets:
  "match_items is s = Some n \<Longrightarrow> good_items is \<Longrightarrow>
     CHR ''['' \<notin> set (take n s) \<and> CHR '']'' \<notin> set (take n s)"
proof (induction "is" s arbitrary: n rule: match_items.induct)
  case (3 P k "is" s)
  let ?r = "length (takeWhile P s)"
  obtain j where j: "n = ?r + j" "match_items is (drop ?r s) = Some j" "\<not> ?r < k"
    using "3.prems"(1) by (auto simp: Let_def split: if_splits)
  have "take n s = takeWhile P s @ take j (drop ?r s)"
    by (simp add: j(1) take_add takeWhile_eq_take [symmetric])
  moreover have "CHR ''['' \<notin> set (takeWhile P s)" "CHR '']'' \<notin> set (takeWhile P s)"
    using "3.prems"(2) by (auto dest: set_takeWhileD)
  ultimately show ?case using "3.IH" [OF refl j(3,2)] "3.prems"(2) by auto
qed (auto split: list.splits if_splits)

lemma takeWhile_stop: "takeWhile P s = a \<Longrightarrow> drop (length a) s = c # t \<Longrightarrow> takeWhile P (s @ u) = a"
  by (metis append_Cons append_take_drop_id hd_dropWhile list.distinct(1) list.sel(1)
      takeWhile_append takeWhile_eq_all_conv takeWhile_eq_take append_eq_conv_conj dropWhile_eq_drop
      takeWhile_dropWhile_id append_self_conv)

lemma match_items_extends:
  "match_items is s \<noteq> None \<Longrightarrow> good_items is \<Longrightarrow> match_items is (s @ t) \<noteq> None"
proof (induction "is" s rule: match_items.induct)
  case (3 P k "is" s)
  let ?r = "length (takeWhile P s)"
  have r: "\<not> ?r < k" and m: "match_items is (drop ?r s) \<noteq> None"
    using "3.prems"(1) by (auto simp: Let_def split: if_splits)
  have ih: "match_items is (drop ?r s @ t) \<noteq> None" using "3.IH" [OF refl r m] "3.prems"(2) by simp
  show ?case
  proof (cases "is")
    case Nil
    have "?r \<le> length (takeWhile P (s @ t))"
      by (cases "\<forall>x \<in> set s. P x") (auto simp: takeWhile_append intro: trans_le_add1 length_takeWhile_le)
    then show ?thesis using Nil r by (simp add: Let_def)
  next
    case (Cons i is')
    then obtain Q where Q: "i = One Q" "\<forall>c. Q c \<longrightarrow> \<not> P c"
      using "3.prems"(2) by (cases i) auto
    obtain c u where cu: "drop ?r s = c # u"
      using m Cons Q(1) by (cases "drop ?r s") auto
    have "takeWhile P (s @ t) = takeWhile P s" by (rule takeWhile_stop [OF refl cu])
    moreover have "?r \<le> length s" by (rule length_takeWhile_le)
    ultimately show ?thesis using ih r by (simp add: Let_def)
  qed
qed (auto split: list.splits if_splits)

lemma match_items_determined:
  "match_items is s = Some n \<Longrightarrow> good_items is \<Longrightarrow> match_items is (take n s) = Some n"
proof (induction "is" s arbitrary: n rule: match_items.induct)
  case (3 P k "is" s)
  let ?r = "length (takeWhile P s)"
  obtain j where j: "n = ?r + j" "match_items is (drop ?r s) = Some j" "\<not> ?r < k"
    using "3.prems"(1) by (auto simp: Let_def split: if_splits)
  have ih: "match_items is (take j (drop ?r s)) = Some j"
    using "3.IH" [OF refl j(3,2)] "3.prems"(2) by simp
  have tk: "take n s = takeWhile P s @ take j (drop ?r s)"
    by (simp add: j(1) take_add takeWhile_eq_take [symmetric])
  have "takeWhile P (take n s) = takeWhile P s"
  proof (cases "take j (drop ?r s)")
    case Nil
    have "takeWhile P (takeWhile P s) = takeWhile P s" by (auto simp: takeWhile_eq_all_conv dest: set_takeWhileD)
    then show ?thesis by (simp only: tk Nil append_Nil2)
  next
    case (Cons c u)
    then obtain v where "drop ?r s = c # v" by (cases "drop ?r s"; cases j) auto
    then have "dropWhile P s = c # v" by (simp add: dropWhile_eq_drop)
    then have "\<not> P c" by (metis hd_dropWhile list.distinct(1) list.sel(1))
    then show ?thesis using Cons by (simp add: tk takeWhile_append)
  qed
  moreover have "drop ?r (take n s) = take j (drop ?r s)" by (simp add: j(1) drop_take)
  ultimately show ?case using j ih by (simp add: Let_def)
qed (auto split: list.splits if_splits)

lemma secret_pattern_items:
  assumes "good_items is" and "10 < min_len is"
  shows "secret_pattern (match_items is)"
proof
  fix s t :: string and n
  show "match_items is s = Some n \<Longrightarrow> 10 < n \<and> n \<le> length s"
    using match_items_len assms(2) by fastforce
  show "match_items is s = Some n \<Longrightarrow>
      CHR ''['' \<notin> set (take n s) \<and> CHR '']'' \<notin> set (take n s)"
    using match_items_brackets assms(1) by blast
  show "match_items is s = Some n \<Longrightarrow> match_items is (take n s) = Some n"
    using match_items_determined assms(1) by blast
  show "match_items is s \<noteq> None \<Longrightarrow> match_items is (s @ t) \<noteq> None"
    using match_items_extends assms(1) by blast
qed

lemmas class_defs = upper_c_def lower_c_def alnum_upper_def alnum_def base64url_def is_dec_def

interpretation akia: secret_pattern "match_items akia_pattern"
  by (rule secret_pattern_items)
    (simp_all add: akia_pattern_def lits_def numeral_eq_Suc class_defs)

interpretation gh: secret_pattern "match_items gh_pattern"
  by (rule secret_pattern_items)
    (auto simp: gh_pattern_def lits_def class_defs)

interpretation jwt: secret_pattern "match_items jwt_pattern"
  by (rule secret_pattern_items)
    (auto simp: jwt_pattern_def lits_def class_defs)

text \<open>A text free of all three patterns.\<close>

definition no_secrets :: "string \<Rightarrow> bool" where
  "no_secrets s = (\<forall>p \<in> {akia_pattern, gh_pattern, jwt_pattern}. clean (match_items p) s)"

lemma no_secrets_Redact: "no_secrets (Redact s)"
proof -
  let ?a = "replaceAll (match_items akia_pattern) s"
  let ?g = "replaceAll (match_items gh_pattern) ?a"
  have a: "clean (match_items akia_pattern) ?a"
    by (rule replaceAll_clean) (simp_all add: akia.secret_pattern_axioms)
  have g: "clean (match_items akia_pattern) ?g" "clean (match_items gh_pattern) ?g"
    using a by (auto intro!: replaceAll_clean akia.secret_pattern_axioms gh.secret_pattern_axioms)
  then show ?thesis
    by (auto simp: no_secrets_def Redact_def intro!: replaceAll_clean akia.secret_pattern_axioms
        gh.secret_pattern_axioms jwt.secret_pattern_axioms)
qed

lemma Redact_id: "no_secrets s \<Longrightarrow> Redact s = s"
  by (simp add: no_secrets_def Redact_def replaceAll_id)

end
