(* ===== verification/Replay.thy ===== *)
theory Replay
  imports Secrets Json Observations
begin

text \<open>
  \<open>internal/replay/replay.go\<close>: the records a session is replayed from, with the payload redacted
  again on the way out.
\<close>

record Record =
  rc_ID :: string
  rc_ObservationID :: int
  rc_Timestamp :: int
  rc_Actor :: string
  rc_Type :: string
  rc_Tool :: string
  rc_PayloadPreview :: string
  rc_PayloadDetail :: json

definition actor :: "string \<Rightarrow> string \<Rightarrow> string" where
  "actor kind tool =
     (if kind = ''user_message'' then ''user''
      else if kind = ''assistant_message'' \<or> kind = ''summary'' then ''assistant''
      else if tool \<noteq> [] \<or> contains kind ''tool'' then ''tool''
      else ''system'')"

text \<open>White space is collapsed and at most \<open>maxRunes\<close> runes are kept.\<close>

definition preview :: "string \<Rightarrow> int \<Rightarrow> string" where
  "preview payload maxRunes =
     (let p = join '' '' (GoStrings.fields payload) in
      if int (length (runes p)) \<le> maxRunes then p
      else string_of_runes (take (nat maxRunes) (runes p)))"

text \<open>\<open>payload\<close> decoded, or as a string when it is not JSON.\<close>

definition any_or_string :: "string \<Rightarrow> json" where
  "any_or_string payload = (case unmarshal_any payload of Some v \<Rightarrow> v | None \<Rightarrow> JStr payload)"

definition record_of :: "Observation \<Rightarrow> Record" where
  "record_of x = (let payload = Redact (obs_PayloadJSON x) in
     \<lparr>rc_ID = ''observation:'' @ itoa (obs_ID x), rc_ObservationID = obs_ID x, rc_Timestamp = obs_TS x,
      rc_Actor = actor (obs_Kind x) (obs_Tool x), rc_Type = obs_Kind x, rc_Tool = obs_Tool x,
      rc_PayloadPreview = preview payload 240, rc_PayloadDetail = any_or_string payload\<rparr>)"

definition Records :: "Observation list \<Rightarrow> Record list" where
  "Records os = map record_of os"

text \<open>The JSON form of the struct.\<close>

definition record_json :: "Record \<Rightarrow> json" where
  "record_json r = JObj [(''id'', JStr (rc_ID r)), (''observation_id'', JInt (rc_ObservationID r)),
     (''timestamp'', JInt (rc_Timestamp r)), (''actor'', JStr (rc_Actor r)), (''type'', JStr (rc_Type r)),
     (''tool'', JStr (rc_Tool r)), (''payload_preview'', JStr (rc_PayloadPreview r)),
     (''payload_detail'', rc_PayloadDetail r)]"

end
