(* ===== verification/Integrations.thy ===== *)
theory Integrations
  imports Json Sha256 Secrets Db
begin

text \<open>
  \<open>internal/integrations\<close>: hook payloads of the two agents normalised to events, and
  \<open>internal/dedup/hash.go\<close>: the canonical hash that captures are deduplicated by.
\<close>

section \<open>Events\<close>

record Event =
  ev_Agent :: string
  ev_ExternalSessionID :: string
  ev_CWD :: string
  ev_Kind :: string
  ev_Tool :: string
  ev_PayloadJSON :: string

text \<open>\<open>json.Unmarshal(raw, &in)\<close> for a struct: its members, then its fields.\<close>

definition unmarshal_struct :: "string \<Rightarrow> (string \<times> json) list option" where
  "unmarshal_struct raw = (case parse_json raw of None \<Rightarrow> None | Some v \<Rightarrow> struct_members v)"

definition all_some :: "'a option list \<Rightarrow> 'a list option" where
  "all_some xs = (if None \<in> set xs then None else Some (map the xs))"

text \<open>Several string fields at once; any field of another type is an error.\<close>

definition str_fields :: "string list \<Rightarrow> string \<Rightarrow> string list option" where
  "str_fields names raw = (case unmarshal_struct raw of None \<Rightarrow> None
     | Some ms \<Rightarrow> all_some (map (\<lambda>n. str_field n ms) names))"

text \<open>A payload struct of raw messages, and one of a single string.\<close>

definition raw_payload :: "(string \<times> string option) list \<Rightarrow> string" where
  "raw_payload fs = ''{'' @ join '','' (map (\<lambda>(k, r). encode_str k @ '':'' @ marshal_raw r) fs) @ ''}''"

definition parse_err :: "string \<Rightarrow> err" where "parse_err l = Wrap (''parse '' @ l) Driver"

definition tool_event :: "string \<Rightarrow> string \<Rightarrow> string \<Rightarrow> string \<Rightarrow> (string \<times> string) list \<Rightarrow> string \<Rightarrow> err + Event" where
  "tool_event l agent kind toolKey payloadKeys raw = (case str_fields [''session_id'', ''cwd'', toolKey] raw of
     Some [sid, cwd, tool] \<Rightarrow> Inr \<lparr>ev_Agent = agent, ev_ExternalSessionID = sid, ev_CWD = cwd, ev_Kind = kind,
       ev_Tool = tool, ev_PayloadJSON = raw_payload (map (\<lambda>(out, inp). (out, raw_field inp raw)) payloadKeys)\<rparr>
   | _ \<Rightarrow> Inl (parse_err l))"

definition NormalizeClaudePreTool :: "string \<Rightarrow> err + Event" where
  "NormalizeClaudePreTool raw = tool_event ''claude pre tool event'' ''claude-code'' ''pre_tool_use'' ''tool_name''
     [(''tool_input'', ''tool_input'')] raw"

definition NormalizeClaudePostTool :: "string \<Rightarrow> err + Event" where
  "NormalizeClaudePostTool raw = tool_event ''claude tool event'' ''claude-code'' ''tool_use'' ''tool_name''
     [(''tool_input'', ''tool_input''), (''tool_response'', ''tool_response'')] raw"

definition NormalizeClaudePostToolFailure :: "string \<Rightarrow> err + Event" where
  "NormalizeClaudePostToolFailure raw = tool_event ''claude tool failure event'' ''claude-code'' ''tool_error'' ''tool_name''
     [(''tool_input'', ''tool_input''), (''tool_response'', ''tool_response'')] raw"

definition NormalizeOpenCodeTool :: "string \<Rightarrow> err + Event" where
  "NormalizeOpenCodeTool raw = tool_event ''opencode tool event'' ''opencode'' ''tool_use'' ''tool''
     [(''tool_input'', ''input''), (''tool_response'', ''output'')] raw"

definition message_event :: "string \<Rightarrow> string \<Rightarrow> string \<Rightarrow> string \<Rightarrow> err + Event" where
  "message_event l agent key raw = (case str_fields [''session_id'', ''cwd'', key] raw of
     Some [sid, cwd, msg] \<Rightarrow> Inr \<lparr>ev_Agent = agent, ev_ExternalSessionID = sid, ev_CWD = cwd, ev_Kind = ''user_message'',
       ev_Tool = [], ev_PayloadJSON = marshal (JObj [(key, JStr msg)])\<rparr>
   | _ \<Rightarrow> Inl (parse_err l))"

definition NormalizeClaudeUserPrompt :: "string \<Rightarrow> err + Event" where
  "NormalizeClaudeUserPrompt raw = message_event ''claude user prompt'' ''claude-code'' ''prompt'' raw"

definition NormalizeOpenCodeChat :: "string \<Rightarrow> err + Event" where
  "NormalizeOpenCodeChat raw = message_event ''opencode chat event'' ''opencode'' ''message'' raw"

text \<open>The whole object without the four session keys; a JSON \<open>null\<close> is a nil map.\<close>

definition payloadWithoutSession :: "string \<Rightarrow> string option" where
  "payloadWithoutSession raw = (case unmarshal_any raw of
     Some (JObj ms) \<Rightarrow> Some (marshal (JObj (filter (\<lambda>(k, _). k \<notin>
       {''session_id'', ''cwd'', ''transcript_path'', ''hook_event_name''}) ms)))
   | Some JNull \<Rightarrow> Some ''null'' | _ \<Rightarrow> None)"

definition normalizeClaudeLifecycle :: "string \<Rightarrow> string \<Rightarrow> err + Event" where
  "normalizeClaudeLifecycle raw kind = (case str_fields [''session_id'', ''cwd''] raw of
     Some [sid, cwd] \<Rightarrow> (case payloadWithoutSession raw of
         None \<Rightarrow> Inl (Wrap (''marshal claude '' @ kind @ '' payload'') Driver)
       | Some p \<Rightarrow> Inr \<lparr>ev_Agent = ''claude-code'', ev_ExternalSessionID = sid, ev_CWD = cwd, ev_Kind = kind,
           ev_Tool = [], ev_PayloadJSON = p\<rparr>)
   | _ \<Rightarrow> Inl (parse_err (''claude '' @ kind @ '' event'')))"

definition NormalizeClaudePreCompact :: "string \<Rightarrow> err + Event" where
  "NormalizeClaudePreCompact raw = normalizeClaudeLifecycle raw ''pre_compact''"
definition NormalizeClaudeSubagentStart :: "string \<Rightarrow> err + Event" where
  "NormalizeClaudeSubagentStart raw = normalizeClaudeLifecycle raw ''subagent_start''"
definition NormalizeClaudeNotification :: "string \<Rightarrow> err + Event" where
  "NormalizeClaudeNotification raw = normalizeClaudeLifecycle raw ''notification''"
definition NormalizeClaudeTaskCompleted :: "string \<Rightarrow> err + Event" where
  "NormalizeClaudeTaskCompleted raw = normalizeClaudeLifecycle raw ''task_completed''"

definition NormalizeOpenCodeEvent :: "string \<Rightarrow> err + Event" where
  "NormalizeOpenCodeEvent raw = (case str_fields [''session_id'', ''cwd'', ''kind'', ''tool''] raw of
     Some [sid, cwd, kind, tool] \<Rightarrow>
       (case (case raw_field ''payload'' raw of Some p \<Rightarrow> Some p | None \<Rightarrow> payloadWithoutSession raw) of
         None \<Rightarrow> Inl (Wrap ''marshal opencode event payload'' Driver)
       | Some p \<Rightarrow> Inr \<lparr>ev_Agent = ''opencode'', ev_ExternalSessionID = sid, ev_CWD = cwd,
           ev_Kind = (if kind = [] then ''opencode_event'' else kind), ev_Tool = tool, ev_PayloadJSON = p\<rparr>)
   | _ \<Rightarrow> Inl (parse_err ''opencode event''))"

section \<open>The canonical hash\<close>

definition HashCanonicalJSON :: "string \<Rightarrow> err + string" where
  "HashCanonicalJSON raw = (case unmarshal_any raw of
     None \<Rightarrow> Inl (Wrap ''parse json'' Driver) | Some v \<Rightarrow> Inr (sha256_hex (marshal v)))"

lemma put_key_map: "map_of (put_key k v ms) = (map_of ms)(k \<mapsto> v)"
  by (induction ms) (auto simp: fun_eq_iff)

lemma put_key_keys: "fst ` set (put_key k v ms) = insert k (fst ` set ms)"
proof (induction ms)
  case (Cons a ms)
  then show ?case by (cases a) (simp add: insert_commute)
qed simp

lemma put_key_sorted: "sorted_wrt (<) (map fst ms) \<Longrightarrow> sorted_wrt (<) (map fst (put_key k v ms))"
proof (induction ms)
  case (Cons a ms)
  obtain k1 v1 where a: "a = (k1, v1)" by fastforce
  have h: "\<forall>x \<in> fst ` set ms. k1 < x" "sorted_wrt (<) (map fst ms)" using Cons.prems a by simp_all
  consider "k = k1" | "k < k1" | "k1 < k" by force
  then show ?case
  proof cases
    case 2
    then show ?thesis using h a by auto
  next
    case 3
    then have "\<forall>x \<in> fst ` set (put_key k v ms). k1 < x" unfolding put_key_keys using h by auto
    then show ?thesis using 3 Cons.IH [OF h(2)] a by auto
  qed (use h a in auto)
qed simp

lemma to_any_members_spec:
  "to_any_members ms acc =
     (if \<exists>kv \<in> set ms. to_any (snd kv) = None then None
      else Some (foldl (\<lambda>a (k, v). put_key k (the (to_any v)) a) acc ms))"
proof (induction ms arbitrary: acc)
  case (Cons a ms)
  then show ?case by (cases a; cases "to_any (snd a)") auto
qed simp

lemma foldl_put_sorted:
  "sorted_wrt (<) (map fst acc) \<Longrightarrow> sorted_wrt (<) (map fst (foldl (\<lambda>a (k, v). put_key k (f v) a) acc ms))"
  by (induction ms arbitrary: acc) (auto simp: put_key_sorted)

lemma foldl_put_map:
  "map_of (foldl (\<lambda>a (k, v). put_key k (f v) a) acc ms) = map_of acc ++ map_of (rev (map (\<lambda>(k, v). (k, f v)) ms))"
  by (induction ms arbitrary: acc) (auto simp: put_key_map fun_eq_iff map_add_def split: option.splits)

lemma sorted_map_unique:
  fixes xs ys :: "(string \<times> 'a) list"
  assumes "sorted_wrt (<) (map fst xs)" "sorted_wrt (<) (map fst ys)" "map_of xs = map_of ys"
  shows "xs = ys"
proof -
  have d: "distinct (map fst xs)" "distinct (map fst ys)" using assms(1,2) strict_sorted_iff by blast+
  have "set (map fst xs) = set (map fst ys)"
    using arg_cong [OF assms(3), of dom] by (simp add: dom_map_of_conv_image_fst)
  then have k: "map fst xs = map fst ys"
    using assms(1,2) d strict_sorted_iff sorted_distinct_set_unique by blast
  have z: "map (\<lambda>k. (k, the (map_of zs k))) (map fst zs) = zs" if "distinct (map fst zs)" for zs :: "(string \<times> 'a) list"
    unfolding map_map by (rule map_idI) (use that in auto)
  show ?thesis using z [OF d(1)] z [OF d(2)] k assms(3) by metis
qed

lemma to_any_members_perm:
  assumes "mset ms = mset ms'" "distinct (map fst ms)"
  shows "to_any_members ms [] = to_any_members ms' []"
proof -
  let ?f = "\<lambda>(k, v). (k, the (to_any v))"
  have d': "distinct (map fst ms')" using assms by (metis mset_eq_imp_distinct_iff mset_map)
  have s: "set ms = set ms'" using assms(1) by (rule mset_eq_setD)
  have f': "fst \<circ> (\<lambda>(k, v). (k, the (to_any v))) = (fst :: string \<times> json \<Rightarrow> string)" by auto
  have dd: "distinct (map fst (rev (map ?f xs)))" if "distinct (map fst xs)" for xs :: "(string \<times> json) list"
    unfolding rev_map [symmetric] map_map f' using that f' by simp
  have "map_of (rev (map ?f ms)) = map_of (rev (map ?f ms'))"
    unfolding map_of_inject_set [OF dd [OF assms(2)] dd [OF d']] using s by simp
  then show ?thesis
    unfolding to_any_members_spec s
    by (auto intro!: sorted_map_unique foldl_put_sorted simp: foldl_put_map)
qed

section \<open>Properties\<close>

text \<open>
  C23. The deduplication hash does not depend on the order of the members of the payload object
  (nor on white space, which the parser drops): two texts that parse to the same members in any
  order have the same hash, or are both rejected.
\<close>

theorem HashCanonicalJSON_member_order:
  assumes "parse_json a = Some (JObj ms)" and "parse_json b = Some (JObj ms')"
    and "mset ms = mset ms'" and "distinct (map fst ms)"
  shows "HashCanonicalJSON a = HashCanonicalJSON b"
  using to_any_members_perm [OF assms(3,4)] assms(1,2)
  by (simp add: HashCanonicalJSON_def unmarshal_any_def)

definition ex_ab :: string where
  "ex_ab = ''{'' @ [quot] @ ''a'' @ [quot] @ '':null,'' @ [quot] @ ''b'' @ [quot] @ '':true}''"

definition ex_ba :: string where
  "ex_ba = ''{'' @ [quot] @ ''b'' @ [quot] @ '': true, '' @ [quot] @ ''a'' @ [quot] @ '':null}''"

theorem HashCanonicalJSON_member_order_witness: "HashCanonicalJSON ex_ab = HashCanonicalJSON ex_ba"
proof (rule HashCanonicalJSON_member_order)
  show "parse_json ex_ab = Some (JObj [(''a'', JNull), (''b'', JBool True)])"
    by (simp add: parse_json_def ex_ab_def json_eval)
  show "parse_json ex_ba = Some (JObj [(''b'', JBool True), (''a'', JNull)])"
    by (simp add: parse_json_def ex_ba_def json_eval)
qed (simp_all add: add_mset_commute)

end
