(* ===== verification/Mcp.thy ===== *)
theory Mcp
  imports Hybrid StoreQueries Replay Compaction Integrations "HOL-Library.Monad_Syntax"
begin

text \<open>
  \<open>internal/mcp/server.go\<close>: the JSON-RPC endpoint, its tools, resources and prompts. Every tool is
  an action of the world that yields a JSON value or an error; the endpoint renders either.
\<close>

section \<open>Options\<close>

record Options =
  mo_DefaultProject :: string
  mo_SearchConfig :: Config
  mo_Embedder :: bool
  mo_Info :: "(string \<times> int) option"

text \<open>What the Go runtime may choose: the orders in which it ranges over maps, and an unstable sort.\<close>

record runtime =
  rt_ranked :: "Ranked list \<Rightarrow> Ranked list"
  rt_items :: "TimelineItem list \<Rightarrow> TimelineItem list"
  rt_keys :: "string list \<Rightarrow> string list"

section \<open>JSON values\<close>

text \<open>A \<open>map[string]any\<close> literal: marshalling sorts the keys.\<close>

definition gomap :: "(string \<times> json) list \<Rightarrow> json" where
  "gomap kvs = JObj (foldr (\<lambda>(k, v). put_key k v) kvs [])"

definition JFloat :: "f64 \<Rightarrow> json" where "JFloat x = JNum (fmt_float x)"

text \<open>\<open>json.Marshal\<close> refuses infinities and NaN, which have no literal.\<close>

fun unsupported :: "json \<Rightarrow> bool"
  and unsupported_list :: "json list \<Rightarrow> bool"
  and unsupported_members :: "(string \<times> json) list \<Rightarrow> bool" where
  "unsupported (JNum s) = (s = [])"
| "unsupported (JArr vs) = unsupported_list vs"
| "unsupported (JObj ms) = unsupported_members ms"
| "unsupported _ = False"
| "unsupported_list [] = False"
| "unsupported_list (v # vs) = (unsupported v \<or> unsupported_list vs)"
| "unsupported_members [] = False"
| "unsupported_members ((k, v) # ms) = (unsupported v \<or> unsupported_members ms)"

definition json_Marshal :: "string \<Rightarrow> json \<Rightarrow> err + string" where
  "json_Marshal l v = (if unsupported v then Inl (Wrap l Driver) else Inr (marshal v))"

definition counts_json :: "(string \<times> int) list \<Rightarrow> json" where
  "counts_json m = JObj (map (\<lambda>(k, n). (k, JInt n)) m)"

section \<open>Data transfer objects\<close>

definition memoryDTO :: "Memory \<Rightarrow> json" where
  "memoryDTO m = gomap [(''id'', JInt (mem_ID m)), (''project'', JStr (mem_Project m)), (''text'', JStr (mem_Text m)),
     (''tier'', JStr (mem_Tier m)), (''source'', JStr (mem_Source m)), (''importance'', JFloat (mem_Importance m)),
     (''session_id'', JStr (mem_SessionID m)), (''created_at'', JInt (mem_CreatedAt m)),
     (''updated_at'', JInt (mem_UpdatedAt m)), (''accessed_at'', JInt (mem_AccessedAt m)),
     (''score'', JFloat (mem_Score m))]"

definition memoryDTOs :: "Memory list \<Rightarrow> json" where "memoryDTOs ms = JArr (map memoryDTO ms)"

definition sessionDTO :: "Session \<Rightarrow> json" where
  "sessionDTO s = gomap [(''id'', JStr (ses_ID s)), (''agent'', JStr (ses_Agent s)),
     (''external_id'', JStr (ses_ExternalID s)), (''project'', JStr (ses_Project s)),
     (''started_at'', JInt (ses_StartedAt s)), (''ended_at'', JInt (ses_EndedAt s)),
     (''summary'', JStr (ses_Summary s)), (''n_obs'', JInt (ses_NObs s))]"

definition sessionDTOs :: "Session list \<Rightarrow> json" where "sessionDTOs ss = JArr (map sessionDTO ss)"

definition observationDTO :: "Observation \<Rightarrow> json" where
  "observationDTO x = gomap [(''id'', JInt (obs_ID x)), (''session_id'', JStr (obs_SessionID x)),
     (''cwd'', JStr (obs_CWD x)), (''ts'', JInt (obs_TS x)), (''kind'', JStr (obs_Kind x)),
     (''tool'', JStr (obs_Tool x)), (''payload'', any_or_string (obs_PayloadJSON x))]"

definition observationDTOs :: "Observation list \<Rightarrow> json" where
  "observationDTOs xs = JArr (map observationDTO xs)"

definition timelineDTO :: "TimelineItem \<Rightarrow> json" where
  "timelineDTO x = gomap [(''type'', JStr (ti_Type x)), (''id'', JInt (ti_ID x)), (''project'', JStr (ti_Project x)),
     (''session_id'', JStr (ti_SessionID x)), (''ts'', JInt (ti_TS x)), (''kind'', JStr (ti_Kind x)),
     (''tool'', JStr (ti_Tool x)), (''text'', JStr (ti_Text x)),
     (''payload'', if ti_PayloadJSON x = [] then JNull else any_or_string (ti_PayloadJSON x))]"

definition timelineDTOs :: "TimelineItem list \<Rightarrow> json" where
  "timelineDTOs xs = JArr (map timelineDTO xs)"

definition auditDTO :: "AuditEvent \<Rightarrow> json" where
  "auditDTO e = gomap [(''id'', JInt (ae_ID e)), (''ts'', JInt (ae_TS e)), (''action'', JStr (ae_Action e)),
     (''memory_id'', JInt (ae_MemoryID e)), (''session_id'', JStr (ae_SessionID e)),
     (''project'', JStr (ae_Project e)), (''payload'', any_or_string (ae_Payload e))]"

definition auditDTOs :: "AuditEvent list \<Rightarrow> json" where "auditDTOs es = JArr (map auditDTO es)"

definition projectProfileDTO :: "ProjectProfile \<Rightarrow> json" where
  "projectProfileDTO p = gomap [(''project'', JStr (pp_Project p)), (''memory_count'', JInt (pp_MemoryCount p)),
     (''session_count'', JInt (pp_SessionCount p)), (''observation_count'', JInt (pp_ObservationCount p)),
     (''top_tiers'', counts_json (pp_TopTiers p)), (''top_tools'', counts_json (pp_TopTools p)),
     (''files_touched'', counts_json (pp_FilesTouched p))]"

section \<open>Arguments\<close>

definition project :: "Options \<Rightarrow> string \<Rightarrow> string" where
  "project opts value = (if value \<noteq> [] then value else mo_DefaultProject opts)"

definition normalizedLimit :: "int \<Rightarrow> int \<Rightarrow> int \<Rightarrow> int" where
  "normalizedLimit value dflt mx = (let v = (if value \<le> 0 then dflt else value) in if v > mx then mx else v)"

text \<open>\<open>strings.TrimSpace(s) == ""\<close>.\<close>

definition blank :: "string \<Rightarrow> bool" where "blank s = (trimSpace s = [])"

definition float_field :: "string \<Rightarrow> (string \<times> json) list \<Rightarrow> f64 option" where
  "float_field name ms = field_loop put_float name (Fin 0) ms"

definition ints_field :: "string \<Rightarrow> (string \<times> json) list \<Rightarrow> int list option" where
  "ints_field name ms = field_loop (put_list put_int 0) name [] ms"

definition str_ptr_field :: "string \<Rightarrow> (string \<times> json) list \<Rightarrow> string option option" where
  "str_ptr_field name ms = field_loop (put_ptr put_str []) name None ms"

definition float_ptr_field :: "string \<Rightarrow> (string \<times> json) list \<Rightarrow> f64 option option" where
  "float_ptr_field name ms = field_loop (put_ptr put_float (Fin 0)) name None ms"

text \<open>A decoded value that must also pass a check, or the tool's message.\<close>

definition decoded :: "string \<Rightarrow> 'a option \<Rightarrow> ('a \<Rightarrow> bool) \<Rightarrow> ('a \<Rightarrow> json act) \<Rightarrow> json act" where
  "decoded msg v valid k = (case v of None \<Rightarrow> fail (Msg msg) | Some x \<Rightarrow> if valid x then k x else fail (Msg msg))"

text \<open>The structs several tools share: a project and a limit, a session and a limit.\<close>

definition project_limit :: "string \<Rightarrow> (string \<times> int) option" where
  "project_limit raw = do { ms \<leftarrow> unmarshal_struct raw; p \<leftarrow> str_field ''project'' ms;
     l \<leftarrow> int_field ''limit'' ms; Some (p, l) }"

definition session_limit :: "string \<Rightarrow> (string \<times> int) option" where
  "session_limit raw = do { ms \<leftarrow> unmarshal_struct raw; s \<leftarrow> str_field ''session_id'' ms;
     l \<leftarrow> int_field ''limit'' ms; Some (s, l) }"

section \<open>Searching\<close>

definition searcher :: "Options \<Rightarrow> bool \<Rightarrow> Searcher" where
  "searcher opts refresh = \<lparr>se_Embedder = mo_Embedder opts, se_Info = mo_Info opts,
     se_Config = (mo_SearchConfig opts)\<lparr>cf_SkipTouch := \<not> refresh\<rparr>\<rparr>"

text \<open>The full-text search that is used without an embedder, or when hybrid search fails.\<close>

definition text_search :: "ext \<Rightarrow> string \<Rightarrow> string \<Rightarrow> int \<Rightarrow> bool \<Rightarrow> Memory list act" where
  "text_search E q proj limit refresh =
     andThen (on_store (SearchMemories E \<lparr>ms_Project = proj, ms_Query = q, ms_Limit = limit\<rparr>)) (\<lambda>ms.
     if refresh then andThen now_ms (\<lambda>t. andThen (on_store (TouchMemories (map mem_ID ms) t)) (\<lambda>_. ok ms))
     else ok ms)"

definition search :: "ext \<Rightarrow> runtime \<Rightarrow> Options \<Rightarrow> string \<Rightarrow> string \<Rightarrow> int \<Rightarrow> bool \<Rightarrow> Memory list act" where
  "search E rt opts q proj limit refresh =
     (if mo_Embedder opts then
        andThen (attempt (Hybrid E (rt_ranked rt) (searcher opts refresh)
            \<lparr>q_Text = q, q_Project = proj, q_Limit = limit\<rparr>)) (\<lambda>r. case r of
          Inr results \<Rightarrow> ok (map rs_Memory results)
        | Inl _ \<Rightarrow> text_search E q proj limit refresh)
      else text_search E q proj limit refresh)"

section \<open>Tools that read\<close>

definition memoryRecall :: "ext \<Rightarrow> runtime \<Rightarrow> Options \<Rightarrow> string \<Rightarrow> bool \<Rightarrow> json act" where
  "memoryRecall E rt opts raw refresh =
     decoded ''query is required''
       (do { ms \<leftarrow> unmarshal_struct raw; q \<leftarrow> str_field ''query'' ms; p \<leftarrow> str_field ''project'' ms;
             l \<leftarrow> int_field ''limit'' ms; Some (q, p, l) })
       (\<lambda>(q, p, l). \<not> blank q)
       (\<lambda>(q, p, l). andThen (search E rt opts q (project opts p) (normalizedLimit l 10 100) refresh) (\<lambda>results.
          ok (gomap [(''memories'', memoryDTOs results)])))"

definition memorySessions :: "Options \<Rightarrow> string \<Rightarrow> json act" where
  "memorySessions opts raw =
     decoded ''invalid sessions arguments'' (project_limit raw) (\<lambda>_. True) (\<lambda>(p, l).
       andThen (on_store (ListSessions (project opts p) (normalizedLimit l 10 100))) (\<lambda>ss.
       ok (gomap [(''sessions'', sessionDTOs ss)])))"

definition memorySessionObservations :: "ext \<Rightarrow> string \<Rightarrow> json act" where
  "memorySessionObservations E raw =
     decoded ''session_id is required'' (session_limit raw) (\<lambda>(s, l). s \<noteq> []) (\<lambda>(s, l).
       andThen (on_store (ListSessionObservations E s (normalizedLimit l 100 1000))) (\<lambda>os.
       ok (gomap [(''observations'', observationDTOs os)])))"

definition profilePayload :: "ext \<Rightarrow> Options \<Rightarrow> string \<Rightarrow> json act" where
  "profilePayload E opts p =
     (if p = [] then andThen (on_store (ProjectProfiles E)) (\<lambda>ps.
        ok (gomap [(''projects'', JArr (map projectProfileDTO ps))]))
      else andThen (on_store (ProjectProfile_op E (project opts p))) (\<lambda>pr. ok (projectProfileDTO pr)))"

definition memoryProfile :: "ext \<Rightarrow> Options \<Rightarrow> string \<Rightarrow> json act" where
  "memoryProfile E opts raw =
     decoded ''invalid profile arguments'' (do { ms \<leftarrow> unmarshal_struct raw; str_field ''project'' ms })
       (\<lambda>_. True) (\<lambda>p. profilePayload E opts p)"

definition memoryTimeline :: "ext \<Rightarrow> runtime \<Rightarrow> Options \<Rightarrow> string \<Rightarrow> json act" where
  "memoryTimeline E rt opts raw =
     decoded ''invalid timeline arguments''
       (do { ms \<leftarrow> unmarshal_struct raw; p \<leftarrow> str_field ''project'' ms; s \<leftarrow> str_field ''session_id'' ms;
             l \<leftarrow> int_field ''limit'' ms; Some (p, s, l) })
       (\<lambda>_. True)
       (\<lambda>(p, s, l). andThen (on_store (Timeline E (rt_items rt)
            \<lparr>tf_Project = project opts p, tf_SessionID = s, tf_Limit = l\<rparr>)) (\<lambda>items.
          ok (gomap [(''timeline'', timelineDTOs items)])))"

definition memoryFileHistory :: "ext \<Rightarrow> Options \<Rightarrow> string \<Rightarrow> json act" where
  "memoryFileHistory E opts raw =
     decoded ''files are required''
       (do { ms \<leftarrow> unmarshal_struct raw; p \<leftarrow> str_field ''project'' ms; fs \<leftarrow> strs_field ''files'' ms;
             l \<leftarrow> int_field ''limit'' ms; Some (p, fs, l) })
       (\<lambda>(p, fs, l). fs \<noteq> [])
       (\<lambda>(p, fs, l). andThen (on_store (FileHistory_op E
            \<lparr>fh_Project = project opts p, fh_Files = fs, fh_Limit = l\<rparr>)) (\<lambda>h.
          ok (gomap [(''memories'', memoryDTOs (fh_Memories h)), (''observations'', observationDTOs (fh_Observations h))])))"

definition memoryPatterns :: "ext \<Rightarrow> Options \<Rightarrow> string \<Rightarrow> json act" where
  "memoryPatterns E opts raw =
     decoded ''invalid patterns arguments'' (project_limit raw) (\<lambda>_. True) (\<lambda>(p, l).
       andThen (on_store (Patterns E (project opts p) l)) (\<lambda>r.
       ok (gomap [(''top_tools'', counts_json (pt_TopTools r)), (''top_kinds'', counts_json (pt_TopKinds r)),
                  (''files'', counts_json (pt_Files r))])))"

text \<open>One JSON object per line; the first value that cannot be marshalled is the error.\<close>

definition ndjson_line :: "string \<Rightarrow> json \<Rightarrow> err + string" where
  "ndjson_line kind v = (case json_Marshal (''marshal '' @ kind @ '' export'')
       (gomap [(''type'', JStr kind), (kind, v)]) of
     Inl e \<Rightarrow> Inl e | Inr t \<Rightarrow> Inr (t @ [char_n 10]))"

fun concat_lines :: "(err + string) list \<Rightarrow> err + string" where
  "concat_lines [] = Inr []"
| "concat_lines (Inl e # ls) = Inl e"
| "concat_lines (Inr t # ls) = (case concat_lines ls of Inl e \<Rightarrow> Inl e | Inr u \<Rightarrow> Inr (t @ u))"

definition exportNDJSON :: "ExportData \<Rightarrow> err + string" where
  "exportNDJSON x = concat_lines (map (ndjson_line ''memory'' \<circ> memoryDTO) (ex_Memories x) @
     map (ndjson_line ''session'' \<circ> sessionDTO) (ex_Sessions x) @
     map (ndjson_line ''observation'' \<circ> observationDTO) (ex_Observations x))"

definition memoryExport :: "ext \<Rightarrow> Options \<Rightarrow> string \<Rightarrow> json act" where
  "memoryExport E opts raw =
     decoded ''invalid export arguments''
       (do { ms \<leftarrow> unmarshal_struct raw; p \<leftarrow> str_field ''project'' ms; l \<leftarrow> int_field ''limit'' ms;
             f \<leftarrow> str_field ''format'' ms; Some (p, l, f) })
       (\<lambda>_. True)
       (\<lambda>(p, l, f). andThen (on_store (Export E (project opts p) l)) (\<lambda>x.
          let fmt = toLower (uni E) f in
          if fmt = [] \<or> fmt = ''json'' then
            ok (gomap [(''memories'', memoryDTOs (ex_Memories x)), (''sessions'', sessionDTOs (ex_Sessions x)),
                       (''observations'', observationDTOs (ex_Observations x))])
          else if fmt = ''ndjson'' then (case exportNDJSON x of Inl e \<Rightarrow> fail e
            | Inr t \<Rightarrow> ok (gomap [(''format'', JStr ''ndjson''), (''ndjson'', JStr t)]))
          else fail (Msg (''unsupported export format '' @ quote (uni E) f))))"

definition memoryAudit :: "string \<Rightarrow> json act" where
  "memoryAudit raw =
     decoded ''invalid audit arguments''
       (do { ms \<leftarrow> unmarshal_struct raw; i \<leftarrow> int_field ''memory_id'' ms; l \<leftarrow> int_field ''limit'' ms; Some (i, l) })
       (\<lambda>_. True)
       (\<lambda>(i, l). andThen (on_store (AuditEvents i l)) (\<lambda>es. ok (gomap [(''audit'', auditDTOs es)])))"

definition memoryVerify :: "ext \<Rightarrow> string \<Rightarrow> json act" where
  "memoryVerify E raw =
     decoded ''id is required'' (do { ms \<leftarrow> unmarshal_struct raw; int_field ''id'' ms }) (\<lambda>i. i > 0) (\<lambda>i.
       andThen (on_store (VerifyMemory E i)) (\<lambda>v.
       ok (gomap [(''memory'', memoryDTO (vm_Memory v)), (''observations'', observationDTOs (vm_Observations v)),
                  (''audit'', auditDTOs (vm_Audit v))])))"

definition memoryReplay :: "ext \<Rightarrow> string \<Rightarrow> json act" where
  "memoryReplay E raw =
     decoded ''session_id is required'' (session_limit raw) (\<lambda>(s, l). s \<noteq> []) (\<lambda>(s, l).
       andThen (on_store (ListSessionObservations E s (normalizedLimit l 100 1000))) (\<lambda>os.
       ok (gomap [(''events'', JArr (map record_json (Records os)))])))"

section \<open>Tools that write\<close>

definition ensureNormalizedSession :: "string \<Rightarrow> string \<Rightarrow> unit act" where
  "ensureNormalizedSession i proj = (case splitN2 i (CHR '':'') of
     [a, x] \<Rightarrow> if a = [] \<or> x = [] then fail (Msg ''session_id must be normalized as agent:external_id'')
       else andThen now_ms (\<lambda>t. \<lambda>w. case on_store (EnsureSession a x proj t) w of
          (Inl e, w1) \<Rightarrow> (Inl (Wrap ''ensure session'' e), w1) | (Inr _, w1) \<Rightarrow> (Inr (), w1))
   | _ \<Rightarrow> fail (Msg ''session_id must be normalized as agent:external_id''))"

text \<open>The message of \<open>saveMemoryEmbedding\<close>, empty when all went well.\<close>

definition saveMemoryEmbedding :: "ext \<Rightarrow> Options \<Rightarrow> int \<Rightarrow> string act" where
  "saveMemoryEmbedding E opts i =
     (if \<not> mo_Embedder opts then ok []
      else andThen brk_open (\<lambda>open.
      if open then ok ''embedding circuit breaker is open''
      else andThen (attempt call_embed) (\<lambda>r. case r of
        Inl e \<Rightarrow> andThen brk_failure (\<lambda>_. ok (err_text (driver_text E) e))
      | Inr vec \<Rightarrow> andThen brk_success (\<lambda>_.
        let cfg = mo_SearchConfig opts;
            model = (case mo_Info opts of Some (m, _) \<Rightarrow> if cf_Model cfg = [] then m else cf_Model cfg | None \<Rightarrow> cf_Model cfg);
            d = (case mo_Info opts of Some (_, n) \<Rightarrow> if cf_Dim cfg \<le> 0 then n else cf_Dim cfg | None \<Rightarrow> cf_Dim cfg)
        in if d > 0 \<and> int (length vec) \<noteq> d then
             ok (''embedding dimension = '' @ itoa (int (length vec)) @ '', want '' @ itoa d)
           else andThen (attempt (on_store (SaveMemoryEmbedding i model vec))) (\<lambda>sr.
             ok (case sr of Inl e \<Rightarrow> err_text (driver_text E) e | Inr _ \<Rightarrow> []))))))"

definition save_args :: "string \<Rightarrow> (string \<times> string \<times> string \<times> f64 \<times> string) option" where
  "save_args raw = do { ms \<leftarrow> unmarshal_struct raw; text \<leftarrow> str_field ''text'' ms; tier \<leftarrow> str_field ''tier'' ms;
     p \<leftarrow> str_field ''project'' ms; imp \<leftarrow> float_field ''importance'' ms; sid \<leftarrow> str_field ''session_id'' ms;
     Some (text, tier, p, imp, sid) }"

definition out_of_range :: "f64 \<Rightarrow> bool" where
  "out_of_range x = (f64_less x (Fin 0) \<or> f64_less (Fin 1) x)"

definition memorySave :: "ext \<Rightarrow> Options \<Rightarrow> string \<Rightarrow> json act" where
  "memorySave E opts raw =
     decoded ''text is required'' (save_args raw) (\<lambda>(text, tier, p, imp, sid). \<not> blank text)
       (\<lambda>(text, tier, p, imp0, sid).
        let proj = project opts p in
        if out_of_range imp0 then fail (Msg ''importance must be between 0 and 1'')
        else let imp = (if f64_eq imp0 (Fin 0) \<and> sid \<noteq> [] then Fin (1 / 2) else imp0) in
          andThen (if sid \<noteq> [] then ensureNormalizedSession sid proj else ok ()) (\<lambda>_.
          andThen now_ms (\<lambda>t.
          andThen (attempt (on_store (AddMemory \<lparr>mi_Project = proj, mi_Text = text,
              mi_Tier = default_str tier ''semantic'', mi_Source = ''mcp'', mi_Importance = imp,
              mi_SessionID = sid, mi_CreatedAt = t\<rparr>))) (\<lambda>r. case r of
            Inl e \<Rightarrow> fail (Wrap ''save memory'' e)
          | Inr i \<Rightarrow>
            andThen (if sid \<noteq> [] then andThen now_ms (\<lambda>t2. ignore (on_store (MarkCompactionCompleted sid t2))) else ok ()) (\<lambda>_.
            andThen (saveMemoryEmbedding E opts i) (\<lambda>m.
            ok (gomap (if m \<noteq> [] then [(''id'', JInt i), (''embedding_error'', JStr m)] else [(''id'', JInt i)]))))))))"

definition forget_args :: "string \<Rightarrow> (string \<times> string \<times> bool \<times> int list \<times> bool \<times> int) option" where
  "forget_args raw = do { ms \<leftarrow> unmarshal_struct raw; q \<leftarrow> str_field ''query'' ms; p \<leftarrow> str_field ''project'' ms;
     dry \<leftarrow> bool_field ''dry_run'' ms; ids \<leftarrow> ints_field ''ids'' ms; conf \<leftarrow> bool_field ''confirm'' ms;
     l \<leftarrow> int_field ''limit'' ms; Some (q, p, dry, ids, conf, l) }"

definition memoryForget :: "ext \<Rightarrow> runtime \<Rightarrow> Options \<Rightarrow> string \<Rightarrow> json act" where
  "memoryForget E rt opts raw =
     decoded ''invalid forget arguments'' (forget_args raw) (\<lambda>_. True) (\<lambda>(q, p, dry, ids, conf, l).
       if \<not> blank q then
         (if \<not> dry then fail (Msg ''query forget requires dry_run=true'')
          else andThen (search E rt opts q (project opts p) (normalizedLimit l 10 100) False) (\<lambda>ms.
            ok (gomap [(''candidates'', memoryDTOs ms), (''dry_run'', JBool True)])))
       else if ids = [] then fail (Msg ''ids are required for delete'')
       else if \<not> conf then fail (Msg ''confirm=true is required for delete'')
       else andThen (on_store (DeleteMemories ids)) (\<lambda>n. ok (gomap [(''deleted'', JInt n)])))"

definition memorySessionSummarySave :: "string \<Rightarrow> json act" where
  "memorySessionSummarySave raw =
     decoded ''session_id and summary are required''
       (do { ms \<leftarrow> unmarshal_struct raw; s \<leftarrow> str_field ''session_id'' ms; t \<leftarrow> str_field ''summary'' ms; Some (s, t) })
       (\<lambda>(s, t). s \<noteq> [] \<and> \<not> blank t)
       (\<lambda>(s, t). if length t > 800 then fail (Msg ''summary must be <= 800 characters'')
          else andThen now_ms (\<lambda>now.
            andThen (on_store (SaveSessionSummary s t now)) (\<lambda>_.
            andThen (on_store (MarkCompactionCompleted s now)) (\<lambda>_.
            ok (gomap [(''updated'', JBool True)])))))"

definition memorySupersede :: "string \<Rightarrow> json act" where
  "memorySupersede raw =
     decoded ''old_id and new_id are required''
       (do { ms \<leftarrow> unmarshal_struct raw; i \<leftarrow> int_field ''old_id'' ms; j \<leftarrow> int_field ''new_id'' ms; Some (i, j) })
       (\<lambda>(i, j). i > 0 \<and> j > 0)
       (\<lambda>(i, j). andThen (on_store (SupersedeMemory i j)) (\<lambda>_. ok (gomap [(''updated'', JBool True)])))"

definition update_args :: "string \<Rightarrow> (int \<times> string option \<times> string option \<times> f64 option) option" where
  "update_args raw = do { ms \<leftarrow> unmarshal_struct raw; i \<leftarrow> int_field ''id'' ms; text \<leftarrow> str_ptr_field ''text'' ms;
     tier \<leftarrow> str_ptr_field ''tier'' ms; imp \<leftarrow> float_ptr_field ''importance'' ms; Some (i, text, tier, imp) }"

definition memoryUpdate :: "string \<Rightarrow> json act" where
  "memoryUpdate raw =
     decoded ''id is required'' (update_args raw) (\<lambda>(i, _). i > 0) (\<lambda>(i, text, tier, imp).
       if (case text of Some t \<Rightarrow> blank t | None \<Rightarrow> False) then fail (Msg ''text cannot be empty'')
       else if (case imp of Some x \<Rightarrow> out_of_range x | None \<Rightarrow> False) then
         fail (Msg ''importance must be between 0 and 1'')
       else andThen now_ms (\<lambda>t. andThen (on_store (UpdateMemory
           \<lparr>mu_ID = i, mu_Text = text, mu_Tier = tier, mu_Importance = imp, mu_UpdatedAt = t\<rparr>)) (\<lambda>_.
         ok (gomap [(''updated'', JBool True)]))))"

end
