(* ===== verification/Bench.thy ===== *)
theory Bench
  imports Strconv Mcp Embeddings
begin

text \<open>
  The retrieval benchmarks (\<open>internal/bench\<close>): metrics of a ranking against its gold identifiers and
  their aggregation, the search adapter with its lexical fallback, the data sets, and the runs. The
  base-2 logarithm of the \<open>math\<close> package, whose rounding is not specified, is the parameter \<open>lg\<close>; the
  latency of a query is its measurement.
\<close>

section \<open>\<open>types.go\<close>\<close>

definition BenchProject :: string where "BenchProject = ''mcb-benchmark''"

record MemoryFixture =
  fx_ID :: string
  fx_Text :: string
  fx_Tier :: string

record QueryFixture =
  qf_ID :: string
  qf_Text :: string
  qf_Type :: string
  qf_GoldIDs :: "string list"

record Corpus =
  co_Name :: string
  co_Version :: string
  co_Notes :: string
  co_Memories :: "MemoryFixture list"
  co_Queries :: "QueryFixture list"

record SearchResult =
  sr_ID :: string
  sr_Text :: string
  sr_Score :: f64

record AggregateMetrics =
  am_PAt5 :: f64
  am_RAt5 :: f64
  am_RAt10 :: f64
  am_RAt20 :: f64
  am_HitAt5 :: f64
  am_MRR :: f64
  am_NDCGAt10 :: f64
  am_P50 :: int
  am_P95 :: int

record QueryResult =
  qr_QueryID :: string
  qr_Query :: string
  qr_Type :: string
  qr_GoldIDs :: "string list"
  qr_RankedIDs :: "string list"
  qr_LatencyMS :: int
  qr_Metrics :: AggregateMetrics

record Reference =
  rf_Name :: string
  rf_PAt5 :: f64
  rf_RAt5 :: f64
  rf_RAt10 :: f64
  rf_RAt20 :: f64
  rf_HitAt5Text :: string
  rf_MRR :: f64
  rf_NDCGAt10 :: f64
  rf_P50MS :: int
  rf_Notes :: string

record DatasetMetadata =
  dm_Name :: string
  dm_Source :: string
  dm_SHA256 :: string
  dm_Bytes :: int
  dm_Rows :: int
  dm_EvaluatedRows :: int

record RunResult =
  rr_BenchName :: string
  rr_Adapter :: string
  rr_Corpus :: Corpus
  rr_Dataset :: "DatasetMetadata option"
  rr_Metrics :: AggregateMetrics
  rr_ByType :: "(string \<times> AggregateMetrics) list"
  rr_Queries :: "QueryResult list"
  rr_Reference :: Reference

section \<open>\<open>metrics.go\<close>\<close>

text \<open>A \<open>map[string]bool\<close> of the identifiers that are not empty, as a list without repetitions.\<close>

definition gold_set :: "string list \<Rightarrow> string list" where
  "gold_set items = remdups (filter (\<lambda>x. x \<noteq> []) items)"

fun hits_loop :: "string list \<Rightarrow> string list \<Rightarrow> string list \<Rightarrow> int" where
  "hits_loop gold seen [] = 0"
| "hits_loop gold seen (x # xs) =
     (if x \<in> set gold \<and> x \<notin> set seen then 1 + hits_loop gold (x # seen) xs else hits_loop gold seen xs)"

definition hitsAt :: "string list \<Rightarrow> string list \<Rightarrow> int \<Rightarrow> int" where
  "hitsAt ranked gold k = hits_loop (gold_set gold) [] (take (nat k) ranked)"

definition ratio :: "int \<Rightarrow> int \<Rightarrow> f64" where
  "ratio a b = f64_div (f64_of_int a) (f64_of_int b)"

definition PrecisionAt :: "string list \<Rightarrow> string list \<Rightarrow> int \<Rightarrow> f64" where
  "PrecisionAt ranked gold k0 =
     (if k0 \<le> 0 \<or> ranked = [] \<or> gold = [] then Fin 0
      else let k = (if k0 > int (length ranked) then int (length ranked) else k0) in ratio (hitsAt ranked gold k) k)"

definition RecallAt :: "string list \<Rightarrow> string list \<Rightarrow> int \<Rightarrow> f64" where
  "RecallAt ranked gold k =
     (if k \<le> 0 \<or> ranked = [] \<or> gold = [] then Fin 0
      else ratio (hitsAt ranked gold k) (int (length (gold_set gold))))"

definition HitAt :: "string list \<Rightarrow> string list \<Rightarrow> int \<Rightarrow> f64" where
  "HitAt ranked gold k = (if hitsAt ranked gold k > 0 then Fin 1 else Fin 0)"

fun mrr_loop :: "string list \<Rightarrow> int \<Rightarrow> string list \<Rightarrow> f64" where
  "mrr_loop gold i [] = Fin 0"
| "mrr_loop gold i (x # xs) = (if x \<in> set gold then f64_div (Fin 1) (f64_of_int (i + 1)) else mrr_loop gold (i + 1) xs)"

definition MRR :: "string list \<Rightarrow> string list \<Rightarrow> f64" where
  "MRR ranked gold = (if gold_set gold = [] then Fin 0 else mrr_loop (gold_set gold) 0 ranked)"

definition gain :: "(f64 \<Rightarrow> f64) \<Rightarrow> int \<Rightarrow> f64" where
  "gain lg i = f64_div (Fin 1) (lg (f64_of_int (i + 2)))"

fun dcg_loop :: "(f64 \<Rightarrow> f64) \<Rightarrow> string list \<Rightarrow> int \<Rightarrow> f64 \<Rightarrow> string list \<Rightarrow> f64" where
  "dcg_loop lg gold i dcg [] = dcg"
| "dcg_loop lg gold i dcg (x # xs) =
     dcg_loop lg gold (i + 1) (if x \<in> set gold then f64_add dcg (gain lg i) else dcg) xs"

fun idcg_loop :: "(f64 \<Rightarrow> f64) \<Rightarrow> int \<Rightarrow> f64 \<Rightarrow> nat \<Rightarrow> f64" where
  "idcg_loop lg i idcg 0 = idcg"
| "idcg_loop lg i idcg (Suc n) = idcg_loop lg (i + 1) (f64_add idcg (gain lg i)) n"

definition NDCGAt :: "(f64 \<Rightarrow> f64) \<Rightarrow> string list \<Rightarrow> string list \<Rightarrow> int \<Rightarrow> f64" where
  "NDCGAt lg ranked gold k0 =
     (if k0 \<le> 0 \<or> ranked = [] \<or> gold = [] then Fin 0
      else let k = (if k0 > int (length ranked) then int (length ranked) else k0);
               dcg = dcg_loop lg (gold_set gold) 0 (Fin 0) (take (nat k) ranked);
               ideal = min (int (length (gold_set gold))) k;
               idcg = idcg_loop lg 0 (Fin 0) (nat ideal)
           in if f64_eq idcg (Fin 0) then Fin 0 else f64_div dcg idcg)"

text \<open>\<open>int(math.Ceil(p * float64(n))) - 1\<close>, clamped.\<close>

definition percentile_index :: "nat \<Rightarrow> f64 \<Rightarrow> int" where
  "percentile_index n p = (case f64_mul p (f64_of_int (int n)) of Fin q \<Rightarrow> \<lceil>q\<rceil> - 1 | _ \<Rightarrow> - 1)"

definition percentile :: "int list \<Rightarrow> f64 \<Rightarrow> int" where
  "percentile values p =
     (if values = [] then 0
      else let i0 = percentile_index (length values) p;
               i1 = (if i0 < 0 then 0 else i0);
               i = (if i1 \<ge> int (length values) then int (length values) - 1 else i1)
           in sort values ! nat i)"

definition zero_metrics :: AggregateMetrics where
  "zero_metrics = \<lparr>am_PAt5 = Fin 0, am_RAt5 = Fin 0, am_RAt10 = Fin 0, am_RAt20 = Fin 0, am_HitAt5 = Fin 0, am_MRR = Fin 0,
     am_NDCGAt10 = Fin 0, am_P50 = 0, am_P95 = 0\<rparr>"

definition mean :: "(AggregateMetrics \<Rightarrow> f64) \<Rightarrow> QueryResult list \<Rightarrow> f64" where
  "mean sel results = f64_div (foldl (\<lambda>a r. f64_add a (sel (qr_Metrics r))) (Fin 0) results) (f64_of_int (int (length results)))"

definition aggregate :: "QueryResult list \<Rightarrow> AggregateMetrics" where
  "aggregate results =
     (if results = [] then zero_metrics
      else \<lparr>am_PAt5 = mean am_PAt5 results, am_RAt5 = mean am_RAt5 results, am_RAt10 = mean am_RAt10 results,
        am_RAt20 = mean am_RAt20 results, am_HitAt5 = mean am_HitAt5 results, am_MRR = mean am_MRR results,
        am_NDCGAt10 = mean am_NDCGAt10 results,
        am_P50 = percentile (map qr_LatencyMS results) (Fin (1 / 2)),
        am_P95 = percentile (map qr_LatencyMS results) (f64_of_rat (95 / 100))\<rparr>)"

text \<open>The map as the list of its entries, by sorted keys; \<open>nil\<close> is the empty list.\<close>

definition aggregateByType :: "QueryResult list \<Rightarrow> (string \<times> AggregateMetrics) list" where
  "aggregateByType results =
     map (\<lambda>t. (t, aggregate (filter (\<lambda>r. qr_Type r = t) results)))
       (sort (remdups (filter (\<lambda>t. t \<noteq> []) (map qr_Type results))))"

section \<open>\<open>adapter.go\<close>\<close>

definition tokenSet :: "unicode \<Rightarrow> string \<Rightarrow> string list" where
  "tokenSet U s = remdups (filter (\<lambda>t. t \<noteq> []) (fieldsFunc (\<lambda>r. \<not> (is_letter U r \<or> is_digit U r)) (toLower U s)))"

definition lexical_score :: "unicode \<Rightarrow> string \<Rightarrow> Memory \<Rightarrow> int" where
  "lexical_score U q m = int (length (filter (\<lambda>t. t \<in> set (tokenSet U (mem_Text m))) (tokenSet U q)))"

definition lexical_less :: "Memory \<times> int \<Rightarrow> Memory \<times> int \<Rightarrow> bool" where
  "lexical_less x y = (if snd x = snd y then mem_ID (fst x) < mem_ID (fst y) else snd x > snd y)"

definition lexicalFallback :: "ext \<Rightarrow> string \<Rightarrow> string \<Rightarrow> int \<Rightarrow> Memory list op" where
  "lexicalFallback E proj q limit0 =
     (let limit = (if limit0 \<le> 0 then 10 else limit0) in
      andThen (RecentMemories proj 1000) (\<lambda>ms.
        ok (map (\<lambda>(m, s). m\<lparr>mem_Score := f64_of_int s\<rparr>) (take (nat limit) (sort_by lexical_less
          (filter (\<lambda>(m, s). s > 0) (map (\<lambda>m. (m, lexical_score (uni E) q m)) ms)))))))"

definition memoryFixtureID :: "Memory \<Rightarrow> string" where
  "memoryFixtureID m =
     (if hasPrefix (mem_Source m) ''bench:'' then trimPrefix (mem_Source m) ''bench:''
      else trimPrefix (trimSpace (mem_Text m)) ''bench:'')"

definition catch_unavailable :: "'a op \<Rightarrow> 'a op \<Rightarrow> 'a op" where
  "catch_unavailable m k s = (case m s of
     (Inl e, s1) \<Rightarrow> if err_is e FTS5Unavailable then k s1 else (Inl e, s1)
   | r \<Rightarrow> r)"

definition adapter_Search :: "ext \<Rightarrow> string \<Rightarrow> string \<Rightarrow> int \<Rightarrow> SearchResult list op" where
  "adapter_Search E proj q limit =
     andThen (catch_unavailable (SearchMemories E \<lparr>ms_Project = proj, ms_Query = q, ms_Limit = limit\<rparr>)
         (lexicalFallback E proj q limit)) (\<lambda>ms.
     andThen (if ms = [] then lexicalFallback E proj q limit else ok ms) (\<lambda>ms1.
       ok (map (\<lambda>m. \<lparr>sr_ID = memoryFixtureID m, sr_Text = mem_Text m, sr_Score = mem_Score m\<rparr>) ms1)))"

section \<open>\<open>corpus.go\<close>\<close>

definition CodingLifeCorpus :: Corpus where
  "CodingLifeCorpus =
     (let m = (\<lambda>i t k. \<lparr>fx_ID = i, fx_Text = t, fx_Tier = k\<rparr>);
          q = (\<lambda>i t k g. \<lparr>qf_ID = i, qf_Text = t, qf_Type = k, qf_GoldIDs = [g]\<rparr>) in
      \<lparr>co_Name = ''coding-life-cleanroom'', co_Version = ''v1'',
       co_Notes = ''Clean-room coding-agent retrieval corpus. It is not copied from agentmemory coding-agent-life-v1.'',
       co_Memories =
        [m ''auth-jwt'' ''JWT auth uses jose middleware in src/middleware/auth.ts and validates bearer tokens in auth.test.ts'' ''semantic'',
         m ''rate-limit'' ''Rate limiting is enforced per API key with a token bucket in src/middleware/rate_limit.ts'' ''semantic'',
         m ''db-n-plus-one'' ''N+1 query regression was fixed by preloading project memberships before rendering dashboard rows'' ''semantic'',
         m ''sqlite-fts'' ''Use SQLite FTS5 BM25 lexical search for local memory recall before optional vector fusion'' ''procedural'',
         m ''docker-ollama'' ''Docker compose Ollama overlay reaches embeddings at http://ollama:11434 with nomic-embed-text'' ''semantic'',
         m ''compactor'' ''mcb compactor must call memory_search for deduplication, save one summary, then save durable facts with session_id'' ''procedural''],
       co_Queries =
        [q ''q-auth'' ''where is bearer token auth validated'' ''file_fact'' ''auth-jwt'',
         q ''q-rate'' ''api key token bucket rate limiting'' ''decision'' ''rate-limit'',
         q ''q-db'' ''dashboard membership n plus one query'' ''bug'' ''db-n-plus-one'',
         q ''q-search'' ''local bm25 memory recall'' ''architecture'' ''sqlite-fts'',
         q ''q-ollama'' ''ollama docker embedding url'' ''deployment'' ''docker-ollama'',
         q ''q-compact'' ''compactor dedup session_id facts summary'' ''workflow'' ''compactor'']\<rparr>)"

record LMETurn =
  tu_Role :: string
  tu_Content :: string

record LongMemEvalEntry =
  en_QuestionID :: string
  en_QuestionType :: string
  en_Question :: string
  en_AnswerSessionIDs :: "string list"
  en_HaystackSessionIDs :: "string list"
  en_HaystackSessions :: "LMETurn list list"

text \<open>\<open>json.Unmarshal\<close> into the two structs, over the values they held.\<close>

definition put_turn :: "LMETurn \<Rightarrow> json \<Rightarrow> LMETurn option" where
  "put_turn a v = do {
     ms \<leftarrow> struct_members v;
     r \<leftarrow> field_loop put_str ''role'' (tu_Role a) ms; c \<leftarrow> field_loop put_str ''content'' (tu_Content a) ms;
     Some \<lparr>tu_Role = r, tu_Content = c\<rparr> }"

definition zero_turn :: LMETurn where "zero_turn = \<lparr>tu_Role = [], tu_Content = []\<rparr>"

definition put_entry :: "LongMemEvalEntry \<Rightarrow> json \<Rightarrow> LongMemEvalEntry option" where
  "put_entry a v = do {
     ms \<leftarrow> struct_members v;
     i \<leftarrow> field_loop put_str ''question_id'' (en_QuestionID a) ms;
     t \<leftarrow> field_loop put_str ''question_type'' (en_QuestionType a) ms;
     q \<leftarrow> field_loop put_str ''question'' (en_Question a) ms;
     ans \<leftarrow> field_loop (put_list put_str []) ''answer_session_ids'' (en_AnswerSessionIDs a) ms;
     hi \<leftarrow> field_loop (put_list put_str []) ''haystack_session_ids'' (en_HaystackSessionIDs a) ms;
     hs \<leftarrow> field_loop (put_list (put_list put_turn zero_turn) []) ''haystack_sessions'' (en_HaystackSessions a) ms;
     Some \<lparr>en_QuestionID = i, en_QuestionType = t, en_Question = q, en_AnswerSessionIDs = ans, en_HaystackSessionIDs = hi,
       en_HaystackSessions = hs\<rparr> }"

definition zero_entry :: LongMemEvalEntry where
  "zero_entry = \<lparr>en_QuestionID = [], en_QuestionType = [], en_Question = [], en_AnswerSessionIDs = [], en_HaystackSessionIDs = [],
     en_HaystackSessions = []\<rparr>"

fun entry_lines :: "string list \<Rightarrow> err + LongMemEvalEntry list" where
  "entry_lines [] = Inr []"
| "entry_lines (l # ls) =
     (if trimSpace l = [] then entry_lines ls
      else (case Option.bind (parse_json (trimSpace l)) (put_entry zero_entry) of None \<Rightarrow> Inl Driver
        | Some x \<Rightarrow> (case entry_lines ls of Inl e \<Rightarrow> Inl e | Inr xs \<Rightarrow> Inr (x # xs))))"

text \<open>An array, or one object a line.\<close>

definition parseLongMemEvalEntries :: "string \<Rightarrow> err + LongMemEvalEntry list" where
  "parseLongMemEvalEntries data = (case trimSpace data of [] \<Rightarrow> Inl (Msg ''empty dataset'')
     | c # cs \<Rightarrow>
       if c = CHR ''['' then
         (case Option.bind (parse_json (c # cs)) (put_list put_entry zero_entry []) of None \<Rightarrow> Inl Driver | Some xs \<Rightarrow> Inr xs)
       else (case scan_lines (16 * 1024 * 1024) (c # cs) of (ls, too_long) \<Rightarrow>
         (case entry_lines ls of Inl e \<Rightarrow> Inl e
          | Inr xs \<Rightarrow> if too_long then Inl (Msg ''bufio.Scanner: token too long'') else Inr xs)))"

definition isAbstentionType :: "string \<Rightarrow> bool" where
  "isAbstentionType v = hasSuffix v ''_abs''"

text \<open>The rows that can be answered, or the first row that is incomplete.\<close>

fun answerable :: "unicode \<Rightarrow> LongMemEvalEntry list \<Rightarrow> err + LongMemEvalEntry list" where
  "answerable U [] = Inr []"
| "answerable U (x # xs) =
     (if isAbstentionType (en_QuestionType x) then answerable U xs
      else if en_QuestionID x = [] \<or> en_Question x = [] \<or> en_AnswerSessionIDs x = [] then
        Inl (Msg (''longmemeval row '' @ quote U (en_QuestionID x) @ '' is missing question or gold sessions''))
      else if length (en_HaystackSessionIDs x) \<noteq> length (en_HaystackSessions x) then
        Inl (Msg (''longmemeval row '' @ en_QuestionID x @ '': haystack_session_ids and haystack_sessions length mismatch''))
      else (case answerable U xs of Inl e \<Rightarrow> Inl e | Inr ys \<Rightarrow> Inr (x # ys)))"

text \<open>\<open>data\<close> is what reading the file gives.\<close>

definition LoadLongMemEvalEntries :: "unicode \<Rightarrow> string \<Rightarrow> err + string \<Rightarrow> err + LongMemEvalEntry list" where
  "LoadLongMemEvalEntries U path data =
     (if path = [] then Inl (Msg ''longmemeval requires --dataset PATH'')
      else case data of Inl e \<Rightarrow> Inl (Wrap ''read longmemeval dataset'' e)
        | Inr d \<Rightarrow> (case parseLongMemEvalEntries d of Inl e \<Rightarrow> Inl (Wrap ''parse longmemeval dataset'' e)
          | Inr xs \<Rightarrow> (case answerable U xs of Inl e \<Rightarrow> Inl e
            | Inr [] \<Rightarrow> Inl (Msg ''longmemeval dataset has no answerable rows after filtering abstentions'')
            | Inr ys \<Rightarrow> Inr ys)))"

definition dec3 :: "int \<Rightarrow> f64" where "dec3 n = f64_of_rat (of_int n / 1000)"

definition no_reference :: Reference where
  "no_reference = \<lparr>rf_Name = [], rf_PAt5 = Fin 0, rf_RAt5 = Fin 0, rf_RAt10 = Fin 0, rf_RAt20 = Fin 0, rf_HitAt5Text = [],
     rf_MRR = Fin 0, rf_NDCGAt10 = Fin 0, rf_P50MS = 0, rf_Notes = []\<rparr>"

definition AgentMemoryReference :: "string \<Rightarrow> Reference" where
  "AgentMemoryReference name =
     (if name \<in> {''coding-life'', ''coding-life-cleanroom''} then no_reference\<lparr>
        rf_Name := ''agentmemory published reference'', rf_PAt5 := dec3 578, rf_RAt5 := dec3 967, rf_HitAt5Text := ''15/15'',
        rf_P50MS := 14,
        rf_Notes := ''Published upstream coding-agent-life-v1 result. This mcb run uses a clean-room corpus, not the same corpus.''\<rparr>
      else if name \<in> {''longmemeval'', ''longmemeval-s-user-supplied''} then no_reference\<lparr>
        rf_Name := ''agentmemory BM25-only published reference'', rf_RAt5 := dec3 862, rf_RAt10 := dec3 946, rf_RAt20 := dec3 986,
        rf_MRR := dec3 715, rf_NDCGAt10 := dec3 730,
        rf_Notes := ''Same-adapter published LongMemEval-S reference. BM25+Vector reference: R@5 0.952, R@10 0.986, R@20 0.994, MRR 0.882, NDCG@10 0.879.''\<rparr>
      else no_reference\<lparr>rf_Name := ''agentmemory published reference'',
        rf_Notes := ''No published reference configured for this benchmark.''\<rparr>)"

section \<open>\<open>runner.go\<close>\<close>

definition flattenLongMemEvalSession :: "LMETurn list \<Rightarrow> string" where
  "flattenLongMemEvalSession turns = join [CHR 0x0A] (map (\<lambda>t. tu_Role t @ '': '' @ tu_Content t) turns)"

definition bench_memory :: "string \<Rightarrow> string \<Rightarrow> string \<Rightarrow> int \<Rightarrow> MemoryInput" where
  "bench_memory content tier i t = \<lparr>mi_Project = BenchProject, mi_Text = content, mi_Tier = tier, mi_Source = ''bench:'' @ i,
     mi_Importance = Fin 0, mi_SessionID = [], mi_CreatedAt = t\<rparr>"

definition seedLongMemEvalEntry :: "LongMemEvalEntry \<Rightarrow> unit op" where
  "seedLongMemEvalEntry entry = andThen (each (\<lambda>(n, i, turns). \<lambda>s.
       case AddMemory (bench_memory (flattenLongMemEvalSession turns) ''episodic'' i (int n + 1)) s of
         (Inl e, s1) \<Rightarrow> (Inl (Wrap (''seed longmemeval session '' @ i) e), s1) | r \<Rightarrow> r)
     (zip [0..<length (en_HaystackSessionIDs entry)] (zip (en_HaystackSessionIDs entry) (en_HaystackSessions entry))))
     (\<lambda>_. ok ())"

definition seedCorpus :: "Corpus \<Rightarrow> int \<Rightarrow> unit op" where
  "seedCorpus corpus now = andThen (each (\<lambda>(n, m). \<lambda>s.
       case AddMemory (bench_memory (fx_Text m) (if fx_Tier m = [] then ''semantic'' else fx_Tier m) (fx_ID m) (i64 (now + int n))) s of
         (Inl e, s1) \<Rightarrow> (Inl (Wrap (''seed memory '' @ fx_ID m) e), s1) | r \<Rightarrow> r)
     (zip [0..<length (co_Memories corpus)] (co_Memories corpus))) (\<lambda>_. ok ())"

definition query_metrics :: "(f64 \<Rightarrow> f64) \<Rightarrow> string list \<Rightarrow> string list \<Rightarrow> int \<Rightarrow> AggregateMetrics" where
  "query_metrics lg ranked gold latency =
     \<lparr>am_PAt5 = PrecisionAt ranked gold 5, am_RAt5 = RecallAt ranked gold 5, am_RAt10 = RecallAt ranked gold 10,
      am_RAt20 = RecallAt ranked gold 20, am_HitAt5 = HitAt ranked gold 5, am_MRR = MRR ranked gold,
      am_NDCGAt10 = NDCGAt lg ranked gold 10, am_P50 = latency, am_P95 = latency\<rparr>"

definition lme_metrics :: "(f64 \<Rightarrow> f64) \<Rightarrow> string list \<Rightarrow> string list \<Rightarrow> int \<Rightarrow> AggregateMetrics" where
  "lme_metrics lg ranked gold latency =
     \<lparr>am_PAt5 = Fin 0, am_RAt5 = HitAt ranked gold 5, am_RAt10 = HitAt ranked gold 10,
      am_RAt20 = HitAt ranked gold 20, am_HitAt5 = HitAt ranked gold 5, am_MRR = MRR ranked gold,
      am_NDCGAt10 = NDCGAt lg ranked gold 10, am_P50 = latency, am_P95 = latency\<rparr>"

text \<open>The queries in turn, each with its measured latency.\<close>

fun run_queries_loop :: "ext \<Rightarrow> (f64 \<Rightarrow> f64) \<Rightarrow> (nat \<Rightarrow> int) \<Rightarrow> nat \<Rightarrow> QueryFixture list \<Rightarrow> QueryResult list op" where
  "run_queries_loop E lg latency n [] = ok []"
| "run_queries_loop E lg latency n (q # qs) = andThen (\<lambda>s. case adapter_Search E BenchProject (qf_Text q) 10 s of
       (Inl e, s1) \<Rightarrow> (Inl (Wrap (''query '' @ qf_ID q) e), s1) | r \<Rightarrow> r) (\<lambda>found.
     let ranked = map sr_ID found in
     andThen (run_queries_loop E lg latency (Suc n) qs) (\<lambda>rs.
       ok (\<lparr>qr_QueryID = qf_ID q, qr_Query = qf_Text q, qr_Type = qf_Type q, qr_GoldIDs = qf_GoldIDs q, qr_RankedIDs = ranked,
         qr_LatencyMS = latency n, qr_Metrics = query_metrics lg ranked (qf_GoldIDs q) (latency n)\<rparr> # rs)))"

definition runQueries :: "ext \<Rightarrow> (f64 \<Rightarrow> f64) \<Rightarrow> (nat \<Rightarrow> int) \<Rightarrow> Corpus \<Rightarrow> RunResult op" where
  "runQueries E lg latency corpus = andThen (run_queries_loop E lg latency 0 (co_Queries corpus)) (\<lambda>rs.
     let name = (if co_Name corpus \<noteq> ''coding-life-cleanroom'' then co_Name corpus else ''coding-life'') in
     ok \<lparr>rr_BenchName = name, rr_Adapter = ''mcb-bm25'', rr_Corpus = corpus, rr_Dataset = None, rr_Metrics = aggregate rs,
       rr_ByType = aggregateByType rs, rr_Queries = rs, rr_Reference = AgentMemoryReference name\<rparr>)"

text \<open>One entry: seeded into a fresh store, then its question asked.\<close>

definition lme_query :: "ext \<Rightarrow> (f64 \<Rightarrow> f64) \<Rightarrow> int \<Rightarrow> LongMemEvalEntry \<Rightarrow> QueryResult op" where
  "lme_query E lg latency entry =
     andThen (seedLongMemEvalEntry entry) (\<lambda>_.
     andThen (\<lambda>s. case adapter_Search E BenchProject (en_Question entry) 20 s of
       (Inl e, s1) \<Rightarrow> (Inl (Wrap (''query '' @ en_QuestionID entry) e), s1) | r \<Rightarrow> r) (\<lambda>found.
       ok (let ranked = map sr_ID found in
         \<lparr>qr_QueryID = en_QuestionID entry, qr_Query = en_Question entry, qr_Type = en_QuestionType entry,
          qr_GoldIDs = en_AnswerSessionIDs entry, qr_RankedIDs = ranked, qr_LatencyMS = latency,
          qr_Metrics = lme_metrics lg ranked (en_AnswerSessionIDs entry) latency\<rparr>)))"

end
