(* ===== verification/Report.thy ===== *)
theory Report
  imports Bench Sha256
begin

text \<open>
  The reports of the retrieval benchmarks (\<open>internal/bench/report.go\<close>) and the runs that write them
  (\<open>runner.go\<close>). The files of the output directory are pairs of a name and a content; when a run
  ends in an error the model does not say what the files hold.
\<close>

section \<open>Numbers and documents\<close>

text \<open>\<open>fmt\<close>'s \<open>%.nf\<close>: the exact value rounded to \<open>n\<close> decimals, ties to even.\<close>

definition fmt_fixed :: "nat \<Rightarrow> f64 \<Rightarrow> string" where
  "fmt_fixed n x = (case x of NaN \<Rightarrow> ''NaN'' | PInf \<Rightarrow> ''+Inf'' | NInf \<Rightarrow> ''-Inf''
     | Fin q \<Rightarrow>
       (let ds = digits10 (nat (rne (\<bar>q\<bar> * 10 ^ n))); ps = replicate (Suc n - length ds) (CHR ''0'') @ ds; k = length ps - n in
        (if q < 0 then ''-'' else []) @ take k ps @ (if n = 0 then [] else ''.'' @ drop k ps)))"

definition line_at :: "nat \<Rightarrow> string" where
  "line_at n = CHR 0x0A # replicate (2 * n) (CHR 0x20)"

text \<open>\<open>json.MarshalIndent\<close> with two blanks.\<close>

fun pretty :: "nat \<Rightarrow> json \<Rightarrow> string"
  and pretty_list :: "nat \<Rightarrow> json list \<Rightarrow> string"
  and pretty_members :: "nat \<Rightarrow> (string \<times> json) list \<Rightarrow> string" where
  "pretty n (JArr vs) = (if vs = [] then ''[]'' else ''['' @ pretty_list (Suc n) vs @ line_at n @ '']'')"
| "pretty n (JObj ms) = (if ms = [] then ''{}'' else ''{'' @ pretty_members (Suc n) ms @ line_at n @ ''}'')"
| "pretty n v = marshal v"
| "pretty_list n [] = []"
| "pretty_list n (v # vs) = line_at n @ pretty n v @ (if vs = [] then [] else '','') @ pretty_list n vs"
| "pretty_members n [] = []"
| "pretty_members n ((k, v) # ms) =
     line_at n @ encode_str k @ '': '' @ pretty n v @ (if ms = [] then [] else '','') @ pretty_members n ms"

definition MarshalIndent :: "string \<Rightarrow> json \<Rightarrow> err + string" where
  "MarshalIndent l v = (if unsupported v then Inl (Wrap l Driver) else Inr (pretty 0 v))"

definition metrics_json :: "AggregateMetrics \<Rightarrow> json" where
  "metrics_json m = JObj [(''p_at_5'', JFloat (am_PAt5 m)), (''r_at_5'', JFloat (am_RAt5 m)), (''r_at_10'', JFloat (am_RAt10 m)),
     (''r_at_20'', JFloat (am_RAt20 m)), (''hit_at_5'', JFloat (am_HitAt5 m)), (''mrr'', JFloat (am_MRR m)),
     (''ndcg_at_10'', JFloat (am_NDCGAt10 m)), (''p50_latency_ms'', JInt (am_P50 m)), (''p95_latency_ms'', JInt (am_P95 m))]"

definition query_json :: "QueryResult \<Rightarrow> json" where
  "query_json q = JObj [(''query_id'', JStr (qr_QueryID q)), (''query'', JStr (qr_Query q)), (''type'', JStr (qr_Type q)),
     (''gold_ids'', JArr (map JStr (qr_GoldIDs q))), (''ranked_ids'', JArr (map JStr (qr_RankedIDs q))),
     (''latency_ms'', JInt (qr_LatencyMS q)), (''metrics'', metrics_json (qr_Metrics q))]"

text \<open>Members with \<open>omitempty\<close>.\<close>

definition nonzero :: "string \<Rightarrow> f64 \<Rightarrow> (string \<times> json) list" where
  "nonzero k x = (if f64_eq x (Fin 0) then [] else [(k, JFloat x)])"

definition nonempty :: "string \<Rightarrow> string \<Rightarrow> (string \<times> json) list" where
  "nonempty k s = (if s = [] then [] else [(k, JStr s)])"

definition reference_json :: "Reference \<Rightarrow> json" where
  "reference_json r = JObj ([(''name'', JStr (rf_Name r))] @ nonzero ''p_at_5'' (rf_PAt5 r) @ nonzero ''r_at_5'' (rf_RAt5 r) @
     nonzero ''r_at_10'' (rf_RAt10 r) @ nonzero ''r_at_20'' (rf_RAt20 r) @ nonempty ''hit_at_5_text'' (rf_HitAt5Text r) @
     nonzero ''mrr'' (rf_MRR r) @ nonzero ''ndcg_at_10'' (rf_NDCGAt10 r) @
     (if rf_P50MS r = 0 then [] else [(''p50_ms'', JInt (rf_P50MS r))]) @ [(''notes'', JStr (rf_Notes r))])"

definition dataset_json :: "DatasetMetadata \<Rightarrow> json" where
  "dataset_json d = JObj ([(''name'', JStr (dm_Name d))] @ nonempty ''source'' (dm_Source d) @
     [(''sha256'', JStr (dm_SHA256 d)), (''bytes'', JInt (dm_Bytes d)), (''rows'', JInt (dm_Rows d)),
      (''evaluated_rows'', JInt (dm_EvaluatedRows d))])"

definition summary_json :: "RunResult \<Rightarrow> json" where
  "summary_json r = JObj ([(''bench_name'', JStr (rr_BenchName r)), (''adapter'', JStr (rr_Adapter r)),
     (''corpus'', JStr (co_Name (rr_Corpus r))), (''version'', JStr (co_Version (rr_Corpus r)))] @
     (case rr_Dataset r of None \<Rightarrow> [] | Some d \<Rightarrow> [(''dataset'', dataset_json d)]) @
     [(''metrics'', metrics_json (rr_Metrics r))] @
     (if rr_ByType r = [] then [] else [(''by_type'', JObj (map (\<lambda>(t, m). (t, metrics_json m)) (rr_ByType r)))]) @
     [(''reference'', reference_json (rr_Reference r))])"

section \<open>The scorecard\<close>

definition metricText :: "f64 \<Rightarrow> string" where
  "metricText value = (if f64_eq value (Fin 0) then ''n/a'' else fmt_fixed 3 value)"

definition latencyText :: "int \<Rightarrow> string" where
  "latencyText value = (if value = 0 then ''n/a'' else itoa value @ '' ms'')"

definition textOrNA :: "string \<Rightarrow> string" where
  "textOrNA value = (if value = [] then ''n/a'' else value)"

definition row :: "string list \<Rightarrow> string" where
  "row cells = ''| '' @ join '' | '' cells @ '' |''"

text \<open>The lines of the document, every one of which ends with a line feed.\<close>

definition scorecard_lines :: "RunResult \<Rightarrow> string list" where
  "scorecard_lines r = (let m = rr_Metrics r; f = rr_Reference r in
     [''# '' @ rr_BenchName r @ '' Benchmark Scorecard'', [], ''## mcb local run'', [],
      ''| Adapter | P@5 | R@5 | R@10 | R@20 | Hit@5 | MRR | NDCG@10 | p50 latency | p95 latency |'',
      ''|---|---:|---:|---:|---:|---:|---:|---:|---:|---:|'',
      row [rr_Adapter r, (if rr_BenchName r = ''longmemeval'' then ''n/a'' else fmt_fixed 3 (am_PAt5 m)), fmt_fixed 3 (am_RAt5 m),
        fmt_fixed 3 (am_RAt10 m), fmt_fixed 3 (am_RAt20 m), fmt_fixed 3 (am_HitAt5 m), fmt_fixed 3 (am_MRR m),
        fmt_fixed 3 (am_NDCGAt10 m), itoa (am_P50 m) @ '' ms'', itoa (am_P95 m) @ '' ms''], [],
      ''## '' @ rf_Name f, [],
      ''| P@5 | R@5 | R@10 | R@20 | Hit@5 | MRR | NDCG@10 | p50 latency | Notes |'',
      ''|---:|---:|---:|---:|---|---:|---:|---:|---|'',
      row [metricText (rf_PAt5 f), metricText (rf_RAt5 f), metricText (rf_RAt10 f), metricText (rf_RAt20 f),
        textOrNA (rf_HitAt5Text f), metricText (rf_MRR f), metricText (rf_NDCGAt10 f), latencyText (rf_P50MS f), rf_Notes f], []] @
     (if rr_ByType r = [] then [] else
       [''## By Question Type'', [], ''| Type | R@5 | R@10 | R@20 | MRR | NDCG@10 |'', ''|---|---:|---:|---:|---:|---:|''] @
       map (\<lambda>(t, b). row [t, fmt_fixed 3 (am_RAt5 b), fmt_fixed 3 (am_RAt10 b), fmt_fixed 3 (am_RAt20 b), fmt_fixed 3 (am_MRR b),
         fmt_fixed 3 (am_NDCGAt10 b)]) (rr_ByType r) @ [[]]) @
     [''## Methodology'', [],
      ''- mcb local run was executed against corpus `'' @ co_Name (rr_Corpus r) @ ''` version `'' @ co_Version (rr_Corpus r) @ ''`.''] @
     (case rr_Dataset r of None \<Rightarrow> [] | Some d \<Rightarrow>
       [''- Dataset `'' @ dm_Name d @ ''`: '' @ itoa (dm_Rows d) @ '' answerable rows, '' @ itoa (dm_EvaluatedRows d) @
        '' evaluated rows, '' @ itoa (dm_Bytes d) @ '' bytes, sha256 `'' @ dm_SHA256 d @ ''`.''] @
       (if dm_Source d = [] then [] else [''- Dataset source: '' @ dm_Source d @ ''.''])) @
     [''- agentmemory published reference is not a same-run baseline.''] @
     (if rr_BenchName r = ''coding-life'' then
        [''- not same corpus: this scorecard uses a clean-room corpus, not upstream coding-agent-life-v1.'']
      else if rr_BenchName r = ''longmemeval'' then
        [''- Methodology: fresh index per question from haystack sessions; abstention types excluded; R@K is recall_any@K.'']
      else []) @
     [''- No answer generation, no LLM judge, no server-side LLM calls.''])"

definition renderScorecard :: "RunResult \<Rightarrow> string" where
  "renderScorecard r = concat (map (\<lambda>l. l @ [CHR 0x0A]) (scorecard_lines r))"

section \<open>Writing\<close>

type_synonym files = "(string \<times> string) list"

text \<open>
  The machine of a benchmark: the base-2 logarithm, the measured latency of each query, the files it
  reads, and which steps of the file system fail.
\<close>

record bench_host =
  bh_ext :: ext
  bh_log2 :: "f64 \<Rightarrow> f64"
  bh_latency :: "nat \<Rightarrow> int"
  bh_read :: "string \<Rightarrow> err + string"
  bh_open :: "string \<Rightarrow> err option"
  bh_mkdir :: "string \<Rightarrow> err option"
  bh_worktmp :: "string \<Rightarrow> err option"
  bh_create :: "string \<Rightarrow> err option"
  bh_write :: "string \<Rightarrow> err option"
  bh_flush :: "string \<Rightarrow> err option"
  bh_sandbox :: "string \<Rightarrow> err option"
  bh_fresh :: "nat \<Rightarrow> err + store"
  bh_stamp :: string

text \<open>A buffered file of lines: opened with the label \<open>c\<close>, flushed with the label \<open>f\<close>.\<close>

definition write_lines :: "bench_host \<Rightarrow> string \<Rightarrow> string \<Rightarrow> string \<Rightarrow> (err + string) list \<Rightarrow> err + files" where
  "write_lines h name c f ls = (case bh_create h name of Some e \<Rightarrow> Inl (Wrap c e)
     | None \<Rightarrow> (case concat_lines ls of Inl e \<Rightarrow> Inl e
       | Inr content \<Rightarrow> (case bh_write h name of Some e \<Rightarrow> Inl e
         | None \<Rightarrow> (case bh_flush h name of Some e \<Rightarrow> Inl (Wrap f e) | None \<Rightarrow> Inr [(name, content)]))))"

definition write_file :: "bench_host \<Rightarrow> string \<Rightarrow> string \<Rightarrow> err + string \<Rightarrow> err + files" where
  "write_file h name l content = (case content of Inl e \<Rightarrow> Inl e
     | Inr c \<Rightarrow> (case bh_write h name of Some e \<Rightarrow> Inl (Wrap l e) | None \<Rightarrow> Inr [(name, c)]))"

definition and_files :: "err + files \<Rightarrow> err + files \<Rightarrow> err + files" where
  "and_files a b = (case a of Inl e \<Rightarrow> Inl e | Inr xs \<Rightarrow> (case b of Inl e \<Rightarrow> Inl e | Inr ys \<Rightarrow> Inr (xs @ ys)))"

definition in_dir :: "bench_host \<Rightarrow> string \<Rightarrow> string \<Rightarrow> err + 'a \<Rightarrow> err + 'a" where
  "in_dir h dir l r = (case bh_mkdir h dir of Some e \<Rightarrow> Inl (Wrap l e) | None \<Rightarrow> r)"

definition line_of :: "err + string \<Rightarrow> err + string" where
  "line_of r = (case r of Inl e \<Rightarrow> Inl e | Inr s \<Rightarrow> Inr (s @ [CHR 0x0A]))"

definition writeRaw :: "bench_host \<Rightarrow> QueryResult list \<Rightarrow> err + files" where
  "writeRaw h qs = write_lines h ''raw.ndjson'' ''create raw report'' ''flush raw report''
     (map (\<lambda>q. line_of (json_Marshal ''marshal raw query'' (query_json q))) qs)"

definition writeSummary :: "bench_host \<Rightarrow> RunResult \<Rightarrow> err + files" where
  "writeSummary h r = write_file h ''summary.json'' ''write summary'' (line_of (MarshalIndent ''marshal summary'' (summary_json r)))"

definition WriteReports :: "bench_host \<Rightarrow> string \<Rightarrow> RunResult \<Rightarrow> err + files" where
  "WriteReports h outDir r = in_dir h outDir ''create report dir''
     (and_files (writeRaw h (rr_Queries r)) (and_files (writeSummary h r)
       (write_file h ''scorecard.md'' ''write scorecard'' (Inr (renderScorecard r)))))"

section \<open>\<open>runner.go\<close>: the runs\<close>

record RunOptions =
  ro_OutDir :: string
  ro_Dataset :: string
  ro_Limit :: int

definition out_dir :: "bench_host \<Rightarrow> string \<Rightarrow> string" where
  "out_dir h dir = (if dir = [] then ''benchmark-results/'' @ bh_stamp h else dir)"

text \<open>The run works on the database \<open>sandbox.db\<close> of the output directory, as it finds it.\<close>

definition runCorpus :: "bench_host \<Rightarrow> Corpus \<Rightarrow> RunOptions \<Rightarrow> int \<Rightarrow> (RunResult \<times> files) op" where
  "runCorpus h corpus opts now = (let dir = out_dir h (ro_OutDir opts) in
     case bh_mkdir h dir of Some e \<Rightarrow> fail (Wrap ''create output dir'' e)
     | None \<Rightarrow> (case bh_sandbox h dir of Some e \<Rightarrow> fail (Wrap ''open sandbox db'' e)
       | None \<Rightarrow>
         andThen (seedCorpus corpus now) (\<lambda>_.
         andThen (runQueries (bh_ext h) (bh_log2 h) (bh_latency h) corpus) (\<lambda>r0.
         let r = r0\<lparr>rr_Reference := AgentMemoryReference (rr_BenchName r0)\<rparr> in
         case WriteReports h dir r of Inl e \<Rightarrow> fail e | Inr fs \<Rightarrow> ok (r, fs)))))"

definition RunCodingLife :: "bench_host \<Rightarrow> RunOptions \<Rightarrow> int \<Rightarrow> (RunResult \<times> files) op" where
  "RunCodingLife h opts now = runCorpus h CodingLifeCorpus opts now"

text \<open>The file is read again for its hash; it is taken to be the same.\<close>

definition loadDatasetMetadata :: "bench_host \<Rightarrow> string \<Rightarrow> int \<Rightarrow> err + DatasetMetadata" where
  "loadDatasetMetadata h path rows = (case bh_open h path of Some e \<Rightarrow> Inl (Wrap ''open dataset for metadata'' e)
     | None \<Rightarrow> (case bh_read h path of Inl e \<Rightarrow> Inl (Wrap ''hash dataset'' e)
       | Inr data \<Rightarrow> (let name = path_Base path in
         Inr \<lparr>dm_Name = name,
           dm_Source = (if name = ''longmemeval_s_cleaned.json'' then
             ''https://huggingface.co/datasets/xiaowu0162/longmemeval-cleaned/resolve/main/longmemeval_s_cleaned.json'' else []),
           dm_SHA256 = sha256_hex data, dm_Bytes = int (length data), dm_Rows = rows, dm_EvaluatedRows = rows\<rparr>)))"

text \<open>Every question has a database of its own in a new directory.\<close>

fun lme_loop :: "bench_host \<Rightarrow> nat \<Rightarrow> LongMemEvalEntry list \<Rightarrow> err + QueryResult list" where
  "lme_loop h i [] = Inr []"
| "lme_loop h i (x # xs) = (case bh_fresh h i of Inl e \<Rightarrow> Inl (Wrap ''open question sandbox'' e)
     | Inr s \<Rightarrow> (case fst (lme_query (bh_ext h) (bh_log2 h) (bh_latency h i) x s) of Inl e \<Rightarrow> Inl e
       | Inr q \<Rightarrow> (case lme_loop h (Suc i) xs of Inl e \<Rightarrow> Inl e | Inr qs \<Rightarrow> Inr (q # qs))))"

definition runLongMemEvalEntries :: "bench_host \<Rightarrow> LongMemEvalEntry list \<Rightarrow> RunOptions \<Rightarrow> DatasetMetadata \<Rightarrow> err + (RunResult \<times> files)" where
  "runLongMemEvalEntries h entries opts metadata = (let dir = out_dir h (ro_OutDir opts) in
     in_dir h dir ''create output dir'' (case bh_worktmp h dir of Some e \<Rightarrow> Inl (Wrap ''create longmemeval work dir'' e)
       | None \<Rightarrow> (case lme_loop h 0 entries of Inl e \<Rightarrow> Inl e
         | Inr qs \<Rightarrow>
           (let r = \<lparr>rr_BenchName = ''longmemeval'', rr_Adapter = ''mcb-bm25'',
               rr_Corpus = \<lparr>co_Name = ''longmemeval-s-user-supplied'', co_Version = ''native'',
                 co_Notes = ''Native LongMemEval-S JSON. Fresh index per question.'', co_Memories = [], co_Queries = []\<rparr>,
               rr_Dataset = Some metadata, rr_Metrics = aggregate qs, rr_ByType = aggregateByType qs, rr_Queries = qs,
               rr_Reference = AgentMemoryReference ''longmemeval''\<rparr> in
            case WriteReports h dir r of Inl e \<Rightarrow> Inl e | Inr fs \<Rightarrow> Inr (r, fs)))))"

definition RunLongMemEval :: "bench_host \<Rightarrow> RunOptions \<Rightarrow> err + (RunResult \<times> files)" where
  "RunLongMemEval h opts = (case LoadLongMemEvalEntries (uni (bh_ext h)) (ro_Dataset opts) (bh_read h (ro_Dataset opts)) of Inl e \<Rightarrow> Inl e
     | Inr entries \<Rightarrow> (case loadDatasetMetadata h (ro_Dataset opts) (int (length entries)) of Inl e \<Rightarrow> Inl e
       | Inr metadata \<Rightarrow>
         (let es = (if 0 < ro_Limit opts \<and> ro_Limit opts < int (length entries) then take (nat (ro_Limit opts)) entries else entries)
          in runLongMemEvalEntries h es opts (metadata\<lparr>dm_EvaluatedRows := int (length es)\<rparr>))))"

end
