(* ===== verification/Configuration.thy ===== *)
theory Configuration
  imports Strconv Db
begin

text \<open>
  \<open>internal/config/config.go\<close>: the configuration, its defaults, and \<open>Load\<close>: the file over the
  defaults, the environment over both. The environment, the file system and the TOML decoder are
  fields of \<open>environ\<close>; a variable that is not set reads as the empty text.
\<close>

record StorageConfig =
  DBPath :: string

record ServerConfig =
  HTTPBind :: string

record CaptureConfig =
  DedupWindowSeconds :: int

record MemoryConfig =
  SessionStartTopN :: int
  DecayTauDays :: int
  MinImportance :: f64
  DecayIntervalHours :: int

record EmbeddingConfig =
  Provider :: string
  OllamaURL :: string
  EmbModel :: string
  Dimensions :: int
  TimeoutMS :: int
  CircuitBreakerFailures :: int
  CircuitBreakerCooldownMS :: int

record SearchConfig =
  BM25TopK :: int
  VectorTopK :: int
  FinalTopK :: int
  RRFK :: int
  MaxPerSession :: int

record CompactionConfig =
  CompactionMode :: string
  MinObservations :: int
  MaxBlockAttempts :: int
  AttemptTTLSeconds :: int
  SubagentName :: string

record Config =
  Storage :: StorageConfig
  ServerC :: ServerConfig
  Capture :: CaptureConfig
  MemoryC :: MemoryConfig
  Embedding :: EmbeddingConfig
  Search :: SearchConfig
  CompactionC :: CompactionConfig

record environ =
  Getenv :: "string \<Rightarrow> string"
  ReadFile :: "string \<Rightarrow> err + string"
  toml :: "string \<Rightarrow> Config \<Rightarrow> err + Config"
  tables :: unicode

definition Default :: Config where
  "Default =
     \<lparr>Storage = \<lparr>DBPath = ''/var/lib/mcb/memory.db''\<rparr>,
      ServerC = \<lparr>HTTPBind = ''0.0.0.0:3411''\<rparr>,
      Capture = \<lparr>DedupWindowSeconds = 300\<rparr>,
      MemoryC = \<lparr>SessionStartTopN = 8, DecayTauDays = 30, MinImportance = f64_of_rat (5 / 100), DecayIntervalHours = 24\<rparr>,
      Embedding = \<lparr>Provider = ''none'', OllamaURL = [], EmbModel = ''nomic-embed-text'', Dimensions = 0, TimeoutMS = 30000,
        CircuitBreakerFailures = 3, CircuitBreakerCooldownMS = 120000\<rparr>,
      Search = \<lparr>BM25TopK = 50, VectorTopK = 50, FinalTopK = 10, RRFK = 60, MaxPerSession = 3\<rparr>,
      CompactionC = \<lparr>CompactionMode = ''subagent'', MinObservations = 5, MaxBlockAttempts = 2, AttemptTTLSeconds = 600,
        SubagentName = ''mcb-compactor''\<rparr>\<rparr>"

section \<open>One variable\<close>

definition invalid :: "environ \<Rightarrow> string \<Rightarrow> string \<Rightarrow> err" where
  "invalid E name v = Msg (''invalid '' @ name @ '' '' @ quote (tables E) v)"

definition applyIntEnv :: "environ \<Rightarrow> string \<Rightarrow> (int \<Rightarrow> Config \<Rightarrow> Config) \<Rightarrow> bool \<Rightarrow> Config \<Rightarrow> err + Config" where
  "applyIntEnv E name dst positive c =
     (let v = Getenv E name in
      if v = [] then Inr c
      else case parse_int v of None \<Rightarrow> Inl (invalid E name v)
        | Some n \<Rightarrow> if (positive \<and> n \<le> 0) \<or> (\<not> positive \<and> n < 0) then Inl (invalid E name v) else Inr (dst n c))"

definition applyInt64Env :: "environ \<Rightarrow> string \<Rightarrow> (int \<Rightarrow> Config \<Rightarrow> Config) \<Rightarrow> bool \<Rightarrow> Config \<Rightarrow> err + Config" where
  "applyInt64Env E name dst positive c =
     (let v = Getenv E name in
      if v = [] then Inr c
      else case parse_int v of None \<Rightarrow> Inl (invalid E name v)
        | Some n \<Rightarrow> if (positive \<and> n \<le> 0) \<or> (\<not> positive \<and> n < 0) then Inl (invalid E name v) else Inr (dst n c))"

definition applyFloatEnv :: "environ \<Rightarrow> string \<Rightarrow> (f64 \<Rightarrow> Config \<Rightarrow> Config) \<Rightarrow> bool \<Rightarrow> Config \<Rightarrow> err + Config" where
  "applyFloatEnv E name dst positive c =
     (let v = Getenv E name in
      if v = [] then Inr c
      else case ParseFloat v of None \<Rightarrow> Inl (invalid E name v)
        | Some x \<Rightarrow> if (positive \<and> f64_leq x (Fin 0)) \<or> (\<not> positive \<and> f64_less x (Fin 0)) then Inl (invalid E name v)
            else Inr (dst x c))"

definition applyText :: "environ \<Rightarrow> string \<Rightarrow> (string \<Rightarrow> Config \<Rightarrow> Config) \<Rightarrow> Config \<Rightarrow> err + Config" where
  "applyText E name dst c = (if Getenv E name = [] then Inr c else Inr (dst (Getenv E name) c))"

text \<open>The two variables that \<open>Load\<close> parses itself.\<close>

definition dedupWindow :: "environ \<Rightarrow> Config \<Rightarrow> err + Config" where
  "dedupWindow E c =
     (let v = Getenv E ''MCB_CAPTURE_DEDUP_WINDOW_SECONDS'' in
      if v = [] then Inr c
      else case parse_int v of
        Some n \<Rightarrow> if n \<le> 0 then Inl (invalid E ''MCB_CAPTURE_DEDUP_WINDOW_SECONDS'' v)
          else Inr (c\<lparr>Capture := (Capture c)\<lparr>DedupWindowSeconds := n\<rparr>\<rparr>)
      | None \<Rightarrow> Inl (invalid E ''MCB_CAPTURE_DEDUP_WINDOW_SECONDS'' v))"

definition startTopN :: "environ \<Rightarrow> Config \<Rightarrow> err + Config" where
  "startTopN E c =
     (let v = Getenv E ''MCB_MEMORY_SESSION_START_TOP_N'' in
      if v = [] then Inr c
      else case parse_int v of
        Some n \<Rightarrow> if n \<le> 0 then Inl (invalid E ''MCB_MEMORY_SESSION_START_TOP_N'' v)
          else Inr (c\<lparr>MemoryC := (MemoryC c)\<lparr>SessionStartTopN := n\<rparr>\<rparr>)
      | None \<Rightarrow> Inl (invalid E ''MCB_MEMORY_SESSION_START_TOP_N'' v))"

section \<open>Load\<close>

text \<open>The assignments of \<open>Load\<close>, in its order; the first error ends it.\<close>

fun apply_all :: "(Config \<Rightarrow> err + Config) list \<Rightarrow> Config \<Rightarrow> err + Config" where
  "apply_all [] c = Inr c"
| "apply_all (f # fs) c = (case f c of Inl e \<Rightarrow> Inl e | Inr c1 \<Rightarrow> apply_all fs c1)"

definition environment :: "environ \<Rightarrow> (Config \<Rightarrow> err + Config) list" where
  "environment E =
    [applyText E ''MCB_STORAGE_DB_PATH'' (\<lambda>v c. c\<lparr>Storage := (Storage c)\<lparr>DBPath := v\<rparr>\<rparr>),
     applyText E ''MCB_SERVER_HTTP_BIND'' (\<lambda>v c. c\<lparr>ServerC := (ServerC c)\<lparr>HTTPBind := v\<rparr>\<rparr>),
     dedupWindow E,
     startTopN E,
     applyIntEnv E ''MCB_MEMORY_DECAY_TAU_DAYS'' (\<lambda>v c. c\<lparr>MemoryC := (MemoryC c)\<lparr>DecayTauDays := v\<rparr>\<rparr>) True,
     applyFloatEnv E ''MCB_MEMORY_MIN_IMPORTANCE'' (\<lambda>v c. c\<lparr>MemoryC := (MemoryC c)\<lparr>MinImportance := v\<rparr>\<rparr>) False,
     applyIntEnv E ''MCB_MEMORY_DECAY_INTERVAL_HOURS'' (\<lambda>v c. c\<lparr>MemoryC := (MemoryC c)\<lparr>DecayIntervalHours := v\<rparr>\<rparr>) False,
     applyText E ''MCB_EMBEDDING_PROVIDER'' (\<lambda>v c. c\<lparr>Embedding := (Embedding c)\<lparr>Provider := v\<rparr>\<rparr>),
     applyText E ''MCB_EMBEDDING_OLLAMA_URL'' (\<lambda>v c. c\<lparr>Embedding := (Embedding c)\<lparr>OllamaURL := v\<rparr>\<rparr>),
     applyText E ''MCB_EMBEDDING_MODEL'' (\<lambda>v c. c\<lparr>Embedding := (Embedding c)\<lparr>EmbModel := v\<rparr>\<rparr>),
     applyIntEnv E ''MCB_EMBEDDING_DIMENSIONS'' (\<lambda>v c. c\<lparr>Embedding := (Embedding c)\<lparr>Dimensions := v\<rparr>\<rparr>) False,
     applyIntEnv E ''MCB_EMBEDDING_TIMEOUT_MS'' (\<lambda>v c. c\<lparr>Embedding := (Embedding c)\<lparr>TimeoutMS := v\<rparr>\<rparr>) True,
     applyIntEnv E ''MCB_EMBEDDING_CIRCUIT_BREAKER_FAILURES''
       (\<lambda>v c. c\<lparr>Embedding := (Embedding c)\<lparr>CircuitBreakerFailures := v\<rparr>\<rparr>) True,
     applyIntEnv E ''MCB_EMBEDDING_CIRCUIT_BREAKER_COOLDOWN_MS''
       (\<lambda>v c. c\<lparr>Embedding := (Embedding c)\<lparr>CircuitBreakerCooldownMS := v\<rparr>\<rparr>) True,
     applyIntEnv E ''MCB_SEARCH_BM25_TOP_K'' (\<lambda>v c. c\<lparr>Search := (Search c)\<lparr>BM25TopK := v\<rparr>\<rparr>) True,
     applyIntEnv E ''MCB_SEARCH_VECTOR_TOP_K'' (\<lambda>v c. c\<lparr>Search := (Search c)\<lparr>VectorTopK := v\<rparr>\<rparr>) True,
     applyIntEnv E ''MCB_SEARCH_FINAL_TOP_K'' (\<lambda>v c. c\<lparr>Search := (Search c)\<lparr>FinalTopK := v\<rparr>\<rparr>) True,
     applyIntEnv E ''MCB_SEARCH_RRF_K'' (\<lambda>v c. c\<lparr>Search := (Search c)\<lparr>RRFK := v\<rparr>\<rparr>) True,
     applyIntEnv E ''MCB_SEARCH_MAX_PER_SESSION'' (\<lambda>v c. c\<lparr>Search := (Search c)\<lparr>MaxPerSession := v\<rparr>\<rparr>) True,
     applyText E ''MCB_COMPACTION_MODE'' (\<lambda>v c. c\<lparr>CompactionC := (CompactionC c)\<lparr>CompactionMode := v\<rparr>\<rparr>),
     applyText E ''MCB_COMPACTION_SUBAGENT_NAME'' (\<lambda>v c. c\<lparr>CompactionC := (CompactionC c)\<lparr>SubagentName := v\<rparr>\<rparr>),
     applyIntEnv E ''MCB_COMPACTION_MIN_OBSERVATIONS'' (\<lambda>v c. c\<lparr>CompactionC := (CompactionC c)\<lparr>MinObservations := v\<rparr>\<rparr>) True,
     applyIntEnv E ''MCB_COMPACTION_MAX_BLOCK_ATTEMPTS'' (\<lambda>v c. c\<lparr>CompactionC := (CompactionC c)\<lparr>MaxBlockAttempts := v\<rparr>\<rparr>) True,
     applyInt64Env E ''MCB_COMPACTION_ATTEMPT_TTL_SECONDS'' (\<lambda>v c. c\<lparr>CompactionC := (CompactionC c)\<lparr>AttemptTTLSeconds := v\<rparr>\<rparr>) True]"

definition Load :: "environ \<Rightarrow> string \<Rightarrow> err + Config" where
  "Load E path =
     (if path = [] then apply_all (environment E) Default
      else case ReadFile E path of Inl e \<Rightarrow> Inl (Wrap ''read config'' e)
        | Inr data \<Rightarrow> (case toml E data Default of Inl e \<Rightarrow> Inl (Wrap ''parse config'' e)
          | Inr c \<Rightarrow> apply_all (environment E) c))"

section \<open>Lemmas\<close>

text \<open>The ranges the numbers are checked against; a threshold that is not a number passes its check.\<close>

definition valid_memory :: "MemoryConfig \<Rightarrow> bool" where
  "valid_memory c = (0 < SessionStartTopN c \<and> 0 < DecayTauDays c \<and> \<not> f64_less (MinImportance c) (Fin 0) \<and>
     0 \<le> DecayIntervalHours c)"

definition valid_embedding :: "EmbeddingConfig \<Rightarrow> bool" where
  "valid_embedding c = (0 \<le> Dimensions c \<and> 0 < TimeoutMS c \<and> 0 < CircuitBreakerFailures c \<and> 0 < CircuitBreakerCooldownMS c)"

definition valid_search :: "SearchConfig \<Rightarrow> bool" where
  "valid_search c = (0 < BM25TopK c \<and> 0 < VectorTopK c \<and> 0 < FinalTopK c \<and> 0 < RRFK c \<and> 0 < MaxPerSession c)"

definition valid_compaction :: "CompactionConfig \<Rightarrow> bool" where
  "valid_compaction c = (0 < MinObservations c \<and> 0 < MaxBlockAttempts c \<and> 0 < AttemptTTLSeconds c)"

definition valid_config :: "Config \<Rightarrow> bool" where
  "valid_config c = (0 < DedupWindowSeconds (Capture c) \<and> valid_memory (MemoryC c) \<and> valid_embedding (Embedding c) \<and>
     valid_search (Search c) \<and> valid_compaction (CompactionC c))"

lemma apply_all_invariant:
  "list_all (\<lambda>f. \<forall>c c1. f c = Inr c1 \<longrightarrow> P c \<longrightarrow> P c1) fs \<Longrightarrow> apply_all fs c = Inr c1 \<Longrightarrow> P c \<Longrightarrow> P c1"
  by (induction fs arbitrary: c) (auto split: sum.splits)

lemma apply_all_append: "apply_all (fs @ gs) c = (case apply_all fs c of Inl e \<Rightarrow> Inl e | Inr c1 \<Rightarrow> apply_all gs c1)"
  by (induction fs arbitrary: c) (auto split: sum.splits)

lemma Default_valid: "valid_config Default"
proof -
  have "\<not> f64_less (f64_of_rat (5 / 100)) (Fin 0)" using rnd_nonneg [of "5 / 100"] by (simp add: f64_of_rat_small)
  then show ?thesis
    by (simp add: valid_config_def valid_memory_def valid_embedding_def valid_search_def valid_compaction_def Default_def)
qed

text \<open>A step that keeps the configuration valid: what it stores was checked.\<close>

definition step_ok :: "(Config \<Rightarrow> err + Config) \<Rightarrow> bool" where
  "step_ok f = (\<forall>c c1. f c = Inr c1 \<longrightarrow> valid_config c \<longrightarrow> valid_config c1)"

lemma step_ok_intros:
  "(\<And>c n. valid_config c \<Longrightarrow> 0 \<le> n \<Longrightarrow> (pos \<Longrightarrow> 0 < n) \<Longrightarrow> valid_config (dst n c)) \<Longrightarrow> step_ok (applyIntEnv E name dst pos)"
  "(\<And>c n. valid_config c \<Longrightarrow> 0 \<le> n \<Longrightarrow> (pos \<Longrightarrow> 0 < n) \<Longrightarrow> valid_config (dst n c)) \<Longrightarrow> step_ok (applyInt64Env E name dst pos)"
  "(\<And>c x. valid_config c \<Longrightarrow> \<not> f64_less x (Fin 0) \<Longrightarrow> valid_config (fdst x c)) \<Longrightarrow> step_ok (applyFloatEnv E name fdst False)"
  "(\<And>c v. valid_config c \<Longrightarrow> valid_config (tdst v c)) \<Longrightarrow> step_ok (applyText E name tdst)"
  "step_ok (dedupWindow E)" "step_ok (startTopN E)"
  by (auto simp: step_ok_def applyIntEnv_def applyInt64Env_def applyFloatEnv_def applyText_def Let_def
      dedupWindow_def startTopN_def valid_config_def valid_memory_def split: if_splits option.splits)

lemma environment_valid: "list_all step_ok (environment E)"
  unfolding environment_def list.pred_inject
  by (intro conjI TrueI step_ok_intros)
    (simp_all add: valid_config_def valid_memory_def valid_embedding_def valid_search_def valid_compaction_def)

lemma environment_unset: "(\<And>name. Getenv E name = []) \<Longrightarrow> apply_all (environment E) c = Inr c"
  by (simp add: environment_def applyIntEnv_def applyInt64Env_def applyFloatEnv_def applyText_def dedupWindow_def
      startTopN_def Let_def)

text \<open>An error names a variable that is set, and its value.\<close>

definition step_err :: "environ \<Rightarrow> (Config \<Rightarrow> err + Config) \<Rightarrow> bool" where
  "step_err E f = (\<forall>c e. f c = Inl e \<longrightarrow> (\<exists>name. Getenv E name \<noteq> [] \<and> e = invalid E name (Getenv E name)))"

lemma environment_err: "list_all (step_err E) (environment E)"
proof -
  have "step_err E (applyIntEnv E name dst pos)" "step_err E (applyInt64Env E name dst pos)"
    "step_err E (applyFloatEnv E name fdst pos)" "step_err E (applyText E name tdst)"
    "step_err E (dedupWindow E)" "step_err E (startTopN E)" for name dst fdst tdst pos
    by (auto simp: step_err_def applyIntEnv_def applyInt64Env_def applyFloatEnv_def applyText_def Let_def
        dedupWindow_def startTopN_def split: if_splits option.splits)
  then show ?thesis by (simp add: environment_def)
qed

lemma apply_all_err:
  "list_all (step_err E) fs \<Longrightarrow> apply_all fs c = Inl e \<Longrightarrow> \<exists>name. Getenv E name \<noteq> [] \<and> e = invalid E name (Getenv E name)"
  by (induction fs arbitrary: c) (auto simp: step_err_def split: sum.splits)


definition ex_environ :: environ where
  "ex_environ = \<lparr>Getenv = (\<lambda>_. []), ReadFile = (\<lambda>_. Inl Driver), toml = (\<lambda>_ c. Inr c),
     tables = \<lparr>uni_letter = (\<lambda>_. False), uni_digit = (\<lambda>_. False), uni_lower = id, uni_print = (\<lambda>_. False)\<rparr>\<rparr>"


end
