(* ===== verification/CommandLine.thy ===== *)
theory CommandLine
  imports Configuration
begin

text \<open>
  The command lines of \<open>internal/admin\<close> and \<open>cmd/mcb\<close>: every parser is a loop over the arguments
  with a switch, whose cases are the flags below in the order of the code; a flag takes the next
  argument or the rest of its own behind the equals sign.
\<close>

section \<open>The loop\<close>

text \<open>A flag with a value and what it does with it, or a switch.\<close>

datatype 'o flag = Value string "string \<Rightarrow> 'o \<Rightarrow> err + 'o" | Switch string "'o \<Rightarrow> 'o"

fun exact :: "'o flag list \<Rightarrow> string \<Rightarrow> 'o flag option" where
  "exact [] arg = None"
| "exact (Value n f # fs) arg = (if arg = n then Some (Value n f) else exact fs arg)"
| "exact (Switch n g # fs) arg = (if arg = n then Some (Switch n g) else exact fs arg)"

text \<open>\<open>--name=value\<close>: the setter applied to the value.\<close>

fun with_equals :: "'o flag list \<Rightarrow> string \<Rightarrow> ('o \<Rightarrow> err + 'o) option" where
  "with_equals [] arg = None"
| "with_equals (Value n f # fs) arg =
     (if hasPrefix arg (n @ ''='') then Some (f (trimPrefix arg (n @ ''=''))) else with_equals fs arg)"
| "with_equals (Switch n g # fs) arg = with_equals fs arg"

text \<open>\<open>other\<close> is the default case and the case of unknown flags: an error, or the argument is kept.\<close>

fun parse_loop :: "'o flag list \<Rightarrow> (string \<Rightarrow> err option) \<Rightarrow> string list \<Rightarrow> 'o \<Rightarrow> err + ('o \<times> string list)" where
  "parse_loop flags other [] opts = Inr (opts, [])"
| "parse_loop flags other (arg # args) opts = (case exact flags arg of
     Some (Switch n g) \<Rightarrow> parse_loop flags other args (g opts)
   | Some (Value n f) \<Rightarrow> (case args of [] \<Rightarrow> Inl (Msg (''missing value for '' @ arg))
       | v # args1 \<Rightarrow> (case f v opts of Inl e \<Rightarrow> Inl e | Inr opts1 \<Rightarrow> parse_loop flags other args1 opts1))
   | None \<Rightarrow> (case with_equals flags arg of
       Some s \<Rightarrow> (case s opts of Inl e \<Rightarrow> Inl e | Inr opts1 \<Rightarrow> parse_loop flags other args opts1)
     | None \<Rightarrow> (case other arg of Some e \<Rightarrow> Inl e
         | None \<Rightarrow> (case parse_loop flags other args opts of Inl e \<Rightarrow> Inl e
             | Inr (o1, rest) \<Rightarrow> Inr (o1, arg # rest)))))"

definition unknown_flag :: "environ \<Rightarrow> string \<Rightarrow> err" where
  "unknown_flag E arg = Msg (''unknown flag '' @ quote (tables E) arg)"

definition unexpected :: "environ \<Rightarrow> string \<Rightarrow> err" where
  "unexpected E arg = Msg (''unexpected argument '' @ quote (tables E) arg)"

definition keep_arguments :: "environ \<Rightarrow> string \<Rightarrow> err option" where
  "keep_arguments E arg = (if hasPrefix arg ''--'' then Some (unknown_flag E arg) else None)"

definition no_arguments :: "environ \<Rightarrow> string \<Rightarrow> err option" where
  "no_arguments E arg = Some (if hasPrefix arg ''--'' then unknown_flag E arg else unexpected E arg)"

definition keep_all :: "string \<Rightarrow> err option" where "keep_all arg = None"

definition text_flag :: "string \<Rightarrow> (string \<Rightarrow> 'o \<Rightarrow> 'o) \<Rightarrow> 'o flag" where
  "text_flag n upd = Value n (\<lambda>v opts. Inr (upd v opts))"

text \<open>\<open>strconv.Atoi\<close> with a lower bound.\<close>

definition int_flag :: "environ \<Rightarrow> string \<Rightarrow> int \<Rightarrow> (int \<Rightarrow> 'o \<Rightarrow> 'o) \<Rightarrow> 'o flag" where
  "int_flag E n lo upd = Value n (\<lambda>v opts. case parse_int v of
     Some k \<Rightarrow> if k < lo then Inl (invalid E n v) else Inr (upd k opts)
   | None \<Rightarrow> Inl (invalid E n v))"

section \<open>\<open>admin/run.go\<close>\<close>

record options =
  ao_dbPath :: string
  ao_project :: string
  ao_limit :: int

definition option_flags :: "environ \<Rightarrow> options flag list" where
  "option_flags E = [text_flag ''--db'' (\<lambda>v s. s\<lparr>ao_dbPath := v\<rparr>), text_flag ''--project'' (\<lambda>v s. s\<lparr>ao_project := v\<rparr>),
     int_flag E ''--limit'' 1 (\<lambda>n s. s\<lparr>ao_limit := n\<rparr>)]"

definition parseOptions :: "environ \<Rightarrow> (err + string) \<Rightarrow> string list \<Rightarrow> err + (options \<times> string list)" where
  "parseOptions E getwd args = (case Load E [] of Inl e \<Rightarrow> Inl e
     | Inr cfg \<Rightarrow> (case parse_loop (option_flags E) (keep_arguments E) args
           \<lparr>ao_dbPath = DBPath (Storage cfg), ao_project = [], ao_limit = 10\<rparr> of
         Inl e \<Rightarrow> Inl e
       | Inr (opts, rest) \<Rightarrow>
           if ao_project opts = [] then
             (case getwd of Inl e \<Rightarrow> Inl (Wrap ''get cwd'' e) | Inr cwd \<Rightarrow> Inr (opts\<lparr>ao_project := cwd\<rparr>, rest))
           else Inr (opts, rest)))"

definition parseCompactOptions :: "environ \<Rightarrow> (err + string) \<Rightarrow> string list \<Rightarrow> err + (options \<times> string list \<times> string \<times> string)" where
  "parseCompactOptions E getwd args =
     (case parse_loop [text_flag ''--session'' (\<lambda>v (i, a). (v, a)), text_flag ''--agent'' (\<lambda>v (i, a). (i, v))] keep_all args
         ([], ''claude-code'') of
        Inl e \<Rightarrow> Inl e
      | Inr ((sessionID, agent), filtered) \<Rightarrow> (case parseOptions E getwd filtered of Inl e \<Rightarrow> Inl e
          | Inr (opts, rest) \<Rightarrow> Inr (opts, rest, sessionID, agent)))"

definition importance_flag :: "environ \<Rightarrow> string \<Rightarrow> (f64 \<Rightarrow> 'o \<Rightarrow> 'o) \<Rightarrow> 'o flag" where
  "importance_flag E n upd = Value n (\<lambda>v opts. case ParseFloat v of
     Some x \<Rightarrow> if f64_less x (Fin 0) then Inl (invalid E n v) else Inr (upd x opts)
   | None \<Rightarrow> Inl (invalid E n v))"

definition parseDecayOptions :: "environ \<Rightarrow> (err + string) \<Rightarrow> string list \<Rightarrow> err + (options \<times> string list \<times> int \<times> f64)" where
  "parseDecayOptions E getwd args = (case Load E [] of Inl e \<Rightarrow> Inl e
     | Inr cfg \<Rightarrow>
       (case parse_loop [int_flag E ''--tau-days'' 1 (\<lambda>n (t, m). (n, m)), importance_flag E ''--min-importance'' (\<lambda>x (t, m). (t, x))]
           keep_all args (DecayTauDays (MemoryC cfg), MinImportance (MemoryC cfg)) of
          Inl e \<Rightarrow> Inl e
        | Inr ((tauDays, minImportance), filtered) \<Rightarrow> (case parseOptions E getwd filtered of Inl e \<Rightarrow> Inl e
            | Inr (opts, rest) \<Rightarrow> Inr (opts, rest, tauDays, minImportance))))"

section \<open>\<open>admin/doctor.go\<close>, \<open>admin/backup.go\<close>\<close>

record doctorOptions =
  do_configPath :: string
  do_dbPath :: string
  do_ollamaURL :: string

definition doctor_config :: "Config \<Rightarrow> doctorOptions \<Rightarrow> doctorOptions" where
  "doctor_config cfg opts =
     (let opts1 = opts\<lparr>do_dbPath := DBPath (Storage cfg)\<rparr> in
      if Provider (Embedding cfg) = ''ollama'' then opts1\<lparr>do_ollamaURL := OllamaURL (Embedding cfg)\<rparr> else opts1)"

definition parseDoctorOptions :: "environ \<Rightarrow> string list \<Rightarrow> err + (doctorOptions \<times> string list)" where
  "parseDoctorOptions E args =
     (let configPath = Getenv E ''MCB_CONFIG'';
          start = (\<lambda>cfg. doctor_config cfg \<lparr>do_configPath = configPath, do_dbPath = [], do_ollamaURL = []\<rparr>);
          loop = parse_loop
            [Value ''--config'' (\<lambda>v opts. case Load E v of Inl e \<Rightarrow> Inl (Wrap ''config'' e)
               | Inr cfg \<Rightarrow> Inr (doctor_config cfg (opts\<lparr>do_configPath := v\<rparr>))),
             text_flag ''--db'' (\<lambda>v opts. opts\<lparr>do_dbPath := v\<rparr>),
             text_flag ''--ollama-url'' (\<lambda>v opts. opts\<lparr>do_ollamaURL := v\<rparr>)] (keep_arguments E) args
      in case Load E configPath of
           Inl e \<Rightarrow> if configPath \<noteq> [] then Inl e else loop (start Default)
         | Inr cfg \<Rightarrow> loop (start cfg))"

record backupOptions =
  bo_dbPath :: string
  bo_out :: string

definition parseBackupOptions :: "environ \<Rightarrow> string list \<Rightarrow> err + (backupOptions \<times> string list)" where
  "parseBackupOptions E args = (case Load E [] of Inl e \<Rightarrow> Inl e
     | Inr cfg \<Rightarrow> parse_loop [text_flag ''--db'' (\<lambda>v s. s\<lparr>bo_dbPath := v\<rparr>), text_flag ''--out'' (\<lambda>v s. s\<lparr>bo_out := v\<rparr>)]
         (keep_arguments E) args \<lparr>bo_dbPath = DBPath (Storage cfg), bo_out = []\<rparr>)"

section \<open>\<open>admin/perf_seed.go\<close>, \<open>admin/bench.go\<close>\<close>

record perfSeedOptions =
  po_dbPath :: string
  po_project :: string
  po_runID :: string
  po_outDir :: string
  po_sessions :: int
  po_memories :: int
  po_observations :: int

definition parsePerfSeedOptions :: "environ \<Rightarrow> string list \<Rightarrow> err + perfSeedOptions" where
  "parsePerfSeedOptions E args = (case Load E [] of Inl e \<Rightarrow> Inl e
     | Inr cfg \<Rightarrow> (case parse_loop
           [text_flag ''--db'' (\<lambda>v s. s\<lparr>po_dbPath := v\<rparr>), text_flag ''--project'' (\<lambda>v s. s\<lparr>po_project := v\<rparr>),
            text_flag ''--run-id'' (\<lambda>v s. s\<lparr>po_runID := v\<rparr>), text_flag ''--out'' (\<lambda>v s. s\<lparr>po_outDir := v\<rparr>),
            int_flag E ''--sessions'' 0 (\<lambda>n s. s\<lparr>po_sessions := n\<rparr>), int_flag E ''--memories'' 0 (\<lambda>n s. s\<lparr>po_memories := n\<rparr>),
            int_flag E ''--observations'' 0 (\<lambda>n s. s\<lparr>po_observations := n\<rparr>)]
           (no_arguments E) args
           \<lparr>po_dbPath = DBPath (Storage cfg), po_project = [], po_runID = ''perf'', po_outDir = [], po_sessions = 100,
            po_memories = 1000, po_observations = 10000\<rparr> of
         Inl e \<Rightarrow> Inl e
       | Inr (opts, _) \<Rightarrow>
           if po_project opts = [] then Inl (Msg ''missing --project'')
           else if po_sessions opts \<le> 0 then Inl (invalid E ''--sessions'' (itoa (po_sessions opts)))
           else Inr opts))"

text \<open>\<open>strings.Split\<close> at a byte.\<close>

fun split_at :: "char \<Rightarrow> string \<Rightarrow> string list" where
  "split_at c [] = [[]]"
| "split_at c (x # s) = (if x = c then [] # split_at c s
     else (case split_at c s of [] \<Rightarrow> [[x]] | p # ps \<Rightarrow> (x # p) # ps))"

definition parsePositiveIntList :: "environ \<Rightarrow> string \<Rightarrow> string \<Rightarrow> err + int list" where
  "parsePositiveIntList E n value =
     (let parsed = map (\<lambda>p. parse_int (trimSpace p)) (split_at (CHR '','') value) in
      if list_all (\<lambda>k. case k of Some i \<Rightarrow> 0 < i | None \<Rightarrow> False) parsed then Inr (map the parsed) else Inl (invalid E n value))"

definition parseStringList :: "string \<Rightarrow> string list" where
  "parseStringList value = filter (\<lambda>p. p \<noteq> []) (map trimSpace (split_at (CHR '','') value))"

record benchOptions =
  be_outDir :: string
  be_dataset :: string
  be_url :: string
  be_project :: string
  be_runID :: string
  be_limit :: int
  be_requests :: int
  be_concurrency :: "int list"
  be_groups :: "string list"
  be_failOnBudget :: bool

definition parseBenchOptions :: "environ \<Rightarrow> string list \<Rightarrow> err + (benchOptions \<times> string list)" where
  "parseBenchOptions E args = parse_loop
     [text_flag ''--out'' (\<lambda>v s. s\<lparr>be_outDir := v\<rparr>), text_flag ''--dataset'' (\<lambda>v s. s\<lparr>be_dataset := v\<rparr>),
      text_flag ''--url'' (\<lambda>v s. s\<lparr>be_url := v\<rparr>), text_flag ''--project'' (\<lambda>v s. s\<lparr>be_project := v\<rparr>),
      text_flag ''--run-id'' (\<lambda>v s. s\<lparr>be_runID := v\<rparr>), int_flag E ''--requests'' 1 (\<lambda>n s. s\<lparr>be_requests := n\<rparr>),
      Value ''--concurrency'' (\<lambda>v s. case parsePositiveIntList E ''--concurrency'' v of Inl e \<Rightarrow> Inl e
        | Inr ns \<Rightarrow> Inr (s\<lparr>be_concurrency := ns\<rparr>)),
      text_flag ''--groups'' (\<lambda>v s. s\<lparr>be_groups := parseStringList v\<rparr>),
      Switch ''--fail-on-budget'' (\<lambda>s. s\<lparr>be_failOnBudget := True\<rparr>),
      int_flag E ''--limit'' 0 (\<lambda>n s. s\<lparr>be_limit := n\<rparr>)]
     (keep_arguments E) args
     \<lparr>be_outDir = [], be_dataset = [], be_url = [], be_project = [], be_runID = [], be_limit = 0, be_requests = 0,
      be_concurrency = [], be_groups = [], be_failOnBudget = False\<rparr>"

section \<open>\<open>cmd/mcb/main.go\<close>\<close>

record serveOptions =
  so_dbPath :: string
  so_http :: string
  so_dedupWindowSeconds :: int
  so_sessionStartTopN :: int
  so_bearerToken :: string
  so_embedding :: EmbeddingConfig
  so_search :: SearchConfig
  so_memory :: MemoryConfig
  so_compaction :: CompactionConfig

definition serve_start :: "environ \<Rightarrow> Config \<Rightarrow> serveOptions" where
  "serve_start E cfg =
     \<lparr>so_dbPath = DBPath (Storage cfg), so_http = HTTPBind (ServerC cfg),
      so_dedupWindowSeconds = DedupWindowSeconds (Capture cfg), so_sessionStartTopN = SessionStartTopN (MemoryC cfg),
      so_bearerToken = Getenv E ''MCB_BEARER_TOKEN'', so_embedding = Embedding cfg, so_search = Search cfg,
      so_memory = MemoryC cfg, so_compaction = CompactionC cfg\<rparr>"

definition parseServeOptions :: "environ \<Rightarrow> string list \<Rightarrow> err + serveOptions" where
  "parseServeOptions E args =
     (case parse_loop [text_flag ''--config'' (\<lambda>v _. v)] keep_all args (Getenv E ''MCB_CONFIG'') of
        Inl e \<Rightarrow> Inl e
      | Inr (configPath, filtered) \<Rightarrow> (case Load E configPath of Inl e \<Rightarrow> Inl e
          | Inr cfg \<Rightarrow> (case parse_loop
                [text_flag ''--db'' (\<lambda>v s. s\<lparr>so_dbPath := v\<rparr>), text_flag ''--http'' (\<lambda>v s. s\<lparr>so_http := v\<rparr>),
                 text_flag ''--http-bind'' (\<lambda>v s. s\<lparr>so_http := v\<rparr>)] (no_arguments E) filtered (serve_start E cfg) of
              Inl e \<Rightarrow> Inl e
            | Inr (opts, _) \<Rightarrow> Inr opts)))"

end
