(* ===== verification/Http.thy ===== *)
theory Http
  imports Hybrid
begin

text \<open>
  Requests, the calls a handler makes on its \<open>http.ResponseWriter\<close>, and the middleware of
  \<open>internal/server/server.go\<close>: authentication, logging through a status recorder, recovery. A
  handler's outcome is the list of its calls on the writer, whether it panicked, and what it logged.
\<close>

section \<open>Requests and responses\<close>

text \<open>\<open>rq_Auth\<close> is the \<open>Authorization\<close> header; a body that cannot be read is \<open>None\<close>.\<close>

record request =
  rq_Method :: string
  rq_Path :: string
  rq_Auth :: string
  rq_Body :: "string option"

datatype wcall = SetType string | WriteHeader int | Write string

datatype level = Info | Warn | Error

datatype log = LogCaptured string string string string string | LogSubagent string | LogPanic string
  | LogRequest level string string int int "string option"

record hres =
  h_calls :: "wcall list"
  h_panic :: bool
  h_log :: "log list"

type_synonym handler = "request \<Rightarrow> world \<Rightarrow> hres \<times> world"

definition http_error :: "string \<Rightarrow> int \<Rightarrow> wcall list" where
  "http_error msg code = [SetType ''text/plain; charset=utf-8'', WriteHeader code, Write (msg @ [char_n 10])]"

definition write_json :: "int \<Rightarrow> string \<Rightarrow> wcall list" where
  "write_json status t = [SetType ''application/json'', WriteHeader status, Write (t @ [char_n 10])]"

definition calls :: "wcall list \<Rightarrow> hres" where
  "calls cs = \<lparr>h_calls = cs, h_panic = False, h_log = []\<rparr>"

definition reply :: "wcall list \<Rightarrow> world \<Rightarrow> hres \<times> world" where
  "reply cs w = (calls cs, w)"

text \<open>\<open>if err != nil { http.Error(...); return }\<close>.\<close>

definition guarded :: "'a act \<Rightarrow> wcall list \<Rightarrow> ('a \<Rightarrow> world \<Rightarrow> hres \<times> world) \<Rightarrow> world \<Rightarrow> hres \<times> world" where
  "guarded m cs k w = (case m w of (Inl _, w1) \<Rightarrow> (calls cs, w1) | (Inr x, w1) \<Rightarrow> k x w1)"

section \<open>What reaches the client\<close>

record conn =
  c_status :: "int option"
  c_type :: string
  c_body :: string

definition fresh_conn :: conn where "fresh_conn = \<lparr>c_status = None, c_type = [], c_body = []\<rparr>"

definition bodyless :: "int \<Rightarrow> bool" where
  "bodyless s = (100 \<le> s \<and> s \<le> 199 \<or> s = 204 \<or> s = 304)"

text \<open>\<open>net/http\<close>: the first status counts, writing implies 200, some statuses have no body.\<close>

fun conn_step :: "conn \<Rightarrow> wcall \<Rightarrow> conn" where
  "conn_step c (SetType t) = (if c_status c = None then c\<lparr>c_type := t\<rparr> else c)"
| "conn_step c (WriteHeader s) = (if c_status c = None then c\<lparr>c_status := Some s\<rparr> else c)"
| "conn_step c (Write d) =
     (let c1 = (if c_status c = None then c\<lparr>c_status := Some 200\<rparr> else c) in
      if bodyless (the (c_status c1)) then c1 else c1\<lparr>c_body := c_body c1 @ d\<rparr>)"

text \<open>The number of bytes \<open>Write\<close> reports.\<close>

definition written :: "conn \<Rightarrow> string \<Rightarrow> int" where
  "written c d = (if bodyless (case c_status c of None \<Rightarrow> 200 | Some s \<Rightarrow> s) then 0 else int (length d))"

definition client :: "wcall list \<Rightarrow> conn" where
  "client cs = (let c = foldl conn_step fresh_conn cs in
     if c_status c = None then c\<lparr>c_status := Some 200\<rparr> else c)"

section \<open>The status recorder\<close>

record statusRecorder =
  sr_conn :: conn
  sr_status :: int
  sr_bytes :: int
  sr_wroteHeader :: bool
  sr_preview :: string

definition new_recorder :: statusRecorder where
  "new_recorder = \<lparr>sr_conn = fresh_conn, sr_status = 200, sr_bytes = 0, sr_wroteHeader = False, sr_preview = []\<rparr>"

definition rec_WriteHeader :: "int \<Rightarrow> statusRecorder \<Rightarrow> statusRecorder" where
  "rec_WriteHeader status r = (if sr_wroteHeader r then r
     else r\<lparr>sr_status := status, sr_wroteHeader := True, sr_conn := conn_step (sr_conn r) (WriteHeader status)\<rparr>)"

definition rec_Write :: "string \<Rightarrow> statusRecorder \<Rightarrow> statusRecorder" where
  "rec_Write data r0 =
     (let r = (if \<not> sr_wroteHeader r0 then rec_WriteHeader 200 r0 else r0);
          r1 = (if length (sr_preview r) < 512 then
                  (let remaining = 512 - length (sr_preview r);
                       k = (if length data < remaining then length data else remaining)
                   in r\<lparr>sr_preview := sr_preview r @ take k data\<rparr>)
                else r)
      in r1\<lparr>sr_bytes := sr_bytes r1 + written (sr_conn r1) data, sr_conn := conn_step (sr_conn r1) (Write data)\<rparr>)"

fun rec_step :: "statusRecorder \<Rightarrow> wcall \<Rightarrow> statusRecorder" where
  "rec_step r (SetType t) = r\<lparr>sr_conn := conn_step (sr_conn r) (SetType t)\<rparr>"
| "rec_step r (WriteHeader s) = rec_WriteHeader s r"
| "rec_step r (Write d) = rec_Write d r"

section \<open>Middleware\<close>

definition is_probe :: "string \<Rightarrow> bool" where
  "is_probe path = (path = ''/healthz'' \<or> path = ''/readyz'')"

definition authMiddleware :: "handler \<Rightarrow> string \<Rightarrow> handler" where
  "authMiddleware next bearerToken =
     (if bearerToken = [] then next
      else (\<lambda>r w. if is_probe (rq_Path r) then next r w
        else if rq_Auth r \<noteq> ''Bearer '' @ bearerToken then reply (http_error ''unauthorized'' 401) w
        else next r w))"

definition isQuietHealthCheck :: "string \<Rightarrow> int \<Rightarrow> bool" where
  "isQuietHealthCheck path status = (status < 400 \<and> is_probe path)"

definition access_log :: "request \<Rightarrow> statusRecorder \<Rightarrow> log list" where
  "access_log r sr = (if isQuietHealthCheck (rq_Path r) (sr_status sr) then []
     else [LogRequest (if sr_status sr \<ge> 500 then Error else if sr_status sr \<ge> 400 then Warn else Info)
       (rq_Method r) (rq_Path r) (sr_status sr) (sr_bytes sr)
       (if sr_preview sr \<noteq> [] then Some (trimSpace (sr_preview sr)) else None)])"

definition loggingMiddleware :: "handler \<Rightarrow> handler" where
  "loggingMiddleware next r w = (case next r w of (h, w1) \<Rightarrow>
     (if h_panic h then h
      else h\<lparr>h_log := h_log h @ access_log r (foldl rec_step new_recorder (h_calls h))\<rparr>, w1))"

definition recoverMiddleware :: "handler \<Rightarrow> handler" where
  "recoverMiddleware next r w = (case next r w of (h, w1) \<Rightarrow>
     (if h_panic h then h\<lparr>h_calls := h_calls h @ http_error ''internal server error'' 500,
        h_panic := False, h_log := h_log h @ [LogPanic (rq_Path r)]\<rparr> else h, w1))"

section \<open>Lemmas\<close>

lemma client_calls [simp]:
  "client (http_error m s) = \<lparr>c_status = Some s, c_type = ''text/plain; charset=utf-8'',
     c_body = (if bodyless s then [] else m @ [char_n 10])\<rparr>"
  "client (write_json s t) = \<lparr>c_status = Some s, c_type = ''application/json'',
     c_body = (if bodyless s then [] else t @ [char_n 10])\<rparr>"
  by (simp_all add: client_def http_error_def write_json_def fresh_conn_def Let_def)

text \<open>The recorder agrees with the connection it forwards to.\<close>

definition rec_ok :: "statusRecorder \<Rightarrow> wcall list \<Rightarrow> bool" where
  "rec_ok r cs = (sr_conn r = foldl conn_step fresh_conn cs \<and>
     c_status (sr_conn r) = (if sr_wroteHeader r then Some (sr_status r) else None) \<and>
     (\<not> sr_wroteHeader r \<longrightarrow> sr_status r = 200) \<and>
     sr_bytes r = int (length (c_body (sr_conn r))) \<and>
     sr_preview r = take 512 (concat (map (\<lambda>c. case c of Write d \<Rightarrow> d | _ \<Rightarrow> []) cs)))"

lemma rec_Write_fields:
  "sr_wroteHeader (rec_Write d r)"
  "sr_preview (rec_Write d r) = sr_preview r @ (if length (sr_preview r) < 512 then
      take (if length d < 512 - length (sr_preview r) then length d else 512 - length (sr_preview r)) d else [])"
  "sr_conn (rec_Write d r) = conn_step (if sr_wroteHeader r then sr_conn r else conn_step (sr_conn r) (WriteHeader 200)) (Write d)"
  "sr_status (rec_Write d r) = (if sr_wroteHeader r then sr_status r else 200)"
  "sr_bytes (rec_Write d r) = sr_bytes r + written (if sr_wroteHeader r then sr_conn r else conn_step (sr_conn r) (WriteHeader 200)) d"
  by (simp_all add: rec_Write_def rec_WriteHeader_def Let_def)

lemma preview_grows: "p = take 512 q \<Longrightarrow>
   p @ (if length p < 512 then take (if length d < 512 - length p then length d else 512 - length p) d else []) = take 512 (q @ d)"
  by (cases "length q < 512") auto

lemma conn_write:
  "c_status c = None \<Longrightarrow> conn_step (conn_step c (WriteHeader 200)) (Write d) = conn_step c (Write d)"
  "c_status c = Some s \<Longrightarrow> c_status (conn_step c (Write d)) = Some s"
  "c_status c = Some s \<Longrightarrow> int (length (c_body (conn_step c (Write d)))) = int (length (c_body c)) + written c d"
  "c_status c = None \<Longrightarrow> c_status (conn_step c (Write d)) = Some 200"
  "c_status c = None \<Longrightarrow> int (length (c_body (conn_step c (Write d)))) = int (length (c_body c)) + written (conn_step c (WriteHeader 200)) d"
  by (simp_all add: written_def Let_def)

lemma rec_ok_step: "rec_ok r cs \<Longrightarrow> rec_ok (rec_step r c) (cs @ [c])"
proof (cases c)
  case (Write d)
  assume ok: "rec_ok r cs"
  have "sr_preview (rec_Write d r) = take 512 (concat (map (\<lambda>c. case c of Write d \<Rightarrow> d | _ \<Rightarrow> []) (cs @ [c])))"
    using preview_grows [of "sr_preview r"] ok unfolding rec_Write_fields rec_ok_def Write by (simp del: take_append)
  moreover have "sr_conn r = foldl conn_step fresh_conn cs" "c_status (sr_conn r) = (if sr_wroteHeader r then Some (sr_status r) else None)"
    "sr_bytes r = int (length (c_body (sr_conn r)))"
    using ok by (auto simp: rec_ok_def)
  ultimately show ?thesis
    unfolding Write by (cases "sr_wroteHeader r") (simp_all add: rec_ok_def rec_Write_fields conn_write del: conn_step.simps)
qed (auto simp: rec_ok_def rec_WriteHeader_def)

lemma rec_ok_new: "rec_ok new_recorder []"
  by (simp add: rec_ok_def new_recorder_def fresh_conn_def)

lemma rec_ok_calls: "rec_ok (foldl rec_step new_recorder cs) cs"
  by (induction cs rule: rev_induct) (simp_all add: rec_ok_new rec_ok_step)

end
