(* ===== verification/McpRpc.thy ===== *)
theory McpRpc
  imports Mcp Http
begin

text \<open>
  The rest of \<open>internal/mcp/server.go\<close>: tool schemas, resources, prompts, the dispatch of tool calls
  and the JSON-RPC endpoint \<open>ServeHTTP\<close>.
\<close>

section \<open>Schemas\<close>

definition schema :: "string \<Rightarrow> bool \<Rightarrow> json" where
  "schema typ required = gomap [(''type'', JStr typ), (''x-required'', JBool required)]"

definition schemaString :: "bool \<Rightarrow> json" where "schemaString = schema ''string''"
definition schemaInteger :: "bool \<Rightarrow> json" where "schemaInteger = schema ''integer''"
definition schemaNumber :: "bool \<Rightarrow> json" where "schemaNumber = schema ''number''"
definition schemaBoolean :: "bool \<Rightarrow> json" where "schemaBoolean = schema ''boolean''"

fun is_required :: "json \<Rightarrow> bool" where
  "is_required (JObj ms) = (map_of ms ''x-required'' = Some (JBool True))"
| "is_required _ = False"

fun drop_required :: "json \<Rightarrow> json" where
  "drop_required (JObj ms) = JObj (filter (\<lambda>(k, _). k \<noteq> ''x-required'') ms)"
| "drop_required v = v"

text \<open>\<open>ord\<close> gives the order in which the loop visits the properties.\<close>

definition tool :: "(string list \<Rightarrow> string list) \<Rightarrow> string \<Rightarrow> string \<Rightarrow> (string \<times> json) list \<Rightarrow> json" where
  "tool ord name description properties =
     (let required = filter (\<lambda>k. case map_of properties k of Some m \<Rightarrow> is_required m | None \<Rightarrow> False)
            (ord (map fst properties));
          props = map (\<lambda>(k, m). (k, if is_required m then drop_required m else m)) properties
      in gomap [(''name'', JStr name), (''description'', JStr description),
           (''inputSchema'', gomap [(''type'', JStr ''object''), (''properties'', gomap props),
              (''required'', JArr (map JStr required))])])"

definition array_schema :: "string \<Rightarrow> (string \<times> json) list \<Rightarrow> json" where
  "array_schema elem ms = gomap ([(''type'', JStr ''array''), (''items'', gomap [(''type'', JStr elem)])] @ ms)"

definition tools :: "(string list \<Rightarrow> string list) \<Rightarrow> json list" where
  "tools ord = [
     tool ord ''memory_recall'' ''Search project memories and refresh access metadata for returned memories.''
       [(''query'', schemaString True), (''project'', schemaString False), (''limit'', schemaInteger False)],
     tool ord ''memory_save'' ''Save a durable memory fact for the current project.''
       [(''text'', schemaString True), (''tier'', schemaString False), (''project'', schemaString False),
        (''importance'', schemaNumber False), (''session_id'', schemaString False)],
     tool ord ''memory_search'' ''Search project memories without refreshing access metadata.''
       [(''query'', schemaString True), (''project'', schemaString False), (''limit'', schemaInteger False)],
     tool ord ''memory_sessions'' ''List captured sessions for a project.''
       [(''project'', schemaString False), (''limit'', schemaInteger False)],
     tool ord ''memory_session_observations'' ''List decoded observations captured for a session.''
       [(''session_id'', schemaString True), (''limit'', schemaInteger False)],
     tool ord ''memory_forget'' ''Dry-run by query or delete explicitly confirmed memory IDs.''
       [(''query'', schemaString False), (''project'', schemaString False), (''dry_run'', schemaBoolean False),
        (''ids'', array_schema ''integer'' []), (''confirm'', schemaBoolean False), (''limit'', schemaInteger False)],
     tool ord ''memory_profile'' ''Return aggregate memory and capture statistics for a project.''
       [(''project'', schemaString False)],
     tool ord ''memory_session_summary_save'' ''Save a concise compaction summary for a captured session.''
       [(''session_id'', schemaString True), (''summary'', schemaString True)],
     tool ord ''memory_supersede'' ''Mark an old memory as superseded by a newer memory.''
       [(''old_id'', schemaInteger True), (''new_id'', schemaInteger True)],
     tool ord ''memory_update'' (''Edit an existing memory'' @ [CHR 0x27] @ ''s text, tier, or importance.'')
       [(''id'', schemaInteger True), (''text'', schemaString False), (''tier'', schemaString False),
        (''importance'', schemaNumber False)],
     tool ord ''memory_timeline'' ''Return chronological memories and observations for a project or session.''
       [(''project'', schemaString False), (''session_id'', schemaString False), (''limit'', schemaInteger False)],
     tool ord ''memory_file_history'' ''Return memories and observations related to file paths.''
       [(''project'', schemaString False), (''files'', array_schema ''string'' [(''x-required'', JBool True)]),
        (''limit'', schemaInteger False)],
     tool ord ''memory_patterns'' ''Aggregate recurring tools, observation kinds, and files for a project.''
       [(''project'', schemaString False), (''limit'', schemaInteger False)],
     tool ord ''memory_export'' ''Export project memories, sessions, and observations as JSON.''
       [(''project'', schemaString False), (''limit'', schemaInteger False)],
     tool ord ''memory_audit'' ''List memory mutation audit events.''
       [(''memory_id'', schemaInteger False), (''limit'', schemaInteger False)],
     tool ord ''memory_verify'' ''Trace a memory back to source session observations and audit events.''
       [(''id'', schemaInteger True)],
     tool ord ''memory_replay'' ''Return ordered replay records for a captured session.''
       [(''session_id'', schemaString True), (''limit'', schemaInteger False)]]"

section \<open>Resources\<close>

definition resource :: "string \<Rightarrow> string \<Rightarrow> string \<Rightarrow> json" where
  "resource uri name description = gomap [(''uri'', JStr uri), (''name'', JStr name),
     (''mimeType'', JStr ''application/json''), (''description'', JStr description)]"

definition resources :: "json list" where
  "resources = [
     resource ''mcb://status'' ''mcb status'' ''Counts and status for the memory bank.'',
     resource ''mcb://project/{project}/profile'' ''project profile''
       ''Aggregate memory and capture statistics for one project.'',
     resource ''mcb://memories/latest'' ''latest memories'' ''Latest active memories for the default project.'',
     resource ''mcb://sessions/latest'' ''latest sessions'' ''Latest sessions for the default project.'',
     resource ''mcb://audit/latest'' ''latest audit events'' ''Latest memory mutation audit events.'']"

definition resource_payload :: "ext \<Rightarrow> runtime \<Rightarrow> Options \<Rightarrow> string \<Rightarrow> json act" where
  "resource_payload E rt opts uri =
     (if uri = ''mcb://status'' then
        andThen (on_store (Status (rt_keys rt [''memory_count'', ''session_count'', ''observation_count''])))
          (\<lambda>m. ok (counts_json m))
      else if hasPrefix uri ''mcb://project/'' \<and> hasSuffix uri ''/profile'' then
        profilePayload E opts (trimSuffix (trimPrefix uri ''mcb://project/'') ''/profile'')
      else if uri = ''mcb://memories/latest'' then
        andThen (on_store (RecentMemories (project opts []) 10)) (\<lambda>ms. ok (gomap [(''memories'', memoryDTOs ms)]))
      else if uri = ''mcb://sessions/latest'' then
        andThen (on_store (ListSessions (project opts []) 10)) (\<lambda>ss. ok (gomap [(''sessions'', sessionDTOs ss)]))
      else if uri = ''mcb://audit/latest'' then
        andThen (on_store (AuditEvents 0 10)) (\<lambda>es. ok (gomap [(''audit'', auditDTOs es)]))
      else fail (Msg (''unknown resource '' @ quote (uni E) uri)))"

definition marshalled :: "string \<Rightarrow> json \<Rightarrow> string act" where
  "marshalled l v = (case json_Marshal l v of Inl e \<Rightarrow> fail e | Inr t \<Rightarrow> ok t)"

text \<open>The members of an optional raw message read as a struct.\<close>

definition raw_struct :: "string option \<Rightarrow> (string \<times> json) list option" where
  "raw_struct raw = (case raw of None \<Rightarrow> None | Some s \<Rightarrow> unmarshal_struct s)"

definition readResource :: "ext \<Rightarrow> runtime \<Rightarrow> Options \<Rightarrow> string option \<Rightarrow> json act" where
  "readResource E rt opts raw =
     decoded ''resource uri is required'' (do { ms \<leftarrow> raw_struct raw; str_field ''uri'' ms }) (\<lambda>uri. uri \<noteq> []) (\<lambda>uri.
       andThen (resource_payload E rt opts uri) (\<lambda>payload.
       andThen (marshalled ''marshal resource'' payload) (\<lambda>t.
       ok (gomap [(''contents'', JArr [gomap [(''uri'', JStr uri), (''mimeType'', JStr ''application/json''),
         (''text'', JStr t)]])]))))"

section \<open>Prompts\<close>

definition prompt_argument :: "string \<Rightarrow> string \<Rightarrow> bool \<Rightarrow> json" where
  "prompt_argument name description required = gomap [(''name'', JStr name), (''description'', JStr description),
     (''required'', JBool required)]"

definition prompts :: "json list" where
  "prompts = [
     gomap [(''name'', JStr ''recall_context''), (''description'', JStr ''Search mcb memory and produce compact task context.''),
       (''arguments'', JArr [prompt_argument ''query'' ''Task or question to recall context for.'' True])],
     gomap [(''name'', JStr ''session_handoff''),
       (''description'', JStr ''Prepare a concise handoff summary for another agent or future session.''),
       (''arguments'', JArr [prompt_argument ''session_id'' ''Normalized session ID to summarize.'' False])]]"

definition promptMessages :: "string \<Rightarrow> string \<Rightarrow> json" where
  "promptMessages name text = gomap [(''description'', JStr name), (''messages'', JArr [gomap [(''role'', JStr ''user''),
     (''content'', gomap [(''type'', JStr ''text''), (''text'', JStr text)])]])]"

text \<open>A field of type \<open>map[string]any\<close>; \<open>s, _ := m[k].(string)\<close>.\<close>

definition put_map :: "(string \<times> json) list \<Rightarrow> json \<Rightarrow> (string \<times> json) list option" where
  "put_map a v = (case v of JObj ms \<Rightarrow> to_any_members ms a | JNull \<Rightarrow> Some [] | _ \<Rightarrow> None)"

definition string_at :: "string \<Rightarrow> (string \<times> json) list \<Rightarrow> string" where
  "string_at k m = (case map_of m k of Some (JStr s) \<Rightarrow> s | _ \<Rightarrow> [])"

definition getPrompt :: "ext \<Rightarrow> string option \<Rightarrow> json act" where
  "getPrompt E raw =
     decoded ''prompt name is required''
       (do { ms \<leftarrow> raw_struct raw; n \<leftarrow> str_field ''name'' ms; m \<leftarrow> field_loop put_map ''arguments'' [] ms; Some (n, m) })
       (\<lambda>(n, m). n \<noteq> [])
       (\<lambda>(n, m).
        if n = ''recall_context'' then
          (let q = string_at ''query'' m in
           if blank q then fail (Msg ''query is required'')
           else ok (promptMessages ''recall_context'' (''Search mcb memory for '' @ quote (uni E) q @
             ''. Return only durable facts relevant to the current task, with memory IDs when available.'')))
        else if n = ''session_handoff'' then
          ok (promptMessages ''session_handoff'' (''Prepare a concise handoff for session '' @
            quote (uni E) (string_at ''session_id'' m) @
            ''. Include completed work, decisions, unresolved risks, and durable facts worth saving to mcb.''))
        else fail (Msg (''unknown prompt '' @ quote (uni E) n)))"

section \<open>Tool calls\<close>

definition run_tool :: "ext \<Rightarrow> runtime \<Rightarrow> Options \<Rightarrow> string \<Rightarrow> string \<Rightarrow> json act" where
  "run_tool E rt opts name a =
     (if name = ''memory_recall'' then memoryRecall E rt opts a True
      else if name = ''memory_search'' then memoryRecall E rt opts a False
      else if name = ''memory_save'' then memorySave E opts a
      else if name = ''memory_sessions'' then memorySessions opts a
      else if name = ''memory_session_observations'' then memorySessionObservations E a
      else if name = ''memory_forget'' then memoryForget E rt opts a
      else if name = ''memory_profile'' then memoryProfile E opts a
      else if name = ''memory_session_summary_save'' then memorySessionSummarySave a
      else if name = ''memory_supersede'' then memorySupersede a
      else if name = ''memory_update'' then memoryUpdate a
      else if name = ''memory_timeline'' then memoryTimeline E rt opts a
      else if name = ''memory_file_history'' then memoryFileHistory E opts a
      else if name = ''memory_patterns'' then memoryPatterns E opts a
      else if name = ''memory_export'' then memoryExport E opts a
      else if name = ''memory_audit'' then memoryAudit a
      else if name = ''memory_verify'' then memoryVerify E a
      else if name = ''memory_replay'' then memoryReplay E a
      else fail (Msg (''unknown tool '' @ quote (uni E) name)))"

definition toolText :: "json \<Rightarrow> json act" where
  "toolText payload = andThen (marshalled ''marshal tool result'' payload) (\<lambda>t.
     ok (gomap [(''content'', JArr [gomap [(''type'', JStr ''text''), (''text'', JStr t)]])]))"

definition callTool :: "ext \<Rightarrow> runtime \<Rightarrow> Options \<Rightarrow> string option \<Rightarrow> json act" where
  "callTool E rt opts raw =
     decoded ''invalid tool call''
       (do { ms \<leftarrow> raw_struct raw; n \<leftarrow> str_field ''name'' ms; Some (n, raw_field ''arguments'' (the raw)) })
       (\<lambda>(n, _). n \<noteq> [])
       (\<lambda>(n, arg). andThen (run_tool E rt opts n
          (case arg of Some a \<Rightarrow> if a = [] \<or> a = ''null'' then ''{}'' else a | None \<Rightarrow> ''{}'')) toolText)"

section \<open>The endpoint\<close>

definition members_text :: "(string \<times> string) list \<Rightarrow> string" where
  "members_text fs = ''{'' @ join '','' (map (\<lambda>(k, t). encode_str k @ '':'' @ t) fs) @ ''}''"

text \<open>The response object, its keys in order; an identifier that is missing is \<open>null\<close>.\<close>

definition rpc_text :: "string option \<Rightarrow> (int \<times> string) + json \<Rightarrow> string" where
  "rpc_text i res =
     (let idm = (''id'', marshal_raw (case i of Some s \<Rightarrow> if s = [] then None else Some s | None \<Rightarrow> None));
          ver = (''jsonrpc'', marshal (JStr ''2.0''))
      in members_text (case res of
          Inl (code, m) \<Rightarrow> [(''error'', marshal (JObj [(''code'', JInt code), (''message'', JStr m)])), idm, ver]
        | Inr v \<Rightarrow> [idm, ver, (''result'', marshal v)]))"

definition writeRPC :: "string option \<Rightarrow> (int \<times> string) + json \<Rightarrow> wcall list" where
  "writeRPC i res = write_json 200 (rpc_text i res)"

record rpcRequest =
  rpc_JSONRPC :: string
  rpc_ID :: "string option"
  rpc_Method :: string
  rpc_Params :: "string option"

text \<open>\<open>json.NewDecoder(r.Body).Decode(&req)\<close>: the first value of the body, whatever follows it.\<close>

definition decode_rpc :: "string \<Rightarrow> rpcRequest option" where
  "decode_rpc body = (case parse_value (Suc (length body)) maxNestingDepth (skip_ws body) of None \<Rightarrow> None
     | Some (v, _) \<Rightarrow> do { ms \<leftarrow> struct_members v; ver \<leftarrow> str_field ''jsonrpc'' ms; m \<leftarrow> str_field ''method'' ms;
         Some \<lparr>rpc_JSONRPC = ver, rpc_ID = raw_field ''id'' body, rpc_Method = m,
               rpc_Params = raw_field ''params'' body\<rparr> })"

definition server_info :: json where
  "server_info = gomap [(''protocolVersion'', JStr ''2024-11-05''),
     (''capabilities'', gomap (map (\<lambda>k. (k, gomap [(''listChanged'', JBool False)])) [''tools'', ''resources'', ''prompts''])),
     (''serverInfo'', gomap [(''name'', JStr ''mcb''), (''version'', JStr ''dev'')])]"

text \<open>An action's value or its error as the response to the request.\<close>

definition respond :: "ext \<Rightarrow> string option \<Rightarrow> json act \<Rightarrow> world \<Rightarrow> hres \<times> world" where
  "respond E i m w = (case m w of
     (Inl e, w1) \<Rightarrow> (calls (writeRPC i (Inl (- 32602, err_text (driver_text E) e))), w1)
   | (Inr v, w1) \<Rightarrow> (calls (writeRPC i (Inr v)), w1))"

definition dispatch :: "ext \<Rightarrow> runtime \<Rightarrow> Options \<Rightarrow> rpcRequest \<Rightarrow> world \<Rightarrow> hres \<times> world" where
  "dispatch E rt opts req =
     (let i = rpc_ID req; m = rpc_Method req; p = rpc_Params req in
      if m = ''initialize'' then reply (writeRPC i (Inr server_info))
      else if m = ''notifications/initialized'' then reply (writeRPC i (Inr (gomap [])))
      else if m = ''tools/list'' then reply (writeRPC i (Inr (gomap [(''tools'', JArr (tools (rt_keys rt)))])))
      else if m = ''resources/list'' then reply (writeRPC i (Inr (gomap [(''resources'', JArr resources)])))
      else if m = ''resources/read'' then respond E i (readResource E rt opts p)
      else if m = ''prompts/list'' then reply (writeRPC i (Inr (gomap [(''prompts'', JArr prompts)])))
      else if m = ''prompts/get'' then respond E i (getPrompt E p)
      else if m = ''tools/call'' then respond E i (callTool E rt opts p)
      else reply (writeRPC i (Inl (- 32601, ''method not found''))))"

definition ServeHTTP :: "ext \<Rightarrow> runtime \<Rightarrow> Options \<Rightarrow> handler" where
  "ServeHTTP E rt opts r =
     (if rq_Method r \<noteq> ''POST'' then reply (http_error ''method not allowed'' 405)
      else case (do { body \<leftarrow> rq_Body r; decode_rpc body }) of
        None \<Rightarrow> reply (writeRPC None (Inl (- 32700, ''invalid json-rpc request'')))
      | Some req \<Rightarrow> if rpc_JSONRPC req \<noteq> ''2.0'' \<or> rpc_Method req = [] then
            reply (writeRPC None (Inl (- 32700, ''invalid json-rpc request'')))
          else dispatch E rt opts req)"

end
