(* ===== verification/Server.thy ===== *)
theory Server
  imports McpRpc
begin

text \<open>
  \<open>internal/server/server.go\<close>: the handlers of the hooks, the routes, and the server put together
  from the routes and the middleware.
\<close>

section \<open>Options\<close>

definition dedupWindowSeconds :: int where "dedupWindowSeconds = 300"

definition maxRequestBytes :: int where "maxRequestBytes = 1048576"

text \<open>\<open>op_ReadinessProbe\<close> says whether the probe reports an error for a request.\<close>

record Options =
  op_BearerToken :: string
  op_DedupWindowSeconds :: int
  op_SessionStartTopN :: int
  op_ReadinessProbe :: "(request \<Rightarrow> bool) option"
  op_MCPOptions :: Mcp.Options
  op_Compaction :: CompactionOptions

definition normalizeOptions :: "Options \<Rightarrow> Options" where
  "normalizeOptions opts = opts\<lparr>
     op_DedupWindowSeconds := (if op_DedupWindowSeconds opts \<le> 0 then dedupWindowSeconds else op_DedupWindowSeconds opts),
     op_SessionStartTopN := (if op_SessionStartTopN opts \<le> 0 then 8 else op_SessionStartTopN opts),
     op_Compaction := normalizeCompaction (op_Compaction opts)\<rparr>"

section \<open>Replies\<close>

definition method_not_allowed :: "wcall list" where
  "method_not_allowed = http_error ''method not allowed'' 405"

definition invalid_request :: "wcall list" where "invalid_request = http_error ''invalid request'' 400"

definition internal_error :: "wcall list" where "internal_error = http_error ''internal server error'' 500"

definition no_content :: "wcall list" where "no_content = [WriteHeader 204]"

text \<open>A POST whose body \<open>dec\<close> accepts, or the refusal.\<close>

definition posted :: "(request \<Rightarrow> 'a option) \<Rightarrow> ('a \<Rightarrow> world \<Rightarrow> hres \<times> world) \<Rightarrow> handler" where
  "posted dec k r =
     (if rq_Method r \<noteq> ''POST'' then reply method_not_allowed
      else case dec r of None \<Rightarrow> reply invalid_request | Some x \<Rightarrow> k x)"

section \<open>Request bodies\<close>

text \<open>\<open>io.ReadAll\<close> of a \<open>MaxBytesReader\<close>.\<close>

definition read_body :: "request \<Rightarrow> string option" where
  "read_body r = (case rq_Body r of None \<Rightarrow> None
     | Some b \<Rightarrow> if int (length b) > maxRequestBytes then None else Some b)"

definition decodeJSON :: "request \<Rightarrow> (string \<times> json) list option" where
  "decodeJSON r = (case read_body r of None \<Rightarrow> None | Some b \<Rightarrow> unmarshal_struct b)"

text \<open>The session and the directory, both of which must be there.\<close>

definition session_cwd :: "request \<Rightarrow> (string \<times> string) option" where
  "session_cwd r = do { ms \<leftarrow> decodeJSON r; s \<leftarrow> str_field ''session_id'' ms; c \<leftarrow> str_field ''cwd'' ms;
     if s = [] \<or> c = [] then None else Some (s, c) }"

section \<open>Captures\<close>

definition insertCapturedEvent :: "ext \<Rightarrow> Options \<Rightarrow> Event \<Rightarrow> unit act" where
  "insertCapturedEvent E opts ev = (case HashCanonicalJSON (ev_PayloadJSON ev) of Inl e \<Rightarrow> fail e
     | Inr hash \<Rightarrow> andThen now_ms (\<lambda>t.
         andThen (on_store (InsertObservation E
           \<lparr>oi_Agent = ev_Agent ev, oi_ExternalSessionID = ev_ExternalSessionID ev, oi_CWD = ev_CWD ev,
            oi_TS = t, oi_Kind = ev_Kind ev, oi_Tool = ev_Tool ev,
            oi_PayloadJSON = Redact (ev_PayloadJSON ev), oi_Hash = hash\<rparr>
           (op_DedupWindowSeconds opts))) (\<lambda>_. ok ())))"

definition complete_event :: "Event \<Rightarrow> bool" where
  "complete_event ev = (ev_Agent ev \<noteq> [] \<and> ev_ExternalSessionID ev \<noteq> [] \<and> ev_CWD ev \<noteq> [] \<and> ev_Kind ev \<noteq> [])"

definition captureRaw :: "ext \<Rightarrow> Options \<Rightarrow> (string \<Rightarrow> err + Event) \<Rightarrow> (Event \<Rightarrow> world \<Rightarrow> hres \<times> world) \<Rightarrow> handler" where
  "captureRaw E opts normalizer k =
     posted (\<lambda>r. case read_body r of None \<Rightarrow> None
         | Some raw \<Rightarrow> (case normalizer raw of Inl _ \<Rightarrow> None | Inr ev \<Rightarrow> if complete_event ev then Some ev else None))
       (\<lambda>ev. guarded (insertCapturedEvent E opts ev) internal_error (\<lambda>_. k ev))"

definition capture :: "ext \<Rightarrow> Options \<Rightarrow> (string \<Rightarrow> err + Event) \<Rightarrow> handler" where
  "capture E opts normalizer = captureRaw E opts normalizer (\<lambda>ev w.
     (\<lparr>h_calls = no_content, h_panic = False,
       h_log = [LogCaptured (ev_Agent ev) (ev_ExternalSessionID ev) (ev_Kind ev) (ev_Tool ev) (ev_CWD ev)]\<rparr>, w))"

section \<open>Context\<close>

definition nl :: char where "nl = CHR 0x0A"

definition bullet :: "string \<Rightarrow> string" where
  "bullet text = ''- '' @ replaceByte text nl (CHR '' '') @ [nl]"

definition renderMemoryContext :: "Memory list \<Rightarrow> Session list \<Rightarrow> string \<Rightarrow> string" where
  "renderMemoryContext ms summaries hint =
     ''<mcb-context>'' @ [nl] @ ''## Recent memories'' @ [nl] @
     (if ms = [] then ''No stored memories for this project yet.'' @ [nl]
      else concat (map (\<lambda>m. bullet (mem_Text m)) ms)) @
     (if summaries \<noteq> [] then [nl] @ ''## Recent session summaries'' @ [nl] @
        concat (map (\<lambda>s. bullet (ses_Summary s)) summaries) else []) @
     (if hint \<noteq> [] then [nl] @ ''## Compaction'' @ [nl] @ hint @ [nl] else []) @
     ''</mcb-context>''"

text \<open>The loop over the memories of \<open>renderFileMemoryContext\<close>: at most ten, each once.\<close>

fun file_matches :: "unicode \<Rightarrow> string list \<Rightarrow> Memory list \<Rightarrow> int list \<Rightarrow> string list \<Rightarrow> string list" where
  "file_matches U needles [] seen matched = matched"
| "file_matches U needles (m # ms) seen matched =
     (let hit = list_ex (\<lambda>f. contains (toLower U (mem_Text m)) f) needles \<and> mem_ID m \<notin> set seen;
          matched1 = (if hit then matched @ [replaceByte (mem_Text m) nl (CHR '' '')] else matched) in
      if length matched1 \<ge> 10 then matched1
      else file_matches U needles ms (if hit then mem_ID m # seen else seen) matched1)"

definition file_needles :: "unicode \<Rightarrow> string list \<Rightarrow> string list" where
  "file_needles U files = map (toLower U) (filter (\<lambda>f. f \<noteq> []) (map trimSpace files))"

definition renderFileMemoryContext :: "ext \<Rightarrow> string \<Rightarrow> string list \<Rightarrow> string op" where
  "renderFileMemoryContext E proj files =
     (if files = [] then ok []
      else andThen (RecentMemories proj 100) (\<lambda>ms.
      let needles = file_needles (uni E) files; matched = file_matches (uni E) needles ms [] [] in
      if needles = [] \<or> matched = [] then ok []
      else ok (''<mcb-file-context>'' @ [nl] @ ''## Relevant file memories'' @ [nl] @
        concat (map (\<lambda>t. ''- '' @ t @ [nl]) matched) @ ''</mcb-file-context>'')))"

text \<open>The memories and summaries of a project as context.\<close>

definition memory_context :: "Options \<Rightarrow> string \<Rightarrow> string \<Rightarrow> string op" where
  "memory_context opts agent cwd =
     andThen (RecentMemories cwd (op_SessionStartTopN opts)) (\<lambda>ms.
     andThen (RecentSessionSummaries cwd 3) (\<lambda>ss.
     ok (renderMemoryContext ms ss (compactorHint agent (op_Compaction opts)))))"

definition hook_output :: "string \<Rightarrow> string \<Rightarrow> string" where
  "hook_output event context = marshal (JObj [(''hookSpecificOutput'', JObj [(''hookEventName'', JStr event),
     (''additionalContext'', JStr context)])])"

section \<open>Handlers\<close>

definition ensured :: "string \<Rightarrow> string \<Rightarrow> string \<Rightarrow> (string \<Rightarrow> int \<Rightarrow> world \<Rightarrow> hres \<times> world) \<Rightarrow> world \<Rightarrow> hres \<times> world" where
  "ensured agent s cwd k = guarded (andThen now_ms (\<lambda>t.
       andThen (on_store (EnsureSession agent s cwd t)) (\<lambda>sid. ok (sid, t)))) internal_error (\<lambda>(sid, t). k sid t)"

definition claudeSessionStart :: "Options \<Rightarrow> handler" where
  "claudeSessionStart opts = posted session_cwd (\<lambda>(s, cwd). ensured ''claude-code'' s cwd (\<lambda>_ _.
     guarded (on_store (memory_context opts ''claude-code'' cwd)) internal_error (\<lambda>c.
     reply (write_json 200 (hook_output ''SessionStart'' c)))))"

definition opencodeContext :: "Options \<Rightarrow> handler" where
  "opencodeContext opts = posted session_cwd (\<lambda>(s, cwd). ensured ''opencode'' s cwd (\<lambda>_ _.
     guarded (on_store (memory_context opts ''opencode'' cwd)) internal_error (\<lambda>c.
     reply (write_json 200 (marshal (JObj [(''additional_context'', JStr c)]))))))"

definition claudePreCompact :: "ext \<Rightarrow> Options \<Rightarrow> handler" where
  "claudePreCompact E opts = captureRaw E opts NormalizeClaudePreCompact (\<lambda>ev.
     guarded (on_store (memory_context opts ''claude-code'' (ev_CWD ev))) internal_error (\<lambda>c.
     reply (write_json 200 (hook_output ''PreCompact'' c))))"

definition enrich_args :: "request \<Rightarrow> (string \<times> string \<times> string list) option" where
  "enrich_args r = do { ms \<leftarrow> decodeJSON r; s \<leftarrow> str_field ''session_id'' ms; c \<leftarrow> str_field ''cwd'' ms;
     fs \<leftarrow> strs_field ''files'' ms; if s = [] \<or> c = [] then None else Some (s, c, fs) }"

definition opencodeEnrich :: "ext \<Rightarrow> handler" where
  "opencodeEnrich E = posted enrich_args (\<lambda>(s, cwd, files). ensured ''opencode'' s cwd (\<lambda>_ _.
     guarded (on_store (renderFileMemoryContext E cwd files)) internal_error (\<lambda>c.
     reply (write_json 200 (marshal (JObj [(''additional_context'', JStr c), (''context'', JStr c)]))))))"

definition normalizeReplayLimit :: "int \<Rightarrow> int" where
  "normalizeReplayLimit limit = (if limit \<le> 0 then 100 else if limit > 1000 then 1000 else limit)"

definition replay_args :: "request \<Rightarrow> (string \<times> int) option" where
  "replay_args r = do { ms \<leftarrow> decodeJSON r; s \<leftarrow> str_field ''session_id'' ms; l \<leftarrow> int_field ''limit'' ms;
     if s = [] then None else Some (s, l) }"

definition replaySession :: "ext \<Rightarrow> handler" where
  "replaySession E = posted replay_args (\<lambda>(s, l).
     guarded (on_store (ListSessionObservations E s (normalizeReplayLimit l))) internal_error (\<lambda>os.
     reply (write_json 200 (marshal (gomap [(''events'', JArr (map record_json (Records os)))])))))"

definition stop_args :: "request \<Rightarrow> (string \<times> string \<times> bool) option" where
  "stop_args r = do { ms \<leftarrow> decodeJSON r; s \<leftarrow> str_field ''session_id'' ms; c \<leftarrow> str_field ''cwd'' ms;
     b \<leftarrow> bool_field ''stop_hook_active'' ms; if s = [] \<or> c = [] then None else Some (s, c, b) }"

definition claudeStop :: "ext \<Rightarrow> Options \<Rightarrow> handler" where
  "claudeStop E opts = posted stop_args (\<lambda>(s, cwd, active). ensured ''claude-code'' s cwd (\<lambda>sid now.
     guarded (on_store (requestCompaction (uni E) sid cwd ''claude-code'' active (op_Compaction opts) now))
       internal_error (\<lambda>decision.
     if decision = [] then reply no_content
     else reply (write_json 200 (marshal (JObj [(''decision'', JStr ''block''), (''reason'', JStr decision)]))))))"

definition endSession :: "string \<Rightarrow> handler" where
  "endSession agent = posted session_cwd (\<lambda>(s, cwd). ensured agent s cwd (\<lambda>sid now.
     guarded (on_store (EndSession sid now)) internal_error (\<lambda>_. reply no_content)))"

definition subagentStop :: handler where
  "subagentStop = posted (\<lambda>r. do { ms \<leftarrow> decodeJSON r; str_field ''session_id'' ms }) (\<lambda>s w.
     (\<lparr>h_calls = no_content, h_panic = False, h_log = [LogSubagent s]\<rparr>, w))"

definition opencodeCompact :: "ext \<Rightarrow> Options \<Rightarrow> handler" where
  "opencodeCompact E opts = posted session_cwd (\<lambda>(s, cwd). ensured ''opencode'' s cwd (\<lambda>sid now.
     guarded (on_store (requestCompaction (uni E) sid cwd ''opencode'' False (op_Compaction opts) now))
       internal_error (\<lambda>prompt.
     if prompt = [] then reply (write_json 200 (marshal (JObj [(''compact'', JBool False),
         (''reason'', JStr ''compaction not needed'')])))
     else reply (write_json 200 (marshal (JObj [(''compact'', JBool True), (''prompt'', JStr prompt)]))))))"

section \<open>Probes\<close>

definition healthz :: handler where
  "healthz r = (if rq_Method r \<noteq> ''GET'' then reply method_not_allowed else reply [WriteHeader 200])"

definition readyz :: "Options \<Rightarrow> handler" where
  "readyz opts r =
     (if rq_Method r \<noteq> ''GET'' then reply method_not_allowed
      else guarded (on_store Ping) (http_error ''not ready'' 503) (\<lambda>_.
        if (case op_ReadinessProbe opts of Some p \<Rightarrow> p r | None \<Rightarrow> False)
        then reply (http_error ''not ready'' 503) else reply [WriteHeader 200]))"

section \<open>The server\<close>

text \<open>
  The routes of the mux. Paths are in the canonical form; \<open>net/http\<close> redirects others before any
  handler runs.
\<close>

definition routes :: "ext \<Rightarrow> runtime \<Rightarrow> Options \<Rightarrow> (string \<times> handler) list" where
  "routes E rt opts = [
     (''/healthz'', healthz),
     (''/readyz'', readyz opts),
     (''/hooks/post-tool'', capture E opts NormalizeClaudePostTool),
     (''/hooks/pre-tool'', capture E opts NormalizeClaudePreTool),
     (''/hooks/post-tool-failure'', capture E opts NormalizeClaudePostToolFailure),
     (''/hooks/user-prompt'', capture E opts NormalizeClaudeUserPrompt),
     (''/hooks/pre-compact'', claudePreCompact E opts),
     (''/hooks/subagent-start'', capture E opts NormalizeClaudeSubagentStart),
     (''/hooks/notification'', capture E opts NormalizeClaudeNotification),
     (''/hooks/task-completed'', capture E opts NormalizeClaudeTaskCompleted),
     (''/hooks/session-end'', endSession ''claude-code''),
     (''/hooks/stop'', claudeStop E opts),
     (''/hooks/subagent-stop'', subagentStop),
     (''/hooks/session-start'', claudeSessionStart opts),
     (''/integrations/opencode/tool'', capture E opts NormalizeOpenCodeTool),
     (''/integrations/opencode/chat'', capture E opts NormalizeOpenCodeChat),
     (''/integrations/opencode/event'', capture E opts NormalizeOpenCodeEvent),
     (''/integrations/opencode/context'', opencodeContext opts),
     (''/integrations/opencode/enrich'', opencodeEnrich E),
     (''/integrations/opencode/compact'', opencodeCompact E opts),
     (''/integrations/opencode/session-end'', endSession ''opencode''),
     (''/integrations/replay/session'', replaySession E),
     (''/mcp'', ServeHTTP E rt (op_MCPOptions opts))]"

definition mux :: "(string \<times> handler) list \<Rightarrow> handler" where
  "mux rs r = (case map_of rs (rq_Path r) of Some h \<Rightarrow> h r
     | None \<Rightarrow> reply (http_error ''404 page not found'' 404))"

definition NewWithOptions :: "ext \<Rightarrow> runtime \<Rightarrow> Options \<Rightarrow> handler" where
  "NewWithOptions E rt opts0 =
     (let opts = normalizeOptions opts0 in
      recoverMiddleware (authMiddleware (loggingMiddleware (mux (routes E rt opts))) (op_BearerToken opts)))"

end
