(* ===== verification/ServerInv.thy ===== *)
theory ServerInv
  imports Server Invariants
begin

text \<open>
  What every handler of the server keeps of the database: whatever all store operations keep, when
  the captured observations, whose payloads are redacted, are among the inputs it allows.
\<close>

locale server_invariant = store_invariant I E ok_obs for I E ok_obs +
  assumes captured: "oi_PayloadJSON inp = Redact p \<Longrightarrow> ok_obs inp"
begin

lemma wkeeps_text_search [wkeeps_intros]: "wkeeps I (text_search E q p l b)"
  unfolding text_search_def by (auto intro!: wkeeps_intros keeps_readonly op_intros TouchMemories)

lemma wkeeps_search [wkeeps_intros]: "wkeeps I (search E rt opts q p l b)"
  unfolding search_def by (auto intro!: wkeeps_intros Hybrid split: sum.splits)

lemma wkeeps_decoded [wkeeps_intros]: "(\<And>x. wkeeps I (k x)) \<Longrightarrow> wkeeps I (decoded m v valid k)"
  unfolding decoded_def by (auto intro!: wkeeps_intros split: option.splits)

lemma wkeeps_reading [wkeeps_intros]:
  "wkeeps I (memoryRecall E rt opts raw b)" "wkeeps I (memorySessions opts raw)"
  "wkeeps I (memorySessionObservations E raw)" "wkeeps I (profilePayload E opts p)"
  "wkeeps I (memoryTimeline E rt opts raw)" "wkeeps I (memoryFileHistory E opts raw)"
  "wkeeps I (memoryPatterns E opts raw)" "wkeeps I (memoryExport E opts raw)" "wkeeps I (memoryAudit raw)"
  "wkeeps I (memoryVerify E raw)" "wkeeps I (memoryReplay E raw)"
  unfolding memoryRecall_def memorySessions_def memorySessionObservations_def profilePayload_def
    memoryTimeline_def memoryFileHistory_def memoryPatterns_def memoryExport_def memoryAudit_def
    memoryVerify_def memoryReplay_def Let_def
  by (auto intro!: wkeeps_intros keeps_readonly op_intros split: prod.splits sum.splits)

lemma wkeeps_saveMemoryEmbedding [wkeeps_intros]: "wkeeps I (saveMemoryEmbedding E opts i)"
  unfolding saveMemoryEmbedding_def brk_open_def brk_failure_def brk_success_def Let_def
  by (intro wkeeps_intros wkeeps_cases SaveMemoryEmbedding)

lemma wkeeps_ignore [wkeeps_intros]: "wkeeps I m \<Longrightarrow> wkeeps I (ignore m)"
  unfolding wkeeps_def ignore_def by simp

lemma wkeeps_ensureNormalizedSession [wkeeps_intros]: "wkeeps I (ensureNormalizedSession i p)"
proof -
  have "wkeeps I (\<lambda>w. case on_store (EnsureSession a x p t) w of
          (Inl e, w1) \<Rightarrow> (Inl (Wrap ''ensure session'' e), w1) | (Inr _, w1) \<Rightarrow> (Inr (), w1))" for a x t
    by (rule wkeeps_snd [OF wkeeps_store [OF EnsureSession [of a x p t]]]) (simp split: prod.splits sum.splits)
  then show ?thesis unfolding ensureNormalizedSession_def
    by (auto intro!: wkeeps_intros split: list.splits)
qed

lemma wkeeps_writing [wkeeps_intros]:
  "wkeeps I (memorySave E opts raw)" "wkeeps I (memoryForget E rt opts raw)"
  "wkeeps I (memorySessionSummarySave raw)" "wkeeps I (memorySupersede raw)" "wkeeps I (memoryUpdate raw)"
  unfolding memorySave_def memoryForget_def memorySessionSummarySave_def memorySupersede_def memoryUpdate_def Let_def
  by (intro wkeeps_intros wkeeps_cases AddMemory MarkCompactionCompleted DeleteMemories SaveSessionSummary
      SupersedeMemory UpdateMemory)+

lemma wkeeps_run_tool [wkeeps_intros]: "wkeeps I (run_tool E rt opts n a)"
proof -
  have "wkeeps I (memoryProfile E opts a)"
    unfolding memoryProfile_def by (intro wkeeps_intros)
  then show ?thesis unfolding run_tool_def by (intro wkeeps_intros wkeeps_cases)
qed

lemma wkeeps_marshalled [wkeeps_intros]: "wkeeps I (marshalled l v)" "wkeeps I (toolText v)"
  unfolding toolText_def marshalled_def by (intro wkeeps_intros wkeeps_cases)+

lemma wkeeps_resource [wkeeps_intros]: "wkeeps I (readResource E rt opts raw)"
  unfolding readResource_def resource_payload_def
  by (intro wkeeps_intros wkeeps_cases keeps_readonly op_intros)

lemma wkeeps_prompt [wkeeps_intros]: "wkeeps I (getPrompt E raw)"
  unfolding getPrompt_def Let_def by (intro wkeeps_intros wkeeps_cases)

lemma wkeeps_callTool [wkeeps_intros]: "wkeeps I (callTool E rt opts raw)"
  unfolding callTool_def by (intro wkeeps_intros wkeeps_cases)

end

section \<open>Handlers\<close>

lemma wkeeps_reply [wkeeps_intros]: "wkeeps I (reply cs)" "wkeeps I (Pair h)"
  by (simp_all add: wkeeps_def reply_def)

lemma wkeeps_guarded [wkeeps_intros]:
  assumes "wkeeps I m" and k: "\<And>x. wkeeps I (k x)"
  shows "wkeeps I (guarded m cs k)"
proof (rule wkeeps_snd)
  show "wkeeps I (andThen m (\<lambda>x w. (Inr (), snd (k x w))))"
    by (rule wkeeps_andThen [OF assms(1)]) (rule wkeeps_snd [OF k], simp)
qed (simp add: guarded_def andThen_def split: prod.splits sum.splits)

lemma wkeeps_posted [wkeeps_intros]: "(\<And>x. wkeeps I (k x)) \<Longrightarrow> wkeeps I (posted dec k r)"
  unfolding posted_def by (intro wkeeps_intros wkeeps_cases)

lemma wkeeps_respond [wkeeps_intros]: "wkeeps I m \<Longrightarrow> wkeeps I (respond E i m)"
  by (erule wkeeps_snd) (simp add: respond_def split: prod.splits sum.splits)

lemma wkeeps_mux [wkeeps_intros]: "(\<And>p h. (p, h) \<in> set rs \<Longrightarrow> wkeeps I (h r)) \<Longrightarrow> wkeeps I (mux rs r)"
  unfolding mux_def by (auto intro!: wkeeps_intros dest: map_of_SomeD split: option.splits)

lemma wkeeps_logging: "wkeeps I (h r) \<Longrightarrow> wkeeps I (loggingMiddleware h r)"
  by (erule wkeeps_snd) (simp add: loggingMiddleware_def split: prod.splits)

lemma wkeeps_recover: "wkeeps I (h r) \<Longrightarrow> wkeeps I (recoverMiddleware h r)"
  by (erule wkeeps_snd) (simp add: recoverMiddleware_def split: prod.splits)

lemma wkeeps_auth: "wkeeps I (h r) \<Longrightarrow> wkeeps I (authMiddleware h tk r)"
  unfolding authMiddleware_def by (auto simp: wkeeps_def reply_def)

context server_invariant begin

lemma wkeeps_ServeHTTP [wkeeps_intros]: "wkeeps I (ServeHTTP E rt opts r)"
  unfolding ServeHTTP_def dispatch_def Let_def by (intro wkeeps_intros wkeeps_cases)

lemma wkeeps_insertCapturedEvent [wkeeps_intros]: "wkeeps I (insertCapturedEvent E opts ev)"
  unfolding insertCapturedEvent_def
  by (intro wkeeps_intros wkeeps_cases InsertObservation captured) simp

lemma wkeeps_captureRaw [wkeeps_intros]: "(\<And>ev. wkeeps I (k ev)) \<Longrightarrow> wkeeps I (captureRaw E opts n k r)"
  unfolding captureRaw_def by (intro wkeeps_intros)

lemma wkeeps_capture [wkeeps_intros]: "wkeeps I (capture E opts n r)"
  unfolding capture_def by (intro wkeeps_intros)

lemma wkeeps_ensured [wkeeps_intros]: "(\<And>sid t. wkeeps I (k sid t)) \<Longrightarrow> wkeeps I (ensured a s c k)"
  unfolding ensured_def by (intro wkeeps_intros wkeeps_cases EnsureSession)

lemma memory_context_readonly: "readonly (memory_context opts a c)" "readonly (renderFileMemoryContext E' c fs)"
  unfolding memory_context_def renderFileMemoryContext_def Let_def by (auto intro!: op_intros)

lemma wkeeps_handlers [wkeeps_intros]:
  "wkeeps I (claudeSessionStart opts r)" "wkeeps I (opencodeContext opts r)" "wkeeps I (claudePreCompact E opts r)"
  "wkeeps I (opencodeEnrich E r)" "wkeeps I (replaySession E r)" "wkeeps I (claudeStop E opts r)"
  "wkeeps I (endSession a r)" "wkeeps I (subagentStop r)" "wkeeps I (opencodeCompact E opts r)"
  "wkeeps I (healthz r)" "wkeeps I (readyz opts r)"
  unfolding claudeSessionStart_def opencodeContext_def claudePreCompact_def opencodeEnrich_def replaySession_def
    claudeStop_def endSession_def subagentStop_def opencodeCompact_def healthz_def readyz_def
  by (intro wkeeps_intros wkeeps_cases memory_context_readonly [THEN keeps_readonly] requestCompaction EndSession
      keeps_readonly [OF readonly_check(2)] keeps_readonly [OF observations_readonly(2)])+

theorem wkeeps_server: "wkeeps I (NewWithOptions E rt opts r)"
  unfolding NewWithOptions_def Let_def
  by (rule wkeeps_recover, rule wkeeps_auth, rule wkeeps_logging, rule wkeeps_mux)
    (auto simp: routes_def intro!: wkeeps_intros)

end

end
