(* ===== verification/Wellformed.thy ===== *)
theory Wellformed
  imports Invariants
begin

text \<open>
  The well-formed databases: unique keys, references that point to rows, identifiers below the
  sequence counters, readable payloads and vectors. Every SQL statement keeps this
  (interpretation \<open>wf\<close>), so every operation of the store does. Two further facts hold only between
  operations: the observation counter of a session counts its observations, and the full-text
  table mirrors the memories (interpretation \<open>inv\<close>).
\<close>

section \<open>Keys and references\<close>

definition sessions_wf :: "db \<Rightarrow> bool" where
  "sessions_wf d = (distinct (map s_id (sessions d)) \<and>
     (\<forall>r \<in> set (sessions d). s_id r = sessionID (s_agent r) (s_external r)))"

definition obs_wf :: "db \<Rightarrow> bool" where
  "obs_wf d = (distinct (map o_id (observations d)) \<and> 0 \<le> seq_obs d \<and>
     (\<forall>r \<in> set (observations d). 0 < o_id r \<and> o_id r \<le> seq_obs d \<and>
        o_session r \<in> s_id ` set (sessions d) \<and> o_encoding r \<in> {''raw'', ''zstd''}))"

definition mem_wf :: "db \<Rightarrow> bool" where
  "mem_wf d = (distinct (map m_id (memories d)) \<and> 0 \<le> seq_mem d \<and>
     (\<forall>r \<in> set (memories d). 0 < m_id r \<and> m_id r \<le> seq_mem d \<and> m_importance r \<noteq> NaN \<and>
        set_option (m_session r) \<subseteq> s_id ` set (sessions d) \<and>
        set_option (m_superseded r) \<subseteq> m_id ` set (memories d)))"

definition emb_wf :: "db \<Rightarrow> bool" where
  "emb_wf d = (distinct (map e_memory (embeddings d)) \<and>
     (\<forall>r \<in> set (embeddings d). e_memory r \<in> m_id ` set (memories d) \<and> 0 < e_dim r \<and>
        int (length (e_vec r)) = 4 * e_dim r))"

definition att_wf :: "db \<Rightarrow> bool" where
  "att_wf d = (distinct (map a_id (attempts d)) \<and>
     (\<forall>r \<in> set (attempts d). a_id r \<le> seq_att d \<and> a_session r \<in> s_id ` set (sessions d)))"

definition log_wf :: "db \<Rightarrow> bool" where
  "log_wf d = (distinct (map u_id (audits d)) \<and> (\<forall>r \<in> set (audits d). u_id r \<le> seq_audit d) \<and>
     distinct (map (\<lambda>x. (i_path x, i_event x)) (imports_t d)))"

definition db_wf :: "db \<Rightarrow> bool" where
  "db_wf d = (sessions_wf d \<and> obs_wf d \<and> mem_wf d \<and> emb_wf d \<and> att_wf d \<and> log_wf d)"

lemmas wf_defs = sessions_wf_def obs_wf_def mem_wf_def emb_wf_def att_wf_def log_wf_def

text \<open>Updates of the tables a conjunct does not mention.\<close>

lemma wf_frames [simp]:
  "sessions_wf (d\<lparr>observations := v_observations\<rparr>) = sessions_wf d"
  "sessions_wf (d\<lparr>memories := v_memories\<rparr>) = sessions_wf d"
  "sessions_wf (d\<lparr>embeddings := v_embeddings\<rparr>) = sessions_wf d"
  "sessions_wf (d\<lparr>attempts := v_attempts\<rparr>) = sessions_wf d"
  "sessions_wf (d\<lparr>audits := v_audits\<rparr>) = sessions_wf d"
  "sessions_wf (d\<lparr>imports_t := v_imports_t\<rparr>) = sessions_wf d"
  "sessions_wf (d\<lparr>fts := v_fts\<rparr>) = sessions_wf d"
  "sessions_wf (d\<lparr>seq_obs := v_seq_obs\<rparr>) = sessions_wf d"
  "sessions_wf (d\<lparr>seq_mem := v_seq_mem\<rparr>) = sessions_wf d"
  "sessions_wf (d\<lparr>seq_att := v_seq_att\<rparr>) = sessions_wf d"
  "sessions_wf (d\<lparr>seq_audit := v_seq_audit\<rparr>) = sessions_wf d"
  "sessions_wf (d\<lparr>seq_import := v_seq_import\<rparr>) = sessions_wf d"
  "obs_wf (d\<lparr>memories := v_memories\<rparr>) = obs_wf d"
  "obs_wf (d\<lparr>embeddings := v_embeddings\<rparr>) = obs_wf d"
  "obs_wf (d\<lparr>attempts := v_attempts\<rparr>) = obs_wf d"
  "obs_wf (d\<lparr>audits := v_audits\<rparr>) = obs_wf d"
  "obs_wf (d\<lparr>imports_t := v_imports_t\<rparr>) = obs_wf d"
  "obs_wf (d\<lparr>fts := v_fts\<rparr>) = obs_wf d"
  "obs_wf (d\<lparr>seq_mem := v_seq_mem\<rparr>) = obs_wf d"
  "obs_wf (d\<lparr>seq_att := v_seq_att\<rparr>) = obs_wf d"
  "obs_wf (d\<lparr>seq_audit := v_seq_audit\<rparr>) = obs_wf d"
  "obs_wf (d\<lparr>seq_import := v_seq_import\<rparr>) = obs_wf d"
  "mem_wf (d\<lparr>observations := v_observations\<rparr>) = mem_wf d"
  "mem_wf (d\<lparr>embeddings := v_embeddings\<rparr>) = mem_wf d"
  "mem_wf (d\<lparr>attempts := v_attempts\<rparr>) = mem_wf d"
  "mem_wf (d\<lparr>audits := v_audits\<rparr>) = mem_wf d"
  "mem_wf (d\<lparr>imports_t := v_imports_t\<rparr>) = mem_wf d"
  "mem_wf (d\<lparr>fts := v_fts\<rparr>) = mem_wf d"
  "mem_wf (d\<lparr>seq_obs := v_seq_obs\<rparr>) = mem_wf d"
  "mem_wf (d\<lparr>seq_att := v_seq_att\<rparr>) = mem_wf d"
  "mem_wf (d\<lparr>seq_audit := v_seq_audit\<rparr>) = mem_wf d"
  "mem_wf (d\<lparr>seq_import := v_seq_import\<rparr>) = mem_wf d"
  "emb_wf (d\<lparr>sessions := v_sessions\<rparr>) = emb_wf d"
  "emb_wf (d\<lparr>observations := v_observations\<rparr>) = emb_wf d"
  "emb_wf (d\<lparr>attempts := v_attempts\<rparr>) = emb_wf d"
  "emb_wf (d\<lparr>audits := v_audits\<rparr>) = emb_wf d"
  "emb_wf (d\<lparr>imports_t := v_imports_t\<rparr>) = emb_wf d"
  "emb_wf (d\<lparr>fts := v_fts\<rparr>) = emb_wf d"
  "emb_wf (d\<lparr>seq_obs := v_seq_obs\<rparr>) = emb_wf d"
  "emb_wf (d\<lparr>seq_mem := v_seq_mem\<rparr>) = emb_wf d"
  "emb_wf (d\<lparr>seq_att := v_seq_att\<rparr>) = emb_wf d"
  "emb_wf (d\<lparr>seq_audit := v_seq_audit\<rparr>) = emb_wf d"
  "emb_wf (d\<lparr>seq_import := v_seq_import\<rparr>) = emb_wf d"
  "att_wf (d\<lparr>observations := v_observations\<rparr>) = att_wf d"
  "att_wf (d\<lparr>memories := v_memories\<rparr>) = att_wf d"
  "att_wf (d\<lparr>embeddings := v_embeddings\<rparr>) = att_wf d"
  "att_wf (d\<lparr>audits := v_audits\<rparr>) = att_wf d"
  "att_wf (d\<lparr>imports_t := v_imports_t\<rparr>) = att_wf d"
  "att_wf (d\<lparr>fts := v_fts\<rparr>) = att_wf d"
  "att_wf (d\<lparr>seq_obs := v_seq_obs\<rparr>) = att_wf d"
  "att_wf (d\<lparr>seq_mem := v_seq_mem\<rparr>) = att_wf d"
  "att_wf (d\<lparr>seq_audit := v_seq_audit\<rparr>) = att_wf d"
  "att_wf (d\<lparr>seq_import := v_seq_import\<rparr>) = att_wf d"
  "log_wf (d\<lparr>sessions := v_sessions\<rparr>) = log_wf d"
  "log_wf (d\<lparr>observations := v_observations\<rparr>) = log_wf d"
  "log_wf (d\<lparr>memories := v_memories\<rparr>) = log_wf d"
  "log_wf (d\<lparr>embeddings := v_embeddings\<rparr>) = log_wf d"
  "log_wf (d\<lparr>attempts := v_attempts\<rparr>) = log_wf d"
  "log_wf (d\<lparr>fts := v_fts\<rparr>) = log_wf d"
  "log_wf (d\<lparr>seq_obs := v_seq_obs\<rparr>) = log_wf d"
  "log_wf (d\<lparr>seq_mem := v_seq_mem\<rparr>) = log_wf d"
  "log_wf (d\<lparr>seq_att := v_seq_att\<rparr>) = log_wf d"
  "log_wf (d\<lparr>seq_import := v_seq_import\<rparr>) = log_wf d"
  by (simp_all add: wf_defs)

lemma map_if_key: "(\<And>r. key (f r) = key r) \<Longrightarrow> map key (map (\<lambda>x. if P x then f x else x) xs) = map key xs"
  by (induction xs) auto

lemma image_if_key:
  "(\<And>r. key (f r) = key r) \<Longrightarrow> key ` set (map (\<lambda>x. if P x then f x else x) xs) = key ` set xs"
  by (metis list.set_map map_if_key)

lemma distinct_snoc_fresh:
  "distinct (map key xs) \<Longrightarrow> (\<forall>r \<in> set xs. key r \<le> (n::int)) \<Longrightarrow> key y = n + 1 \<Longrightarrow>
     distinct (map key (xs @ [y]))"
  by force

lemma empty_wf: "db_wf empty_db"
  by (simp add: db_wf_def wf_defs empty_db_def)

lemma wf_insert_session:
  assumes "db_wf d" "sql_insert_session r d = Inr (n, d')" "s_id r = sessionID (s_agent r) (s_external r)"
  shows "db_wf d'"
proof (cases "d' = d")
  case False
  then have d': "d' = d\<lparr>sessions := sessions d @ [r]\<rparr>" "s_id r \<notin> s_id ` set (sessions d)"
    using assms(2) by (auto simp: sql_insert_session_def split: if_splits)
  have "sessions_wf d'" using assms(1,3) d'(2) by (auto simp: d'(1) sessions_wf_def db_wf_def)
  moreover have "obs_wf d'" using assms(1) by (auto simp: d'(1) obs_wf_def db_wf_def)
  moreover have "mem_wf d'" using assms(1) by (auto simp: d'(1) mem_wf_def db_wf_def)
  moreover have "emb_wf d'" "att_wf d'" "log_wf d'"
    using assms(1) by (auto simp: d'(1) emb_wf_def att_wf_def log_wf_def db_wf_def)
  ultimately show ?thesis by (simp add: db_wf_def)
qed (use assms in simp)

lemma wf_update_session:
  assumes "db_wf d" "sql_update_session i f d = Inr (n, d')" "session_update f"
  shows "db_wf d'"
proof -
  let ?ss = "map (\<lambda>x. if s_id x = i then f x else x) (sessions d)"
  have d': "d' = d\<lparr>sessions := ?ss\<rparr>" using assms(2) by (simp add: sql_update_session_def)
  have key: "\<And>r. s_id (f r) = s_id r" using assms(3) by (simp add: session_update_def)
  note ids = map_if_key [of s_id f "\<lambda>x. s_id x = i", OF key]
    image_if_key [of s_id f "\<lambda>x. s_id x = i", OF key]
  have "sessions_wf d'" using assms(1,3) by (auto simp: d' sessions_wf_def db_wf_def ids session_update_def simp del: map_map)
  moreover have "obs_wf d'" "mem_wf d'" "emb_wf d'" "att_wf d'" "log_wf d'"
    using assms(1) by (simp_all add: d' obs_wf_def mem_wf_def emb_wf_def att_wf_def log_wf_def db_wf_def ids del: set_map)
  ultimately show ?thesis by (simp add: db_wf_def)
qed

lemma wf_insert_obs:
  assumes "db_wf d" "sql_insert_obs r d = Inr (n, d')" "o_encoding r \<in> {''raw'', ''zstd''}"
  shows "db_wf d'"
proof -
  have d': "d' = d\<lparr>observations := observations d @ [r\<lparr>o_id := seq_obs d + 1\<rparr>], seq_obs := seq_obs d + 1\<rparr>"
    "o_session r \<in> s_id ` set (sessions d)"
    using assms(2) by (auto simp: sql_insert_obs_def split: if_splits)
  have o: "obs_wf d" using assms(1) by (simp add: db_wf_def)
  then have "distinct (map o_id (observations d @ [r\<lparr>o_id := seq_obs d + 1\<rparr>]))"
    by (intro distinct_snoc_fresh [where n = "seq_obs d"]) (auto simp: obs_wf_def)
  then have "obs_wf d'" using o d'(2) assms(3) by (auto simp: d'(1) obs_wf_def)
  then show ?thesis using assms(1) by (simp add: db_wf_def d'(1))
qed

lemma wf_insert_memory:
  assumes "db_wf d" "sql_insert_memory r d = Inr (n, d')" "m_superseded r = None"
  shows "db_wf d'"
proof -
  have d': "d' = d\<lparr>memories := memories d @ [r\<lparr>m_id := seq_mem d + 1\<rparr>], seq_mem := seq_mem d + 1\<rparr>"
    "set_option (m_session r) \<subseteq> s_id ` set (sessions d)" "m_importance r \<noteq> NaN"
    using assms(2) by (auto simp: sql_insert_memory_def split: if_splits)
  have m: "mem_wf d" using assms(1) by (simp add: db_wf_def)
  then have "distinct (map m_id (memories d @ [r\<lparr>m_id := seq_mem d + 1\<rparr>]))"
    by (intro distinct_snoc_fresh [where n = "seq_mem d"]) (auto simp: mem_wf_def)
  then have "mem_wf d'" using m d'(2,3) assms(3) by (auto simp: d'(1) mem_wf_def)
  moreover have "emb_wf d'" using assms(1) by (auto simp: d'(1) emb_wf_def db_wf_def)
  ultimately show ?thesis using assms(1) by (simp add: db_wf_def d'(1))
qed

lemma wf_memories_map:
  assumes "db_wf d" and key: "\<And>r. m_id (f r) = m_id r \<and> m_session (f r) = m_session r"
    and imp: "\<And>r. r \<in> set (memories d) \<Longrightarrow> P r \<Longrightarrow> m_importance (f r) \<noteq> NaN"
    and sup: "\<And>r. r \<in> set (memories d) \<Longrightarrow> P r \<Longrightarrow> set_option (m_superseded (f r)) \<subseteq> m_id ` set (memories d)"
  shows "db_wf (d\<lparr>memories := map (\<lambda>x. if P x then f x else x) (memories d)\<rparr>)"
proof -
  let ?d = "d\<lparr>memories := map (\<lambda>x. if P x then f x else x) (memories d)\<rparr>"
  have id: "\<And>r. m_id (f r) = m_id r" using key by simp
  note ids = map_if_key [of m_id f P, OF id] image_if_key [of m_id f P, OF id]
  have m: "mem_wf d" using assms(1) by (simp add: db_wf_def)
  have "mem_wf ?d"
    unfolding mem_wf_def
  proof (intro conjI ballI)
    show "distinct (map m_id (memories ?d))" using m by (simp add: mem_wf_def ids del: map_map)
    show "0 \<le> seq_mem ?d" using m by (simp add: mem_wf_def)
    fix r assume "r \<in> set (memories ?d)"
    then obtain q where q: "q \<in> set (memories d)" "r = (if P q then f q else q)" by auto
    note qw = m [unfolded mem_wf_def, THEN conjunct2, THEN conjunct2, rule_format, OF q(1)]
    have "m_id r = m_id q" "m_session r = m_session q" using q(2) key by auto
    then show "0 < m_id r" "m_id r \<le> seq_mem ?d" "set_option (m_session r) \<subseteq> s_id ` set (sessions ?d)"
      using qw by auto
    show "m_importance r \<noteq> NaN" using q qw imp by auto
    have "set_option (m_superseded r) \<subseteq> m_id ` set (memories d)" using q qw sup by (cases "P q") auto
    then show "set_option (m_superseded r) \<subseteq> m_id ` set (memories ?d)" by (simp add: ids del: set_map)
  qed
  moreover have "emb_wf ?d" using assms(1) by (simp add: emb_wf_def db_wf_def ids del: set_map)
  ultimately show ?thesis using assms(1) by (simp add: db_wf_def)
qed

lemma wf_delete_memory:
  assumes "db_wf d" "sql_delete_memory k d = Inr (n, d')"
  shows "db_wf d'"
proof (cases "d' = d")
  case False
  let ?ms = "filter (\<lambda>x. m_id x \<noteq> k) (memories d)"
  have d': "d' = d\<lparr>memories := ?ms, embeddings := filter (\<lambda>x. e_memory x \<noteq> k) (embeddings d)\<rparr>"
    and no: "\<forall>x \<in> set (memories d). m_id x \<noteq> k \<longrightarrow> m_superseded x \<noteq> Some k"
    using assms(2) False by (auto simp: sql_delete_memory_def split: if_splits)
  have m: "mem_wf d" and e: "emb_wf d" using assms(1) by (simp_all add: db_wf_def)
  have ids: "m_id ` set ?ms = m_id ` set (memories d) - {k}" by auto
  have "set_option (m_superseded r) \<subseteq> m_id ` set ?ms" if "r \<in> set ?ms" for r
    unfolding ids using that m no by (cases "m_superseded r") (auto simp: mem_wf_def)
  then have "mem_wf d'" using m by (simp add: mem_wf_def d' distinct_map_filter)
  moreover have "emb_wf d'" using e by (auto simp: emb_wf_def d' distinct_map_filter)
  ultimately show ?thesis using assms(1) by (simp add: d' db_wf_def)
qed (use assms in simp)

lemma wf_embeddings:
  assumes "db_wf d" and "emb_wf (d\<lparr>embeddings := es\<rparr>)"
  shows "db_wf (d\<lparr>embeddings := es\<rparr>)"
  using assms by (simp add: db_wf_def)

interpretation wf: stmt_invariant db_wf E "\<lambda>_. True" "\<lambda>ro. o_encoding ro \<in> {''raw'', ''zstd''}"
proof
  show "o_encoding (captured_row E inp sid) \<in> {''raw'', ''zstd''}" for inp sid by (rule captured_encoding)
  fix d d' :: db and n
  assume wf: "db_wf d"
  show "sql_insert_session r d = Inr (n, d') \<Longrightarrow> s_id r = sessionID (s_agent r) (s_external r) \<Longrightarrow> db_wf d'" for r
    by (rule wf_insert_session [OF wf])
  show "sql_update_session i fs d = Inr (n, d') \<Longrightarrow> session_update fs \<Longrightarrow> db_wf d'" for i fs
    by (rule wf_update_session [OF wf])
  show "sql_insert_import pa ev t d = Inr (n, d') \<Longrightarrow> db_wf d'" for pa ev t
    using wf by (auto simp: sql_insert_import_def db_wf_def log_wf_def split: if_splits)
  show "sql_insert_obs ro d = Inr (n, d') \<Longrightarrow> o_encoding ro \<in> {''raw'', ''zstd''} \<Longrightarrow> db_wf d'" for ro
    by (rule wf_insert_obs [OF wf])
  show "sql_insert_audit ra d = Inr (n, d') \<Longrightarrow> db_wf d'" for ra
    using wf by (force simp: sql_insert_audit_def db_wf_def log_wf_def)
  show "sql_insert_memory rm d = Inr (n, d') \<Longrightarrow> m_superseded rm = None \<Longrightarrow> db_wf d'" for rm
    by (rule wf_insert_memory [OF wf])
  show "sql_insert_fts k t' d = Inr (n, d') \<Longrightarrow> db_wf d'" for k t'
    using wf by (auto simp: sql_insert_fts_def db_wf_def split: if_splits)
  show "sql_delete_fts k d = Inr (n, d') \<Longrightarrow> db_wf d'" for k
    using wf by (auto simp: sql_delete_fts_def db_wf_def)
  show "sql_update_memory k fm d = Inr (n, d') \<Longrightarrow> memory_update fm \<Longrightarrow> db_wf d'" for k fm
  proof -
    assume a: "sql_update_memory k fm d = Inr (n, d')" "memory_update fm"
    then have "d' = d\<lparr>memories := map (\<lambda>x. if m_id x = k then fm x else x) (memories d)\<rparr>"
      "\<And>r. r \<in> set (memories d) \<Longrightarrow> m_id r = k \<Longrightarrow> m_importance (fm r) \<noteq> NaN"
      by (auto simp: sql_update_memory_def split: if_splits)
    moreover have "mem_wf d" using wf by (simp add: db_wf_def)
    ultimately show ?thesis using a(2)
      by (auto simp: memory_update_def mem_wf_def intro!: wf_memories_map [OF wf])
  qed
  show "sql_supersede k l d = Inr (n, d') \<Longrightarrow> db_wf d'" for k l
  proof -
    assume "sql_supersede k l d = Inr (n, d')"
    then have "d' = d\<lparr>memories := map (\<lambda>x. if m_id x = k then x\<lparr>m_superseded := Some l\<rparr> else x) (memories d)\<rparr>"
      and l: "k \<in> m_id ` set (memories d) \<longrightarrow> l \<in> m_id ` set (memories d)"
      by (auto simp: sql_supersede_def sql_update_memory_def split: if_splits)
    moreover have "mem_wf d" using wf by (simp add: db_wf_def)
    ultimately show ?thesis
      by (auto simp: mem_wf_def intro!: wf_memories_map [OF wf])
  qed
  show "sql_delete_memory k d = Inr (n, d') \<Longrightarrow> db_wf d'" for k
    by (rule wf_delete_memory [OF wf])
  show "sql_upsert_embedding re d = Inr (n, d') \<Longrightarrow> 0 < e_dim re \<Longrightarrow>
      int (length (e_vec re)) = 4 * e_dim re \<Longrightarrow> db_wf d'" for re
  proof -
    assume a: "sql_upsert_embedding re d = Inr (n, d')" "0 < e_dim re" "int (length (e_vec re)) = 4 * e_dim re"
    have e: "emb_wf d" using wf by (simp add: db_wf_def)
    have "map e_memory (map (\<lambda>x. if e_memory x = e_memory re then re else x) (embeddings d)) =
        map e_memory (embeddings d)" by auto
    then show ?thesis using a e
      by (auto simp: sql_upsert_embedding_def emb_wf_def split: if_splits intro!: wf_embeddings [OF wf] simp del: map_map)
  qed
  show "sql_delete_embeddings p m d = Inr (n, d') \<Longrightarrow> db_wf d'" for p m
    using wf by (auto simp: sql_delete_embeddings_def Let_def emb_wf_def db_wf_def distinct_map_filter
        intro!: wf_embeddings [OF wf])
  show "sql_insert_attempt rt d = Inr (n, d') \<Longrightarrow> db_wf d'" for rt
  proof -
    assume "sql_insert_attempt rt d = Inr (n, d')"
    then have d': "d' = d\<lparr>attempts := attempts d @ [rt\<lparr>a_id := seq_att d + 1\<rparr>], seq_att := seq_att d + 1\<rparr>"
      "a_session rt \<in> s_id ` set (sessions d)"
      by (auto simp: sql_insert_attempt_def split: if_splits)
    have a: "att_wf d" using wf by (simp add: db_wf_def)
    then have "distinct (map a_id (attempts d @ [rt\<lparr>a_id := seq_att d + 1\<rparr>]))"
      by (intro distinct_snoc_fresh [where n = "seq_att d"]) (auto simp: att_wf_def)
    then have "att_wf d'" using a d'(2) by (auto simp: d'(1) att_wf_def)
    then show ?thesis using wf by (simp add: db_wf_def d'(1))
  qed
  show "sql_update_attempts P ft d = Inr (n, d') \<Longrightarrow> attempt_update ft \<Longrightarrow> db_wf d'" for P ft
  proof -
    assume "sql_update_attempts P ft d = Inr (n, d')" and f: "attempt_update ft"
    then have d': "d' = d\<lparr>attempts := map (\<lambda>x. if P x then ft x else x) (attempts d)\<rparr>"
      by (simp add: sql_update_attempts_def)
    have "att_wf d" using wf by (simp add: db_wf_def)
    then have "att_wf d'" using f map_if_key [of a_id ft P "attempts d"]
      by (auto simp: d' att_wf_def attempt_update_def simp del: map_map)
    then show ?thesis using wf by (simp add: db_wf_def d')
  qed
qed

section \<open>The counter and the full-text mirror\<close>

definition obs_of :: "string \<Rightarrow> db \<Rightarrow> obs_row list" where
  "obs_of i d = filter (\<lambda>o'. o_session o' = i) (observations d)"

definition nobs_ok :: "db \<Rightarrow> bool" where
  "nobs_ok d = (\<forall>r \<in> set (sessions d). s_nobs r = int (length (obs_of (s_id r) d)))"

definition fts_ok :: "db \<Rightarrow> bool" where
  "fts_ok d = (distinct (map fst (fts d)) \<and> set (fts d) = (\<lambda>m. (m_id m, m_text m)) ` set (memories d))"

definition store_inv :: "bool \<Rightarrow> db \<Rightarrow> bool" where
  "store_inv b d = (db_wf d \<and> nobs_ok d \<and> (b \<longrightarrow> fts_ok d))"

lemma inv_frames [simp]:
  "nobs_ok (d\<lparr>memories := v_memories\<rparr>) = nobs_ok d"
  "nobs_ok (d\<lparr>embeddings := v_embeddings\<rparr>) = nobs_ok d"
  "nobs_ok (d\<lparr>attempts := v_attempts\<rparr>) = nobs_ok d"
  "nobs_ok (d\<lparr>audits := v_audits\<rparr>) = nobs_ok d"
  "nobs_ok (d\<lparr>imports_t := v_imports_t\<rparr>) = nobs_ok d"
  "nobs_ok (d\<lparr>fts := v_fts\<rparr>) = nobs_ok d"
  "nobs_ok (d\<lparr>seq_obs := v_seq_obs\<rparr>) = nobs_ok d"
  "nobs_ok (d\<lparr>seq_mem := v_seq_mem\<rparr>) = nobs_ok d"
  "nobs_ok (d\<lparr>seq_att := v_seq_att\<rparr>) = nobs_ok d"
  "nobs_ok (d\<lparr>seq_audit := v_seq_audit\<rparr>) = nobs_ok d"
  "nobs_ok (d\<lparr>seq_import := v_seq_import\<rparr>) = nobs_ok d"
  "fts_ok (d\<lparr>sessions := v_sessions\<rparr>) = fts_ok d"
  "fts_ok (d\<lparr>observations := v_observations\<rparr>) = fts_ok d"
  "fts_ok (d\<lparr>embeddings := v_embeddings\<rparr>) = fts_ok d"
  "fts_ok (d\<lparr>attempts := v_attempts\<rparr>) = fts_ok d"
  "fts_ok (d\<lparr>audits := v_audits\<rparr>) = fts_ok d"
  "fts_ok (d\<lparr>imports_t := v_imports_t\<rparr>) = fts_ok d"
  "fts_ok (d\<lparr>seq_obs := v_seq_obs\<rparr>) = fts_ok d"
  "fts_ok (d\<lparr>seq_mem := v_seq_mem\<rparr>) = fts_ok d"
  "fts_ok (d\<lparr>seq_att := v_seq_att\<rparr>) = fts_ok d"
  "fts_ok (d\<lparr>seq_audit := v_seq_audit\<rparr>) = fts_ok d"
  "fts_ok (d\<lparr>seq_import := v_seq_import\<rparr>) = fts_ok d"
  by (simp_all add: nobs_ok_def obs_of_def fts_ok_def)

lemma empty_inv: "store_inv b empty_db"
  using empty_wf by (simp add: store_inv_def nobs_ok_def fts_ok_def empty_db_def)

lemma inv_insert_session:
  assumes "store_inv b d" "sql_insert_session r d = Inr (n, d')"
    "s_id r = sessionID (s_agent r) (s_external r)" "s_nobs r = 0"
  shows "store_inv b d'"
proof (cases "d' = d")
  case False
  then have d': "d' = d\<lparr>sessions := sessions d @ [r]\<rparr>" "s_id r \<notin> s_id ` set (sessions d)"
    using assms(2) by (auto simp: sql_insert_session_def split: if_splits)
  have "obs_wf d" using assms(1) by (simp add: store_inv_def db_wf_def)
  then have "\<forall>x \<in> set (observations d). o_session x \<noteq> s_id r" using d'(2) unfolding obs_wf_def by metis
  then have "obs_of (s_id r) d = []" by (simp add: obs_of_def filter_empty_conv)
  then have "nobs_ok d'" using assms(1,4) by (simp add: d' nobs_ok_def store_inv_def obs_of_def)
  then show ?thesis using assms wf_insert_session [of d r n d'] by (simp add: store_inv_def d')
qed (use assms in simp)

lemma inv_update_session:
  assumes "store_inv b d" "sql_update_session i f d = Inr (n, d')" "session_update f"
    "\<And>r. s_nobs (f r) = s_nobs r"
  shows "store_inv b d'"
proof -
  have "nobs_ok d'"
    using assms by (auto simp: sql_update_session_def nobs_ok_def store_inv_def obs_of_def session_update_def)
  then show ?thesis
    using assms wf_update_session [of d i f n d'] by (simp add: store_inv_def sql_update_session_def) auto
qed

text \<open>A capture adds one row and one to the counter of its session.\<close>

lemma inv_capture:
  assumes inv: "store_inv b d" and i: "sql_insert_obs r d = Inr (n, d1)" "o_encoding r \<in> {''raw'', ''zstd''}"
    and u: "sql_update_session (o_session r) (\<lambda>q. q\<lparr>s_nobs := s_nobs q + 1\<rparr>) d1 = Inr (k, d2)"
  shows "store_inv b d2"
proof -
  have w: "db_wf d2"
    using wf_update_session [OF wf_insert_obs [OF _ i] u] inv
    by (simp add: store_inv_def session_update_def)
  have d1: "d1 = d\<lparr>observations := observations d @ [r\<lparr>o_id := seq_obs d + 1\<rparr>], seq_obs := seq_obs d + 1\<rparr>"
    using i by (auto simp: sql_insert_obs_def split: if_splits)
  have "nobs_ok d2"
    using inv u by (auto simp: sql_update_session_def d1 nobs_ok_def store_inv_def obs_of_def)
  then show ?thesis using w inv u by (auto simp: store_inv_def sql_update_session_def d1)
qed

lemma inv_other:
  assumes "store_inv b d" "db_wf d'" "sessions d' = sessions d" "observations d' = observations d"
    "b \<longrightarrow> fts d' = fts d \<and> (\<lambda>m. (m_id m, m_text m)) ` set (memories d') = (\<lambda>m. (m_id m, m_text m)) ` set (memories d)"
  shows "store_inv b d'"
  using assms by (auto simp: store_inv_def nobs_ok_def obs_of_def fts_ok_def)

text \<open>The transactions on memories and their mirror.\<close>

lemma inv_call_other:
  assumes "\<And>d x d'. db_wf d \<Longrightarrow> f d = Inr (x, d') \<Longrightarrow> db_wf d'"
    and "\<And>d x d'. f d = Inr (x, d') \<Longrightarrow> sessions d' = sessions d \<and> observations d' = observations d \<and>
      fts d' = fts d \<and> (\<lambda>m. (m_id m, m_text m)) ` set (memories d') = (\<lambda>m. (m_id m, m_text m)) ` set (memories d)"
  shows "keeps store_inv (call lb f)"
proof (rule keeps_call)
  fix b d x d' assume i: "store_inv b d" and f: "f d = Inr (x, d')"
  have "db_wf d'" using assms(1) [OF _ f] i by (simp add: store_inv_def)
  then show "store_inv b d'" using inv_other [OF i] assms(2) [OF f] by blast
qed

lemma inv_calls:
  "keeps store_inv (call lb (sql_insert_import pa ev t))"
  "keeps store_inv (call lb (sql_insert_audit ra))"
  "keeps store_inv (call lb (sql_supersede k l))"
  "keeps store_inv (call lb (sql_delete_embeddings p m))"
  "keeps store_inv (call lb (sql_insert_attempt rt))"
  "attempt_update ft \<Longrightarrow> keeps store_inv (call lb (\<lambda>d. sql_update_attempts (P d) ft d))"
  "0 < e_dim re \<Longrightarrow> int (length (e_vec re)) = 4 * e_dim re \<Longrightarrow>
     keeps store_inv (call lb (sql_upsert_embedding re))"
  "memory_update fm \<Longrightarrow> (\<And>r. m_text (fm r) = m_text r) \<Longrightarrow> keeps store_inv (call lb (sql_update_memory k fm))"
  "s_id r = sessionID (s_agent r) (s_external r) \<Longrightarrow> s_nobs r = 0 \<Longrightarrow>
     keeps store_inv (call lb (sql_insert_session r))"
  "session_update fs \<Longrightarrow> (\<And>r. s_nobs (fs r) = s_nobs r) \<Longrightarrow> keeps store_inv (call lb (sql_update_session i fs))"
proof -
  have upd: "(\<lambda>m. (m_id m, m_text m)) ` set (map (\<lambda>x. if m_id x = k then g x else x) ms) =
      (\<lambda>m. (m_id m, m_text m)) ` set ms" if "\<And>r. m_id (g r) = m_id r \<and> m_text (g r) = m_text r" for g k ms
    by (rule image_if_key) (simp add: that)
  show "keeps store_inv (call lb (sql_insert_import pa ev t))"
    by (rule inv_call_other, erule (1) wf.insert_import, auto simp: sql_insert_import_def split: if_splits)
  show "keeps store_inv (call lb (sql_insert_audit ra))"
    by (rule inv_call_other, erule (1) wf.insert_audit, auto simp: sql_insert_audit_def split: if_splits)
  show "keeps store_inv (call lb (sql_supersede k l))"
    by (rule inv_call_other, erule (1) wf.supersede, auto simp: sql_supersede_def sql_update_memory_def upd simp del: set_map split: if_splits)
  show "keeps store_inv (call lb (sql_delete_embeddings p m))"
    by (rule inv_call_other, erule (1) wf.delete_embeddings, auto simp: sql_delete_embeddings_def Let_def split: if_splits)
  show "keeps store_inv (call lb (sql_insert_attempt rt))"
    by (rule inv_call_other, erule (1) wf.insert_attempt, auto simp: sql_insert_attempt_def split: if_splits)
  show "keeps store_inv (call lb (\<lambda>d. sql_update_attempts (P d) ft d))" if "attempt_update ft"
    by (rule inv_call_other, erule (1) wf.update_attempts, rule that, auto simp: sql_update_attempts_def)
  show "keeps store_inv (call lb (sql_upsert_embedding re))" if "0 < e_dim re" "int (length (e_vec re)) = 4 * e_dim re"
    by (rule inv_call_other, erule (1) wf.upsert_embedding, rule that, rule that,
      auto simp: sql_upsert_embedding_def split: if_splits)
  show "keeps store_inv (call lb (sql_update_memory k fm))" if "memory_update fm" "\<And>r. m_text (fm r) = m_text r"
    by (rule inv_call_other, erule (1) wf.update_memory, rule that,
      use that in \<open>auto simp: sql_update_memory_def memory_update_def upd simp del: set_map split: if_splits\<close>)
  show "keeps store_inv (call lb (sql_insert_session r))" if "s_id r = sessionID (s_agent r) (s_external r)" "s_nobs r = 0"
    using that by (intro keeps_call) (rule inv_insert_session)
  show "keeps store_inv (call lb (sql_update_session i fs))" if "session_update fs" "\<And>r. s_nobs (fs r) = s_nobs r"
    using that by (intro keeps_call) (rule inv_update_session)
qed

lemma inv_audit: "keeps store_inv (insertAuditTx e)"
  unfolding insertAuditTx_def by (intro keeps_intros inv_calls)

end
