(* ===== verification/Mirror.thy ===== *)
theory Mirror
  imports Wellformed
begin

text \<open>
  The operations that touch two tables at once: a capture inserts the observation and increments
  the counter, adding, updating and deleting a memory goes with the full-text table. Each keeps
  \<open>store_inv\<close> as a whole; with the statements that keep it alone this gives the interpretation
  \<open>inv\<close> of \<open>store_invariant\<close>.
\<close>

section \<open>Capture\<close>

lemma inv_InsertObservation: "keeps store_inv (InsertObservation E inp w)"
proof (rule keeps_triple)
  show "atomic_op (InsertObservation E inp w)" by (rule op_intros)
  let ?row = "captured_row E inp"
  have ens: "triple store_inv (ensureSession (oi_Agent inp) (oi_ExternalSessionID inp) (oi_CWD inp) (oi_TS inp)) (\<lambda>_. store_inv)"
    unfolding ensureSession_def by (intro triple_keeps keeps_intros inv_calls) simp_all
  have ins: "triple store_inv (call lb (sql_insert_obs (?row sid)))
      (\<lambda>n b d1. \<exists>d. store_inv b d \<and> sql_insert_obs (?row sid) d = Inr (n, d1))" for sid lb
    by (rule triple_call) blast
  have inc: "triple (\<lambda>b d1. \<exists>d. store_inv b d \<and> sql_insert_obs (?row sid) d = Inr (n, d1))
      (call lb (sql_update_session sid (\<lambda>r. r\<lparr>s_nobs := s_nobs r + 1\<rparr>))) (\<lambda>_. store_inv)" for sid n lb
    using inv_capture [where r = "?row sid"] captured_encoding [of E inp sid] by (intro triple_call) (simp, blast)
  show "triple store_inv (InsertObservation E inp w) (\<lambda>_. store_inv)"
    unfolding InsertObservation_def
    by (rule triple_in_tx)
      (auto intro!: op_intros triple_andThen [OF ens] triple_andThen [OF ins] triple_andThen [OF inc]
         triple_ok triple_andThen [where R = "\<lambda>_. store_inv"] triple_query)
qed

section \<open>Adding a memory\<close>

lemma inv_memories:
  assumes "store_inv b d" "db_wf d'" "sessions d' = sessions d" "observations d' = observations d"
    "b \<longrightarrow> fts_ok d'"
  shows "store_inv b d'"
  using assms by (auto simp: store_inv_def nobs_ok_def obs_of_def)

lemma inv_insert_memory:
  assumes "store_inv b d" "sql_insert_memory r d = Inr (i, d1)" "m_superseded r = None"
    and "if b then \<exists>k. sql_insert_fts i (m_text r) d1 = Inr (k, d2) else d2 = d1"
  shows "store_inv b d2"
proof (rule inv_memories [OF assms(1)])
  have d1: "i = seq_mem d + 1"
    "d1 = d\<lparr>memories := memories d @ [r\<lparr>m_id := seq_mem d + 1\<rparr>], seq_mem := seq_mem d + 1\<rparr>"
    using assms(2) by (auto simp: sql_insert_memory_def split: if_splits)
  show w: "db_wf d2"
    using wf_insert_memory [OF _ assms(2,3)] assms(1,4) wf.insert_fts
    by (auto simp: store_inv_def split: if_splits)
  show "sessions d2 = sessions d" "observations d2 = observations d"
    using assms(4) by (auto simp: d1 sql_insert_fts_def split: if_splits)
  show "b \<longrightarrow> fts_ok d2"
    using assms(1,4) by (auto simp: store_inv_def fts_ok_def d1 sql_insert_fts_def split: if_splits)
qed

lemma inv_AddMemory: "keeps store_inv (AddMemory mi)"
proof (rule keeps_triple)
  show "atomic_op (AddMemory mi)" by (rule op_intros)
  let ?row = "\<lparr>m_id = 0, m_project = mi_Project mi, m_text = mi_Text mi, m_tier = default_str (mi_Tier mi) ''fact'',
     m_source = default_str (mi_Source mi) ''manual'',
     m_importance = (if mi_Importance mi = Fin 0 then Fin 1 else mi_Importance mi),
     m_session = nullif_str (mi_SessionID mi), m_created = mi_CreatedAt mi,
     m_updated = mi_CreatedAt mi, m_accessed = mi_CreatedAt mi, m_superseded = None, m_access_cnt = 0\<rparr>"
  let ?R = "\<lambda>i b d1. \<exists>d. store_inv b d \<and> sql_insert_memory ?row d = Inr (i, d1)"
  have ins: "triple store_inv (call lb (sql_insert_memory ?row)) ?R" for lb
    by (rule triple_call) blast
  have fts: "triple (?R i) (withFts (\<lambda>b. if b then andThen (call lb (sql_insert_fts i (mi_Text mi))) (\<lambda>_. ok ())
      else ok ())) (\<lambda>_. store_inv)" for i lb
  proof (rule triple_withFts)
    fix b
    show "triple (\<lambda>b' d. b' = b \<and> ?R i b d) (if b then andThen (call lb (sql_insert_fts i (mi_Text mi))) (\<lambda>_. ok ())
      else ok ()) (\<lambda>_. store_inv)"
    proof (cases b)
      case True
      have "triple (\<lambda>b' d. b' = b \<and> ?R i b d) (call lb (sql_insert_fts i (mi_Text mi))) (\<lambda>_. store_inv)"
        using inv_insert_memory [of b _ ?row i] True by (intro triple_call) auto
      then show ?thesis using True by (auto intro!: triple_andThen [where R = "\<lambda>_. store_inv"] triple_ok op_intros)
    next
      case False
      then show ?thesis using inv_insert_memory [of b _ ?row i] by (auto intro!: triple_ok)
    qed
  qed
  show "triple store_inv (AddMemory mi) (\<lambda>_. store_inv)"
    unfolding AddMemory_def Let_def
    by (rule triple_in_tx, rule triple_andThen [OF ins], rule op_intros, rule triple_andThen [OF fts])
      (auto intro!: op_intros triple_ok triple_andThen [OF triple_keeps [OF inv_audit]])
qed

section \<open>Updating a memory\<close>

lemma fts_replace:
  assumes ok: "fts_ok d" and f: "memory_update f" "\<And>r. m_text (f r) = t" and i: "i \<in> m_id ` set (memories d)"
    and d': "fts d' = filter (\<lambda>x. fst x \<noteq> i) (fts d) @ [(i, t)]"
      "memories d' = map (\<lambda>x. if m_id x = i then f x else x) (memories d)"
  shows "fts_ok d'"
proof -
  have "distinct (map fst (fts d'))"
    using ok by (auto simp: d'(1) fts_ok_def distinct_map_filter)
  moreover have "set (fts d') = (\<lambda>m. (m_id m, m_text m)) ` set (memories d')"
  proof -
    have "set (fts d') = {(m_id m, m_text m) | m. m \<in> set (memories d) \<and> m_id m \<noteq> i} \<union> {(i, t)}"
      using ok by (auto simp: d'(1) fts_ok_def)
    also have "\<dots> = (\<lambda>m. (m_id m, m_text m)) ` ({m \<in> set (memories d). m_id m \<noteq> i} \<union> f ` {m \<in> set (memories d). m_id m = i})"
      using f i by (auto simp: memory_update_def image_Un image_image)
    also have "{m \<in> set (memories d). m_id m \<noteq> i} \<union> f ` {m \<in> set (memories d). m_id m = i} = set (memories d')"
      by (auto simp: d'(2))
    finally show ?thesis .
  qed
  ultimately show ?thesis by (simp add: fts_ok_def)
qed

definition update_row :: "MemoryUpdate \<Rightarrow> mem_row \<Rightarrow> mem_row" where
  "update_row u r = r
     \<lparr>m_updated := mu_UpdatedAt u,
      m_text := (case mu_Text u of None \<Rightarrow> m_text r | Some t \<Rightarrow> t),
      m_tier := (case mu_Tier u of None \<Rightarrow> m_tier r | Some t \<Rightarrow> t),
      m_importance := (case mu_Importance u of None \<Rightarrow> m_importance r | Some x \<Rightarrow> x)\<rparr>"

lemma update_row_update: "memory_update (update_row u)"
  by (simp add: memory_update_def update_row_def)

text \<open>The state between the statements: only the mirror of the changed memory is behind.\<close>

definition behind :: "MemoryUpdate \<Rightarrow> (int \<times> string) list \<Rightarrow> bool \<Rightarrow> db \<Rightarrow> db \<Rightarrow> bool" where
  "behind u es b d d1 = (store_inv b d \<and> db_wf d1 \<and> mu_ID u \<in> m_id ` set (memories d) \<and>
     sessions d1 = sessions d \<and> observations d1 = observations d \<and> fts d1 = es \<and>
     memories d1 = map (\<lambda>x. if m_id x = mu_ID u then update_row u x else x) (memories d))"

lemma behind_update:
  assumes "store_inv b d" "sql_update_memory (mu_ID u) (update_row u) d = Inr (n, d1)" "n \<noteq> 0"
  shows "behind u (fts d) b d d1"
proof -
  have "db_wf d1" using wf.update_memory [OF _ assms(2) update_row_update] assms(1) by (simp add: store_inv_def)
  moreover have n: "n = int (length (filter (\<lambda>x. m_id x = mu_ID u) (memories d)))"
    "d1 = d\<lparr>memories := map (\<lambda>x. if m_id x = mu_ID u then update_row u x else x) (memories d)\<rparr>"
    using assms(2) by (auto simp: sql_update_memory_def split: if_splits)
  moreover have "mu_ID u \<in> m_id ` set (memories d)"
  proof (rule ccontr)
    assume "mu_ID u \<notin> m_id ` set (memories d)"
    then have "\<forall>x \<in> set (memories d). m_id x \<noteq> mu_ID u" by (metis imageI)
    then show False using n(1) assms(3) by simp
  qed
  ultimately show ?thesis using assms(1) by (simp add: behind_def)
qed

lemma upd_transparent: "transparent (withFts (\<lambda>b. case mu_Text u of
          None \<Rightarrow> ok ()
        | Some t \<Rightarrow> if b then
            andThen (call l1 (sql_delete_fts (mu_ID u))) (\<lambda>_.
            andThen (call l2 (sql_insert_fts (mu_ID u) t)) (\<lambda>_. ok ()))
          else ok ()))"
  by (auto intro!: op_intros split: option.splits)

lemma inv_UpdateMemory: "keeps store_inv (UpdateMemory u)"
proof (rule keeps_triple)
  show "atomic_op (UpdateMemory u)" by (rule op_intros)
  let ?R = "\<lambda>n b d1. n \<noteq> 0 \<longrightarrow> (\<exists>d. behind u (fts d) b d d1)"
  have upd: "triple store_inv (call lb (sql_update_memory (mu_ID u) (update_row u))) ?R" for lb
    by (rule triple_call) (blast intro: behind_update)
  have none: "store_inv b d1" if "behind u (fts d) b d d1" "mu_Text u = None \<or> \<not> b" for b d d1
  proof (rule inv_memories)
    show "store_inv b d" "db_wf d1" "sessions d1 = sessions d" "observations d1 = observations d"
      using that(1) by (auto simp: behind_def)
    have "(\<lambda>m. (m_id m, m_text m)) ` set (memories d1) = (\<lambda>m. (m_id m, m_text m)) ` set (memories d)" if b
    proof -
      have "(m_id (update_row u r), m_text (update_row u r)) = (m_id r, m_text r)" for r
        using that \<open>mu_Text u = None \<or> \<not> b\<close> by (simp add: update_row_def)
      moreover have "memories d1 = map (\<lambda>x. if m_id x = mu_ID u then update_row u x else x) (memories d)"
        using \<open>behind u (fts d) b d d1\<close> by (simp add: behind_def)
      ultimately show ?thesis using image_if_key [of "\<lambda>m. (m_id m, m_text m)" "update_row u"] by simp
    qed
    then show "b \<longrightarrow> fts_ok d1" using that(1) by (auto simp: behind_def fts_ok_def store_inv_def)
  qed
  let ?gone = "\<lambda>d. filter (\<lambda>x. fst x \<noteq> mu_ID u) (fts d)"
  have del: "triple (\<lambda>b' d1. b' = b \<and> (\<exists>d. behind u (fts d) b d d1)) (call lb (sql_delete_fts (mu_ID u)))
      (\<lambda>_ b' d2. b' = b \<and> (\<exists>d. behind u (?gone d) b d d2))" for b lb
    using wf.delete_fts by (intro triple_call) (fastforce simp: behind_def sql_delete_fts_def)
  have ins: "triple (\<lambda>b' d1. b' = b \<and> (\<exists>d. behind u (?gone d) b d d1)) (call lb (sql_insert_fts (mu_ID u) t)) (\<lambda>_. store_inv)"
    if "mu_Text u = Some t" for b t lb
  proof (rule triple_call, elim conjE exE)
    fix b' d1 x d2 d assume b: "b' = b" "behind u (?gone d) b d d1" and i: "sql_insert_fts (mu_ID u) t d1 = Inr (x, d2)"
    have d2: "d2 = d1\<lparr>fts := ?gone d @ [(mu_ID u, t)]\<rparr>"
      using i b by (auto simp: sql_insert_fts_def behind_def split: if_splits)
    show "store_inv b' d2"
    proof (rule inv_memories)
      show "store_inv b' d" "sessions d2 = sessions d" "observations d2 = observations d"
        using b by (auto simp: behind_def d2)
      show "db_wf d2" using wf.insert_fts [OF _ i] b by (simp add: behind_def)
      have t: "\<And>r. m_text (update_row u r) = t" using that by (simp add: update_row_def)
      show "b' \<longrightarrow> fts_ok d2"
      proof
        assume b'
        then have "fts_ok d" "mu_ID u \<in> m_id ` set (memories d)"
          using b by (simp_all add: behind_def store_inv_def)
        then show "fts_ok d2"
          by (rule fts_replace [OF _ update_row_update t]) (use b in \<open>simp_all add: behind_def d2\<close>)
      qed
    qed
  qed
  have mid: "triple (?R n) (withFts (\<lambda>b. case mu_Text u of
          None \<Rightarrow> ok ()
        | Some t \<Rightarrow> if b then
            andThen (call l1 (sql_delete_fts (mu_ID u))) (\<lambda>_.
            andThen (call l2 (sql_insert_fts (mu_ID u) t)) (\<lambda>_. ok ()))
          else ok ())) (\<lambda>_. store_inv)" if "n \<noteq> 0" for n l1 l2
  proof (rule triple_withFts, rule triple_pre [where P = "\<lambda>b' d1. b' = b \<and> (\<exists>d. behind u (fts d) b d d1)" for b])
    fix b
    show "triple (\<lambda>b' d1. b' = b \<and> (\<exists>d. behind u (fts d) b d d1)) (case mu_Text u of
          None \<Rightarrow> ok ()
        | Some t \<Rightarrow> if b then
            andThen (call l1 (sql_delete_fts (mu_ID u))) (\<lambda>_.
            andThen (call l2 (sql_insert_fts (mu_ID u) t)) (\<lambda>_. ok ()))
          else ok ()) (\<lambda>_. store_inv)"
    proof (cases "mu_Text u")
      case None
      then show ?thesis using none by (auto intro!: triple_ok)
    next
      case (Some t)
      have "triple (\<lambda>b' d1. b' = b \<and> (\<exists>d. behind u (fts d) b d d1)) (andThen (call l1 (sql_delete_fts (mu_ID u))) (\<lambda>_.
            andThen (call l2 (sql_insert_fts (mu_ID u) t)) (\<lambda>_. ok ()))) (\<lambda>_. store_inv)"
        by (rule triple_andThen [OF del]) (intro op_intros triple_andThen [OF ins [OF Some]] triple_ok | assumption)+
      moreover have "triple (\<lambda>b' d1. b' = b \<and> (\<exists>d. behind u (fts d) b d d1)) (ok ()) (\<lambda>_. store_inv)" if "\<not> b"
        using none that by (auto intro!: triple_ok)
      ultimately show ?thesis unfolding Some option.case by (cases b) (simp_all only: if_True if_False simp_thms)
    qed
  qed (use that in auto)
  have rest: "triple (?R n) (if n = 0 then fail e else andThen (withFts (\<lambda>b. case mu_Text u of
          None \<Rightarrow> ok ()
        | Some t \<Rightarrow> if b then
            andThen (call l1 (sql_delete_fts (mu_ID u))) (\<lambda>_.
            andThen (call l2 (sql_insert_fts (mu_ID u) t)) (\<lambda>_. ok ()))
          else ok ())) (\<lambda>_. insertAuditTx ev)) (\<lambda>_. store_inv)" for n e l1 l2 ev
  proof (cases "n = 0")
    case False
    show ?thesis unfolding if_not_P [OF False]
      by (rule triple_andThen [OF mid [OF False] upd_transparent triple_keeps [OF inv_audit]])
  next
    case True
    show ?thesis unfolding if_P [OF True] by (rule triple_fail)
  qed
  show "triple store_inv (UpdateMemory u) (\<lambda>_. store_inv)"
    unfolding UpdateMemory_def update_row_def [symmetric]
    by (auto simp only: split: if_splits intro!: triple_ok triple_fail triple_in_tx triple_andThen [OF upd _ rest] op_intros)
qed

section \<open>Deleting memories\<close>

text \<open>Between the two deletions the mirror lacks the memory that is about to go.\<close>

definition unmirrored :: "int \<Rightarrow> bool \<Rightarrow> db \<Rightarrow> bool" where
  "unmirrored i b d1 = (\<exists>d. store_inv b d \<and>
     d1 = d\<lparr>fts := (if b then filter (\<lambda>x. fst x \<noteq> i) (fts d) else fts d)\<rparr>)"

lemma inv_delete_fts:
  "triple store_inv (withFts (\<lambda>b. if b then andThen (call l (sql_delete_fts i)) (\<lambda>_. ok ()) else ok ()))
     (\<lambda>_. unmirrored i)"
proof (rule triple_withFts)
  fix b
  have "triple (\<lambda>b' d. b' = True \<and> store_inv True d) (call l (sql_delete_fts i)) (\<lambda>_. unmirrored i)"
    by (rule triple_call) (auto simp: unmirrored_def sql_delete_fts_def)
  moreover have "store_inv False d \<Longrightarrow> unmirrored i False d" for d
    by (auto simp: unmirrored_def intro!: exI [of _ d])
  ultimately show "triple (\<lambda>b' d. b' = b \<and> store_inv b d)
      (if b then andThen (call l (sql_delete_fts i)) (\<lambda>_. ok ()) else ok ()) (\<lambda>_. unmirrored i)"
    by (cases b) (auto intro!: triple_ok op_intros triple_andThen [where R = "\<lambda>_. unmirrored i"])
qed

lemma inv_delete_memory: "triple (unmirrored i) (call l (sql_delete_memory i)) (\<lambda>_. store_inv)"
proof (rule triple_call)
  fix b d1 n d2
  assume "unmirrored i b d1" and del: "sql_delete_memory i d1 = Inr (n, d2)"
  then obtain d where d: "store_inv b d" "d1 = d\<lparr>fts := (if b then filter (\<lambda>x. fst x \<noteq> i) (fts d) else fts d)\<rparr>"
    by (auto simp: unmirrored_def)
  have d2: "memories d2 = filter (\<lambda>x. m_id x \<noteq> i) (memories d)" "fts d2 = fts d1"
    "sessions d2 = sessions d" "observations d2 = observations d"
    using del by (auto simp: sql_delete_memory_def d(2) filter_key_absent split: if_splits)
  show "store_inv b d2"
  proof (rule inv_memories [OF d(1) _ d2(3,4)])
    have "db_wf d1" using d by (simp add: store_inv_def db_wf_def)
    then show "db_wf d2" by (rule wf.delete_memory [OF _ del])
    show "b \<longrightarrow> fts_ok d2"
      using d by (auto simp: store_inv_def fts_ok_def d2 distinct_map_filter)
  qed
qed

lemma inv_deleteOne: "triple store_inv (deleteOne i) (\<lambda>_. store_inv)"
  unfolding deleteOne_def
  by (auto intro!: op_intros triple_ok triple_andThen [OF inv_delete_fts] triple_andThen [OF inv_delete_memory]
      triple_andThen [OF triple_keeps [OF inv_audit]])

lemma inv_DeleteMemories: "keeps store_inv (DeleteMemories ids)"
  by (rule keeps_triple [OF memories_atomic(4)])
    (auto simp: DeleteMemories_def intro!: op_intros triple_ok triple_in_tx inv_deleteOne
       triple_andThen [OF triple_each])

lemma inv_decayOne: "triple store_inv (decayOne u) (\<lambda>_. store_inv)"
  unfolding decayOne_def
  by (auto intro!: op_intros triple_ok triple_andThen [OF inv_delete_fts] inv_delete_memory
      triple_andThen [OF triple_keeps] inv_calls simp: memory_update_def)

lemma inv_DecayMemories: "keeps store_inv (DecayMemories E opts)"
proof -
  have "keeps store_inv (in_tx lb lc (andThen (each decayOne us) (\<lambda>ns. ok (sum_list ns))))" for lb lc us
    by (rule keeps_triple)
      (auto intro!: op_intros triple_in_tx triple_ok triple_andThen [OF triple_each] inv_decayOne)
  then show ?thesis unfolding DecayMemories_def Let_def
    by (intro keeps_andThen [OF keeps_readonly] op_intros)
qed

section \<open>The interpretation\<close>

interpretation inv: store_invariant store_inv E "\<lambda>_. True"
proof
  show "keeps store_inv (InsertObservation E inp w)" for inp w by (rule inv_InsertObservation)
  show "keeps store_inv (AddMemory mi)" for mi by (rule inv_AddMemory)
  show "keeps store_inv (UpdateMemory u)" for u by (rule inv_UpdateMemory)
  show "keeps store_inv (DeleteMemories ids)" for ids by (rule inv_DeleteMemories)
  show "keeps store_inv (DecayMemories E opts)" for opts by (rule inv_DecayMemories)
  show "keeps store_inv (SupersedeMemory x y)" for x y
    unfolding SupersedeMemory_def by (auto intro!: keeps_intros inv_calls inv_audit)
  show "keeps store_inv (SaveMemoryEmbedding x m v)" for x m v
    unfolding SaveMemoryEmbedding_def by (auto intro!: keeps_intros inv_calls)
  show "keeps store_inv (TouchMemories ids t)" for ids t
    unfolding TouchMemories_def by (auto simp: memory_update_def touch_def intro!: keeps_intros inv_calls)
qed (auto simp: EnsureSession_def ensureSession_def EndSession_def SaveSessionSummary_def RecordImportedEvent_def
    DeleteEmbeddings_def InsertCompactionAttempt_def ExpireCompactionAttempts_def
    MarkCompactionCompleted_def session_update_def attempt_update_def
    intro!: keeps_intros inv_calls)

end
