(* ===== verification/System.thy ===== *)
theory System
  imports ServerInv Mirror
begin

text \<open>
  The whole system: the store under any sequence of its operations and of failures of the driver,
  and the server under any sequence of requests, with its reachable states.
\<close>

section \<open>What is stored is redacted\<close>

text \<open>Stored payloads, read back, hold no secret. The codec's round trip is its documented contract.\<close>

definition redacted_row :: "ext \<Rightarrow> obs_row \<Rightarrow> bool" where
  "redacted_row E r = (zstd_roundtrip E \<longrightarrow>
     (\<exists>p. decodePayload E (o_payload r) (o_encoding r) = Inr p \<and> no_secrets p))"

definition redacted :: "ext \<Rightarrow> db \<Rightarrow> bool" where
  "redacted E d = (\<forall>r \<in> set (observations d). redacted_row E r)"

lemma redacted_frames [simp]:
  "redacted E (d\<lparr>sessions := v1\<rparr>) = redacted E d" "redacted E (d\<lparr>memories := v2\<rparr>) = redacted E d"
  "redacted E (d\<lparr>embeddings := v3\<rparr>) = redacted E d" "redacted E (d\<lparr>attempts := v4\<rparr>) = redacted E d"
  "redacted E (d\<lparr>audits := v5\<rparr>) = redacted E d" "redacted E (d\<lparr>imports_t := v6\<rparr>) = redacted E d"
  "redacted E (d\<lparr>fts := v7\<rparr>) = redacted E d" "redacted E (d\<lparr>seq_obs := v8\<rparr>) = redacted E d"
  "redacted E (d\<lparr>seq_mem := v9\<rparr>) = redacted E d" "redacted E (d\<lparr>seq_att := v10\<rparr>) = redacted E d"
  "redacted E (d\<lparr>seq_audit := v11\<rparr>) = redacted E d" "redacted E (d\<lparr>seq_import := v12\<rparr>) = redacted E d"
  by (simp_all add: redacted_def)

lemma redacted_row_id [simp]: "redacted_row E (r\<lparr>o_id := i\<rparr>) = redacted_row E r"
  by (simp add: redacted_row_def)

interpretation clean: stmt_invariant "redacted E" E "\<lambda>inp. no_secrets (oi_PayloadJSON inp)" "redacted_row E"
proof
  show "redacted_row E (captured_row E inp sid)" if "no_secrets (oi_PayloadJSON inp)" for inp sid
    using that decode_encode_payload [of E "oi_PayloadJSON inp"] by (auto simp: redacted_row_def)
  fix d d' n
  assume J: "redacted E d"
  show "sql_insert_session r d = Inr (n, d') \<Longrightarrow> redacted E d'" for r
    using J by (auto simp: sql_insert_session_def split: if_splits)
  show "sql_update_session i f d = Inr (n, d') \<Longrightarrow> redacted E d'" for i f
    using J by (auto simp: sql_update_session_def)
  show "sql_insert_import pa ev t d = Inr (n, d') \<Longrightarrow> redacted E d'" for pa ev t
    using J by (auto simp: sql_insert_import_def split: if_splits)
  show "sql_insert_obs r d = Inr (n, d') \<Longrightarrow> redacted_row E r \<Longrightarrow> redacted E d'" for r
    using J by (auto simp: sql_insert_obs_def redacted_def split: if_splits)
  show "sql_insert_audit r d = Inr (n, d') \<Longrightarrow> redacted E d'" for r
    using J by (auto simp: sql_insert_audit_def)
  show "sql_insert_memory r d = Inr (n, d') \<Longrightarrow> redacted E d'" for r
    using J by (auto simp: sql_insert_memory_def split: if_splits)
  show "sql_insert_fts k t d = Inr (n, d') \<Longrightarrow> redacted E d'" for k t
    using J by (auto simp: sql_insert_fts_def split: if_splits)
  show "sql_delete_fts k d = Inr (n, d') \<Longrightarrow> redacted E d'" for k
    using J by (auto simp: sql_delete_fts_def)
  show upd: "sql_update_memory k f d = Inr (n, d') \<Longrightarrow> redacted E d'" for k f
    using J by (auto simp: sql_update_memory_def split: if_splits)
  show "sql_supersede k l d = Inr (n, d') \<Longrightarrow> redacted E d'" for k l
    using upd by (auto simp: sql_supersede_def split: if_splits)
  show "sql_delete_memory k d = Inr (n, d') \<Longrightarrow> redacted E d'" for k
    using J by (auto simp: sql_delete_memory_def split: if_splits)
  show "sql_upsert_embedding r d = Inr (n, d') \<Longrightarrow> redacted E d'" for r
    using J by (auto simp: sql_upsert_embedding_def split: if_splits)
  show "sql_delete_embeddings p m d = Inr (n, d') \<Longrightarrow> redacted E d'" for p m
    using J by (auto simp: sql_delete_embeddings_def Let_def)
  show "sql_insert_attempt r d = Inr (n, d') \<Longrightarrow> redacted E d'" for r
    using J by (auto simp: sql_insert_attempt_def split: if_splits)
  show "sql_update_attempts P f d = Inr (n, d') \<Longrightarrow> redacted E d'" for P f
    using J by (auto simp: sql_update_attempts_def)
qed

section \<open>The server's invariants\<close>

interpretation srv: server_invariant store_inv E "\<lambda>_. True"
  by unfold_locales simp

interpretation guard: server_invariant "\<lambda>_. redacted E" E "\<lambda>inp. no_secrets (oi_PayloadJSON inp)"
  by unfold_locales (simp add: no_secrets_Redact)

section \<open>Reachable states\<close>

text \<open>One operation of the store, with any arguments and failures, by whichever client.\<close>

inductive store_step :: "ext \<Rightarrow> store \<Rightarrow> store \<Rightarrow> bool" for E where
  s_ensure: "store_step E s (snd (EnsureSession a e p t s))"
| s_end: "store_step E s (snd (EndSession i t s))"
| s_summary: "store_step E s (snd (SaveSessionSummary i sm t s))"
| s_import: "store_step E s (snd (RecordImportedEvent pa ev t s))"
| s_capture: "store_step E s (snd (InsertObservation E inp w s))"
| s_add: "store_step E s (snd (AddMemory mi s))"
| s_update: "store_step E s (snd (UpdateMemory u s))"
| s_supersede: "store_step E s (snd (SupersedeMemory x y s))"
| s_delete: "store_step E s (snd (DeleteMemories ids s))"
| s_decay: "store_step E s (snd (DecayMemories E opts s))"
| s_embed: "store_step E s (snd (SaveMemoryEmbedding x m v s))"
| s_unembed: "store_step E s (snd (DeleteEmbeddings p m s))"
| s_touch: "store_step E s (snd (TouchMemories ids t s))"
| s_attempt: "store_step E s (snd (InsertCompactionAttempt i st rs t s))"
| s_expire: "store_step E s (snd (ExpireCompactionAttempts i t s))"
| s_complete: "store_step E s (snd (MarkCompactionCompleted i t s))"
| s_faults: "store_step E s (s\<lparr>faults := fs\<rparr>)"

inductive store_reach :: "ext \<Rightarrow> bool \<Rightarrow> store \<Rightarrow> bool" for E b where
  r_init: "store_reach E b \<lparr>db = empty_db, fts5 = b, faults = fs\<rparr>"
| r_step: "store_reach E b s \<Longrightarrow> store_step E s s' \<Longrightarrow> store_reach E b s'"

lemma step_keeps:
  assumes "store_step E s s'"
  shows "fts5 s' = fts5 s \<and> (store_inv (fts5 s) (db s) \<longrightarrow> store_inv (fts5 s) (db s'))"
  using assms
proof cases
  case s_faults
  then show ?thesis by simp
qed (simp, rule keeps_def [THEN iffD1, THEN spec],
    rule inv.EnsureSession inv.EndSession inv.SaveSessionSummary inv.RecordImportedEvent
      inv.InsertObservation [OF TrueI] inv.AddMemory inv.UpdateMemory inv.SupersedeMemory inv.DeleteMemories
      inv.DecayMemories inv.SaveMemoryEmbedding inv.DeleteEmbeddings inv.TouchMemories
      inv.InsertCompactionAttempt inv.ExpireCompactionAttempts inv.MarkCompactionCompleted)+

lemma reach_inv: "store_reach E b s \<Longrightarrow> fts5 s = b \<and> store_inv b (db s)"
  by (induction rule: store_reach.induct) (use step_keeps empty_inv in \<open>force+\<close>)

text \<open>
  The server: it handles a request, or something outside happens (a clock reading, an answer of the
  embedder, a failure of the driver is determined).
\<close>

inductive server_step :: "ext \<Rightarrow> runtime \<Rightarrow> Options \<Rightarrow> world \<Rightarrow> world \<Rightarrow> bool" for E rt opts where
  w_request: "server_step E rt opts w (snd (NewWithOptions E rt opts r w))"
| w_outside: "server_step E rt opts w (w\<lparr>embeds := es, clock := cs, brk_clock := bs,
    store_of := (store_of w)\<lparr>faults := fs\<rparr>\<rparr>)"

inductive server_reach :: "ext \<Rightarrow> runtime \<Rightarrow> Options \<Rightarrow> bool \<Rightarrow> world \<Rightarrow> bool" for E rt opts b where
  w_init: "db (store_of w) = empty_db \<Longrightarrow> fts5 (store_of w) = b \<Longrightarrow> server_reach E rt opts b w"
| w_step: "server_reach E rt opts b w \<Longrightarrow> server_step E rt opts w w' \<Longrightarrow> server_reach E rt opts b w'"

lemma server_reach_keeps:
  assumes r: "server_reach E rt opts b w" and e: "I b empty_db" and k: "\<And>r. wkeeps I (NewWithOptions E rt opts r)"
  shows "fts5 (store_of w) = b \<and> I b (db (store_of w))"
  using r
proof induction
  case (w_init w)
  then show ?case using e by simp
next
  case (w_step w w')
  have "fts5 (store_of w') = fts5 (store_of w) \<and> (I (fts5 (store_of w)) (db (store_of w)) \<longrightarrow> I (fts5 (store_of w)) (db (store_of w')))"
    using w_step.hyps(2)
  proof cases
    case (w_request r)
    then show ?thesis using k [of r] by (simp add: wkeeps_def)
  qed simp
  then show ?case using w_step.IH by simp
qed

section \<open>Properties\<close>

text \<open>
  C3. In every reachable state of the store, whatever operations were executed in whatever order
  and wherever the driver failed: the database is well-formed (unique keys, references that point
  to rows), every session counts its observations exactly, and with full-text search the index
  holds exactly the texts of the memories.
\<close>

theorem store_reachable_inv:
  assumes "store_reach E b s"
  shows "db_wf (db s) \<and>
    (\<forall>r \<in> set (sessions (db s)). s_nobs r = int (length (filter (\<lambda>x. o_session x = s_id r) (observations (db s))))) \<and>
    (b \<longrightarrow> distinct (map fst (fts (db s))) \<and> set (fts (db s)) = (\<lambda>m. (m_id m, m_text m)) ` set (memories (db s)))"
  using reach_inv [OF assms] by (simp add: store_inv_def nobs_ok_def obs_of_def fts_ok_def)

definition ex_store :: store where "ex_store = \<lparr>db = empty_db, fts5 = True, faults = []\<rparr>"

theorem store_reachable_inv_witness: "db_wf (db (snd (EnsureSession ''a'' ''x'' ''p'' 5 ex_store)))"
  using store_reachable_inv [OF r_step [OF r_init [of ex_ext True "[]"] s_ensure [of ex_ext _ "''a''" "''x''" "''p''" 5]]]
  by (simp add: ex_store_def)

text \<open>
  The server keeps these invariants: after any requests, with any bodies, any failures of the
  driver and of the embedder and any clock readings, the database is well-formed, the counters are
  exact and the full-text index mirrors the memories.
\<close>

theorem server_reachable_inv:
  assumes "server_reach E rt opts b w"
  shows "store_inv b (db (store_of w))"
  using server_reach_keeps [OF assms, of store_inv] empty_inv srv.wkeeps_server by simp

definition ex_rt :: runtime where "ex_rt = \<lparr>rt_ranked = (\<lambda>m. m), rt_items = (\<lambda>m. m), rt_keys = (\<lambda>m. m)\<rparr>"

definition ex_opts :: Options where
  "ex_opts = \<lparr>op_BearerToken = ''t'', op_DedupWindowSeconds = 0, op_SessionStartTopN = 0, op_ReadinessProbe = None,
     op_MCPOptions = \<lparr>mo_DefaultProject = ''p'', mo_SearchConfig = se_Config ex_searcher, mo_Embedder = False, mo_Info = None\<rparr>,
     op_Compaction = \<lparr>co_Mode = [], co_MinObservations = 0, co_MaxBlockAttempts = 0, co_AttemptTTLSeconds = 0,
       co_SubagentName = []\<rparr>\<rparr>"

definition ex_new :: world where
  "ex_new = \<lparr>store_of = ex_store, brk = None, embeds = [], clock = [], brk_clock = []\<rparr>"

definition ex_probe :: request where
  "ex_probe = \<lparr>rq_Method = ''GET'', rq_Path = ''/healthz'', rq_Auth = [], rq_Body = None\<rparr>"

theorem server_reachable_inv_witness: "store_inv True (db (store_of (snd (NewWithOptions ex_ext ex_rt ex_opts ex_probe ex_new))))"
  by (rule server_reachable_inv [OF w_step [OF w_init w_request]]) (simp_all add: ex_new_def ex_store_def)

text \<open>
  C1. No secret reaches the database: in every state the server can reach, the payload of every
  stored observation, read back through the codec, is free of all the secret patterns.
\<close>

theorem server_stores_redacted:
  assumes "server_reach E rt opts b w" and "zstd_roundtrip E" and "x \<in> set (observations (db (store_of w)))"
  shows "\<exists>p. decodePayload E (o_payload x) (o_encoding x) = Inr p \<and> no_secrets p"
proof -
  have "redacted E (db (store_of w))"
    using server_reach_keeps [OF assms(1), of "\<lambda>_. redacted E"] guard.wkeeps_server
    by (simp add: redacted_def empty_db_def)
  then show ?thesis using assms(2,3) by (auto simp: redacted_def redacted_row_def)
qed

end
