(* ===== verification/Import.thy ===== *)
theory Import
  imports Strconv System
begin

text \<open>
  \<open>internal/admin/import_jsonl.go\<close>: Claude transcripts, one JSON object a line, imported as
  observations. The file system is a parameter: what a path is, what a directory walk finds, and
  what a file holds. \<open>conv\<close> is the conversion of a float beyond the range of \<open>int64\<close>, which Go leaves
  to the machine.
\<close>

record importJSONLStats =
  is_Files :: int
  is_Imported :: int
  is_Skipped :: int

text \<open>The content of a file as far as it can be read, and whether reading ends in an error.\<close>

record transcript =
  tr_data :: string
  tr_broken :: bool

record filesystem =
  fs_isdir :: "string \<Rightarrow> err + bool"
  fs_walk :: "string \<Rightarrow> err + (string \<times> bool) list"
  fs_abs :: "string \<Rightarrow> err + string"
  fs_open :: "string \<Rightarrow> err + transcript"

section \<open>Members\<close>

text \<open>\<open>map[string]json.RawMessage\<close>: the last member of a key counts, \<open>null\<close> is a nil map.\<close>

definition unmarshal_map :: "string \<Rightarrow> (string \<times> json) list option" where
  "unmarshal_map raw = (case parse_json raw of None \<Rightarrow> None | Some v \<Rightarrow> struct_members v)"

definition member :: "(string \<times> json) list \<Rightarrow> string \<Rightarrow> json option" where
  "member obj key = map_of (rev obj) key"

text \<open>A \<open>null\<close> reads as an empty string without an error, so it ends the search.\<close>

fun firstJSONLString :: "(string \<times> json) list \<Rightarrow> string list \<Rightarrow> string" where
  "firstJSONLString obj [] = []"
| "firstJSONLString obj (key # keys) = (case member obj key of
     Some (JStr s) \<Rightarrow> s | Some JNull \<Rightarrow> [] | Some (JNum n) \<Rightarrow> n
   | _ \<Rightarrow> firstJSONLString obj keys)"

definition normalizeJSONLUnix :: "int \<Rightarrow> int" where
  "normalizeJSONLUnix value = (if value > 0 \<and> value < 1000000000000 then i64 (value * 1000) else value)"

definition parseJSONLTimestampString :: "string \<Rightarrow> int option" where
  "parseJSONLTimestampString value =
     (if value = [] then None
      else case parse_int value of Some ts \<Rightarrow> Some (normalizeJSONLUnix ts)
        | None \<Rightarrow> parse_rfc3339 value)"

definition int64_of_float :: "(rat \<Rightarrow> int) \<Rightarrow> rat \<Rightarrow> int" where
  "int64_of_float conv q = (if in_i64 (rat_trunc q) then rat_trunc q else conv q)"

text \<open>A \<open>null\<close> reads as the integer 0.\<close>

fun firstJSONLTimestamp :: "(rat \<Rightarrow> int) \<Rightarrow> (string \<times> json) list \<Rightarrow> int \<Rightarrow> string list \<Rightarrow> int" where
  "firstJSONLTimestamp conv obj fallback [] = fallback"
| "firstJSONLTimestamp conv obj fallback (key # keys) = (case member obj key of
     Some (JStr s) \<Rightarrow> (case parseJSONLTimestampString s of Some ts \<Rightarrow> ts
       | None \<Rightarrow> firstJSONLTimestamp conv obj fallback keys)
   | Some JNull \<Rightarrow> normalizeJSONLUnix 0
   | Some (JNum n) \<Rightarrow> (case parse_int n of Some i \<Rightarrow> normalizeJSONLUnix i
       | None \<Rightarrow> (case parse_float n of Some (Fin q) \<Rightarrow> normalizeJSONLUnix (int64_of_float conv q)
         | _ \<Rightarrow> firstJSONLTimestamp conv obj fallback keys))
   | _ \<Rightarrow> firstJSONLTimestamp conv obj fallback keys)"

declare firstJSONLString.simps [simp del] firstJSONLTimestamp.simps [simp del]

section \<open>Content blocks\<close>

record claudeContentBlock =
  cb_Type :: string
  cb_Name :: string

definition block_of :: "json \<Rightarrow> claudeContentBlock option" where
  "block_of v = do {
     ms \<leftarrow> struct_members v; t \<leftarrow> str_field ''type'' ms; n \<leftarrow> str_field ''name'' ms;
     Some \<lparr>cb_Type = t, cb_Name = n\<rparr> }"

definition claudeContentBlocks :: "(string \<times> json) list \<Rightarrow> claudeContentBlock list" where
  "claudeContentBlocks obj = (case member obj ''message'' of None \<Rightarrow> []
     | Some m \<Rightarrow> (case struct_members m of None \<Rightarrow> []
       | Some ms \<Rightarrow> (case field_loop put_any ''content'' None ms of
           Some (Some (JArr vs)) \<Rightarrow> (case all_some (map block_of vs) of Some bs \<Rightarrow> bs | None \<Rightarrow> [])
         | _ \<Rightarrow> [])))"

definition claudeContentBlockTypes :: "(string \<times> json) list \<Rightarrow> string list" where
  "claudeContentBlockTypes obj = filter (\<lambda>t. t \<noteq> []) (map cb_Type (claudeContentBlocks obj))"

definition inferClaudeToolName :: "(string \<times> json) list \<Rightarrow> string" where
  "inferClaudeToolName obj = (case find (\<lambda>b. cb_Type b = ''tool_use'' \<and> cb_Name b \<noteq> []) (claudeContentBlocks obj) of
     Some b \<Rightarrow> cb_Name b | None \<Rightarrow> [])"

definition claudeTranscriptKind :: "unicode \<Rightarrow> (string \<times> json) list \<Rightarrow> string" where
  "claudeTranscriptKind U obj = (case find (\<lambda>t. t \<in> {''tool_use'', ''tool_result''}) (claudeContentBlockTypes obj) of
     Some t \<Rightarrow> t
   | None \<Rightarrow>
     (let typ = replaceByte (toLower U (firstJSONLString obj [''type'', ''event_type'', ''eventType''])) (CHR ''-'') (CHR ''_'') in
      if typ = ''user'' then ''user_message''
      else if typ = ''assistant'' then ''assistant_message''
      else if typ = ''summary'' then ''summary''
      else if typ = ''tool_response'' \<or> typ = ''tool_result'' then ''tool_result''
      else if typ = ''tool_use'' \<or> typ = ''tool'' then ''tool_use''
      else if contains typ ''tool'' \<and> contains typ ''error'' then ''tool_error''
      else if contains typ ''subagent'' \<and> contains typ ''start'' then ''subagent_start''
      else if contains typ ''subagent'' \<and> contains typ ''stop'' then ''subagent_stop''
      else if typ \<noteq> [] then typ
      else ''transcript_event''))"

section \<open>Events\<close>

definition importEventHash :: "string \<Rightarrow> string \<Rightarrow> string" where
  "importEventHash path eventID = ''import:'' @ sha256_hex (path @ [CHR 0x00] @ eventID)"

definition event_id :: "(string \<times> json) list \<Rightarrow> int \<Rightarrow> string" where
  "event_id obj lineNo =
     (let i = firstJSONLString obj [''uuid'', ''id'', ''event_id'', ''eventId''] in
      if i = [] then ''line:'' @ itoa lineNo else i)"

definition parseClaudeTranscriptEvent ::
  "ext \<Rightarrow> (rat \<Rightarrow> int) \<Rightarrow> string \<Rightarrow> string \<Rightarrow> int \<Rightarrow> string \<Rightarrow> int \<Rightarrow> err + (ObservationInput \<times> string)" where
  "parseClaudeTranscriptEvent E conv raw path lineNo defaultProject fallbackTS = (case unmarshal_map raw of
     None \<Rightarrow> Inl Driver
   | Some obj \<Rightarrow>
     (let eventID = event_id obj lineNo;
          s0 = firstJSONLString obj [''sessionId'', ''session_id''];
          sessionID = (if s0 = [] then trimSuffix (path_Base path) (path_Ext path) else s0);
          c0 = firstJSONLString obj [''cwd'', ''project''];
          cwd = (if c0 = [] then defaultProject else c0);
          ts = firstJSONLTimestamp conv obj fallbackTS [''timestamp'', ''created_at'', ''createdAt''];
          t0 = firstJSONLString obj [''tool_name'', ''toolName'', ''tool'', ''name''];
          tool = (if t0 = [] then inferClaudeToolName obj else t0)
      in Inr (\<lparr>oi_Agent = ''claude-code'', oi_ExternalSessionID = sessionID, oi_CWD = cwd, oi_TS = ts,
           oi_Kind = claudeTranscriptKind (uni E) obj, oi_Tool = tool, oi_PayloadJSON = Redact raw,
           oi_Hash = importEventHash path eventID\<rparr>, eventID)))"

section \<open>Files\<close>

definition bump_skipped :: "importJSONLStats \<Rightarrow> importJSONLStats" where
  "bump_skipped st = st\<lparr>is_Skipped := is_Skipped st + 1\<rparr>"

definition bump_imported :: "importJSONLStats \<Rightarrow> importJSONLStats" where
  "bump_imported st = st\<lparr>is_Imported := is_Imported st + 1\<rparr>"

text \<open>One line that is not blank.\<close>

definition import_event :: "ext \<Rightarrow> (rat \<Rightarrow> int) \<Rightarrow> string \<Rightarrow> string \<Rightarrow> int \<Rightarrow> int \<Rightarrow> string \<Rightarrow> importJSONLStats \<Rightarrow> importJSONLStats op" where
  "import_event E conv path proj importedAt lineNo raw st =
     (case parseClaudeTranscriptEvent E conv raw path lineNo proj importedAt of
        Inl e \<Rightarrow> fail (Wrap (''line '' @ itoa lineNo) e)
      | Inr (obs, eventID) \<Rightarrow>
          andThen (ImportedEventExists path eventID) (\<lambda>exists.
          if exists then ok (bump_skipped st)
          else andThen (InsertObservation E obs 0) (\<lambda>inserted.
            andThen (RecordImportedEvent path eventID importedAt) (\<lambda>recorded.
              ok (if inserted \<and> recorded then bump_imported st else bump_skipped st)))))"

fun import_lines :: "ext \<Rightarrow> (rat \<Rightarrow> int) \<Rightarrow> string \<Rightarrow> string \<Rightarrow> int \<Rightarrow> int \<Rightarrow> string list \<Rightarrow> importJSONLStats \<Rightarrow> importJSONLStats op" where
  "import_lines E conv path proj importedAt n [] st = ok st"
| "import_lines E conv path proj importedAt n (l # ls) st =
     (if trimSpace l = [] then import_lines E conv path proj importedAt (n + 1) ls st
      else andThen (import_event E conv path proj importedAt (n + 1) (trimSpace l) st)
        (import_lines E conv path proj importedAt (n + 1) ls))"

definition maxLineBytes :: nat where "maxLineBytes = 8 * 1024 * 1024"

definition importClaudeJSONLFile ::
  "ext \<Rightarrow> filesystem \<Rightarrow> (rat \<Rightarrow> int) \<Rightarrow> string \<Rightarrow> string \<Rightarrow> int \<Rightarrow> importJSONLStats op" where
  "importClaudeJSONLFile E F conv path defaultProject importedAt = (case fs_abs F path of Inl e \<Rightarrow> fail e
     | Inr absPath \<Rightarrow> (case fs_open F path of Inl e \<Rightarrow> fail e
       | Inr f \<Rightarrow>
         andThen (import_lines E conv absPath defaultProject importedAt 0 (fst (scan_lines maxLineBytes (tr_data f)))
             \<lparr>is_Files = 1, is_Imported = 0, is_Skipped = 0\<rparr>) (\<lambda>st.
         if snd (scan_lines maxLineBytes (tr_data f)) then fail (Msg ''bufio.Scanner: token too long'')
         else if tr_broken f then fail Driver
         else ok st)))"

text \<open>The transcripts of a path: the path itself, or the \<open>.jsonl\<close> files below it, sorted.\<close>

definition collectJSONLPaths :: "filesystem \<Rightarrow> string \<Rightarrow> err + string list" where
  "collectJSONLPaths F dir = (case fs_isdir F dir of Inl e \<Rightarrow> Inl e
     | Inr isdir \<Rightarrow>
       if \<not> isdir then Inr [dir]
       else (case fs_walk F dir of Inl e \<Rightarrow> Inl e
         | Inr entries \<Rightarrow> Inr (sort (map fst (filter (\<lambda>(p, d). \<not> d \<and> EqualFold (path_Ext p) ''.jsonl'') entries)))))"

section \<open>Preservation\<close>

lemma parsed_event:
  assumes "parseClaudeTranscriptEvent E conv raw path n proj t = Inr (obs, i)"
  shows "oi_PayloadJSON obs = Redact raw" and "oi_Hash obs = importEventHash path i"
    and "\<exists>obj. unmarshal_map raw = Some obj \<and> i = event_id obj n"
  using assms by (auto simp: parseClaudeTranscriptEvent_def Let_def split: option.splits)

context store_invariant begin

lemma keeps_import_event:
  assumes "\<And>inp. no_secrets (oi_PayloadJSON inp) \<Longrightarrow> ok_obs inp"
  shows "keeps I (import_event E conv path proj t n raw st)"
proof (cases "parseClaudeTranscriptEvent E conv raw path n proj t")
  case (Inl e)
  then show ?thesis by (simp add: import_event_def keeps_readonly readonly_basic)
next
  case (Inr r)
  obtain obs i where r: "r = (obs, i)" by (cases r)
  then have "ok_obs obs" using Inr parsed_event(1) [of E conv raw path n proj t obs i]
    by (intro assms) (simp add: no_secrets_Redact)
  then show ?thesis
    by (simp add: import_event_def Inr r keeps_andThen keeps_readonly sessions_readonly(4) InsertObservation
        RecordImportedEvent readonly_basic)
qed

lemma keeps_import_lines:
  assumes "\<And>inp. no_secrets (oi_PayloadJSON inp) \<Longrightarrow> ok_obs inp"
  shows "keeps I (import_lines E conv path proj t n ls st)"
  by (induction ls arbitrary: n st)
    (simp_all add: keeps_readonly readonly_basic keeps_andThen keeps_import_event assms)

lemma keeps_import:
  assumes "\<And>inp. no_secrets (oi_PayloadJSON inp) \<Longrightarrow> ok_obs inp"
  shows "keeps I (importClaudeJSONLFile E F conv path proj t)"
  by (auto simp: importClaudeJSONLFile_def keeps_readonly readonly_basic keeps_andThen keeps_import_lines assms
      split: sum.splits)

end

end
