(* ===== verification/Admin.thy ===== *)
theory Admin
  imports CommandLine Import
begin

text \<open>
  The administration commands (\<open>internal/admin\<close>): what each prints on its two outputs, the exit code
  it returns, and what it does to the world. The machine it runs on is a parameter (\<open>host\<close>): the
  environment and the files, whether a database can be opened, and the answers of the embedding
  service, counted from the start of the command. A command runs on the store at the path it opens.
\<close>

section \<open>The machine\<close>

datatype file_status = Present | Absent | Unknown err

record host =
  h_env :: environ
  h_ext :: ext
  h_getwd :: "err + string"
  h_open :: "string \<Rightarrow> err option"
  h_http :: "nat \<Rightarrow> http_outcome"
  h_get :: "string \<Rightarrow> http_outcome"
  h_fs :: filesystem
  h_conv :: "rat \<Rightarrow> int"
  h_iter :: "Ranked list \<Rightarrow> Ranked list"
  h_stat :: "string \<Rightarrow> file_status"
  h_probe :: "string \<Rightarrow> err option \<times> err option \<times> err option"

record outcome =
  oc_code :: int
  oc_out :: string
  oc_err :: string

type_synonym command = "world \<Rightarrow> outcome \<times> world"

definition tab :: char where "tab = CHR 0x09"

definition exits :: "int \<Rightarrow> string \<Rightarrow> command" where
  "exits code msg w = (\<lparr>oc_code = code, oc_out = [], oc_err = msg @ [nl]\<rparr>, w)"

definition prints :: "string list \<Rightarrow> command" where
  "prints ls w = (\<lparr>oc_code = 0, oc_out = concat (map (\<lambda>l. l @ [nl]) ls), oc_err = []\<rparr>, w)"

definition error_text :: "host \<Rightarrow> err \<Rightarrow> string" where
  "error_text h e = err_text (driver_text (h_ext h)) e"

text \<open>A step that may fail, with the label and the exit code of its failure.\<close>

definition or_exit :: "host \<Rightarrow> string \<Rightarrow> int \<Rightarrow> 'a act \<Rightarrow> ('a \<Rightarrow> command) \<Rightarrow> command" where
  "or_exit h label code act k w = (case act w of
     (Inl e, w1) \<Rightarrow> exits code (label @ error_text h e) w1 | (Inr x, w1) \<Rightarrow> k x w1)"

definition with_store :: "host \<Rightarrow> string \<Rightarrow> command \<Rightarrow> command" where
  "with_store h path k w = (case h_open h path of Some e \<Rightarrow> exits 1 (''open store: '' @ error_text h e) w | None \<Rightarrow> k w)"

definition unexpected_argument :: "host \<Rightarrow> string \<Rightarrow> command" where
  "unexpected_argument h arg = exits 2 (error_text h (unexpected (h_env h) arg))"

text \<open>The parsed options, or the error and exit code 2.\<close>

definition parsed :: "host \<Rightarrow> err + 'a \<Rightarrow> ('a \<Rightarrow> command) \<Rightarrow> command" where
  "parsed h r k = (case r of Inl e \<Rightarrow> exits 2 (error_text h e) | Inr x \<Rightarrow> k x)"

section \<open>\<open>admin/embed.go\<close>\<close>

definition newEmbeddingClient :: "environ \<Rightarrow> Configuration.Config \<Rightarrow> err + Client" where
  "newEmbeddingClient E cfg =
     (if Provider (Embedding cfg) \<noteq> ''ollama'' then
        Inl (Msg (''embedding provider '' @ quote (tables E) (Provider (Embedding cfg)) @ '' is not supported for this command''))
      else if OllamaURL (Embedding cfg) = [] then Inl (Msg ''embedding ollama_url is empty'')
      else Inr \<lparr>cl_URL = OllamaURL (Embedding cfg), cl_Model = EmbModel (Embedding cfg), cl_Dim = Dimensions (Embedding cfg),
        cl_detectedDim = 0\<rparr>)"

definition embedMemoryIfEnabled :: "host \<Rightarrow> int \<Rightarrow> unit op" where
  "embedMemoryIfEnabled h i = (case Load (h_env h) [] of Inl e \<Rightarrow> fail e
     | Inr cfg \<Rightarrow>
       if Provider (Embedding cfg) \<noteq> ''ollama'' then ok ()
       else (case newEmbeddingClient (h_env h) cfg of Inl e \<Rightarrow> fail e
         | Inr cl \<Rightarrow> (case fst (Embed (h_http h 0) cl) of Inl e \<Rightarrow> fail e
           | Inr vec \<Rightarrow> SaveMemoryEmbedding i (ModelName cl) vec)))"

text \<open>One call of the service for each memory, the \<open>k\<close>-th and following ones.\<close>

fun embed_each :: "host \<Rightarrow> nat \<Rightarrow> Client \<Rightarrow> Memory list \<Rightarrow> int \<Rightarrow> int op" where
  "embed_each h k cl [] n = ok n"
| "embed_each h k cl (m # ms) n = (case Embed (h_http h k) cl of
     (Inl e, c1) \<Rightarrow> fail e
   | (Inr vec, c1) \<Rightarrow> andThen (SaveMemoryEmbedding (mem_ID m) (ModelName c1) vec)
       (\<lambda>_. embed_each h (Suc k) c1 ms (n + 1)))"

definition embedMissing :: "host \<Rightarrow> Client \<Rightarrow> string \<Rightarrow> int \<Rightarrow> int op" where
  "embedMissing h cl proj limit = (case Embed (h_http h 0) cl of
     (Inl e, c1) \<Rightarrow> fail e
   | (Inr probe, c1) \<Rightarrow>
       andThen (MissingEmbeddings \<lparr>vs_Project = proj, vs_Model = ModelName c1, vs_Dim = int (length probe), vs_Limit = limit\<rparr>)
         (\<lambda>missing. embed_each h 1 c1 missing 0))"

definition runEmbedMissing :: "host \<Rightarrow> string list \<Rightarrow> bool \<Rightarrow> command" where
  "runEmbedMissing h args rebuild = parsed h (parseOptions (h_env h) (h_getwd h) args) (\<lambda>(opts, rest).
     if rest \<noteq> [] then unexpected_argument h (hd rest)
     else case Load (h_env h) [] of Inl e \<Rightarrow> exits 1 (''load config: '' @ error_text h e)
     | Inr cfg \<Rightarrow> parsed h (newEmbeddingClient (h_env h) cfg) (\<lambda>cl.
         with_store h (ao_dbPath opts)
           (or_exit h ''delete embeddings: '' 1
              (if rebuild then on_store (DeleteEmbeddings (ao_project opts) (ModelName cl)) else ok ()) (\<lambda>_.
            or_exit h ''embed missing: '' 1 (on_store (embedMissing h cl (ao_project opts) (ao_limit opts))) (\<lambda>n.
              prints [''embedded='' @ itoa n])))))"

section \<open>\<open>admin/run.go\<close>\<close>

definition compactInstruction :: "string \<Rightarrow> string \<Rightarrow> string \<Rightarrow> string list \<Rightarrow> string" where
  "compactInstruction agent sid proj cwds =
     (let prompt = ''session_id='' @ sid @ '' project='' @ proj @ '' cwds=['' @ join '' '' cwds @ ''] - read observations via mcp__mcb__memory_session_observations, deduplicate with mcp__mcb__memory_search, save one summary with mcp__mcb__memory_session_summary_save, then save 3-7 durable facts with mcp__mcb__memory_save. Always pass session_id.''
      in if agent = ''opencode'' then ''Run the mcb-compactor subagent with this prompt:'' @ [nl, nl] @ prompt
         else ''To compact session '' @ sid @ '', dispatch the mcb-compactor subagent via Task with this prompt:'' @ [nl, nl] @ prompt)"

definition runCompact :: "host \<Rightarrow> string list \<Rightarrow> command" where
  "runCompact h args = parsed h (parseCompactOptions (h_env h) (h_getwd h) args) (\<lambda>(opts, rest, sid, agent).
     with_store h (ao_dbPath opts)
       (if sid \<noteq> [] then
          or_exit h ''load session: '' 1 (on_store (Session_op sid)) (\<lambda>ses.
            or_exit h [] 1 (attempt (on_store (SessionCWDs sid 10))) (\<lambda>cwds.
              prints [compactInstruction agent (ses_ID ses) (ses_Project ses) (case cwds of Inl _ \<Rightarrow> [] | Inr cs \<Rightarrow> cs)]))
        else if rest \<noteq> [] then unexpected_argument h (hd rest)
        else parsed h (Load (h_env h) []) (\<lambda>cfg.
          or_exit h [] 1 now_ms (\<lambda>t.
          or_exit h ''list compactable sessions: '' 1
            (on_store (CompactableSessions (MinObservations (CompactionC cfg)) (i64 (t - 7 * 24 * 60 * 60 * 1000)) (ao_limit opts)))
            (\<lambda>ss. prints (map (\<lambda>s. ses_ID s @ [tab] @ ses_Agent s @ [tab] @ ses_Project s @ [tab] @ itoa (ses_NObs s)) ss))))))"

definition runDecay :: "host \<Rightarrow> string list \<Rightarrow> command" where
  "runDecay h args = parsed h (parseDecayOptions (h_env h) (h_getwd h) args) (\<lambda>(opts, rest, tauDays, minImportance).
     if rest \<noteq> [] then unexpected_argument h (hd rest)
     else with_store h (ao_dbPath opts)
       (or_exit h [] 1 now_ms (\<lambda>t.
        or_exit h ''decay memories: '' 1 (on_store (DecayMemories (h_ext h)
            \<lparr>do_Now = t, do_TauDays = tauDays, do_MinImportance = minImportance\<rparr>)) (\<lambda>n.
          prints [''deleted='' @ itoa n]))))"

definition runMigrate :: "host \<Rightarrow> string list \<Rightarrow> command" where
  "runMigrate h args = parsed h (parseOptions (h_env h) (h_getwd h) args) (\<lambda>(opts, rest).
     if rest \<noteq> [] then unexpected_argument h (hd rest)
     else with_store h (ao_dbPath opts) (prints [''ok'']))"

text \<open>The embedding is stored when it can be; its failure is only reported.\<close>

definition runAdd :: "host \<Rightarrow> string list \<Rightarrow> command" where
  "runAdd h args = parsed h (parseOptions (h_env h) (h_getwd h) args) (\<lambda>(opts, textArgs).
     let content = trimSpace (join '' '' textArgs) in
     if content = [] then exits 2 ''missing memory text''
     else with_store h (ao_dbPath opts)
       (or_exit h [] 1 now_ms (\<lambda>t.
        or_exit h ''add memory: '' 1 (on_store (AddMemory \<lparr>mi_Project = ao_project opts, mi_Text = content, mi_Tier = ''fact'',
            mi_Source = ''manual'', mi_Importance = Fin 0, mi_SessionID = [], mi_CreatedAt = t\<rparr>)) (\<lambda>i.
        or_exit h [] 1 (attempt (on_store (embedMemoryIfEnabled h i))) (\<lambda>r w.
          (\<lparr>oc_code = 0, oc_out = ''memory_id='' @ itoa i @ [nl],
            oc_err = (case r of Inl e \<Rightarrow> ''embed memory: '' @ error_text h e @ [nl] | Inr _ \<Rightarrow> [])\<rparr>, w))))))"

text \<open>
  The search embedder wraps the client, so its model and dimension are the client's; the query is
  embedded by the first call.
\<close>

definition search_config :: "SearchConfig \<Rightarrow> Hybrid.Config" where
  "search_config c = \<lparr>cf_BM25TopK = BM25TopK c, cf_VectorTopK = VectorTopK c, cf_FinalTopK = FinalTopK c, cf_RRFK = RRFK c,
     cf_MaxPerSession = MaxPerSession c, cf_Model = [], cf_Dim = 0, cf_SkipTouch = False\<rparr>"

definition searchMemories :: "host \<Rightarrow> options \<Rightarrow> string \<Rightarrow> Memory list act" where
  "searchMemories h opts txt_q =
     (let plain = on_store (SearchMemories (h_ext h)
            \<lparr>ms_Project = ao_project opts, ms_Query = txt_q, ms_Limit = ao_limit opts\<rparr>)
      in case Load (h_env h) [] of Inl e \<Rightarrow> fail e
       | Inr cfg \<Rightarrow>
         if Provider (Embedding cfg) \<noteq> ''ollama'' then plain
         else (case newEmbeddingClient (h_env h) cfg of Inl _ \<Rightarrow> plain
           | Inr cl \<Rightarrow> (\<lambda>w.
               case Hybrid (h_ext h) (h_iter h)
                   \<lparr>se_Embedder = True, se_Info = Some (ModelName cl, CurrentDim (snd (Embed (h_http h 0) cl))),
                    se_Config = search_config (Search cfg)\<rparr>
                   \<lparr>q_Text = txt_q, q_Project = ao_project opts, q_Limit = ao_limit opts\<rparr>
                   (w\<lparr>embeds := [fst (Embed (h_http h 0) cl)], brk := None\<rparr>) of
                 (Inl _, w1) \<Rightarrow> plain w1 | (Inr rs, w1) \<Rightarrow> (Inr (map rs_Memory rs), w1))))"

definition runSearch :: "host \<Rightarrow> string list \<Rightarrow> command" where
  "runSearch h args = parsed h (parseOptions (h_env h) (h_getwd h) args) (\<lambda>(opts, queryArgs).
     let txt_q = trimSpace (join '' '' queryArgs) in
     if txt_q = [] then exits 2 ''missing search query''
     else with_store h (ao_dbPath opts) (\<lambda>w. case searchMemories h opts txt_q w of
         (Inl e, w1) \<Rightarrow> if err_is e FTS5Unavailable then exits 2 (error_text h e) w1
           else exits 1 (''search memories: '' @ error_text h e) w1
       | (Inr ms, w1) \<Rightarrow> prints (map (\<lambda>m. itoa (mem_ID m) @ [tab] @ mem_Text m) ms) w1))"

definition runSessions :: "host \<Rightarrow> string list \<Rightarrow> command" where
  "runSessions h args = parsed h (parseOptions (h_env h) (h_getwd h) args) (\<lambda>(opts, rest).
     if rest \<noteq> [] then unexpected_argument h (hd rest)
     else with_store h (ao_dbPath opts)
       (or_exit h ''list sessions: '' 1 (on_store (ListSessions (ao_project opts) (ao_limit opts))) (\<lambda>ss.
          prints (map (\<lambda>s. ses_ID s @ [tab] @ ses_Agent s @ [tab] @ ses_Project s @ [tab] @ itoa (ses_StartedAt s) @ [tab] @
            itoa (ses_EndedAt s) @ [tab] @ itoa (ses_NObs s)) ss))))"

section \<open>\<open>admin/import_jsonl.go\<close>\<close>

definition add_stats :: "importJSONLStats \<Rightarrow> importJSONLStats \<Rightarrow> importJSONLStats" where
  "add_stats a b = \<lparr>is_Files = is_Files a + is_Files b, is_Imported = is_Imported a + is_Imported b,
     is_Skipped = is_Skipped a + is_Skipped b\<rparr>"

fun import_paths :: "host \<Rightarrow> string \<Rightarrow> string list \<Rightarrow> (importJSONLStats \<Rightarrow> command) \<Rightarrow> importJSONLStats \<Rightarrow> command" where
  "import_paths h proj [] k acc = k acc"
| "import_paths h proj (path # paths) k acc =
     or_exit h [] 1 now_ms (\<lambda>t.
     or_exit h (''import '' @ path @ '': '') 1 (on_store (importClaudeJSONLFile (h_ext h) (h_fs h) (h_conv h) path proj t))
       (\<lambda>stats. import_paths h proj paths k (add_stats acc stats)))"

fun import_roots :: "host \<Rightarrow> string \<Rightarrow> string list \<Rightarrow> importJSONLStats \<Rightarrow> command" where
  "import_roots h proj [] acc =
     prints [''files='' @ itoa (is_Files acc) @ '' imported='' @ itoa (is_Imported acc) @ '' skipped='' @ itoa (is_Skipped acc)]"
| "import_roots h proj (dir # dirs) acc = (case collectJSONLPaths (h_fs h) dir of
     Inl e \<Rightarrow> exits 1 (''collect transcripts: '' @ error_text h e)
   | Inr paths \<Rightarrow> import_paths h proj paths (import_roots h proj dirs) acc)"

definition runImportJSONL :: "host \<Rightarrow> string list \<Rightarrow> command" where
  "runImportJSONL h args = parsed h (parseOptions (h_env h) (h_getwd h) args) (\<lambda>(opts, rest).
     if rest = [] then exits 2 ''missing transcript path''
     else with_store h (ao_dbPath opts)
       (import_roots h (ao_project opts) rest \<lparr>is_Files = 0, is_Imported = 0, is_Skipped = 0\<rparr>))"

section \<open>\<open>admin/doctor.go\<close>\<close>

definition trimRight :: "string \<Rightarrow> char \<Rightarrow> string" where
  "trimRight s c = rev (dropWhile (\<lambda>x. x = c) (rev s))"

definition checkOllama :: "host \<Rightarrow> string \<Rightarrow> err option" where
  "checkOllama h url = (case h_get h (trimRight url (CHR ''/'') @ ''/api/tags'') of
     Response status _ \<Rightarrow> if status \<ge> 400 then Some (Msg (''unexpected status '' @ itoa status)) else None
   | _ \<Rightarrow> Some Driver)"

text \<open>Creating, closing and removing a file beside the database.\<close>

definition checkDBDirectoryWritable :: "host \<Rightarrow> string \<Rightarrow> err option" where
  "checkDBDirectoryWritable h dbPath = (case h_probe h dbPath of (create, close, remove) \<Rightarrow>
     (case create of Some e \<Rightarrow> Some e
      | None \<Rightarrow> (case close of Some e \<Rightarrow> Some e | None \<Rightarrow> remove)))"

definition runDoctor :: "host \<Rightarrow> string list \<Rightarrow> command" where
  "runDoctor h args = parsed h (parseDoctorOptions (h_env h) args) (\<lambda>(opts, rest) w.
     let config_ok = (if do_configPath opts \<noteq> [] then ''config: ok'' @ [nl] else []);
         stop = (\<lambda>l e w. (\<lparr>oc_code = 1, oc_out = config_ok, oc_err = l @ error_text h e @ [nl]\<rparr>, w)) in
     if rest \<noteq> [] then unexpected_argument h (hd rest) w
     else if do_configPath opts \<noteq> [] \<and> isl (Load (h_env h) (do_configPath opts)) then
       exits 1 (''config: '' @ error_text h (projl (Load (h_env h) (do_configPath opts)))) w
     else case h_stat h (do_dbPath opts) of
       Absent \<Rightarrow> (\<lparr>oc_code = 1, oc_out = config_ok, oc_err = ''missing db: '' @ do_dbPath opts @ [nl]\<rparr>, w)
     | Unknown e \<Rightarrow> stop ''stat db: '' e w
     | Present \<Rightarrow> (case h_open h (do_dbPath opts) of Some e \<Rightarrow> stop ''open db: '' e w
       | None \<Rightarrow> (case on_store Ping w of (Inl e, w1) \<Rightarrow> stop ''db ping: '' e w1
         | (Inr _, w1) \<Rightarrow> (case checkDBDirectoryWritable h (do_dbPath opts) of Some e \<Rightarrow> stop ''db permissions: '' e w1
           | None \<Rightarrow>
             if do_ollamaURL opts = [] then (\<lparr>oc_code = 0, oc_out = config_ok @ ''ok'' @ [nl], oc_err = []\<rparr>, w1)
             else (case checkOllama h (do_ollamaURL opts) of Some e \<Rightarrow> stop ''ollama: '' e w1
               | None \<Rightarrow> (\<lparr>oc_code = 0, oc_out = config_ok @ ''ollama: ok'' @ [nl] @ ''ok'' @ [nl], oc_err = []\<rparr>, w1))))))"

end
