(* ===== verification/PerfSeed.thy ===== *)
theory PerfSeed
  imports Admin
begin

text \<open>
  \<open>internal/store/perf_seed.go\<close> and the command \<open>perf-seed\<close>: synthetic sessions, memories and
  observations of a project, in one transaction that first removes those of an earlier run with the
  same identifier.
\<close>

section \<open>Texts\<close>

definition pad0 :: "nat \<Rightarrow> int \<Rightarrow> string" where
  "pad0 w n = replicate (w - length (itoa n)) (CHR ''0'') @ itoa n"

definition perfSeedScopeKey :: "string \<Rightarrow> string \<Rightarrow> string" where
  "perfSeedScopeKey proj runID = take 8 (sha256_hex (proj @ [CHR 0x00] @ runID))"

definition perfSessionExternalIDPrefix :: "string \<Rightarrow> string \<Rightarrow> string" where
  "perfSessionExternalIDPrefix proj runID = ''perf-'' @ perfSeedScopeKey proj runID @ ''-session-''"

definition PerfSessionExternalID :: "string \<Rightarrow> string \<Rightarrow> int \<Rightarrow> string" where
  "PerfSessionExternalID proj runID i = perfSessionExternalIDPrefix proj runID @ pad0 6 (i + 1)"

definition perfSummary :: "string \<Rightarrow> string \<Rightarrow> int \<Rightarrow> string" where
  "perfSummary proj runID i = ''Perf summary '' @ pad0 6 (i + 1) @ '' for '' @ proj @ '' run '' @ runID @
     '': auth uses JWT middleware, deploy uses docker compose, memory search relies on sqlite fts5 and optional ollama embeddings.''"

definition perfTier :: "int \<Rightarrow> string" where
  "perfTier i = (if i mod 4 = 0 then ''semantic'' else if i mod 4 = 1 then ''procedural''
     else if i mod 4 = 2 then ''episodic'' else ''working'')"

definition perfMemoryText :: "string \<Rightarrow> string \<Rightarrow> int \<Rightarrow> string" where
  "perfMemoryText proj runID i = proj @ '' run '' @ runID @ '' memory '' @ pad0 6 i @
     (if i mod 6 = 0 then '': JWT bearer auth is validated in src/middleware/auth_'' @ pad0 3 (i mod 100) @ ''.ts with jose middleware''
      else if i mod 6 = 1 then '': Docker compose starts mcb and ollama; embeddings use nomic-embed-text''
      else if i mod 6 = 2 then '': SQLite FTS5 BM25 handles local lexical memory search before vector fusion''
      else if i mod 6 = 3 then '': file README.md and internal/server/server.go are common debugging entry points''
      else if i mod 6 = 4 then '': rate limits use a token bucket per API key and return 429 on overflow''
      else '': prefer docker compose exec mcb for maintenance commands inside the container'')"

definition stringsOfSize :: "int \<Rightarrow> string" where
  "stringsOfSize n = map (\<lambda>i. char_n (97 + i mod 26)) [0..<nat n]"

definition perfObservationPayload :: "string \<Rightarrow> string \<Rightarrow> int \<Rightarrow> string \<times> string \<times> string" where
  "perfObservationPayload proj runID i =
     (let kind = [''tool_use'', ''user_message'', ''assistant_message'', ''session_status'', ''task_completed''] ! nat (i mod 5);
          tool = (if kind = ''tool_use'' then [''Read'', ''Grep'', ''Bash'', ''Edit''] ! nat (i mod 4) else []);
          payload = gomap ([(''run_id'', JStr runID), (''index'', JInt i),
            (''message'', JStr (''perf event '' @ pad0 6 i @ '' for '' @ proj @ '' with auth jwt sqlite docker compose ollama context'')),
            (''file'', JStr (''internal/perf/file_'' @ pad0 3 (i mod 100) @ ''.go'')),
            (''token'', JStr (''sk-test-'' @ pad0 32 i))] @
            (if i mod 10 = 0 then [(''duplicate_marker'', JStr ''dedup-shape'')] else []) @
            (if i mod 7 = 0 then
               [(''tool_input'', gomap [(''file_path'', JStr (''src/module_'' @ pad0 3 (i mod 200) @ ''.go'')), (''pattern'', JStr ''memory search'')]),
                (''tool_response'', JStr (stringsOfSize (900 + i mod 200)))] else []))
      in (marshal payload, kind, tool))"

definition perfHash :: "string \<Rightarrow> int \<Rightarrow> string" where
  "perfHash payload i = sha256_hex (payload @ [char_n (nat (i mod 251))])"

section \<open>Statements\<close>

definition seeded_memory :: "string \<Rightarrow> string \<Rightarrow> mem_row \<Rightarrow> bool" where
  "seeded_memory proj source m = (m_project m = proj \<and> m_source m = source)"

definition seeded_ids :: "string \<Rightarrow> string \<Rightarrow> db \<Rightarrow> int set" where
  "seeded_ids proj source d = m_id ` set (filter (seeded_memory proj source) (memories d))"

definition sql_clear_fts :: "string \<Rightarrow> string \<Rightarrow> db \<Rightarrow> err + (int \<times> db)" where
  "sql_clear_fts proj source d =
     Inr (int (length (filter (\<lambda>x. fst x \<in> seeded_ids proj source d) (fts d))),
       d\<lparr>fts := filter (\<lambda>x. fst x \<notin> seeded_ids proj source d) (fts d)\<rparr>)"

text \<open>References are checked at the end of the statement; embeddings go with their memory.\<close>

definition sql_clear_memories :: "string \<Rightarrow> string \<Rightarrow> db \<Rightarrow> err + (int \<times> db)" where
  "sql_clear_memories proj source d =
     (let gone = seeded_ids proj source d; rest = filter (\<lambda>m. \<not> seeded_memory proj source m) (memories d) in
      if \<exists>m \<in> set rest. \<exists>x \<in> set_option (m_superseded m). x \<in> gone then Inl ForeignKey
      else Inr (int (length (memories d)) - int (length rest),
        d\<lparr>memories := rest, embeddings := filter (\<lambda>x. e_memory x \<notin> gone) (embeddings d)\<rparr>))"

text \<open>\<open>LIKE\<close> does not tell the cases of ASCII letters apart; the prefix holds no wildcard.\<close>

definition seeded_session :: "string \<Rightarrow> string \<Rightarrow> session_row \<Rightarrow> bool" where
  "seeded_session proj pre r = (s_agent r = ''opencode'' \<and> s_project r = proj \<and>
     map lower_ascii (take (length pre) (s_external r)) = map lower_ascii pre)"

definition sql_clear_observations :: "string \<Rightarrow> string \<Rightarrow> db \<Rightarrow> err + (int \<times> db)" where
  "sql_clear_observations proj pre d =
     (let ids = s_id ` set (filter (seeded_session proj pre) (sessions d));
          gone = (\<lambda>x. o_cwd x = proj \<and> o_session x \<in> ids) in
      Inr (int (length (filter gone (observations d))), d\<lparr>observations := filter (\<lambda>x. \<not> gone x) (observations d)\<rparr>))"

definition sql_clear_sessions :: "string \<Rightarrow> string \<Rightarrow> db \<Rightarrow> err + (int \<times> db)" where
  "sql_clear_sessions proj pre d =
     (let ids = s_id ` set (filter (seeded_session proj pre) (sessions d)) in
      if (\<exists>x \<in> set (observations d). o_session x \<in> ids) \<or> (\<exists>m \<in> set (memories d). \<exists>x \<in> set_option (m_session m). x \<in> ids)
      then Inl ForeignKey
      else Inr (int (length (filter (seeded_session proj pre) (sessions d))),
        d\<lparr>sessions := filter (\<lambda>r. \<not> seeded_session proj pre r) (sessions d),
          attempts := filter (\<lambda>a. a_session a \<notin> ids) (attempts d)\<rparr>))"

section \<open>Seeding\<close>

record PerfSeedOptions =
  ps_Project :: string
  ps_RunID :: string
  ps_Sessions :: int
  ps_Memories :: int
  ps_Observations :: int
  ps_Now :: int

record PerfSeedResult =
  pr_Project :: string
  pr_RunID :: string
  pr_Sessions :: int
  pr_Memories :: int
  pr_Observations :: int
  pr_Summaries :: int
  pr_StartedAt :: int
  pr_EndedAt :: int

definition clearPerfSeedData :: "string \<Rightarrow> string \<Rightarrow> unit op" where
  "clearPerfSeedData proj runID =
     (let source = ''perf-seed:'' @ runID; pre = perfSessionExternalIDPrefix proj runID in
      andThen (withFts (\<lambda>b. if b then andThen (call ''clear perf memory fts'' (sql_clear_fts proj source)) (\<lambda>_. ok ()) else ok ())) (\<lambda>_.
      andThen (call ''clear perf memories'' (sql_clear_memories proj source)) (\<lambda>_.
      andThen (call ''clear perf observations'' (sql_clear_observations proj pre)) (\<lambda>_.
      andThen (call ''clear perf sessions'' (sql_clear_sessions proj pre)) (\<lambda>_. ok ())))))"

definition seed_session :: "PerfSeedOptions \<Rightarrow> int \<Rightarrow> int \<Rightarrow> session_row" where
  "seed_session opts startedAt i =
     (let ext = PerfSessionExternalID (ps_Project opts) (ps_RunID opts) i; t = i64 (startedAt + i64 (i * 60000)) in
      \<lparr>s_id = ''opencode:'' @ ext, s_agent = ''opencode'', s_external = ext, s_project = ps_Project opts, s_started = t,
       s_ended = Some (i64 (t + 30000)), s_summary = Some (perfSummary (ps_Project opts) (ps_RunID opts) i), s_nobs = 0\<rparr>)"

definition seed_sid :: "PerfSeedOptions \<Rightarrow> int \<Rightarrow> string" where
  "seed_sid opts i = ''opencode:'' @ PerfSessionExternalID (ps_Project opts) (ps_RunID opts) i"

definition seed_memory :: "PerfSeedOptions \<Rightarrow> int \<Rightarrow> int \<Rightarrow> mem_row" where
  "seed_memory opts startedAt i =
     \<lparr>m_id = 0, m_project = ps_Project opts, m_text = perfMemoryText (ps_Project opts) (ps_RunID opts) i, m_tier = perfTier i,
      m_source = ''perf-seed:'' @ ps_RunID opts,
      m_importance = f64_add (Fin (1 / 2)) (f64_div (f64_of_int (i mod 50)) (Fin 100)),
      m_session = Some (seed_sid opts (i mod ps_Sessions opts)), m_created = i64 (startedAt + i), m_updated = i64 (startedAt + i),
      m_accessed = i64 (startedAt + i), m_superseded = None, m_access_cnt = 0\<rparr>"

definition seedMemory :: "PerfSeedOptions \<Rightarrow> int \<Rightarrow> int \<Rightarrow> unit op" where
  "seedMemory opts startedAt i =
     andThen (call ''insert perf memory'' (sql_insert_memory (seed_memory opts startedAt i))) (\<lambda>k.
     withFts (\<lambda>b. if b then andThen (call ''insert perf memory fts'' (sql_insert_fts k (m_text (seed_memory opts startedAt i)))) (\<lambda>_. ok ())
       else ok ()))"

definition seed_observation :: "ext \<Rightarrow> PerfSeedOptions \<Rightarrow> int \<Rightarrow> int \<Rightarrow> obs_row" where
  "seed_observation E opts startedAt i =
     (let (payload, kind, tool) = perfObservationPayload (ps_Project opts) (ps_RunID opts) i;
          (encoded, encoding) = encodePayload E payload in
      \<lparr>o_id = 0, o_session = seed_sid opts (i mod ps_Sessions opts), o_cwd = ps_Project opts, o_ts = i64 (startedAt + i), o_kind = kind,
       o_tool = tool, o_payload = encoded, o_plen = int (length payload), o_encoding = encoding, o_schema = 1,
       o_hash = perfHash payload i\<rparr>)"

text \<open>How many observations go to a session.\<close>

definition seed_count :: "PerfSeedOptions \<Rightarrow> int \<Rightarrow> int" where
  "seed_count opts j = int (length (filter (\<lambda>i. i mod ps_Sessions opts = j) [0..ps_Observations opts - 1]))"

definition seed_defaults :: "PerfSeedOptions \<Rightarrow> PerfSeedOptions" where
  "seed_defaults opts = opts\<lparr>ps_RunID := (if ps_RunID opts = [] then ''perf'' else ps_RunID opts),
     ps_Sessions := (if ps_Sessions opts \<le> 0 then 100 else ps_Sessions opts),
     ps_Now := (if ps_Now opts = 0 then 1 else ps_Now opts)\<rparr>"

definition SeedPerfData :: "ext \<Rightarrow> PerfSeedOptions \<Rightarrow> PerfSeedResult op" where
  "SeedPerfData E opts0 =
     (if ps_Project opts0 = [] then fail (Msg ''project is required'')
      else if ps_Memories opts0 < 0 \<or> ps_Observations opts0 < 0 then fail (Msg ''memories and observations must be non-negative'')
      else let opts = seed_defaults opts0; startedAt = i64 (ps_Now opts - i64 (ps_Sessions opts * 60000)) in
        in_tx ''begin perf seed'' (\<lambda>_. ''commit perf seed'')
       (andThen (clearPerfSeedData (ps_Project opts) (ps_RunID opts)) (\<lambda>_.
        andThen (each (\<lambda>i. call ''insert perf session'' (sql_insert_session (seed_session opts startedAt i))) [0..ps_Sessions opts - 1]) (\<lambda>_.
        andThen (each (seedMemory opts startedAt) [0..ps_Memories opts - 1]) (\<lambda>_.
        andThen (each (\<lambda>i. call ''insert perf observation'' (sql_insert_obs (seed_observation E opts startedAt i)))
          [0..ps_Observations opts - 1]) (\<lambda>_.
        andThen (each (\<lambda>j. call ''update perf session observations''
            (sql_update_session (seed_sid opts j) (\<lambda>r. r\<lparr>s_nobs := seed_count opts j\<rparr>))) [0..ps_Sessions opts - 1]) (\<lambda>_.
          ok \<lparr>pr_Project = ps_Project opts, pr_RunID = ps_RunID opts, pr_Sessions = ps_Sessions opts, pr_Memories = ps_Memories opts,
            pr_Observations = ps_Observations opts, pr_Summaries = ps_Sessions opts, pr_StartedAt = startedAt, pr_EndedAt = ps_Now opts\<rparr>)))))))"

text \<open>The command; \<open>save\<close> says whether the directory and the file of the result can be written.\<close>

definition runPerfSeed :: "host \<Rightarrow> (string \<Rightarrow> err option) \<Rightarrow> string list \<Rightarrow> command" where
  "runPerfSeed h save args = parsed h (parsePerfSeedOptions (h_env h) args) (\<lambda>opts.
     with_store h (po_dbPath opts)
       (or_exit h [] 1 now_ms (\<lambda>t.
        or_exit h ''seed perf data: '' 1 (on_store (SeedPerfData (h_ext h)
            \<lparr>ps_Project = po_project opts, ps_RunID = po_runID opts, ps_Sessions = po_sessions opts, ps_Memories = po_memories opts,
             ps_Observations = po_observations opts, ps_Now = t\<rparr>)) (\<lambda>r.
          case (if po_outDir opts = [] then None else save (po_outDir opts)) of
            Some e \<Rightarrow> exits 1 (error_text h e)
          | None \<Rightarrow> prints [''project='' @ pr_Project r @ '' run_id='' @ pr_RunID r @ '' sessions='' @ itoa (pr_Sessions r) @
              '' memories='' @ itoa (pr_Memories r) @ '' observations='' @ itoa (pr_Observations r) @ '' summaries='' @ itoa (pr_Summaries r)]))))"

section \<open>Preservation\<close>

lemma clear_sessions_wf:
  "db_wf d \<Longrightarrow> sql_clear_sessions p pre d = Inr (n, d') \<Longrightarrow> db_wf d'"
proof -
  assume wf: "db_wf d" and r: "sql_clear_sessions p pre d = Inr (n, d')"
  let ?gone = "s_id ` set (filter (seeded_session p pre) (sessions d))"
  let ?rest = "filter (\<lambda>r. \<not> seeded_session p pre r) (sessions d)"
  have free: "\<forall>x \<in> set (observations d). o_session x \<notin> ?gone" "\<forall>m \<in> set (memories d). \<forall>x \<in> set_option (m_session m). x \<notin> ?gone"
    and d': "d' = d\<lparr>sessions := ?rest, attempts := filter (\<lambda>a. a_session a \<notin> ?gone) (attempts d)\<rparr>"
    using r unfolding sql_clear_sessions_def Let_def by (auto split: if_splits)
  have kept: "x \<in> s_id ` set ?rest" if "x \<in> s_id ` set (sessions d)" "x \<notin> ?gone" for x using that by auto
  have "sessions_wf d'" using wf by (simp add: d' db_wf_def sessions_wf_def distinct_map_filter)
  moreover have "obs_wf d'" using wf free(1) kept by (simp add: d' db_wf_def obs_wf_def)
  moreover have "mem_wf d'" using wf free(2) kept by (simp add: d' db_wf_def mem_wf_def subset_iff)
  moreover have "att_wf d'" using wf kept by (simp add: d' db_wf_def att_wf_def distinct_map_filter)
  moreover have "emb_wf d'" "log_wf d'" using wf by (simp_all add: d' db_wf_def)
  ultimately show ?thesis by (simp add: db_wf_def)
qed

lemma clear_memories_wf:
  "db_wf d \<Longrightarrow> sql_clear_memories p sc d = Inr (n, d') \<Longrightarrow> db_wf d'"
proof -
  assume wf: "db_wf d" and r: "sql_clear_memories p sc d = Inr (n, d')"
  let ?gone = "seeded_ids p sc d"
  let ?rest = "filter (\<lambda>m. \<not> seeded_memory p sc m) (memories d)"
  have free: "\<forall>m \<in> set ?rest. \<forall>x \<in> set_option (m_superseded m). x \<notin> ?gone"
    and d': "d' = d\<lparr>memories := ?rest, embeddings := filter (\<lambda>x. e_memory x \<notin> ?gone) (embeddings d)\<rparr>"
    using r unfolding sql_clear_memories_def Let_def by (auto split: if_splits)
  have kept: "x \<in> m_id ` set ?rest" if "x \<in> m_id ` set (memories d)" "x \<notin> ?gone" for x
    using that by (auto simp: seeded_ids_def)
  have "m_superseded m = Some x \<Longrightarrow> x \<in> m_id ` set ?rest" if "m \<in> set ?rest" for m x
    using that wf free by (intro kept) (auto simp: db_wf_def mem_wf_def)
  then have "mem_wf d'" using wf by (auto simp: d' db_wf_def mem_wf_def distinct_map_filter)
  moreover have "emb_wf d'" using wf kept by (simp add: d' db_wf_def emb_wf_def distinct_map_filter)
  moreover have "sessions_wf d'" "obs_wf d'" "att_wf d'" "log_wf d'" using wf by (simp_all add: d' db_wf_def)
  ultimately show ?thesis by (simp add: db_wf_def)
qed

lemma clear_wf:
  "db_wf d \<Longrightarrow> sql_clear_fts p sc d = Inr (n, d') \<Longrightarrow> db_wf d'"
  "db_wf d \<Longrightarrow> sql_clear_observations p pre d = Inr (n, d') \<Longrightarrow> db_wf d'"
  by (auto simp: sql_clear_fts_def sql_clear_observations_def Let_def db_wf_def obs_wf_def distinct_map_filter)

lemma seeded_calls:
  "keeps (\<lambda>_. db_wf) (call lb (sql_clear_fts p sc))" "keeps (\<lambda>_. db_wf) (call lb (sql_clear_memories p sc))"
  "keeps (\<lambda>_. db_wf) (call lb (sql_clear_observations p pre))" "keeps (\<lambda>_. db_wf) (call lb (sql_clear_sessions p pre))"
  by (rule keeps_call; blast intro: clear_wf clear_memories_wf clear_sessions_wf)+

lemma seed_session_id: "s_id (seed_session opts t i) = sessionID (s_agent (seed_session opts t i)) (s_external (seed_session opts t i))"
  by (simp add: seed_session_def sessionID_def Let_def)

lemma seed_observation_encoding: "o_encoding (seed_observation E opts t i) \<in> {''raw'', ''zstd''}"
  by (auto simp: seed_observation_def encodePayload_def Let_def split: prod.split)

text \<open>Whatever is seeded, keys and references stay in order.\<close>

lemma keeps_SeedPerfData: "keeps (\<lambda>_. db_wf) (SeedPerfData E opts)"
proof -
  have clear: "keeps (\<lambda>_. db_wf) (clearPerfSeedData p r)" for p r
    unfolding clearPerfSeedData_def Let_def by (auto intro!: keeps_intros op_intros seeded_calls)
  have mem: "keeps (\<lambda>_. db_wf) (seedMemory o' t i)" for o' t i
    unfolding seedMemory_def by (auto intro!: keeps_intros op_intros wf.kept_calls simp: seed_memory_def)
  show ?thesis
    unfolding SeedPerfData_def Let_def
    by (auto intro!: keeps_intros op_intros wf.kept_calls clear mem seed_session_id seed_observation_encoding
        simp: session_update_def)
qed

end
