(* ===== verification/Perf.thy ===== *)
theory Perf
  imports Report PerfSeed
begin

text \<open>
  The load benchmark (\<open>internal/bench/perf.go\<close>) and the command \<open>bench\<close>. Requests are answered by a
  parameter: the time each takes, and the status and body it gets. The workers of one endpoint fill
  disjoint slots of a slice, so the samples are those of the requests in order.
\<close>

section \<open>Endpoints\<close>

record perfEndpoint =
  ep_Group :: string
  ep_Name :: string
  ep_Path :: string
  ep_Body :: "string \<Rightarrow> string \<Rightarrow> int \<Rightarrow> json"

definition perfSessionID :: "string \<Rightarrow> string \<Rightarrow> int \<Rightarrow> string" where
  "perfSessionID proj runID i = PerfSessionExternalID proj runID (i mod 100)"

definition perfLiveSessionID :: "string \<Rightarrow> string \<Rightarrow> string \<Rightarrow> int \<Rightarrow> string" where
  "perfLiveSessionID proj runID kind i = PerfSessionExternalID proj runID 0 @ ''-'' @ kind @ ''-'' @ pad0 6 i"

text \<open>A body with the session and the project, and the members of its own.\<close>

definition body_of :: "string \<Rightarrow> string \<Rightarrow> (string \<times> json) list \<Rightarrow> json" where
  "body_of sid proj ms = gomap ([(''session_id'', JStr sid), (''cwd'', JStr proj)] @ ms)"

definition sessionBody :: "string \<Rightarrow> string \<Rightarrow> int \<Rightarrow> json" where
  "sessionBody proj runID i = body_of (perfSessionID proj runID i) proj []"

definition replayBody :: "string \<Rightarrow> string \<Rightarrow> int \<Rightarrow> json" where
  "replayBody proj runID i = gomap [(''session_id'', JStr (''opencode:'' @ perfSessionID proj runID i)), (''limit'', JInt 1000)]"

definition enrichBody :: "string \<Rightarrow> string \<Rightarrow> int \<Rightarrow> json" where
  "enrichBody proj runID i = body_of (perfSessionID proj runID i) proj
     [(''files'', JArr [JStr ''README.md'', JStr ''internal/server/server.go'', JStr (''src/module_'' @ pad0 3 (i mod 200) @ ''.go'')])]"

definition opencodeEventBody :: "string \<Rightarrow> string \<Rightarrow> int \<Rightarrow> json" where
  "opencodeEventBody proj runID i = body_of (perfLiveSessionID proj runID ''event'' i) proj
     [(''kind'', JStr ''session_status''), (''payload'', gomap [(''status_type'', JStr ''idle''), (''i'', JInt i)])]"

definition opencodeToolBody :: "string \<Rightarrow> string \<Rightarrow> int \<Rightarrow> json" where
  "opencodeToolBody proj runID i = body_of (perfLiveSessionID proj runID ''tool'' i) proj
     [(''tool'', JStr ''Read''), (''input'', gomap [(''file'', JStr ''README.md'')]),
      (''output'', gomap [(''ok'', JBool True), (''i'', JInt i)])]"

definition opencodeChatBody :: "string \<Rightarrow> string \<Rightarrow> int \<Rightarrow> json" where
  "opencodeChatBody proj runID i = body_of (perfLiveSessionID proj runID ''chat'' i) proj
     [(''message'', JStr (''perf chat message '' @ itoa i @ '' about jwt sqlite docker''))]"

definition claudePostToolBody :: "string \<Rightarrow> string \<Rightarrow> int \<Rightarrow> json" where
  "claudePostToolBody proj runID i = body_of (perfLiveSessionID proj runID ''claude-tool'' i) proj
     [(''tool_name'', JStr ''Read''), (''tool_input'', gomap [(''file_path'', JStr ''README.md'')]),
      (''tool_response'', gomap [(''ok'', JBool True)])]"

definition claudeUserPromptBody :: "string \<Rightarrow> string \<Rightarrow> int \<Rightarrow> json" where
  "claudeUserPromptBody proj runID i = body_of (perfLiveSessionID proj runID ''claude-prompt'' i) proj
     [(''prompt'', JStr (''perf prompt '' @ itoa i @ '' about memory''))]"

definition claudeStopBody :: "string \<Rightarrow> string \<Rightarrow> int \<Rightarrow> json" where
  "claudeStopBody proj runID i = body_of (perfSessionID proj runID i) proj [(''stop_hook_active'', JBool False)]"

definition mcpCall :: "string \<Rightarrow> (string \<times> json) list \<Rightarrow> int \<Rightarrow> json" where
  "mcpCall name args i = gomap [(''jsonrpc'', JStr ''2.0''), (''id'', JInt (i + 1)), (''method'', JStr ''tools/call''),
     (''params'', gomap [(''name'', JStr name), (''arguments'', gomap args)])]"

definition mcpMemorySearchBody :: "string \<Rightarrow> string \<Rightarrow> int \<Rightarrow> json" where
  "mcpMemorySearchBody proj runID i = mcpCall ''memory_search''
     [(''project'', JStr proj), (''query'', JStr ''jwt sqlite docker ollama''), (''limit'', JInt 10)] i"

definition mcpMemoryRecallBody :: "string \<Rightarrow> string \<Rightarrow> int \<Rightarrow> json" where
  "mcpMemoryRecallBody proj runID i = mcpCall ''memory_recall''
     [(''project'', JStr proj), (''query'', JStr ''docker compose embeddings''), (''limit'', JInt 10)] i"

definition mcpMemorySaveBody :: "string \<Rightarrow> string \<Rightarrow> int \<Rightarrow> json" where
  "mcpMemorySaveBody proj runID i = mcpCall ''memory_save''
     [(''project'', JStr proj),
      (''text'', JStr (''perf live saved memory '' @ pad0 6 i @ '': benchmark fact for jwt sqlite docker'')),
      (''tier'', JStr ''semantic'')] i"

definition mcpMemorySessionObservationsBody :: "string \<Rightarrow> string \<Rightarrow> int \<Rightarrow> json" where
  "mcpMemorySessionObservationsBody proj runID i = mcpCall ''memory_session_observations''
     [(''session_id'', JStr (''opencode:'' @ perfSessionID proj runID i)), (''limit'', JInt 100)] i"

definition all_endpoints :: "perfEndpoint list" where
  "all_endpoints = (let e = (\<lambda>g n p b. \<lparr>ep_Group = g, ep_Name = n, ep_Path = p, ep_Body = b\<rparr>) in
     [e ''capture'' ''opencode_event'' ''/integrations/opencode/event'' opencodeEventBody,
      e ''capture'' ''opencode_tool'' ''/integrations/opencode/tool'' opencodeToolBody,
      e ''capture'' ''opencode_chat'' ''/integrations/opencode/chat'' opencodeChatBody,
      e ''capture'' ''claude_post_tool'' ''/hooks/post-tool'' claudePostToolBody,
      e ''capture'' ''claude_user_prompt'' ''/hooks/user-prompt'' claudeUserPromptBody,
      e ''context'' ''opencode_context'' ''/integrations/opencode/context'' sessionBody,
      e ''context'' ''opencode_enrich'' ''/integrations/opencode/enrich'' enrichBody,
      e ''context'' ''claude_session_start'' ''/hooks/session-start'' sessionBody,
      e ''compaction'' ''opencode_compact'' ''/integrations/opencode/compact'' sessionBody,
      e ''compaction'' ''claude_stop'' ''/hooks/stop'' claudeStopBody,
      e ''replay'' ''replay_session'' ''/integrations/replay/session'' replayBody,
      e ''mcp'' ''memory_search'' ''/mcp'' mcpMemorySearchBody,
      e ''mcp'' ''memory_recall'' ''/mcp'' mcpMemoryRecallBody,
      e ''mcp'' ''memory_save'' ''/mcp'' mcpMemorySaveBody,
      e ''mcp'' ''memory_session_observations'' ''/mcp'' mcpMemorySessionObservationsBody])"

definition perfEndpoints :: "string list \<Rightarrow> perfEndpoint list" where
  "perfEndpoints groups = filter (\<lambda>e. ep_Group e \<in> set (map trimSpace groups)) all_endpoints"

section \<open>Samples\<close>

record PerfSample =
  sm_Group :: string
  sm_Name :: string
  sm_Method :: string
  sm_Path :: string
  sm_Concurrency :: int
  sm_Status :: int
  sm_LatencyMS :: f64
  sm_ResponseBytes :: int
  sm_Error :: string

text \<open>What a request comes to: it cannot be made, it fails, or it gets a status and (the size of) a body.\<close>

datatype perf_answer = Unmade err | Undone int err | Answered int int "err + int"

type_synonym load = "string \<Rightarrow> perfEndpoint \<Rightarrow> int \<Rightarrow> int \<Rightarrow> string \<Rightarrow> perf_answer"

definition micros :: "int \<Rightarrow> f64" where
  "micros t = f64_div (f64_of_int t) (Fin 1000)"

definition executePerfRequest :: "host \<Rightarrow> load \<Rightarrow> string \<Rightarrow> string \<Rightarrow> string \<Rightarrow> perfEndpoint \<Rightarrow> int \<Rightarrow> int \<Rightarrow> PerfSample" where
  "executePerfRequest h net url proj runID e conc i =
     (let s = \<lparr>sm_Group = ep_Group e, sm_Name = ep_Name e, sm_Method = ''POST'', sm_Path = ep_Path e, sm_Concurrency = conc,
            sm_Status = 0, sm_LatencyMS = Fin 0, sm_ResponseBytes = 0, sm_Error = []\<rparr> in
      case net (url @ ep_Path e) e conc i (marshal (ep_Body e proj runID i)) of
        Unmade x \<Rightarrow> s\<lparr>sm_Error := error_text h x\<rparr>
      | Undone t x \<Rightarrow> s\<lparr>sm_LatencyMS := micros t, sm_Error := error_text h x\<rparr>
      | Answered t status (Inl x) \<Rightarrow> s\<lparr>sm_LatencyMS := micros t, sm_Status := status, sm_Error := error_text h x\<rparr>
      | Answered t status (Inr n) \<Rightarrow> s\<lparr>sm_LatencyMS := micros t, sm_Status := status, sm_ResponseBytes := n\<rparr>)"

definition runPerfEndpoint :: "host \<Rightarrow> load \<Rightarrow> string \<Rightarrow> string \<Rightarrow> string \<Rightarrow> perfEndpoint \<Rightarrow> int \<Rightarrow> int \<Rightarrow> PerfSample list" where
  "runPerfEndpoint h net url proj runID e conc requests =
     map (executePerfRequest h net url proj runID e conc) [0..requests - 1]"

section \<open>Statistics\<close>

record PerfEndpointStats =
  st_Group :: string
  st_Name :: string
  st_Method :: string
  st_Path :: string
  st_Concurrency :: int
  st_Requests :: int
  st_Errors :: int
  st_StatusCounts :: "(int \<times> int) list"
  st_P50 :: f64
  st_P90 :: f64
  st_P95 :: f64
  st_P99 :: f64
  st_Max :: f64
  st_RPS :: f64
  st_BytesP50 :: int
  st_BytesP95 :: int
  st_Budget :: f64
  st_Status :: string
  st_Reasons :: "string list"
  st_Elapsed :: int

text \<open>\<open>int(float64(n-1) * p)\<close>.\<close>

definition rank_index :: "nat \<Rightarrow> f64 \<Rightarrow> nat" where
  "rank_index n p = (case f64_mul (f64_of_int (int n - 1)) p of Fin q \<Rightarrow> nat (rat_trunc q) | _ \<Rightarrow> 0)"

definition percentileFloat :: "f64 list \<Rightarrow> f64 \<Rightarrow> f64" where
  "percentileFloat values p = (if values = [] then Fin 0 else sort values ! rank_index (length values) p)"

definition percentileInt :: "int list \<Rightarrow> f64 \<Rightarrow> int" where
  "percentileInt values p = (if values = [] then 0 else sort values ! rank_index (length values) p)"

definition perfBudgetP95 :: "string \<Rightarrow> f64" where
  "perfBudgetP95 g = (if g = ''capture'' then Fin 100 else if g \<in> {''context'', ''compaction''} then Fin 150
     else if g = ''replay'' then Fin 250 else if g = ''mcp'' then Fin 500 else Fin 250)"

definition sample_failed :: "PerfSample \<Rightarrow> bool" where
  "sample_failed s = (sm_Error s \<noteq> [] \<or> sm_Status s \<ge> 500 \<or> sm_Status s = 0)"

text \<open>The map from statuses to counts, in the order of its JSON.\<close>

definition status_counts :: "PerfSample list \<Rightarrow> (int \<times> int) list" where
  "status_counts ss = map (\<lambda>k. (k, int (length (filter (\<lambda>s. sm_Status s = k) ss)))) (sort_key itoa (remdups (map sm_Status ss)))"

definition percent :: "int \<Rightarrow> f64" where "percent n = f64_of_rat (of_int n / 100)"

definition summarizePerfGroup :: "PerfSample list \<Rightarrow> PerfEndpointStats" where
  "summarizePerfGroup ss =
     (let s0 = hd ss; lats = map sm_LatencyMS ss; sizes = map sm_ResponseBytes ss;
          errors = int (length (filter sample_failed ss));
          total_ms = foldl f64_add (Fin 0) lats; par = f64_of_int (max 1 (sm_Concurrency s0));
          p95 = percentileFloat lats (percent 95); budget = perfBudgetP95 (sm_Group s0);
          slow = f64_less budget p95
      in \<lparr>st_Group = sm_Group s0, st_Name = sm_Name s0, st_Method = sm_Method s0, st_Path = sm_Path s0,
          st_Concurrency = sm_Concurrency s0, st_Requests = int (length ss), st_Errors = errors, st_StatusCounts = status_counts ss,
          st_P50 = percentileFloat lats (percent 50), st_P90 = percentileFloat lats (percent 90), st_P95 = p95,
          st_P99 = percentileFloat lats (percent 99),
          st_Max = foldl (\<lambda>m x. if f64_less m x then x else m) (Fin 0) lats,
          st_RPS = (if f64_less (Fin 0) total_ms
            then f64_div (f64_of_int (int (length ss))) (f64_div (f64_div total_ms (Fin 1000)) par) else Fin 0),
          st_BytesP50 = percentileInt sizes (percent 50), st_BytesP95 = percentileInt sizes (percent 95),
          st_Budget = budget, st_Status = (if slow \<or> errors > 0 then ''miss'' else ''ok''),
          st_Reasons = (if slow then [''p95 '' @ fmt_fixed 3 p95 @ ''ms > '' @ fmt_fixed 3 budget @ ''ms''] else []) @
            (if errors > 0 then [''errors '' @ itoa errors] else []),
          st_Elapsed = (case f64_div total_ms par of Fin q \<Rightarrow> rat_trunc q | _ \<Rightarrow> 0)\<rparr>)"

definition sample_key :: "PerfSample \<Rightarrow> string" where
  "sample_key s = sm_Group s @ [CHR 0x00] @ sm_Name s @ [CHR 0x00] @ itoa (sm_Concurrency s)"

definition summarizePerf :: "PerfSample list \<Rightarrow> PerfEndpointStats list" where
  "summarizePerf ss =
     map (\<lambda>k. summarizePerfGroup (filter (\<lambda>s. sample_key s = k) ss)) (sort (remdups (map sample_key ss)))"

definition perfBudgetMisses :: "PerfEndpointStats list \<Rightarrow> string list" where
  "perfBudgetMisses ts = map (\<lambda>t. st_Group t @ ''/'' @ st_Name t @ ''@'' @ itoa (st_Concurrency t) @ '': '' @ join '', '' (st_Reasons t))
     (filter (\<lambda>t. st_Status t = ''miss'') ts)"

section \<open>Reports\<close>

record PerfResult =
  pf_URL :: string
  pf_Project :: string
  pf_RunID :: string
  pf_Requests :: int
  pf_Concurrency :: "int list"
  pf_Groups :: "string list"
  pf_GeneratedAt :: int
  pf_Samples :: "PerfSample list"
  pf_Summaries :: "PerfEndpointStats list"
  pf_BudgetMisses :: "string list"

definition sample_json :: "PerfSample \<Rightarrow> json" where
  "sample_json s = JObj ([(''group'', JStr (sm_Group s)), (''name'', JStr (sm_Name s)), (''method'', JStr (sm_Method s)),
     (''path'', JStr (sm_Path s)), (''concurrency'', JInt (sm_Concurrency s)), (''status'', JInt (sm_Status s)),
     (''latency_ms'', JFloat (sm_LatencyMS s)), (''response_bytes'', JInt (sm_ResponseBytes s))] @ nonempty ''error'' (sm_Error s))"

definition stats_json :: "PerfEndpointStats \<Rightarrow> json" where
  "stats_json t = JObj ([(''group'', JStr (st_Group t)), (''name'', JStr (st_Name t)), (''method'', JStr (st_Method t)),
     (''path'', JStr (st_Path t)), (''concurrency'', JInt (st_Concurrency t)), (''requests'', JInt (st_Requests t)),
     (''errors'', JInt (st_Errors t)), (''status_counts'', JObj (map (\<lambda>(k, n). (itoa k, JInt n)) (st_StatusCounts t))),
     (''p50_ms'', JFloat (st_P50 t)), (''p90_ms'', JFloat (st_P90 t)), (''p95_ms'', JFloat (st_P95 t)),
     (''p99_ms'', JFloat (st_P99 t)), (''max_ms'', JFloat (st_Max t)), (''rps'', JFloat (st_RPS t)),
     (''response_bytes_p50'', JInt (st_BytesP50 t)), (''response_bytes_p95'', JInt (st_BytesP95 t)),
     (''budget'', JObj [(''p95_ms'', JFloat (st_Budget t))]), (''budget_status'', JStr (st_Status t))] @
     (if st_Reasons t = [] then [] else [(''budget_miss_reasons'', JArr (map JStr (st_Reasons t)))]) @
     [(''elapsed_ms'', JInt (st_Elapsed t))])"

definition perf_json :: "PerfResult \<Rightarrow> json" where
  "perf_json r = JObj ([(''version'', JStr ''v1''), (''url'', JStr (pf_URL r)), (''project'', JStr (pf_Project r)),
     (''run_id'', JStr (pf_RunID r)), (''requests_per_endpoint'', JInt (pf_Requests r)),
     (''concurrency'', JArr (map JInt (pf_Concurrency r))), (''groups'', JArr (map JStr (pf_Groups r))),
     (''generated_at'', JInt (pf_GeneratedAt r)), (''summaries'', JArr (map stats_json (pf_Summaries r)))] @
     (if pf_BudgetMisses r = [] then [] else [(''budget_misses'', JArr (map JStr (pf_BudgetMisses r)))]))"

definition perf_row :: "PerfEndpointStats \<Rightarrow> string" where
  "perf_row t = row ([st_Group t, st_Name t, itoa (st_Concurrency t), itoa (st_Requests t), itoa (st_Errors t)] @
     map (\<lambda>x. fmt_fixed 3 x @ '' ms'') [st_P50 t, st_P90 t, st_P95 t, st_P99 t, st_Max t] @
     [fmt_fixed 1 (st_RPS t), (if st_Status t = ''miss'' then ''miss: '' @ join '', '' (st_Reasons t) else ''ok'')])"

definition perf_lines :: "PerfResult \<Rightarrow> string list" where
  "perf_lines r = [''# mcb Live Performance Benchmark'', [], ''- url: `'' @ pf_URL r @ ''`'', ''- project: `'' @ pf_Project r @ ''`'',
      ''- run_id: `'' @ pf_RunID r @ ''`'', ''- requests per endpoint: `'' @ itoa (pf_Requests r) @ ''`'', [],
      ''| Group | Endpoint | Concurrency | Requests | Errors | p50 | p90 | p95 | p99 | Max | RPS | Budget |'',
      ''|---|---|---:|---:|---:|---:|---:|---:|---:|---:|---:|---|''] @
     map perf_row (pf_Summaries r) @
     (if pf_BudgetMisses r = [] then [] else [[], ''## Budget Misses'', []] @ map (\<lambda>m. ''- '' @ m) (pf_BudgetMisses r))"

definition renderPerfScorecard :: "PerfResult \<Rightarrow> string" where
  "renderPerfScorecard r = concat (map (\<lambda>l. l @ [nl]) (perf_lines r))"

definition writePerfRaw :: "bench_host \<Rightarrow> PerfSample list \<Rightarrow> err + files" where
  "writePerfRaw h ss = write_lines h ''raw.ndjson'' ''create perf raw report'' ''flush perf raw report''
     (map (\<lambda>s. line_of (json_Marshal ''marshal perf sample'' (sample_json s))) ss)"

definition writePerfSummary :: "bench_host \<Rightarrow> PerfResult \<Rightarrow> err + files" where
  "writePerfSummary h r = write_file h ''summary.json'' ''write perf summary'' (line_of (MarshalIndent ''marshal perf summary'' (perf_json r)))"

definition WritePerfReports :: "bench_host \<Rightarrow> string \<Rightarrow> PerfResult \<Rightarrow> err + files" where
  "WritePerfReports h dir r = in_dir h dir ''create perf report dir''
     (and_files (writePerfRaw h (pf_Samples r)) (and_files (writePerfSummary h r)
       (write_file h ''scorecard.md'' ''write perf scorecard'' (Inr (renderPerfScorecard r)))))"

section \<open>The run\<close>

record PerfOptions =
  pp_URL :: string
  pp_Project :: string
  pp_RunID :: string
  pp_OutDir :: string
  pp_Concurrency :: "int list"
  pp_Requests :: int
  pp_Groups :: "string list"
  pp_FailOnBudget :: bool

definition perf_defaults :: "bench_host \<Rightarrow> PerfOptions \<Rightarrow> PerfOptions" where
  "perf_defaults b opts = opts\<lparr>
     pp_URL := trimRight (if pp_URL opts = [] then ''http://127.0.0.1:3411'' else pp_URL opts) (CHR ''/''),
     pp_RunID := (if pp_RunID opts = [] then ''perf'' else pp_RunID opts),
     pp_Requests := (if pp_Requests opts \<le> 0 then 100 else pp_Requests opts),
     pp_Concurrency := (if pp_Concurrency opts = [] then [1, 10] else pp_Concurrency opts),
     pp_Groups := (if pp_Groups opts = [] then [''capture'', ''context'', ''compaction'', ''replay'', ''mcp''] else pp_Groups opts),
     pp_OutDir := (if pp_OutDir opts = [] then ''benchmark-results/perf-'' @ bh_stamp b else pp_OutDir opts)\<rparr>"

fun perf_samples :: "host \<Rightarrow> load \<Rightarrow> PerfOptions \<Rightarrow> (perfEndpoint \<times> int) list \<Rightarrow> err + PerfSample list" where
  "perf_samples h net opts [] = Inr []"
| "perf_samples h net opts ((e, conc) # jobs) =
     (if conc \<le> 0 then Inl (Msg (''invalid concurrency '' @ itoa conc))
      else (case perf_samples h net opts jobs of Inl x \<Rightarrow> Inl x
        | Inr ss \<Rightarrow> Inr (runPerfEndpoint h net (pp_URL opts) (pp_Project opts) (pp_RunID opts) e conc (pp_Requests opts) @ ss)))"

definition RunPerf :: "host \<Rightarrow> bench_host \<Rightarrow> load \<Rightarrow> PerfOptions \<Rightarrow> int \<Rightarrow> err + (PerfResult \<times> files)" where
  "RunPerf h b net opts0 now = (let opts = perf_defaults b opts0; eps = perfEndpoints (pp_Groups opts) in
     if pp_Project opts = [] then Inl (Msg ''perf benchmark requires --project'')
     else if eps = [] then Inl (Msg ''no perf benchmark groups selected'')
     else (case perf_samples h net opts (concat (map (\<lambda>e. map (Pair e) (pp_Concurrency opts)) eps)) of Inl x \<Rightarrow> Inl x
       | Inr ss \<Rightarrow>
         (let ts = summarizePerf ss;
              r = \<lparr>pf_URL = pp_URL opts, pf_Project = pp_Project opts, pf_RunID = pp_RunID opts, pf_Requests = pp_Requests opts,
                pf_Concurrency = pp_Concurrency opts, pf_Groups = pp_Groups opts, pf_GeneratedAt = now, pf_Samples = ss,
                pf_Summaries = ts, pf_BudgetMisses = perfBudgetMisses ts\<rparr>
          in case WritePerfReports b (pp_OutDir opts) r of Inl x \<Rightarrow> Inl x
           | Inr fs \<Rightarrow> if pp_FailOnBudget opts \<and> pf_BudgetMisses r \<noteq> []
               then Inl (Msg (''perf budget missed: '' @ join ''; '' (pf_BudgetMisses r))) else Inr (r, fs))))"

section \<open>\<open>admin/bench.go\<close>\<close>

definition bench_line :: "string \<Rightarrow> RunResult \<Rightarrow> string" where
  "bench_line dir r = ''bench='' @ rr_BenchName r @ '' adapter='' @ rr_Adapter r @ '' p_at_5='' @ fmt_fixed 3 (am_PAt5 (rr_Metrics r)) @
     '' r_at_5='' @ fmt_fixed 3 (am_RAt5 (rr_Metrics r)) @ '' hit_at_5='' @ fmt_fixed 3 (am_HitAt5 (rr_Metrics r)) @
     '' mrr='' @ fmt_fixed 3 (am_MRR (rr_Metrics r)) @ '' out='' @ dir"

definition perf_line :: "string \<Rightarrow> PerfResult \<Rightarrow> string" where
  "perf_line dir r = ''bench=perf url='' @ pf_URL r @ '' project='' @ pf_Project r @ '' run_id='' @ pf_RunID r @
     '' samples='' @ itoa (int (length (pf_Samples r))) @ '' budget_misses='' @ itoa (int (length (pf_BudgetMisses r))) @ '' out='' @ dir"

text \<open>\<open>sandbox\<close> is the database of the output directory before a run; the store of the command is left alone.\<close>

definition runBench :: "host \<Rightarrow> bench_host \<Rightarrow> load \<Rightarrow> store \<Rightarrow> string list \<Rightarrow> command" where
  "runBench h b net sandbox args = (case args of [] \<Rightarrow> exits 2 ''missing benchmark name''
     | name # args1 \<Rightarrow> parsed h (parseBenchOptions (h_env h) args1) (\<lambda>(opts, rest).
         if rest \<noteq> [] then unexpected_argument h (hd rest)
         else
           (let dir = out_dir b (be_outDir opts);
                run = \<lparr>ro_OutDir = dir, ro_Dataset = be_dataset opts, ro_Limit = be_limit opts\<rparr>;
                report = (\<lambda>r show_line. case r of Inl e \<Rightarrow> exits 1 (''run benchmark: '' @ error_text h e)
                  | Inr (x, fs :: files) \<Rightarrow> prints [show_line dir x])
            in if name = ''coding-life'' then
                 or_exit h [] 1 now_ms (\<lambda>t. report (fst (RunCodingLife b run t sandbox)) bench_line)
               else if name = ''longmemeval'' then report (RunLongMemEval b run) bench_line
               else if name = ''perf'' then or_exit h [] 1 now_ms (\<lambda>t.
                 case RunPerf h b net \<lparr>pp_URL = be_url opts, pp_Project = be_project opts, pp_RunID = be_runID opts, pp_OutDir = dir,
                     pp_Concurrency = be_concurrency opts, pp_Requests = be_requests opts, pp_Groups = be_groups opts,
                     pp_FailOnBudget = be_failOnBudget opts\<rparr> t of
                   Inl e \<Rightarrow> exits 1 (''run benchmark: '' @ error_text h e)
                 | Inr (x, fs) \<Rightarrow> prints [perf_line dir x])
               else exits 2 (''unsupported benchmark '' @ quote (tables (h_env h)) name))))"

end
