(* ===== verification/Backup.thy ===== *)
theory Backup
  imports Admin
begin

text \<open>
  The command \<open>backup\<close> (\<open>internal/admin/backup.go\<close>). The disk maps paths to contents; which step
  fails, the name of the temporary file and the image SQLite writes of a database are parameters.
\<close>

section \<open>The disk\<close>

type_synonym disk = "string \<Rightarrow> string option"

record backup_io =
  bi_image :: "db \<Rightarrow> string"
  bi_tmp :: "string \<Rightarrow> string"
  bi_partial :: string
  bi_mkdir :: "err option"
  bi_create :: "err option"
  bi_close :: "err option"
  bi_sqlopen :: "err option"
  bi_ping :: "err option"
  bi_vacuum :: "err option"
  bi_rename :: "err option"
  bi_reopen :: "err option"
  bi_copy :: "err option"
  bi_remove :: "err option"

section \<open>The statement\<close>

definition apostrophe :: char where "apostrophe = CHR 0x27"

definition escape_literal :: "string \<Rightarrow> string" where
  "escape_literal s = concat (map (\<lambda>c. if c = apostrophe then [apostrophe, apostrophe] else [c]) s)"

definition vacuum_statement :: "string \<Rightarrow> string" where
  "vacuum_statement path = ''VACUUM INTO '' @ [apostrophe] @ escape_literal path @ [apostrophe]"

text \<open>SQL's string literals, after the first apostrophe: two apostrophes stand for one.\<close>

fun scan_literal :: "string \<Rightarrow> (string \<times> string) option" where
  "scan_literal [] = None"
| "scan_literal (c # s) =
     (if c \<noteq> apostrophe then map_option (\<lambda>(v, r). (c # v, r)) (scan_literal s)
      else (case s of [] \<Rightarrow> Some ([], []) | c1 # s1 \<Rightarrow>
        if c1 = apostrophe then map_option (\<lambda>(v, r). (apostrophe # v, r)) (scan_literal s1) else Some ([], s)))"

text \<open>The file a \<open>VACUUM INTO\<close> statement writes; anything else is a syntax error.\<close>

definition vacuum_target :: "string \<Rightarrow> string option" where
  "vacuum_target stmt =
     (if hasPrefix stmt (''VACUUM INTO '' @ [apostrophe]) then
        (case scan_literal (trimPrefix stmt (''VACUUM INTO '' @ [apostrophe])) of Some (v, []) \<Rightarrow> Some v | _ \<Rightarrow> None)
      else None)"

text \<open>SQLite writes only into a file that is not there or empty.\<close>

definition sql_vacuum :: "backup_io \<Rightarrow> db \<Rightarrow> string \<Rightarrow> disk \<Rightarrow> err option \<times> disk" where
  "sql_vacuum io src stmt d = (case vacuum_target stmt of None \<Rightarrow> (Some Driver, d)
     | Some path \<Rightarrow>
       if d path \<noteq> None \<and> d path \<noteq> Some [] then (Some Driver, d)
       else (case bi_vacuum io of Some e \<Rightarrow> (Some e, d(path \<mapsto> bi_partial io)) | None \<Rightarrow> (None, d(path \<mapsto> bi_image io src))))"

definition vacuumInto :: "backup_io \<Rightarrow> db \<Rightarrow> string \<Rightarrow> disk \<Rightarrow> err option \<times> disk" where
  "vacuumInto io src path d =
     (case bi_sqlopen io of Some e \<Rightarrow> (Some (Wrap ''open source db'' e), d)
      | None \<Rightarrow> (case bi_ping io of Some e \<Rightarrow> (Some (Wrap ''ping source db'' e), d)
        | None \<Rightarrow> (case sql_vacuum io src (vacuum_statement path) d of
            (Some e, d1) \<Rightarrow> (Some (Wrap ''vacuum into backup'' e), d1) | r \<Rightarrow> r)))"

section \<open>Backups\<close>

text \<open>\<open>os.CreateTemp\<close>, \<open>Close\<close>, and what follows with the file's removal deferred.\<close>

definition with_temp :: "backup_io \<Rightarrow> string \<Rightarrow> (disk \<Rightarrow> (err + 'a) \<times> disk) \<Rightarrow> disk \<Rightarrow> (err + 'a) \<times> disk" where
  "with_temp io tmp k d =
     (case bi_create io of Some e \<Rightarrow> (Inl (Wrap ''create temp backup'' e), d)
      | None \<Rightarrow> (case bi_close io of Some e \<Rightarrow> (Inl (Wrap ''close temp backup'' e), d(tmp \<mapsto> []))
        | None \<Rightarrow> (case k (d(tmp \<mapsto> [])) of (r, d1) \<Rightarrow> (r, if bi_remove io = None then d1(tmp := None) else d1))))"

definition rename :: "string \<Rightarrow> string \<Rightarrow> disk \<Rightarrow> disk" where
  "rename p q d = (d(q := d p))(p := None)"

definition backupToPath :: "backup_io \<Rightarrow> db \<Rightarrow> string \<Rightarrow> disk \<Rightarrow> (err + unit) \<times> disk" where
  "backupToPath io src out d =
     (case bi_mkdir io of Some e \<Rightarrow> (Inl (Wrap ''create backup dir'' e), d)
      | None \<Rightarrow> with_temp io (bi_tmp io out) (\<lambda>d1. case vacuumInto io src (bi_tmp io out) d1 of
            (Some e, d2) \<Rightarrow> (Inl e, d2)
          | (None, d2) \<Rightarrow> (case bi_rename io of Some e \<Rightarrow> (Inl (Wrap ''rename backup'' e), d2)
              | None \<Rightarrow> (Inr (), rename (bi_tmp io out) out d2))) d)"

definition backupToStdout :: "backup_io \<Rightarrow> db \<Rightarrow> disk \<Rightarrow> (err + string) \<times> disk" where
  "backupToStdout io src d = with_temp io (bi_tmp io []) (\<lambda>d1. case vacuumInto io src (bi_tmp io []) d1 of
       (Some e, d2) \<Rightarrow> (Inl e, d2)
     | (None, d2) \<Rightarrow> (case bi_reopen io of Some e \<Rightarrow> (Inl (Wrap ''open temp backup'' e), d2)
         | None \<Rightarrow> (case bi_copy io of Some e \<Rightarrow> (Inl (Wrap ''write backup'' e), d2)
           | None \<Rightarrow> (Inr (case d2 (bi_tmp io []) of Some c \<Rightarrow> c | None \<Rightarrow> []), d2)))) d"

text \<open>The database is the one at the path of the options; the command does not write it.\<close>

definition runBackup :: "host \<Rightarrow> backup_io \<Rightarrow> string list \<Rightarrow> world \<times> disk \<Rightarrow> outcome \<times> world \<times> disk" where
  "runBackup h io args wd = (let quit = (\<lambda>code msg. (\<lparr>oc_code = code, oc_out = [], oc_err = msg @ [nl]\<rparr>, wd)) in
     case parseBackupOptions (h_env h) args of Inl e \<Rightarrow> quit 2 (error_text h e)
     | Inr (opts, rest) \<Rightarrow>
       if rest \<noteq> [] then quit 2 (error_text h (unexpected (h_env h) (hd rest)))
       else if bo_out opts = [] then quit 2 ''missing --out''
       else if bo_out opts = ''-'' then
         (case backupToStdout io (db (store_of (fst wd))) (snd wd) of
            (Inl e, d) \<Rightarrow> (\<lparr>oc_code = 1, oc_out = [], oc_err = ''backup: '' @ error_text h e @ [nl]\<rparr>, fst wd, d)
          | (Inr bytes, d) \<Rightarrow> (\<lparr>oc_code = 0, oc_out = bytes, oc_err = []\<rparr>, fst wd, d))
       else
         (case backupToPath io (db (store_of (fst wd))) (bo_out opts) (snd wd) of
            (Inl e, d) \<Rightarrow> (\<lparr>oc_code = 1, oc_out = [], oc_err = ''backup: '' @ error_text h e @ [nl]\<rparr>, fst wd, d)
          | (Inr _, d) \<Rightarrow> (\<lparr>oc_code = 0, oc_out = [], oc_err = []\<rparr>, fst wd, d)))"

section \<open>Lemmas\<close>

lemma scan_escaped: "scan_literal (escape_literal s @ [apostrophe]) = Some (s, [])"
  by (induction s) (auto simp: escape_literal_def)

text \<open>No path can leave its literal.\<close>

lemma vacuum_target_statement [simp]: "vacuum_target (vacuum_statement path) = Some path"
  using scan_escaped [of path]
  by (simp add: vacuum_target_def vacuum_statement_def hasPrefix_def trimPrefix_def)

lemma vacuumInto_cases:
  assumes "d path = Some []"
  obtains e where "vacuumInto io src path d = (Some e, d)" "bi_sqlopen io \<noteq> None \<or> bi_ping io \<noteq> None"
  | e where "vacuumInto io src path d = (Some e, d(path \<mapsto> bi_partial io))" "bi_vacuum io \<noteq> None"
  | "vacuumInto io src path d = (None, d(path \<mapsto> bi_image io src))"
  using assms by (cases "bi_sqlopen io"; cases "bi_ping io"; cases "bi_vacuum io") (auto simp: vacuumInto_def sql_vacuum_def)


definition ex_io :: backup_io where
  "ex_io = \<lparr>bi_image = (\<lambda>_. ''image''), bi_tmp = (\<lambda>p. p @ ''.tmp''), bi_partial = [], bi_mkdir = None, bi_create = None,
     bi_close = None, bi_sqlopen = None, bi_ping = None, bi_vacuum = None, bi_rename = None, bi_reopen = None, bi_copy = None,
     bi_remove = None\<rparr>"

definition ex_out :: string where "ex_out = ''it'' @ [apostrophe] @ ''s.db''"


end
