(* ===== verification/Process.thy ===== *)
theory Process
  imports Perf Backup
begin

text \<open>
  The program \<open>mcb\<close>: the dispatch of the administration commands (\<open>admin/run.go\<close>) and
  \<open>cmd/mcb/main.go\<close>, with the server process: what its options make of the configuration, and its
  life as the requests that arrive and the ticks of the decay timer.
\<close>

section \<open>\<open>admin/run.go\<close>: the commands\<close>

type_synonym process = "world \<times> disk \<Rightarrow> outcome \<times> world \<times> disk"

definition on_world :: "command \<Rightarrow> process" where
  "on_world c wd = (case c (fst wd) of (out, w) \<Rightarrow> (out, w, snd wd))"

text \<open>What else the commands depend on.\<close>

record toolbox =
  to_bench :: bench_host
  to_load :: load
  to_sandbox :: store
  to_save :: "string \<Rightarrow> err option"
  to_backup :: backup_io

definition commands :: "host \<Rightarrow> toolbox \<Rightarrow> (string \<times> (string list \<Rightarrow> process)) list" where
  "commands h t =
    [(''migrate'', \<lambda>args. on_world (runMigrate h args)),
     (''add'', \<lambda>args. on_world (runAdd h args)),
     (''search'', \<lambda>args. on_world (runSearch h args)),
     (''sessions'', \<lambda>args. on_world (runSessions h args)),
     (''backup'', runBackup h (to_backup t)),
     (''doctor'', \<lambda>args. on_world (runDoctor h args)),
     (''embed-missing'', \<lambda>args. on_world (runEmbedMissing h args False)),
     (''embed-rebuild'', \<lambda>args. on_world (runEmbedMissing h args True)),
     (''compact'', \<lambda>args. on_world (runCompact h args)),
     (''decay'', \<lambda>args. on_world (runDecay h args)),
     (''import-jsonl'', \<lambda>args. on_world (runImportJSONL h args)),
     (''bench'', \<lambda>args. on_world (runBench h (to_bench t) (to_load t) (to_sandbox t) args)),
     (''perf-seed'', \<lambda>args. on_world (runPerfSeed h (to_save t) args))]"

definition unsupported_command :: "host \<Rightarrow> string \<Rightarrow> command" where
  "unsupported_command h name = exits 2 (''unsupported command '' @ quote (tables (h_env h)) name)"

definition Run :: "host \<Rightarrow> toolbox \<Rightarrow> string list \<Rightarrow> process" where
  "Run h t args = (case args of [] \<Rightarrow> on_world (exits 2 ''missing command'')
     | name # rest \<Rightarrow> (case map_of (commands h t) name of Some c \<Rightarrow> c rest
       | None \<Rightarrow> on_world (unsupported_command h name)))"

section \<open>\<open>main.go\<close>: the server\<close>

definition millis :: "int \<Rightarrow> int" where
  "millis n = i64 (n * 1000000)"

definition serve_client :: "serveOptions \<Rightarrow> Client" where
  "serve_client opts = \<lparr>cl_URL = OllamaURL (so_embedding opts), cl_Model = EmbModel (so_embedding opts),
     cl_Dim = Dimensions (so_embedding opts), cl_detectedDim = 0\<rparr>"

text \<open>
  The options of the server; \<open>tags\<close> is the answer of the embedding service when it is asked whether
  it is ready. \<open>embed.Client\<close> has no methods \<open>Model\<close> and \<open>Dim\<close>, so it reports neither to the search.
\<close>

definition serve_options :: "serveOptions \<Rightarrow> http_outcome \<Rightarrow> Server.Options" where
  "serve_options opts tags = (let e = so_embedding opts; ollama = (Provider e = ''ollama''); c = so_compaction opts in
     \<lparr>op_BearerToken = so_bearerToken opts, op_DedupWindowSeconds = so_dedupWindowSeconds opts,
      op_SessionStartTopN = so_sessionStartTopN opts,
      op_ReadinessProbe = (if ollama then Some (\<lambda>_. \<not> Healthy tags (serve_client opts)) else None),
      op_MCPOptions = \<lparr>mo_DefaultProject = [],
        mo_SearchConfig = (search_config (so_search opts))\<lparr>cf_Model := EmbModel e, cf_Dim := Dimensions e\<rparr>,
        mo_Embedder = ollama, mo_Info = None\<rparr>,
      op_Compaction = \<lparr>co_Mode = CompactionMode c, co_MinObservations = Configuration.MinObservations c,
        co_MaxBlockAttempts = MaxBlockAttempts c, co_AttemptTTLSeconds = AttemptTTLSeconds c, co_SubagentName = SubagentName c\<rparr>\<rparr>)"

definition serve_breaker :: "serveOptions \<Rightarrow> CircuitBreaker option" where
  "serve_breaker opts = (let e = so_embedding opts in
     if Provider e = ''ollama'' then Some (NewCircuitBreaker (CircuitBreakerFailures e) (millis (CircuitBreakerCooldownMS e))) else None)"

text \<open>
  What happens to a server: a request arrives, the timer ticks, or something outside is determined
  (the next answers of the embedder, clock readings and failures of the driver).
\<close>

datatype happening = Arrives request http_outcome | Ticks | Outside "(err + f32 list) list" "int list" "int list" "bool list"

definition runDecayTicker :: "host \<Rightarrow> MemoryConfig \<Rightarrow> int act" where
  "runDecayTicker h c = andThen now_ms (\<lambda>t. on_store (DecayMemories (h_ext h)
     \<lparr>do_Now = t, do_TauDays = DecayTauDays c, do_MinImportance = MinImportance c\<rparr>))"

fun serve_loop :: "host \<Rightarrow> runtime \<Rightarrow> serveOptions \<Rightarrow> happening list \<Rightarrow> world \<Rightarrow> hres list \<times> world" where
  "serve_loop h rt opts [] w = ([], w)"
| "serve_loop h rt opts (Arrives r tags # es) w = (case NewWithOptions (h_ext h) rt (serve_options opts tags) r w of
     (res, w1) \<Rightarrow> (case serve_loop h rt opts es w1 of (rs, w2) \<Rightarrow> (res # rs, w2)))"
| "serve_loop h rt opts (Ticks # es) w = serve_loop h rt opts es
     (if 0 < DecayIntervalHours (so_memory opts) then snd (runDecayTicker h (so_memory opts) w) else w)"
| "serve_loop h rt opts (Outside vs cs bs fs # es) w = serve_loop h rt opts es
     (w\<lparr>embeds := vs, clock := cs, brk_clock := bs, store_of := (store_of w)\<lparr>faults := fs\<rparr>\<rparr>)"

text \<open>A run ends with an exit code and its outputs, or in a panic.\<close>

datatype ending = Exits outcome | Panics

text \<open>\<open>time.Duration\<close> of the interval of the timer, which wraps; \<open>time.NewTicker\<close> panics if it is not positive.\<close>

definition decay_interval :: "serveOptions \<Rightarrow> int" where
  "decay_interval opts = i64 (DecayIntervalHours (so_memory opts) * 3600000000000)"

text \<open>
  \<open>es\<close> is what happens until the listener stops, with the error \<open>stopped\<close> unless it was closed. The
  line that is logged at the start is left out.
\<close>

definition runServe :: "host \<Rightarrow> runtime \<Rightarrow> happening list \<Rightarrow> err option \<Rightarrow> string list \<Rightarrow> world \<Rightarrow> ending \<times> hres list \<times> world" where
  "runServe h rt es stopped args w =
     (let stop = (\<lambda>code msg. Exits \<lparr>oc_code = code, oc_out = [], oc_err = msg @ [nl]\<rparr>) in
      case parseServeOptions (h_env h) args of Inl e \<Rightarrow> (stop 2 (error_text h e), [], w)
      | Inr opts \<Rightarrow> (case h_open h (so_dbPath opts) of Some e \<Rightarrow> (stop 1 (''open store: '' @ error_text h e), [], w)
        | None \<Rightarrow>
          if 0 < DecayIntervalHours (so_memory opts) \<and> decay_interval opts \<le> 0 then (Panics, [], w)
          else (case serve_loop h rt opts es (w\<lparr>brk := serve_breaker opts\<rparr>) of
            (rs, w1) \<Rightarrow> (case stopped of Some e \<Rightarrow> (stop 1 (''serve: '' @ error_text h e), rs, w1)
              | None \<Rightarrow> (Exits \<lparr>oc_code = 0, oc_out = [], oc_err = []\<rparr>, rs, w1)))))"

section \<open>\<open>main.go\<close>: the program\<close>

definition version :: string where "version = ''dev''"

definition admin_names :: "string list" where
  "admin_names = [''migrate'', ''add'', ''search'', ''sessions'', ''backup'', ''doctor'', ''embed-missing'', ''embed-rebuild'',
     ''compact'', ''decay'', ''import-jsonl'', ''bench'', ''perf-seed'']"

text \<open>Without arguments the command is \<open>serve\<close>, and the slice \<open>args[1:]\<close> is out of range.\<close>

definition run :: "host \<Rightarrow> toolbox \<Rightarrow> runtime \<Rightarrow> happening list \<Rightarrow> err option \<Rightarrow> string list \<Rightarrow> world \<times> disk \<Rightarrow>
    ending \<times> hres list \<times> world \<times> disk" where
  "run h t rt es stopped args wd =
     (let cmd = (if args = [] then ''serve'' else hd args);
          finish = (\<lambda>(out, wd1). (Exits out, [], wd1)) in
      if cmd = ''version'' then finish (on_world (prints [version]) wd)
      else if cmd = ''healthz'' then finish (on_world (prints [''ok'']) wd)
      else if cmd = ''serve'' then
        (if args = [] then (Panics, [], wd)
         else (case runServe h rt es stopped (tl args) (fst wd) of (e, rs, w) \<Rightarrow> (e, rs, w, snd wd)))
      else if cmd \<in> set admin_names then finish (Run h t args wd)
      else finish (on_world (unsupported_command h cmd) wd))"

text \<open>The two lists of commands agree: no command that is let through is unsupported.\<close>

lemma admin_names_commands: "map fst (commands h t) = admin_names"
  by (simp add: commands_def admin_names_def)

end
