(* ===== verification/ObservationProps.thy ===== *)
theory ObservationProps
  imports System
begin

text \<open>
  What a capture does: the properties of \<open>InsertObservation\<close> and of the payload codec.
\<close>

definition with_session :: "string \<Rightarrow> string \<Rightarrow> string \<Rightarrow> int \<Rightarrow> db \<Rightarrow> db" where
  "with_session a e p t d =
     (if \<exists>x \<in> set (sessions d). s_agent x = a \<and> s_external x = e then d
      else d\<lparr>sessions := sessions d @ [\<lparr>s_id = sessionID a e, s_agent = a, s_external = e, s_project = p,
        s_started = t, s_ended = None, s_summary = None, s_nobs = 0\<rparr>]\<rparr>)"

text \<open>The identifier is not taken by another agent's session (\<open>a:b\<close> and \<open>c\<close>, \<open>a\<close> and \<open>b:c\<close>).\<close>

definition id_free :: "string \<Rightarrow> string \<Rightarrow> db \<Rightarrow> bool" where
  "id_free a e d = (\<forall>x \<in> set (sessions d). s_id x = sessionID a e \<longrightarrow> s_agent x = a \<and> s_external x = e)"

lemma ensure_quiet:
  assumes "faults s = []" "id_free a e (db s)"
  shows "ensureSession a e p t s = (Inr (sessionID a e), s\<lparr>db := with_session a e p t (db s)\<rparr>)"
proof -
  have "s = s\<lparr>db := db s\<rparr>" by simp
  then show ?thesis
    using assms by (auto simp: ensureSession_run with_session_def id_free_def)
qed

definition with_observation :: "obs_row \<Rightarrow> db \<Rightarrow> db" where
  "with_observation r d = d\<lparr>observations := observations d @ [r\<lparr>o_id := seq_obs d + 1\<rparr>], seq_obs := seq_obs d + 1,
     sessions := map (\<lambda>x. if s_id x = o_session r then x\<lparr>s_nobs := s_nobs x + 1\<rparr> else x) (sessions d)\<rparr>"

lemma with_session_has:
  "sessions_wf d \<Longrightarrow> sessionID a e \<in> s_id ` set (sessions (with_session a e p t d))"
  by (force simp: with_session_def sessions_wf_def)

lemma insert_quiet:
  assumes f: "faults s = []" and i: "id_free (oi_Agent inp) (oi_ExternalSessionID inp) (db s)" and wf: "sessions_wf (db s)"
  defines "sid \<equiv> sessionID (oi_Agent inp) (oi_ExternalSessionID inp)"
  defines "d1 \<equiv> with_session (oi_Agent inp) (oi_ExternalSessionID inp) (oi_CWD inp) (oi_TS inp) (db s)"
  shows "InsertObservation E inp w s =
    (if dedupHit (oi_Hash inp) (i64 (oi_TS inp - i64 (w * 1000))) (db s) then (Inr False, s\<lparr>db := d1\<rparr>)
     else (Inr True, s\<lparr>db := with_observation (captured_row E inp sid) d1\<rparr>))"
proof -
  have h: "dedupHit h c d1 = dedupHit h c (db s)" for h c
    by (simp add: d1_def with_session_def dedupHit_def)
  have m: "sid \<in> s_id ` set (sessions d1)" unfolding d1_def sid_def by (rule with_session_has [OF wf])
  show ?thesis
    unfolding InsertObservation_def
  proof (subst quiet_in_tx)
    show "transparent (andThen (ensureSession (oi_Agent inp) (oi_ExternalSessionID inp) (oi_CWD inp) (oi_TS inp)) (\<lambda>sid.
      andThen (query ''check observation dedup''
        (\<lambda>d. Inr (dedupHit (oi_Hash inp) (i64 (oi_TS inp - i64 (w * 1000))) d))) (\<lambda>hit.
      if hit then ok False
      else andThen (call ''insert observation'' (sql_insert_obs (captured_row E inp sid))) (\<lambda>_.
        andThen (call ''increment observation count''
          (sql_update_session sid (\<lambda>r. r\<lparr>s_nobs := s_nobs r + 1\<rparr>))) (\<lambda>_. ok True)))))"
      by (auto intro!: op_intros)
  qed (use f i m in \<open>simp_all add: andThen_def ensure_quiet h d1_def [symmetric] sid_def [symmetric]
        sql_insert_obs_def sql_update_session_def with_observation_def\<close>)
qed

lemma insert_result:
  assumes r: "InsertObservation E inp w s = (Inr ins, s1)"
    and i: "id_free (oi_Agent inp) (oi_ExternalSessionID inp) (db s)" and wf: "sessions_wf (db s)"
  defines "sid \<equiv> sessionID (oi_Agent inp) (oi_ExternalSessionID inp)"
  defines "d1 \<equiv> with_session (oi_Agent inp) (oi_ExternalSessionID inp) (oi_CWD inp) (oi_TS inp) (db s)"
  shows "ins = (\<not> dedupHit (oi_Hash inp) (i64 (oi_TS inp - i64 (w * 1000))) (db s))"
    and "db s1 = (if ins then with_observation (captured_row E inp sid) d1 else d1)"
proof -
  have "fst (InsertObservation E inp w (quiet s)) = Inr ins" "db s1 = db (snd (InsertObservation E inp w (quiet s)))"
    using atomic_cases [OF InsertObservation_atomic [of E inp w], of s] r by force+
  then show "ins = (\<not> dedupHit (oi_Hash inp) (i64 (oi_TS inp - i64 (w * 1000))) (db s))"
    and "db s1 = (if ins then with_observation (captured_row E inp sid) d1 else d1)"
    using insert_quiet [of "quiet s" inp E w] i wf by (auto simp: d1_def sid_def split: if_splits)
qed

lemma with_session_there: "\<exists>x \<in> set (sessions (with_session a e p t d)). s_agent x = a \<and> s_external x = e"
  by (auto simp: with_session_def)

lemma there:
  assumes "\<exists>x \<in> set (sessions d). s_agent x = a \<and> s_external x = e"
  shows "\<exists>x \<in> set (sessions (with_observation r d)). s_agent x = a \<and> s_external x = e"
proof -
  let ?f = "\<lambda>x. if s_id x = o_session r then x\<lparr>s_nobs := s_nobs x + 1\<rparr> else x"
  obtain x where "x \<in> set (sessions d)" "s_agent x = a" "s_external x = e" using assms by blast
  then have "?f x \<in> set (map ?f (sessions d))" "s_agent (?f x) = a" "s_external (?f x) = e" by auto
  then show ?thesis unfolding with_observation_def by fastforce
qed

section \<open>Properties\<close>

text \<open>
  C7. A capture that does not fail stores the observation exactly when no observation with its hash
  is newer than the window; then it appends one row, with the next identifier, and increments the
  counter of exactly its session. Otherwise nothing but the session, if it is new, is added.
\<close>

theorem InsertObservation_spec:
  assumes "InsertObservation E inp w s = (Inr ins, s1)" and "db_wf (db s)"
    and "id_free (oi_Agent inp) (oi_ExternalSessionID inp) (db s)"
  defines "sid \<equiv> sessionID (oi_Agent inp) (oi_ExternalSessionID inp)"
  defines "d1 \<equiv> with_session (oi_Agent inp) (oi_ExternalSessionID inp) (oi_CWD inp) (oi_TS inp) (db s)"
  shows "ins = (\<not> (\<exists>x \<in> set (observations (db s)). o_hash x = oi_Hash inp \<and> o_ts x > i64 (oi_TS inp - i64 (w * 1000)))) \<and>
    db s1 = (if ins then d1\<lparr>observations := observations (db s) @ [(captured_row E inp sid)\<lparr>o_id := seq_obs (db s) + 1\<rparr>],
        seq_obs := seq_obs (db s) + 1,
        sessions := map (\<lambda>x. if s_id x = sid then x\<lparr>s_nobs := s_nobs x + 1\<rparr> else x) (sessions d1)\<rparr> else d1)"
proof -
  have wf: "sessions_wf (db s)" using assms(2) by (simp add: db_wf_def)
  have "observations d1 = observations (db s)" "seq_obs d1 = seq_obs (db s)" by (simp_all add: d1_def with_session_def)
  then show ?thesis
    using insert_result [OF assms(1,3) wf] by (auto simp: dedupHit_def with_observation_def d1_def sid_def)
qed

definition ex_input :: ObservationInput where
  "ex_input = \<lparr>oi_Agent = ''a'', oi_ExternalSessionID = ''x'', oi_CWD = ''p'', oi_TS = 5000000, oi_Kind = ''k'', oi_Tool = [],
     oi_PayloadJSON = ''{}'', oi_Hash = ''h''\<rparr>"

lemma ex_store_ok: "db_wf (db ex_store)" "id_free a e (db ex_store)" "faults ex_store = []"
  using empty_wf by (simp_all add: ex_store_def id_free_def empty_db_def)

lemma ex_insert: "InsertObservation ex_ext ex_input 300 ex_store =
   (Inr True, ex_store\<lparr>db := with_observation (captured_row ex_ext ex_input ''a:x'') (with_session ''a'' ''x'' ''p'' 5000000 empty_db)\<rparr>)"
  using insert_quiet [of ex_store ex_input ex_ext 300] ex_store_ok
  by (simp add: ex_input_def dedupHit_def ex_store_def empty_db_def sessionID_def db_wf_def)

definition ex_store1 :: store where
  "ex_store1 = ex_store\<lparr>db := with_observation (captured_row ex_ext ex_input ''a:x'') (with_session ''a'' ''x'' ''p'' 5000000 empty_db)\<rparr>"

theorem InsertObservation_spec_witness:
  "observations (db ex_store1) = [(captured_row ex_ext ex_input (sessionID (oi_Agent ex_input) (oi_ExternalSessionID ex_input)))\<lparr>o_id := 1\<rparr>]"
proof -
  have "observations (db ex_store) = []" "seq_obs (db ex_store) = 0" by (simp_all add: ex_store_def empty_db_def)
  then show ?thesis
    using arg_cong [OF conjunct2 [OF InsertObservation_spec [OF ex_insert [folded ex_store1_def] ex_store_ok(1) ex_store_ok(2)]], of observations]
    by simp
qed

text \<open>
  Capturing the same event again stores nothing: the second capture answers that it was a
  duplicate and leaves the database as it is.
\<close>

theorem capture_idempotent:
  assumes "InsertObservation E inp w s = (Inr ins, s1)" and "InsertObservation E inp w s1 = (Inr ins2, s2)"
    and "db_wf (db s)" and "id_free (oi_Agent inp) (oi_ExternalSessionID inp) (db s)"
    and "i64 (oi_TS inp - i64 (w * 1000)) < oi_TS inp"
  shows "\<not> ins2 \<and> db s2 = db s1"
proof -
  let ?sid = "sessionID (oi_Agent inp) (oi_ExternalSessionID inp)"
  have wf: "sessions_wf (db s)" "sessions_wf (db s1)"
    using assms(3) keepsD [OF wf.InsertObservation [OF TrueI], of s E inp w] assms(1) by (simp_all add: db_wf_def)
  note one = insert_result [OF assms(1,4) wf(1)]
  have s: "\<exists>x \<in> set (sessions (db s1)). s_agent x = oi_Agent inp \<and> s_external x = oi_ExternalSessionID inp"
    unfolding one(2) using there [OF with_session_there] with_session_there by simp
  have i: "id_free (oi_Agent inp) (oi_ExternalSessionID inp) (db s1)"
    unfolding one(2) using assms(4) by (auto simp: id_free_def with_observation_def with_session_def split: if_splits)
  have "dedupHit (oi_Hash inp) (i64 (oi_TS inp - i64 (w * 1000))) (db s1)"
    unfolding one(2) using assms(5) one(1)
    by (auto simp: dedupHit_def with_observation_def with_session_def split: if_splits)
  then show ?thesis
    using insert_result [OF assms(2) i wf(2)] s by (auto simp: with_session_def)
qed

lemma ex_insert_again: "InsertObservation ex_ext ex_input 300 ex_store1 = (Inr False, ex_store1)"
  by (subst insert_quiet)
    (simp_all add: ex_store1_def ex_store_def ex_input_def with_observation_def with_session_def id_free_def sessions_wf_def
      empty_db_def sessionID_def i64_def dedupHit_def)

theorem capture_idempotent_witness:
  "db (snd (InsertObservation ex_ext ex_input 300 ex_store1)) = db ex_store1"
proof -
  have "i64 (oi_TS ex_input - i64 (300 * 1000)) < oi_TS ex_input" by (simp add: ex_input_def i64_def)
  then show ?thesis
    using capture_idempotent [OF ex_insert [folded ex_store1_def] ex_insert_again ex_store_ok(1,2)]
    by (simp add: ex_insert_again)
qed

text \<open>What a listing answers without failures when every payload can be decoded.\<close>

definition observation_of :: "ext \<Rightarrow> obs_row \<Rightarrow> Observation" where
  "observation_of E r = \<lparr>obs_ID = o_id r, obs_SessionID = o_session r, obs_CWD = o_cwd r, obs_TS = o_ts r,
     obs_Kind = o_kind r, obs_Tool = o_tool r,
     obs_PayloadJSON = (case decodePayload E (o_payload r) (o_encoding r) of Inr p \<Rightarrow> p | Inl _ \<Rightarrow> []),
     obs_PayloadEncoding = o_encoding r, obs_PayloadLen = o_plen r, obs_SchemaVersion = o_schema r, obs_Hash = o_hash r\<rparr>"

definition decodable :: "ext \<Rightarrow> obs_row \<Rightarrow> bool" where
  "decodable E r = (\<exists>p. decodePayload E (o_payload r) (o_encoding r) = Inr p)"

lemma list_quiet:
  assumes "faults s = []" and "\<And>r. r \<in> set (observations (db s)) \<Longrightarrow> decodable E r"
  shows "ListSessionObservations E sid 1000 s = (Inr (map (observation_of E) (sql_limit 1000 (sort_by obs_asc
      (filter (\<lambda>r. o_session r = sid) (observations (db s)))))), s)"
  unfolding ListSessionObservations_def Let_def
  using assms set_sql_limit
  by (subst quiet_query_rows [where g = "observation_of E"])
    (fastforce simp: scanObservation_def observation_of_def decodable_def split: sum.splits)+

text \<open>
  C18. What is captured can be read back: after a capture that stored the event, the listing of its
  session (if it has no more than the thousand observations a listing may return) holds an
  observation with the captured payload, byte for byte, and the captured kind, tool and time.
\<close>

theorem capture_read_back:
  assumes "InsertObservation E inp w s = (Inr True, s1)" and "faults s = []" and "db_wf (db s)"
    and "id_free (oi_Agent inp) (oi_ExternalSessionID inp) (db s)" and "zstd_roundtrip E"
    and "\<And>r. r \<in> set (observations (db s)) \<Longrightarrow> decodable E r"
  defines "sid \<equiv> sessionID (oi_Agent inp) (oi_ExternalSessionID inp)"
  assumes few: "length (filter (\<lambda>r. o_session r = sid) (observations (db s))) < 1000"
  shows "\<exists>xs. ListSessionObservations E sid 1000 s1 = (Inr xs, s1) \<and>
    (\<exists>x \<in> set xs. obs_PayloadJSON x = oi_PayloadJSON inp \<and> obs_Kind x = oi_Kind inp \<and> obs_Tool x = oi_Tool inp \<and>
       obs_TS x = oi_TS inp \<and> obs_CWD x = oi_CWD inp \<and> obs_SessionID x = sid)"
proof -
  let ?new = "(captured_row E inp sid)\<lparr>o_id := seq_obs (db s) + 1\<rparr>"
  have wf: "sessions_wf (db s)" using assms(3) by (simp add: db_wf_def)
  have obs: "observations (db s1) = observations (db s) @ [?new]"
    using insert_result(2) [OF assms(1,4) wf] by (simp add: with_observation_def with_session_def sid_def)
  have f: "faults s1 = []"
    using transparentD(2) [OF atomic_transparent [OF InsertObservation_atomic] assms(2), of E inp w] assms(1) by simp
  have dec: "decodePayload E (o_payload ?new) (o_encoding ?new) = Inr (oi_PayloadJSON inp)"
    using decode_encode_payload [OF assms(5)] by simp
  have all: "decodable E r" if "r \<in> set (observations (db s1))" for r
    using that assms(6) dec unfolding obs by (auto simp: decodable_def)
  let ?rows = "sql_limit 1000 (sort_by obs_asc (filter (\<lambda>r. o_session r = sid) (observations (db s1))))"
  have "?new \<in> set ?rows" using few by (simp add: sql_limit_def obs)
  moreover have "observation_of E ?new = \<lparr>obs_ID = seq_obs (db s) + 1, obs_SessionID = sid, obs_CWD = oi_CWD inp, obs_TS = oi_TS inp,
     obs_Kind = oi_Kind inp, obs_Tool = oi_Tool inp, obs_PayloadJSON = oi_PayloadJSON inp,
     obs_PayloadEncoding = o_encoding ?new, obs_PayloadLen = o_plen ?new, obs_SchemaVersion = o_schema ?new, obs_Hash = oi_Hash inp\<rparr>"
    using dec by (simp add: observation_of_def)
  ultimately have "\<exists>x \<in> set (map (observation_of E) ?rows). obs_PayloadJSON x = oi_PayloadJSON inp \<and> obs_Kind x = oi_Kind inp \<and>
      obs_Tool x = oi_Tool inp \<and> obs_TS x = oi_TS inp \<and> obs_CWD x = oi_CWD inp \<and> obs_SessionID x = sid"
    unfolding set_map by (metis (no_types, lifting) Observation.select_convs imageI)
  then show ?thesis using list_quiet [OF f all, of sid] by blast
qed

lemma ex_zstd: "zstd_roundtrip ex_ext" by (simp add: zstd_roundtrip_def ex_ext_def)

theorem capture_read_back_witness:
  "\<exists>xs. ListSessionObservations ex_ext (sessionID (oi_Agent ex_input) (oi_ExternalSessionID ex_input)) 1000 ex_store1 = (Inr xs, ex_store1) \<and>
    (\<exists>x \<in> set xs. obs_PayloadJSON x = oi_PayloadJSON ex_input \<and> obs_Kind x = oi_Kind ex_input \<and> obs_Tool x = oi_Tool ex_input \<and>
       obs_TS x = oi_TS ex_input \<and> obs_CWD x = oi_CWD ex_input \<and>
       obs_SessionID x = sessionID (oi_Agent ex_input) (oi_ExternalSessionID ex_input))"
  by (rule capture_read_back [OF ex_insert [folded ex_store1_def] ex_store_ok(3,1,2) ex_zstd])
    (simp_all add: ex_store_def empty_db_def)

text \<open>
  C15. Redaction is complete and stable: the redacted text holds no match of any secret pattern, and
  redacting a text that holds none changes nothing, so redacting twice is redacting once.
\<close>

theorem Redact_complete:
  "no_secrets (Redact s) \<and> Redact (Redact s) = Redact s \<and> (no_secrets s \<longrightarrow> Redact s = s)"
  using no_secrets_Redact Redact_id by blast

theorem Redact_complete_witness: "Redact (Redact ''x AKIA0123456789ABCDEF'') = Redact ''x AKIA0123456789ABCDEF''"
  using Redact_complete [of "''x AKIA0123456789ABCDEF''"] by blast

section \<open>A request that captures\<close>

text \<open>A prompt is posted to a new server: one observation is stored, redacted.\<close>

definition ex_prompt :: string where
  "ex_prompt = ''{'' @ [quot] @ ''session_id'' @ [quot] @ '':'' @ [quot] @ ''s'' @ [quot] @ '','' @
     [quot] @ ''cwd'' @ [quot] @ '':'' @ [quot] @ ''p'' @ [quot] @ '','' @
     [quot] @ ''prompt'' @ [quot] @ '':'' @ [quot] @ ''t'' @ [quot] @ ''}''"

definition ex_request :: request where
  "ex_request = \<lparr>rq_Method = ''POST'', rq_Path = ''/hooks/user-prompt'', rq_Auth = ''Bearer t'', rq_Body = Some ex_prompt\<rparr>"

lemma ex_parse: "parse_json ex_prompt = Some (JObj [(''session_id'', JStr ''s''), (''cwd'', JStr ''p''), (''prompt'', JStr ''t'')])"
  by (simp add: parse_json_def ex_prompt_def json_eval)

definition ex_payload :: string where "ex_payload = ''{'' @ [quot] @ ''prompt'' @ [quot] @ '':'' @ [quot] @ ''t'' @ [quot] @ ''}''"

lemmas field_eval = str_fields_def unmarshal_struct_def all_some_def struct_members_def str_field_def put_str_def key_matches_def
  runes_def rune_chunks.simps decode_rune_def fold_rune_def cont_def

lemmas encode_eval = encode_str_def escape_chunk_def rune_chunks.simps decode_rune_def Let_def quot_def bslash_def

lemma ex_normalized: "NormalizeClaudeUserPrompt ex_prompt =
  Inr \<lparr>ev_Agent = ''claude-code'', ev_ExternalSessionID = ''s'', ev_CWD = ''p'', ev_Kind = ''user_message'', ev_Tool = [],
    ev_PayloadJSON = ex_payload\<rparr>"
  by (simp add: NormalizeClaudeUserPrompt_def message_event_def ex_parse field_eval) (simp add: encode_eval ex_payload_def)

lemma ex_payload_parse: "parse_json ex_payload = Some (JObj [(''prompt'', JStr ''t'')])"
  by (simp add: parse_json_def ex_payload_def json_eval)

lemma ex_hashes: "\<exists>h. HashCanonicalJSON ex_payload = Inr h"
  by (simp add: HashCanonicalJSON_def unmarshal_any_def ex_payload_parse)


definition ex_captured :: "string \<Rightarrow> ObservationInput" where
  "ex_captured h = \<lparr>oi_Agent = ''claude-code'', oi_ExternalSessionID = ''s'', oi_CWD = ''p'', oi_TS = 0, oi_Kind = ''user_message'',
     oi_Tool = [], oi_PayloadJSON = Redact ex_payload, oi_Hash = h\<rparr>"

definition ex_after :: "string \<Rightarrow> db" where
  "ex_after h = with_observation (captured_row ex_ext (ex_captured h) ''claude-code:s'') (with_session ''claude-code'' ''s'' ''p'' 0 empty_db)"

lemma ex_capture: "InsertObservation ex_ext (ex_captured h) 300 ex_store = (Inr True, ex_store\<lparr>db := ex_after h\<rparr>)"
  using insert_quiet [of ex_store "ex_captured h" ex_ext 300] ex_store_ok
  by (simp add: ex_captured_def dedupHit_def ex_store_def empty_db_def sessionID_def db_wf_def ex_after_def)

lemma ex_prompt_length: "length ex_prompt = 41" by (simp add: ex_prompt_def)

lemma ex_served: "\<exists>h. snd (NewWithOptions ex_ext ex_rt ex_opts ex_request ex_new) = ex_new\<lparr>store_of := ex_store\<lparr>db := ex_after h\<rparr>\<rparr>"
proof -
  obtain h where h: "HashCanonicalJSON ex_payload = Inr h" using ex_hashes by blast
  have "snd (mux (routes ex_ext ex_rt (normalizeOptions ex_opts)) ex_request ex_new) = ex_new\<lparr>store_of := ex_store\<lparr>db := ex_after h\<rparr>\<rparr>"
    by (simp add: mux_def routes_def ex_request_def capture_def captureRaw_def posted_def read_body_def maxRequestBytes_def
        ex_prompt_length ex_normalized complete_event_def guarded_def insertCapturedEvent_def h andThen_def now_ms_def ex_new_def
        on_store_def ex_opts_def normalizeOptions_def dedupWindowSeconds_def ok_def ex_capture [unfolded ex_captured_def])
  then show ?thesis
    by (auto simp: NewWithOptions_def Let_def recoverMiddleware_def loggingMiddleware_def authMiddleware_def normalizeOptions_def
      ex_opts_def ex_request_def is_probe_def split: prod.splits)
qed

theorem server_stores_redacted_witness:
  "\<exists>x \<in> set (observations (db (store_of (snd (NewWithOptions ex_ext ex_rt ex_opts ex_request ex_new))))).
     \<exists>p. decodePayload ex_ext (o_payload x) (o_encoding x) = Inr p \<and> no_secrets p"
proof -
  obtain h where h: "snd (NewWithOptions ex_ext ex_rt ex_opts ex_request ex_new) = ex_new\<lparr>store_of := ex_store\<lparr>db := ex_after h\<rparr>\<rparr>"
    using ex_served by blast
  then obtain x where x: "x \<in> set (observations (db (store_of (snd (NewWithOptions ex_ext ex_rt ex_opts ex_request ex_new)))))"
    by (auto simp: ex_after_def with_observation_def)
  have "server_reach ex_ext ex_rt ex_opts True (snd (NewWithOptions ex_ext ex_rt ex_opts ex_request ex_new))"
    by (rule w_step [OF w_init w_request]) (simp_all add: ex_new_def ex_store_def)
  from server_stores_redacted [OF this ex_zstd x] x show ?thesis by blast
qed

end
