(* ===== verification/MemoryProps.thy ===== *)
theory MemoryProps
  imports ObservationProps StoreQueries
begin

text \<open>
  The properties of the operations on memories: what a success changes and what it leaves alone,
  and that a failure changes nothing.
\<close>

section \<open>Successful runs\<close>

text \<open>A successful run of an atomic operation is a run without failures.\<close>

lemma atomic_success:
  assumes "atomic_op m" and "m s = (Inr x, s1)"
  obtains s2 where "m (quiet s) = (Inr x, s2)" "db s2 = db s1"
proof -
  have "fst (m s) = Inr x" "snd (m s) = s1" using assms(2) by simp_all
  then show ?thesis using that atomic_cases [OF assms(1), of s] by (metis prod.collapse Inl_Inr_False sum.inject(2))
qed

lemma atomic_failure: "atomic_op m \<Longrightarrow> m s = (Inl e, s1) \<Longrightarrow> db s1 = db s"
  by (auto simp: atomic_op_def dest!: spec [of _ s])

lemma in_tx_success:
  assumes "in_tx lb lc body s = (Inr x, s1)" and "transparent body" and "faults s = []"
  shows "body s = (Inr x, s1)"
  using assms(1) unfolding quiet_in_tx [OF assms(2,3)] by (auto split: prod.splits sum.splits)

lemma call_success: "faults s = [] \<Longrightarrow> call l f s = (Inr x, s1) \<longleftrightarrow> (\<exists>d. f (db s) = Inr (x, d) \<and> s1 = s\<lparr>db := d\<rparr>)"
  by (auto split: sum.splits)

lemmas ran = andThen_Inr call_success

lemma audit_success:
  "faults s = [] \<Longrightarrow> insertAuditTx e s = (Inr x, s1) \<Longrightarrow> \<exists>r. db s1 = (db s)\<lparr>audits := audits (db s) @ [r], seq_audit := seq_audit (db s) + 1\<rparr> \<and> u_action r = ae_Action e \<and> faults s1 = [] \<and> fts5 s1 = fts5 s"
  by (auto simp: insertAuditTx_def ran sql_insert_audit_def simp del: quiet_run(1) intro!: exI)

lemma update_quiet:
  assumes q: "faults s = []" and r: "UpdateMemory u s = (Inr (), s1)" and id: "0 < mu_ID u"
    and some: "mu_Text u \<noteq> None \<or> mu_Tier u \<noteq> None \<or> mu_Importance u \<noteq> None"
  shows "mu_ID u \<in> m_id ` set (memories (db s)) \<and>
    (\<exists>es r. db s1 = (db s)\<lparr>memories := map (\<lambda>m. if m_id m = mu_ID u then update_row u m else m) (memories (db s)),
      fts := es, audits := audits (db s) @ [r], seq_audit := seq_audit (db s) + 1\<rparr> \<and> u_action r = ''memory_update'')"
proof -
  let ?up = "call ''update memory'' (sql_update_memory (mu_ID u) (update_row u))"
  let ?fts = "withFts (\<lambda>b. case mu_Text u of None \<Rightarrow> ok () | Some t \<Rightarrow> if b then
            andThen (call ''delete old memory fts'' (sql_delete_fts (mu_ID u))) (\<lambda>_.
            andThen (call ''insert updated memory fts'' (sql_insert_fts (mu_ID u) t)) (\<lambda>_. ok ()))
          else ok ())"
  let ?ev = "audit_event (mu_UpdatedAt u) ''memory_update'' (mu_ID u)
        [(''text'', JBool (mu_Text u \<noteq> None)), (''tier'', JBool (mu_Tier u \<noteq> None)),
         (''importance'', JBool (mu_Importance u \<noteq> None))]"
  have "UpdateMemory u = in_tx ''begin memory update'' (\<lambda>_. ''commit memory update'') (andThen ?up (\<lambda>changed.
      if changed = 0 then fail (not_found (mu_ID u)) else andThen ?fts (\<lambda>_. insertAuditTx ?ev)))"
    using id some unfolding UpdateMemory_def update_row_def [symmetric] by auto
  then have "in_tx ''begin memory update'' (\<lambda>_. ''commit memory update'') (andThen ?up (\<lambda>changed.
      if changed = 0 then fail (not_found (mu_ID u)) else andThen ?fts (\<lambda>_. insertAuditTx ?ev))) s = (Inr (), s1)"
    using r by simp
  then have "andThen ?up (\<lambda>changed.
      if changed = 0 then fail (not_found (mu_ID u)) else andThen ?fts (\<lambda>_. insertAuditTx ?ev)) s = (Inr (), s1)"
  proof (rule in_tx_success [OF _ _ q])
    have "transparent (if n = 0 then fail e else andThen ?fts (\<lambda>_. insertAuditTx ?ev))" for n :: int and e
      by (cases "n = 0") (simp_all add: transparent_basic transparent_andThen upd_transparent insertAuditTx_transparent)
    then show "transparent (andThen ?up (\<lambda>changed.
        if changed = 0 then fail (not_found (mu_ID u)) else andThen ?fts (\<lambda>_. insertAuditTx ?ev)))"
      by (intro transparent_andThen transparent_call)
  qed
  then obtain n s2 s3 where 1: "?up s = (Inr n, s2)" and n: "n \<noteq> 0" and 2: "?fts s2 = (Inr (), s3)"
    and 3: "insertAuditTx ?ev s3 = (Inr (), s1)"
    by (auto simp: andThen_Inr split: if_splits)
  have d2: "s2 = s\<lparr>db := (db s)\<lparr>memories := map (\<lambda>m. if m_id m = mu_ID u then update_row u m else m) (memories (db s))\<rparr>\<rparr>"
    and nn: "n = int (length (filter (\<lambda>x. m_id x = mu_ID u) (memories (db s))))"
    using 1 q by (auto simp: call_success sql_update_memory_def simp del: quiet_run split: if_splits)
  have f2: "faults s2 = []" using q by (simp add: d2)
  obtain es where d3: "db s3 = (db s2)\<lparr>fts := es\<rparr>" and f3: "faults s3 = []"
  proof -
    have "\<exists>es. s3 = s2\<lparr>db := (db s2)\<lparr>fts := es\<rparr>\<rparr>"
      using 2 f2 by (auto simp: withFts_def ran sql_delete_fts_def sql_insert_fts_def simp del: quiet_run split: option.splits if_splits
          intro: exI [of _ "fts (db s2)"])
    then show ?thesis using that f2 by auto
  qed
  from audit_success [OF f3 3] obtain r where "db s1 = (db s3)\<lparr>audits := audits (db s3) @ [r], seq_audit := seq_audit (db s3) + 1\<rparr>"
    "u_action r = ''memory_update''" by (auto simp: audit_event_def)
  moreover have "mu_ID u \<in> m_id ` set (memories (db s))"
  proof (rule ccontr)
    assume "mu_ID u \<notin> m_id ` set (memories (db s))"
    then have "\<forall>x \<in> set (memories (db s)). m_id x \<noteq> mu_ID u" by (metis imageI)
    then show False using n nn by simp
  qed
  ultimately show ?thesis by (auto simp: d3 d2)
qed

definition new_row :: "MemoryInput \<Rightarrow> mem_row" where
  "new_row inp = \<lparr>m_id = 0, m_project = mi_Project inp, m_text = mi_Text inp, m_tier = default_str (mi_Tier inp) ''fact'',
     m_source = default_str (mi_Source inp) ''manual'',
     m_importance = (if mi_Importance inp = Fin 0 then Fin 1 else mi_Importance inp),
     m_session = nullif_str (mi_SessionID inp), m_created = mi_CreatedAt inp, m_updated = mi_CreatedAt inp,
     m_accessed = mi_CreatedAt inp, m_superseded = None, m_access_cnt = 0\<rparr>"

lemma add_success:
  assumes "AddMemory inp s = (Inr i, s1)"
  shows "i = seq_mem (db s) + 1 \<and> memories (db s1) = memories (db s) @ [(new_row inp)\<lparr>m_id := i\<rparr>] \<and>
    sessions (db s1) = sessions (db s) \<and> observations (db s1) = observations (db s) \<and> embeddings (db s1) = embeddings (db s) \<and>
    (fts5 s \<longrightarrow> fts (db s1) = fts (db s) @ [(i, mi_Text inp)])"
proof -
  obtain s2 where r: "AddMemory inp (quiet s) = (Inr i, s2)" and d: "db s2 = db s1"
    using atomic_success [OF memories_atomic(1) assms] by blast
  let ?ins = "call ''insert memory'' (sql_insert_memory (new_row inp))"
  let ?fts = "\<lambda>i. withFts (\<lambda>b. if b then andThen (call ''insert memory fts'' (sql_insert_fts i (mi_Text inp))) (\<lambda>_. ok ()) else ok ())"
  let ?ev = "\<lambda>i. audit_event (mi_CreatedAt inp) ''memory_create'' i [(''tier'', JStr (default_str (mi_Tier inp) ''fact'')),
      (''source'', JStr (default_str (mi_Source inp) ''manual''))]\<lparr>ae_SessionID := mi_SessionID inp, ae_Project := mi_Project inp\<rparr>"
  have "in_tx ''begin memory insert'' (\<lambda>_. ''commit memory insert'')
      (andThen ?ins (\<lambda>i. andThen (?fts i) (\<lambda>_. andThen (insertAuditTx (?ev i)) (\<lambda>_. ok i)))) (quiet s) = (Inr i, s2)"
    using r unfolding AddMemory_def Let_def new_row_def [symmetric] by blast
  then have "andThen ?ins (\<lambda>i. andThen (?fts i) (\<lambda>_. andThen (insertAuditTx (?ev i)) (\<lambda>_. ok i))) (quiet s) = (Inr i, s2)"
    by (rule in_tx_success) (auto intro!: op_intros)
  then obtain s3 s4 where 1: "?ins (quiet s) = (Inr i, s3)" and 2: "?fts i s3 = (Inr (), s4)" and 3: "insertAuditTx (?ev i) s4 = (Inr (), s2)"
    by (auto simp: andThen_Inr)
  have i: "i = seq_mem (db s) + 1" and s3: "s3 = (quiet s)\<lparr>db := (db s)\<lparr>memories := memories (db s) @ [(new_row inp)\<lparr>m_id := i\<rparr>], seq_mem := i\<rparr>\<rparr>"
    using 1 by (auto simp: call_success sql_insert_memory_def simp del: quiet_run split: if_splits)
  have s4: "s4 = s3\<lparr>db := (db s3)\<lparr>fts := (if fts5 s then fts (db s) @ [(i, mi_Text inp)] else fts (db s))\<rparr>\<rparr>"
    using 2 by (auto simp: s3 withFts_def andThen_Inr call_success sql_insert_fts_def simp del: quiet_run(1) split: if_splits)
  show ?thesis using audit_success [OF _ 3] i by (auto simp: s4 s3 d [symmetric])
qed

section \<open>Listings\<close>

definition newest_first :: "mem_row \<Rightarrow> mem_row \<Rightarrow> bool" where
  "newest_first x y = (m_created x > m_created y \<or> m_created x = m_created y \<and> m_id x \<ge> m_id y)"

lemma newest_sorted: "sorted_wrt newest_first (sort_by mem_desc rs)"
  by (rule sorted_wrt_mono_rel [OF _ mem_desc_sort.sorted]) (auto simp: mem_desc_def then_by_def desc_def newest_first_def)

lemma recent_success:
  assumes "RecentMemories p n s = (Inr ms, s1)"
  shows "ms = map scanMemory (sql_limit (normalizedStoreLimit n 10 100) (sort_by mem_desc (active p (db s))))"
proof -
  have "RecentMemories p n (quiet s) = (Inr ms, quiet s)"
    using assms by (intro readonly_result op_intros) simp
  then show ?thesis
    by (simp add: RecentMemories_def Let_def quiet_rows_ok recent_rows_def active_def normalizedStoreLimit_def)
qed

lemma limit_bounds: "0 < (d::int) \<Longrightarrow> d \<le> m \<Longrightarrow> 0 < normalizedStoreLimit n d m \<and> normalizedStoreLimit n d m \<le> m"
  by (auto simp: normalizedStoreLimit_def)

section \<open>Properties\<close>

text \<open>
  C4. Failures are atomic: whenever one of the writing operations of the store returns an error,
  the database is exactly what it was, wherever in the operation the driver failed.
\<close>

theorem store_failures_atomic:
  "AddMemory mi s = (Inl e, s1) \<or> UpdateMemory u s = (Inl e, s1) \<or> SupersedeMemory x y s = (Inl e, s1) \<or>
   DeleteMemories ids s = (Inl e, s1) \<or> DecayMemories E opts s = (Inl e, s1) \<or> InsertObservation E inp w s = (Inl e, s1) \<or>
   EnsureSession a ext p t s = (Inl e, s1) \<or> EndSession i t s = (Inl e, s1) \<or> SaveSessionSummary i sm t s = (Inl e, s1) \<or>
   RecordImportedEvent pa ev t s = (Inl e, s1) \<or> SaveMemoryEmbedding k m v s = (Inl e, s1) \<or> DeleteEmbeddings p m s = (Inl e, s1) \<or>
   TouchMemories ids t s = (Inl e, s1) \<or> InsertCompactionAttempt i st rs t s = (Inl e, s1) \<or>
   ExpireCompactionAttempts i t s = (Inl e, s1) \<or> MarkCompactionCompleted i t s = (Inl e, s1) \<Longrightarrow> db s1 = db s"
  by (elim disjE)
    (erule atomic_failure [rotated],
     rule memories_atomic DecayMemories_atomic InsertObservation_atomic sessions_atomic embeddings_atomic compaction_atomic)+

definition ex_failing :: store where "ex_failing = \<lparr>db = ex_db, fts5 = True, faults = [False, False, True]\<rparr>"

definition ex_memory :: MemoryInput where
  "ex_memory = \<lparr>mi_Project = ''p'', mi_Text = ''new'', mi_Tier = [], mi_Source = [], mi_Importance = Fin 0,
     mi_SessionID = [], mi_CreatedAt = 9\<rparr>"

text \<open>The transaction begins, the row is inserted, and the full-text insertion fails.\<close>

lemma ex_add_fails: "AddMemory ex_memory ex_failing = (Inl (Wrap ''insert memory fts'' Driver), ex_failing\<lparr>faults := []\<rparr>)"
  by (simp add: AddMemory_def in_tx_def fault_def ex_failing_def ex_memory_def andThen_def call_def withFts_def
      sql_insert_memory_def nullif_str_def default_str_def Let_def)

theorem store_failures_atomic_witness: "db (snd (AddMemory ex_memory ex_failing)) = ex_db"
  using store_failures_atomic [of ex_memory ex_failing "Wrap ''insert memory fts'' Driver" "ex_failing\<lparr>faults := []\<rparr>"] ex_add_fails
  by (simp add: ex_failing_def)

text \<open>
  C17. An update that succeeds changes exactly the row with the given identifier, which exists, and
  in it exactly the fields that were given and the time of the update. Sessions, observations and
  the embedding of the memory stay as they were, and one audit event is added.
\<close>

theorem UpdateMemory_spec:
  assumes "UpdateMemory u s = (Inr (), s1)" and "0 < mu_ID u"
    and "mu_Text u \<noteq> None \<or> mu_Tier u \<noteq> None \<or> mu_Importance u \<noteq> None"
  shows "mu_ID u \<in> m_id ` set (memories (db s)) \<and>
    memories (db s1) = map (\<lambda>m. if m_id m = mu_ID u then m\<lparr>m_updated := mu_UpdatedAt u,
        m_text := (case mu_Text u of None \<Rightarrow> m_text m | Some t \<Rightarrow> t),
        m_tier := (case mu_Tier u of None \<Rightarrow> m_tier m | Some t \<Rightarrow> t),
        m_importance := (case mu_Importance u of None \<Rightarrow> m_importance m | Some x \<Rightarrow> x)\<rparr> else m) (memories (db s)) \<and>
    sessions (db s1) = sessions (db s) \<and> observations (db s1) = observations (db s) \<and>
    embeddings (db s1) = embeddings (db s) \<and>
    (\<exists>r. audits (db s1) = audits (db s) @ [r] \<and> u_action r = ''memory_update'')"
proof -
  obtain s2 where "UpdateMemory u (quiet s) = (Inr (), s2)" "db s2 = db s1"
    using atomic_success [OF memories_atomic(2) assms(1)] by blast
  from update_quiet [OF _ this(1) assms(2,3)] this(2) show ?thesis
    by (auto simp: update_row_def)
qed

definition ex_quiet :: store where "ex_quiet = \<lparr>db = ex_db, fts5 = True, faults = []\<rparr>"

definition ex_update :: MemoryUpdate where
  "ex_update = \<lparr>mu_ID = 1, mu_Text = Some ''u'', mu_Tier = None, mu_Importance = None, mu_UpdatedAt = 7\<rparr>"

lemma ex_update_runs: "\<exists>s1. UpdateMemory ex_update ex_quiet = (Inr (), s1)"
  by (simp add: UpdateMemory_def ex_update_def ex_quiet_def in_tx_def fault_def andThen_def withFts_def sql_update_memory_def
      sql_delete_fts_def sql_insert_fts_def insertAuditTx_def sql_insert_audit_def ex_db_def ex_mem_def empty_db_def call_def)

theorem UpdateMemory_spec_witness:
  "\<exists>s1. UpdateMemory ex_update ex_quiet = (Inr (), s1) \<and> map m_text (memories (db s1)) = [''u'']"
proof -
  obtain s1 where r: "UpdateMemory ex_update ex_quiet = (Inr (), s1)" using ex_update_runs by blast
  then show ?thesis using UpdateMemory_spec [OF r]
    by (simp add: ex_update_def ex_quiet_def ex_db_def ex_mem_def)
qed

text \<open>
  The listing of recent memories is the beginning of the active memories of the project, newest
  first: none is missing before the limit is reached, no other project's and no superseded memory
  is listed, and there are at most a hundred (ten when no limit is given).
\<close>

theorem RecentMemories_spec:
  assumes "RecentMemories p n s = (Inr ms, s1)"
  shows "\<exists>rows. mset rows = mset (filter (\<lambda>m. m_project m = p \<and> m_superseded m = None) (memories (db s))) \<and>
    sorted_wrt newest_first rows \<and>
    ms = map scanMemory (take (nat (if n \<le> 0 then 10 else min n 100)) rows)"
proof -
  let ?rows = "sort_by mem_desc (active p (db s))"
  have "sql_limit (normalizedStoreLimit n 10 100) ?rows = take (nat (if n \<le> 0 then 10 else min n 100)) ?rows"
    by (simp add: sql_limit_def normalizedStoreLimit_def min_def)
  then show ?thesis
    using recent_success [OF assms] newest_sorted by (intro exI [of _ ?rows]) (simp add: active_def)
qed

lemma ex_recent: "RecentMemories ''p'' 5 ex_quiet = (Inr [scanMemory ex_mem], ex_quiet)"
  by (simp add: RecentMemories_def quiet_rows_ok recent_rows_def ex_quiet_def ex_db_def ex_mem_def sql_limit_def)

theorem RecentMemories_spec_witness: "\<exists>rows. mset rows = {#ex_mem#} \<and> [scanMemory ex_mem] = map scanMemory (take 5 rows)"
  using RecentMemories_spec [OF ex_recent] by (simp add: ex_quiet_def ex_db_def ex_mem_def)

text \<open>
  C20. What is saved is recalled: after a memory was added, the listing of its project's recent
  memories begins with it, unless an active memory of the project carries a later time.
\<close>

theorem saved_memory_recalled:
  assumes "AddMemory inp s = (Inr i, s1)" and "db_wf (db s)"
    and "\<And>m. active_in (mi_Project inp) (db s) m \<Longrightarrow> m_created m \<le> mi_CreatedAt inp"
    and "RecentMemories (mi_Project inp) n s1 = (Inr ms, s2)"
  shows "\<exists>rest. ms = scanMemory ((new_row inp)\<lparr>m_id := i\<rparr>) # rest"
proof -
  let ?new = "(new_row inp)\<lparr>m_id := i\<rparr>"
  note add = add_success [OF assms(1)]
  have act: "active (mi_Project inp) (db s1) = active (mi_Project inp) (db s) @ [?new]"
    using add by (simp add: active_def new_row_def)
  have lt: "mem_desc ?new m" if "m \<in> set (active (mi_Project inp) (db s))" for m
  proof -
    have "m_id m < i" using that assms(2) add by (auto simp: active_def db_wf_def mem_wf_def)
    then show ?thesis using that assms(3) [of m]
      by (auto simp: active_def active_in_def mem_desc_def then_by_def desc_def new_row_def)
  qed
  have hd: "sort_by mem_desc (xs @ [x]) = x # sort_by mem_desc xs" if "\<And>m. m \<in> set xs \<Longrightarrow> mem_desc x m" for xs x
    using that by (induction xs) auto
  have "0 < normalizedStoreLimit n 10 100" using limit_bounds [of 10 100 n] by simp
  then show ?thesis
    unfolding recent_success [OF assms(4)] act using hd [OF lt]
    by (simp add: sql_limit_def take_Cons')
qed


lemma ex_add: "\<exists>s1. AddMemory ex_memory ex_quiet = (Inr 2, s1) \<and> (\<exists>ms. RecentMemories ''p'' 5 s1 = (Inr ms, s1))"
  by (simp add: AddMemory_def in_tx_def fault_def ex_quiet_def ex_memory_def andThen_def call_def withFts_def insertAuditTx_def
      sql_insert_memory_def sql_insert_fts_def sql_insert_audit_def nullif_str_def default_str_def Let_def ex_db_def empty_db_def
      RecentMemories_def quiet_rows_ok)

lemma ex_db_wf: "db_wf ex_db"
  by (simp add: db_wf_def ex_db_def wf_defs ex_mem_def del: wf_frames) (simp add: empty_db_def)

theorem saved_memory_recalled_witness:
  "\<exists>s1 ms rest. AddMemory ex_memory ex_quiet = (Inr 2, s1) \<and> RecentMemories ''p'' 5 s1 = (Inr ms, s1) \<and>
     ms = scanMemory ((new_row ex_memory)\<lparr>m_id := 2\<rparr>) # rest"
proof -
  obtain s1 ms where r: "AddMemory ex_memory ex_quiet = (Inr 2, s1)" "RecentMemories ''p'' 5 s1 = (Inr ms, s1)"
    using ex_add by blast
  have p: "mi_Project ex_memory = ''p''" by (simp add: ex_memory_def)
  have "\<exists>rest. ms = scanMemory ((new_row ex_memory)\<lparr>m_id := 2\<rparr>) # rest"
  proof (rule saved_memory_recalled [OF r(1) _ _ r(2) [folded p]])
    show "db_wf (db ex_quiet)" by (simp add: ex_quiet_def ex_db_wf)
  qed (auto simp: ex_quiet_def active_in_def ex_db_def ex_mem_def ex_memory_def)
  then show ?thesis using r by blast
qed

section \<open>Supersession\<close>

lemma supersede_success:
  assumes "SupersedeMemory old new s = (Inr (), s1)"
  shows "0 < old \<and> 0 < new \<and> old \<noteq> new \<and> old \<in> m_id ` set (memories (db s)) \<and> new \<in> m_id ` set (memories (db s)) \<and>
    (\<exists>r. db s1 = (db s)\<lparr>memories := map (\<lambda>m. if m_id m = old then m\<lparr>m_superseded := Some new\<rparr> else m) (memories (db s)),
      audits := audits (db s) @ [r], seq_audit := seq_audit (db s) + 1\<rparr> \<and> u_ts r = 0)"
proof -
  obtain s2 where r: "SupersedeMemory old new (quiet s) = (Inr (), s2)" and d: "db s2 = db s1"
    using atomic_success [OF memories_atomic(3) assms] by blast
  let ?up = "call ''supersede memory'' (sql_supersede old new)"
  let ?ev = "audit_event 0 ''memory_supersede'' old [(''new_id'', JInt new)]"
  have v: "0 < old" "0 < new" "old \<noteq> new" using r by (auto simp: SupersedeMemory_def split: if_splits)
  then have "in_tx ''begin supersede memory'' (\<lambda>_. ''commit supersede memory'') (andThen ?up (\<lambda>changed.
      if changed = 0 then fail (not_found old) else insertAuditTx ?ev)) (quiet s) = (Inr (), s2)"
    using r by (simp add: SupersedeMemory_def)
  then have "andThen ?up (\<lambda>changed. if changed = 0 then fail (not_found old) else insertAuditTx ?ev) (quiet s) = (Inr (), s2)"
    by (rule in_tx_success) (auto intro!: op_intros)
  then obtain n s3 where 1: "?up (quiet s) = (Inr n, s3)" and n: "n \<noteq> 0" and 2: "insertAuditTx ?ev s3 = (Inr (), s2)"
    by (auto simp: andThen_Inr split: if_splits)
  have s3: "s3 = (quiet s)\<lparr>db := (db s)\<lparr>memories := map (\<lambda>m. if m_id m = old then m\<lparr>m_superseded := Some new\<rparr> else m) (memories (db s))\<rparr>\<rparr>"
    and nn: "n = int (length (filter (\<lambda>x. m_id x = old) (memories (db s))))"
    and fk: "old \<in> m_id ` set (memories (db s)) \<longrightarrow> new \<in> m_id ` set (memories (db s))"
    using 1 by (auto simp: call_success sql_supersede_def sql_update_memory_def simp del: quiet_run split: if_splits)
  have "old \<in> m_id ` set (memories (db s))"
  proof (rule ccontr)
    assume "old \<notin> m_id ` set (memories (db s))"
    then have "\<forall>x \<in> set (memories (db s)). m_id x \<noteq> old" by (metis imageI)
    then show False using n nn by simp
  qed
  moreover have "\<exists>r. db s1 = (db s3)\<lparr>audits := audits (db s3) @ [r], seq_audit := seq_audit (db s3) + 1\<rparr> \<and> u_ts r = 0"
    using 2 s3 by (auto simp: insertAuditTx_def ran sql_insert_audit_def audit_event_def d [symmetric] simp del: quiet_run(1))
  ultimately show ?thesis using v fk by (auto simp: s3)
qed

lemma active_supersede:
  "memories d' = map (\<lambda>m. if m_id m = old then m\<lparr>m_superseded := Some new\<rparr> else m) (memories d) \<Longrightarrow>
    active p d' = filter (\<lambda>m. m_id m \<noteq> old) (active p d)"
proof -
  have *: "filter P (map f xs) = filter Q (filter P xs)"
    if "\<And>m. P (f m) = (P m \<and> Q m)" "\<And>m. Q m \<Longrightarrow> f m = m" for P Q f and xs :: "mem_row list"
    using that by (induction xs) auto
  assume "memories d' = map (\<lambda>m. if m_id m = old then m\<lparr>m_superseded := Some new\<rparr> else m) (memories d)"
  then show ?thesis unfolding active_def by (simp only:) (rule *, auto)
qed

text \<open>
  C19. A superseded memory disappears from recall: after a supersession that succeeded, the recent
  memories of any project are the ones from before without the old memory (the limit applied
  afterwards), and full-text search no longer returns it. Both memories existed.
\<close>

theorem SupersedeMemory_hides:
  assumes "SupersedeMemory old new s = (Inr (), s1)"
    and "RecentMemories p n s1 = (Inr ms, s2)" and "SearchMemories E q s1 = (Inr hits, s3)"
  shows "old \<in> m_id ` set (memories (db s)) \<and> new \<in> m_id ` set (memories (db s)) \<and>
    ms = map scanMemory (sql_limit (normalizedStoreLimit n 10 100)
      (sort_by mem_desc (filter (\<lambda>m. m_id m \<noteq> old) (active p (db s))))) \<and>
    old \<notin> mem_ID ` set hits"
proof -
  have both: "old \<in> m_id ` set (memories (db s))" "new \<in> m_id ` set (memories (db s))"
    and m: "memories (db s1) = map (\<lambda>m. if m_id m = old then m\<lparr>m_superseded := Some new\<rparr> else m) (memories (db s))"
    using supersede_success [OF assms(1)] by auto
  have "old \<noteq> mem_ID x" if "x \<in> set hits" for x
  proof -
    have "fst (SearchMemories E q s1) = Inr hits" using assms(3) by simp
    from SearchMemories_answer [OF this that]
    obtain r sc where "active_in (ms_Project q) (db s1) r" "x = (scanMemory r)\<lparr>mem_Score := sc\<rparr>" by blast
    then have "active_in (ms_Project q) (db s1) r" "mem_ID x = m_id r" by (simp_all add: scanMemory_def)
    then have mem: "r \<in> (\<lambda>m. if m_id m = old then m\<lparr>m_superseded := Some new\<rparr> else m) ` set (memories (db s))"
      and none: "m_superseded r = None" unfolding active_in_def m set_map by blast+
    from mem none have "m_id r \<noteq> old" by (elim imageE) (simp split: if_splits)
    with \<open>mem_ID x = m_id r\<close> show ?thesis by simp
  qed
  then have hid: "old \<notin> mem_ID ` set hits" by (auto simp only: image_iff)
  show ?thesis
    using recent_success [OF assms(2), unfolded active_supersede [OF m]]
    by (simp only: both hid simp_thms)
qed

definition ex_two :: store where
  "ex_two = \<lparr>db = empty_db\<lparr>memories := [ex_mem, ex_mem\<lparr>m_id := 2\<rparr>], seq_mem := 2\<rparr>, fts5 = True, faults = []\<rparr>"

lemma ex_supersede: "\<exists>s1. SupersedeMemory 1 2 ex_two = (Inr (), s1) \<and> (\<exists>ms. RecentMemories ''p'' 5 s1 = (Inr ms, s1)) \<and>
    (\<exists>hits. SearchMemories ex_ext \<lparr>ms_Project = ''p'', ms_Query = [], ms_Limit = 0\<rparr> s1 = (Inr hits, s1))"
  by (simp add: SupersedeMemory_def in_tx_def ex_two_def andThen_def insertAuditTx_def sql_supersede_def sql_update_memory_def
      sql_insert_audit_def ex_mem_def empty_db_def RecentMemories_def quiet_rows_ok SearchMemories_def withFts_def ftsQuery_def
      fieldsFunc_def ok_def)

theorem SupersedeMemory_hides_witness:
  "\<exists>s1. SupersedeMemory 1 2 ex_two = (Inr (), s1) \<and>
     (\<exists>s2. RecentMemories ''p'' 5 s1 = (Inr [scanMemory (ex_mem\<lparr>m_id := 2\<rparr>)], s2))"
proof -
  obtain s1 ms hits where r: "SupersedeMemory 1 2 ex_two = (Inr (), s1)" "RecentMemories ''p'' 5 s1 = (Inr ms, s1)"
    "SearchMemories ex_ext \<lparr>ms_Project = ''p'', ms_Query = [], ms_Limit = 0\<rparr> s1 = (Inr hits, s1)"
    using ex_supersede by blast
  have "ms = [scanMemory (ex_mem\<lparr>m_id := 2\<rparr>)]"
    using SupersedeMemory_hides [OF r] by (simp add: ex_two_def active_def ex_mem_def sql_limit_def normalizedStoreLimit_def)
  then show ?thesis using r by blast
qed

section \<open>Deletion and decay\<close>

text \<open>Deleting a memory that is the successor of another is refused by the foreign key.\<close>

lemma sql_delete_successor:
  "i \<in> m_id ` set (memories d) \<Longrightarrow> x \<in> set (memories d) \<Longrightarrow> m_id x \<noteq> i \<Longrightarrow> m_superseded x = Some i \<Longrightarrow>
    sql_delete_memory i d = Inl ForeignKey"
  by (auto simp: sql_delete_memory_def)

lemma deleteOne_success:
  assumes "faults s = []" and "deleteOne i s = (Inr n, s1)"
  shows "memories (db s1) = filter (\<lambda>m. m_id m \<noteq> i) (memories (db s)) \<and> faults s1 = [] \<and>
    int (length (memories (db s1))) + n = int (length (memories (db s)))"
proof -
  let ?ev = "audit_event 0 ''memory_delete'' i [(''explicit'', JBool True)]"
  let ?s0 = "s\<lparr>db := (db s)\<lparr>fts := (if fts5 s then filter (\<lambda>x. fst x \<noteq> i) (fts (db s)) else fts (db s))\<rparr>\<rparr>"
  have f: "withFts (\<lambda>b. if b then andThen (call (''delete memory fts '' @ itoa i) (sql_delete_fts i)) (\<lambda>_. ok ()) else ok ()) s = (Inr (), ?s0)"
    using assms(1) by (simp add: withFts_def andThen_def sql_delete_fts_def)
  obtain n1 s2 where d: "call (''delete memory '' @ itoa i) (sql_delete_memory i) ?s0 = (Inr n1, s2)"
    and r: "(if n1 > 0 then andThen (insertAuditTx ?ev) (\<lambda>_. ok n1) else ok n1) s2 = (Inr n, s1)"
    using assms(2) unfolding deleteOne_def andThen_Inr [of _ _ s] f by (auto simp: andThen_Inr simp del: quiet_run)
  have s2: "faults s2 = []" using d assms(1) by (auto simp: call_success simp del: quiet_run)
  have n: "n = n1" and s1: "memories (db s1) = memories (db s2)" "faults s1 = []"
    using r s2 by (auto simp: andThen_Inr split: if_splits dest!: audit_success [OF s2])
  have len: "int (length (filter (\<lambda>m. m_id m \<noteq> i) ms)) + int (length (filter (\<lambda>m. m_id m = i) ms)) = int (length ms)" for ms
    using sum_length_filter_compl [of "\<lambda>m. m_id m = i" ms] by simp
  have none: "filter (\<lambda>m. m_id m \<noteq> i) ms = ms" if "i \<notin> m_id ` set ms" for ms
    using that by (intro filter_True) (metis imageI)
  show ?thesis
    using d assms(1) n s1 len [of "memories (db s)"] none [of "memories (db s)"]
    by (auto simp: call_success sql_delete_memory_def split: if_splits simp del: quiet_run)
qed

lemma delete_each:
  "faults s = [] \<Longrightarrow> each deleteOne ids s = (Inr ns, s1) \<Longrightarrow>
    memories (db s1) = filter (\<lambda>m. m_id m \<notin> set ids) (memories (db s)) \<and>
    int (length (memories (db s1))) + sum_list ns = int (length (memories (db s)))"
proof (induction ids arbitrary: s ns)
  case (Cons i ids)
  then obtain n s2 ns' where "deleteOne i s = (Inr n, s2)" "each deleteOne ids s2 = (Inr ns', s1)" "ns = n # ns'"
    by (auto simp: andThen_Inr ok_def)
  with deleteOne_success [OF Cons.prems(1), of i n s2] Cons.IH [of s2 ns'] show ?case
    by (auto simp: conj_commute)
qed (simp add: ok_def)

lemma delete_success:
  assumes "DeleteMemories ids s = (Inr n, s1)"
  shows "memories (db s1) = filter (\<lambda>m. m_id m \<notin> set ids) (memories (db s)) \<and>
    n = int (length (filter (\<lambda>m. m_id m \<in> set ids) (memories (db s))))"
proof (cases "ids = []")
  case True
  then show ?thesis using assms by (simp add: DeleteMemories_def)
next
  case False
  obtain s2 where r: "DeleteMemories ids (quiet s) = (Inr n, s2)" and d: "db s2 = db s1"
    using atomic_success [OF memories_atomic(4) assms] by blast
  have "in_tx ''begin delete memories'' (\<lambda>_. ''commit delete memories'')
       (andThen (each deleteOne ids) (\<lambda>ns. ok (sum_list ns))) (quiet s) = (Inr n, s2)"
    using r False by (simp add: DeleteMemories_def)
  then have "andThen (each deleteOne ids) (\<lambda>ns. ok (sum_list ns)) (quiet s) = (Inr n, s2)"
    by (rule in_tx_success) (auto intro!: op_intros)
  then obtain ns where ns: "each deleteOne ids (quiet s) = (Inr ns, s2)" "n = sum_list ns"
    by (auto simp: andThen_Inr ok_def)
  have "memories (db s1) = filter (\<lambda>m. m_id m \<notin> set ids) (memories (db s))"
    "int (length (memories (db s1))) + n = int (length (memories (db s)))"
    using delete_each [OF _ ns(1)] d ns(2) by auto
  moreover have "int (length (filter (\<lambda>m. m_id m \<notin> set ids) ms)) + int (length (filter (\<lambda>m. m_id m \<in> set ids) ms)) = int (length ms)" for ms
    using sum_length_filter_compl [of "\<lambda>m. m_id m \<in> set ids" ms] by simp
  note this [of "memories (db s)"]
  ultimately show ?thesis by simp
qed

text \<open>The memories after one row was decayed, and after all were.\<close>

definition decay_step :: "decayed \<Rightarrow> mem_row list \<Rightarrow> mem_row list" where
  "decay_step u ms = (if dc_delete u then filter (\<lambda>m. m_id m \<noteq> dc_id u) ms
     else map (\<lambda>m. if m_id m = dc_id u then m\<lparr>m_importance := dc_importance u\<rparr> else m) ms)"

lemma decayOne_success:
  assumes "faults s = []" and "decayOne u s = (Inr n, s1)"
  shows "memories (db s1) = decay_step u (memories (db s)) \<and> faults s1 = [] \<and>
    int (length (memories (db s1))) + n = int (length (memories (db s)))"
proof (cases "dc_delete u")
  case False
  then show ?thesis using assms
    by (auto simp: decayOne_def ran sql_update_memory_def decay_step_def ok_def split: if_splits simp del: quiet_run)
next
  case True
  then obtain es where "call (''delete decayed memory '' @ itoa (dc_id u)) (sql_delete_memory (dc_id u)) (s\<lparr>db := (db s)\<lparr>fts := es\<rparr>\<rparr>) = (Inr n, s1)"
    using assms by (auto simp: decayOne_def ran withFts_def sql_delete_fts_def split: if_splits simp del: quiet_run
      intro: that [of "fts (db s)"])
  moreover have "int (length (filter (\<lambda>m. m_id m \<noteq> dc_id u) ms)) + int (length (filter (\<lambda>m. m_id m = dc_id u) ms)) = int (length ms)" for ms
    using sum_length_filter_compl [of "\<lambda>m. m_id m = dc_id u" ms] by simp
  moreover have "filter (\<lambda>m. m_id m \<noteq> i) ms = ms" if "i \<notin> m_id ` set ms" for i ms
    using that by (intro filter_True) (metis imageI)
  note this [of "dc_id u" "memories (db s)", symmetric]
  ultimately show ?thesis using True assms(1)
    by (auto simp: call_success sql_delete_memory_def decay_step_def split: if_splits simp del: quiet_run)
qed

lemma decay_each:
  "faults s = [] \<Longrightarrow> each decayOne us s = (Inr ns, s1) \<Longrightarrow>
    memories (db s1) = fold decay_step us (memories (db s)) \<and>
    int (length (memories (db s1))) + sum_list ns = int (length (memories (db s)))"
proof (induction us arbitrary: s ns)
  case Nil
  then show ?case by (simp add: ok_def)
next
  case (Cons u us)
  then obtain n s2 ns' where "decayOne u s = (Inr n, s2)" "each decayOne us s2 = (Inr ns', s1)" "ns = n # ns'"
    by (auto simp: andThen_Inr ok_def)
  with decayOne_success [OF Cons.prems(1), of u n s2] Cons.IH [of s2 ns'] show ?case by auto
qed

text \<open>With distinct identifiers the steps together treat each row once.\<close>

definition survivors :: "(mem_row \<Rightarrow> decayed) \<Rightarrow> mem_row list \<Rightarrow> mem_row list" where
  "survivors f ms = map (\<lambda>m. m\<lparr>m_importance := dc_importance (f m)\<rparr>) (filter (\<lambda>m. \<not> dc_delete (f m)) ms)"

definition decay_here :: "(mem_row \<Rightarrow> decayed) \<Rightarrow> int set \<Rightarrow> mem_row list \<Rightarrow> mem_row list" where
  "decay_here f I ms = map (\<lambda>m. if m_id m \<in> I then m\<lparr>m_importance := dc_importance (f m)\<rparr> else m)
     (filter (\<lambda>m. m_id m \<in> I \<longrightarrow> \<not> dc_delete (f m)) ms)"

lemma decay_step_here:
  assumes "\<And>m. dc_id (f m) = m_id m" and "m_id r \<notin> I"
  shows "(\<And>m. m \<in> set xs \<Longrightarrow> m_id m = m_id r \<Longrightarrow> m = r) \<Longrightarrow>
    decay_step (f r) (decay_here f I xs) = decay_here f (insert (m_id r) I) xs"
proof (induction xs)
  case (Cons x xs)
  then have "decay_step (f r) (decay_here f I xs) = decay_here f (insert (m_id r) I) xs"
    and "m_id x = m_id r \<Longrightarrow> x = r" by auto
  then show ?case using assms
    by (cases "m_id x = m_id r") (auto simp: decay_step_def decay_here_def)
qed (simp add: decay_step_def decay_here_def)

lemma decay_fold:
  assumes f: "\<And>m. dc_id (f m) = m_id m" and ms: "distinct (map m_id ms)"
  shows "set rs \<subseteq> set ms \<Longrightarrow> distinct (map m_id rs) \<Longrightarrow> I \<inter> m_id ` set rs = {} \<Longrightarrow>
    fold decay_step (map f rs) (decay_here f I ms) = decay_here f (I \<union> m_id ` set rs) ms"
proof (induction rs arbitrary: I)
  case Nil
  then show ?case by simp
next
  case (Cons r rs)
  have r: "m = r" if "m \<in> set ms" "m_id m = m_id r" for m
    using that Cons.prems(1) ms by (auto simp: distinct_map inj_on_def)
  have "decay_step (f r) (decay_here f I ms) = decay_here f (insert (m_id r) I) ms"
    using Cons.prems r by (intro decay_step_here f) auto
  moreover have "insert (m_id r) I \<union> m_id ` set rs = I \<union> m_id ` set (r # rs)" by auto
  ultimately show ?case using Cons.IH [of "insert (m_id r) I"] Cons.prems by auto
qed

lemma decay_all:
  assumes "\<And>m. dc_id (f m) = m_id m" and "distinct (map m_id ms)" and "mset rs = mset ms"
  shows "fold decay_step (map f rs) ms = survivors f ms"
proof -
  have "mset (map m_id rs) = mset (map m_id ms)" using assms(3) by simp
  then have s: "set rs = set ms" "distinct (map m_id rs)"
    using assms(2) mset_eq_setD [OF assms(3)] mset_eq_imp_distinct_iff by blast+
  have 1: "decay_here f {} ms = ms" and 2: "decay_here f (m_id ` set ms) ms = survivors f ms"
    by (simp add: decay_here_def) (simp add: decay_here_def survivors_def cong: filter_cong map_cong)
  show ?thesis using decay_fold [OF assms(1,2), of rs "{}"] s 1 2 by simp
qed

definition decay_of :: "ext \<Rightarrow> DecayOptions \<Rightarrow> mem_row \<Rightarrow> decayed" where
  "decay_of E opts = decay_row E (do_Now opts) (if do_TauDays opts \<le> 0 then 30 else do_TauDays opts)
     (if f64_leq (do_MinImportance opts) (Fin 0) then f64_of_rat (5 / 100) else do_MinImportance opts)"

lemma decay_success:
  assumes "DecayMemories E opts s = (Inr n, s1)" and "db_wf (db s)"
  defines "f \<equiv> decay_of E opts"
  shows "memories (db s1) = survivors f (memories (db s))"
    and "n = int (length (filter (\<lambda>m. dc_delete (f m)) (memories (db s))))"
proof -
  let ?rows = "sort_by (asc m_id) (memories (db s))"
  obtain s2 where r: "DecayMemories E opts (quiet s) = (Inr n, s2)" and d: "db s2 = db s1"
    using atomic_success [OF DecayMemories_atomic assms(1)] by blast
  have "in_tx ''begin decay'' (\<lambda>_. ''commit decay'') (andThen (each decayOne (map f ?rows)) (\<lambda>ns. ok (sum_list ns))) (quiet s) = (Inr n, s2)"
    using r unfolding DecayMemories_def Let_def f_def decay_of_def [symmetric]
    by (simp add: andThen_def quiet_rows_ok check_def)
  then have "andThen (each decayOne (map f ?rows)) (\<lambda>ns. ok (sum_list ns)) (quiet s) = (Inr n, s2)"
    by (rule in_tx_success) (auto intro!: op_intros)
  then obtain ns where ns: "each decayOne (map f ?rows) (quiet s) = (Inr ns, s2)" and n: "n = sum_list ns"
    by (auto simp: andThen_Inr ok_def)
  have len: "int (length (memories (db s2))) + n = int (length (memories (db s)))"
    using decay_each [OF _ ns] by (auto simp: n)
  show m: "memories (db s1) = survivors f (memories (db s))"
    unfolding d [symmetric] using decay_each [OF _ ns] assms(2) decay_all [of f "memories (db s)" ?rows]
    by (simp add: f_def decay_of_def decay_row_def Let_def db_wf_def mem_wf_def)
  have "int (length (survivors f ms)) + int (length (filter (\<lambda>m. dc_delete (f m)) ms)) = int (length ms)" for ms
    using sum_length_filter_compl [of "\<lambda>m. dc_delete (f m)" ms] by (simp add: survivors_def)
  then show "n = int (length (filter (\<lambda>m. dc_delete (f m)) (memories (db s))))"
    using len unfolding d m by (metis add_left_cancel)
qed


definition ex_decay_opts :: DecayOptions where
  "ex_decay_opts = \<lparr>do_Now = 5, do_TauDays = 0, do_MinImportance = Fin 2\<rparr>"

lemma ex_decays: "dc_delete (decay_row ex_ext 5 30 (Fin 2) ex_mem)"
proof -
  have "f64_less (f64_mul (Fin 1) (exp64 ex_ext z)) (Fin 2)" for z
    by (cases "z = Fin 0") (simp_all add: ex_ext_def f64_of_rat_small)
  moreover have "toLower (uni ex_ext) ''fact'' \<noteq> ''procedural''"
    by (simp add: toLower_def ex_ext_def string_of_runes_def runes_def rune_chunks.simps decode_rune_def rune_lower_def encode_rune_def)
  ultimately show ?thesis by (simp add: decay_row_def ex_mem_def)
qed

lemma ex_decay: "DecayMemories ex_ext ex_decay_opts ex_quiet =
    (Inr 1, ex_quiet\<lparr>db := ex_db\<lparr>memories := [], fts := []\<rparr>\<rparr>)"
proof -
  have "dc_id (decay_row ex_ext 5 30 (Fin 2) ex_mem) = 1" by (simp add: decay_row_def ex_mem_def Let_def)
  then show ?thesis
    by (simp add: DecayMemories_def ex_decay_opts_def f64_leq_def f64_eq_def Let_def andThen_def quiet_rows_ok check_def
        ex_quiet_def ex_db_def in_tx_def decayOne_def ex_decays withFts_def sql_delete_fts_def sql_delete_memory_def ok_def)
      (simp add: empty_db_def ex_mem_def)
qed


end
