(* ===== verification/CompactionProps.thy ===== *)
theory CompactionProps
  imports MemoryProps
begin

text \<open>
  Compaction: which sessions need it, when a stopping session is blocked, how often, and what
  completes a request.
\<close>

section \<open>Successful runs\<close>

lemma success_quiet: "transparent m \<Longrightarrow> m s = (Inr x, s1) \<Longrightarrow> m (quiet s) = (Inr x, quiet s1)"
  using transparentD(3) [of m s] by (auto simp: prod_eq_iff)

text \<open>What the session needs, as a predicate on its row.\<close>

definition needs_compaction :: "int \<Rightarrow> db \<Rightarrow> session_row \<Rightarrow> bool" where
  "needs_compaction n d r = (s_nobs r \<ge> n \<and> (s_summary r = None \<or> s_summary r = Some []) \<and>
     \<not> has_own_memory (s_id r) (s_started r) d)"

lemma null_str_nil: "null_str x = [] \<longleftrightarrow> x = None \<or> x = Some []"
  by (auto simp: null_str_def split: option.splits)

lemma needs_quiet:
  assumes q: "faults s = []" and wf: "sessions_wf (db s)" and r: "r \<in> set (sessions (db s))"
  shows "SessionNeedsCompaction (s_id r) n s = (Inr (needs_compaction n (db s) r), s)"
proof -
  have "filter (\<lambda>x. s_id x = s_id r) xs = [r]" if "distinct (map s_id xs)" "r \<in> set xs" for xs
    using that
  proof (induction xs)
    case (Cons x xs)
    show ?case
    proof (cases "x = r")
      case True
      then have "filter (\<lambda>x. s_id x = s_id r) xs = []" using Cons.prems by (auto simp: filter_empty_conv) (metis imageI)
      then show ?thesis using True by simp
    next
      case False
      then have "s_id x \<noteq> s_id r" using Cons.prems by auto
      then show ?thesis using False Cons by simp
    qed
  qed simp
  then have "filter (\<lambda>x. s_id x = s_id r) (sessions (db s)) = [r]"
    using wf r by (simp add: sessions_wf_def)
  then show ?thesis using q
    by (auto simp: SessionNeedsCompaction_def andThen_def first_row_def needs_compaction_def null_str_nil has_own_memory_def
        filter_empty_conv)
qed

text \<open>A listing of rows, without failures.\<close>

lemma compactable_success:
  assumes "CompactableSessions n since lm s = (Inr ss, s1)"
  shows "ss = map scan_session (sql_limit (if lm \<le> 0 then 50 else lm)
    (sort_by ended_order (filter (compactable n since (db s)) (sessions (db s)))))"
proof -
  have "CompactableSessions n since lm (quiet s) = (Inr ss, quiet s)"
    using assms by (intro readonly_result op_intros) simp
  then show ?thesis by (simp add: CompactableSessions_def Let_def quiet_rows_ok)
qed

definition latest_ended :: "session_row \<Rightarrow> session_row \<Rightarrow> bool" where
  "latest_ended x y = (null_int (s_ended x) \<ge> null_int (s_ended y))"

lemma ended_sorted: "sorted_wrt latest_ended (sort_by ended_order rs)"
  by (rule sorted_wrt_mono_rel [OF _ ended_sort.sorted]) (auto simp: ended_order_def then_by_def desc_def latest_ended_def)

section \<open>Properties\<close>

text \<open>
  C25. The two ways of asking agree: the sessions listed for compaction are exactly the sessions
  that ended since the given time and of which \<open>SessionNeedsCompaction\<close> says that they need it,
  latest end first, up to the limit (fifty when none is given).
\<close>

theorem CompactableSessions_agree:
  assumes "CompactableSessions n since lm s = (Inr ss, s1)" and "db_wf (db s)"
  shows "\<exists>rows. mset rows = mset (filter (\<lambda>r. SessionNeedsCompaction (s_id r) n (quiet s) = (Inr True, quiet s) \<and>
      (\<exists>e. s_ended r = Some e \<and> since \<le> e)) (sessions (db s))) \<and>
    sorted_wrt latest_ended rows \<and> ss = map scan_session (take (nat (if lm \<le> 0 then 50 else lm)) rows)"
proof -
  have "compactable n since (db s) r \<longleftrightarrow> SessionNeedsCompaction (s_id r) n (quiet s) = (Inr True, quiet s) \<and>
      (\<exists>e. s_ended r = Some e \<and> since \<le> e)" if "r \<in> set (sessions (db s))" for r
    using needs_quiet [of "quiet s" r n] that assms(2)
    by (auto simp: compactable_def needs_compaction_def db_wf_def split: option.splits)
  then have "filter (compactable n since (db s)) (sessions (db s)) =
      filter (\<lambda>r. SessionNeedsCompaction (s_id r) n (quiet s) = (Inr True, quiet s) \<and>
        (\<exists>e. s_ended r = Some e \<and> since \<le> e)) (sessions (db s))"
    by (rule filter_cong [OF refl])
  moreover have "sql_limit (if lm \<le> 0 then 50 else lm) rs = take (nat (if lm \<le> 0 then 50 else lm)) rs" for rs :: "session_row list"
    by (simp add: sql_limit_def)
  ultimately show ?thesis
    using compactable_success [OF assms(1)] ended_sorted
    by (intro exI [of _ "sort_by ended_order (filter (compactable n since (db s)) (sessions (db s)))"]) simp
qed


definition ex_session :: session_row where
  "ex_session = \<lparr>s_id = ''a:x'', s_agent = ''a'', s_external = ''x'', s_project = ''p'', s_started = 1, s_ended = Some 9,
     s_summary = None, s_nobs = 6\<rparr>"

definition ex_busy :: store where
  "ex_busy = \<lparr>db = empty_db\<lparr>sessions := [ex_session]\<rparr>, fts5 = True, faults = []\<rparr>"

lemma ex_busy_wf: "db_wf (db ex_busy)"
  by (simp add: ex_busy_def db_wf_def wf_defs ex_session_def sessionID_def del: wf_frames) (simp add: empty_db_def)

lemma ex_compactable: "CompactableSessions 5 0 0 ex_busy = (Inr [scan_session ex_session], ex_busy)"
  by (simp add: CompactableSessions_def quiet_rows_ok ex_busy_def ex_session_def compactable_def has_own_memory_def empty_db_def
      sql_limit_def)

theorem CompactableSessions_agree_witness:
  "SessionNeedsCompaction ''a:x'' 5 ex_busy = (Inr True, ex_busy)"
proof -
  have "quiet ex_busy = ex_busy" "sessions (db ex_busy) = [ex_session]" "s_id ex_session = ''a:x''"
    by (simp_all add: ex_busy_def quiet_def ex_session_def)
  then show ?thesis
    using CompactableSessions_agree [OF ex_compactable ex_busy_wf] by (auto split: if_splits)
qed

definition open_request :: "string \<Rightarrow> att_row \<Rightarrow> bool" where
  "open_request sid a = (a_session a = sid \<and> a_status a = ''requested'')"

interpretation att_sort: weak_order "then_by (desc a_attempted) (desc a_id)"
  by (intro weak_order_intros)

text \<open>
  C27. Completing a request marks exactly the latest open request of the session (the identifier
  decides between requests of the same time) and nothing else; without an open request it does
  nothing.
\<close>

theorem MarkCompactionCompleted_spec:
  assumes "MarkCompactionCompleted sid t s = (Inr (), s1)" and "db_wf (db s)"
  shows "(\<forall>a \<in> set (attempts (db s)). \<not> open_request sid a) \<and> db s1 = db s \<or>
    (\<exists>a \<in> set (attempts (db s)). open_request sid a \<and>
      (\<forall>b \<in> set (attempts (db s)). open_request sid b \<longrightarrow> a_attempted b < a_attempted a \<or> a_attempted b = a_attempted a \<and> a_id b \<le> a_id a) \<and>
      db s1 = (db s)\<lparr>attempts := map (\<lambda>x. if x = a then x\<lparr>a_status := ''completed'', a_completed := Some t\<rparr> else x) (attempts (db s))\<rparr>)"
proof -
  have at: "atomic_op (MarkCompactionCompleted sid t)" by (rule compaction_atomic)
  have "MarkCompactionCompleted sid t (quiet s) = (Inr (), quiet s1)"
    by (rule success_quiet [OF atomic_transparent [OF at] assms(1)])
  then have "quiet s1 = (quiet s)\<lparr>db := (db s)\<lparr>attempts := map (\<lambda>x. if latest_requested sid (db s) = Some (a_id x)
      then x\<lparr>a_status := ''completed'', a_completed := Some t\<rparr> else x) (attempts (db s))\<rparr>\<rparr>"
    by (simp add: MarkCompactionCompleted_def andThen_def sql_update_attempts_def)
  then have d: "db s1 = (db s)\<lparr>attempts := map (\<lambda>x. if latest_requested sid (db s) = Some (a_id x)
      then x\<lparr>a_status := ''completed'', a_completed := Some t\<rparr> else x) (attempts (db s))\<rparr>"
    by (drule_tac f = db in arg_cong) simp
  let ?ord = "then_by (desc a_attempted) (desc a_id)"
  let ?sorted = "sort_by ?ord (filter (open_request sid) (attempts (db s)))"
  have lr: "latest_requested sid (db s) = (case ?sorted of [] \<Rightarrow> None | x # _ \<Rightarrow> Some (a_id x))"
    unfolding latest_requested_def open_request_def [abs_def] ..
  have mem: "set ?sorted = {a \<in> set (attempts (db s)). open_request sid a}" by auto
  show ?thesis
  proof (cases ?sorted)
    case Nil
    then have "\<forall>a \<in> set (attempts (db s)). \<not> open_request sid a" using mem by auto
    then show ?thesis using Nil lr d by simp
  next
    case (Cons a rest)
    have srt: "sorted_wrt (\<lambda>x y. \<not> ?ord y x) (a # rest)"
      using att_sort.sorted [of "filter (open_request sid) (attempts (db s))"] Cons by simp
    have a: "a \<in> set (attempts (db s))" "open_request sid a" using mem Cons by auto
    have top: "a_attempted b < a_attempted a \<or> a_attempted b = a_attempted a \<and> a_id b \<le> a_id a"
      if "b \<in> set (attempts (db s))" "open_request sid b" for b
    proof -
      have "b \<in> set (a # rest)" using that mem Cons by auto
      then show ?thesis using srt by (auto simp: then_by_def desc_def)
    qed
    have "latest_requested sid (db s) = Some (a_id x) \<longleftrightarrow> x = a" if "x \<in> set (attempts (db s))" for x
      using that a(1) assms(2) Cons lr by (auto simp: db_wf_def att_wf_def distinct_map inj_on_def)
    then have "db s1 = (db s)\<lparr>attempts := map (\<lambda>x. if x = a then x\<lparr>a_status := ''completed'', a_completed := Some t\<rparr> else x) (attempts (db s))\<rparr>"
      unfolding d by (intro arg_cong [where f = "\<lambda>v. (db s)\<lparr>attempts := v\<rparr>"] map_cong) auto
    then show ?thesis using a top by blast
  qed
qed


definition ex_attempt :: att_row where
  "ex_attempt = \<lparr>a_id = 1, a_session = ''a:x'', a_status = ''requested'', a_reason = [], a_attempted = 5, a_completed = None\<rparr>"

definition ex_open :: store where
  "ex_open = \<lparr>db = empty_db\<lparr>sessions := [ex_session], attempts := [ex_attempt], seq_att := 1\<rparr>, fts5 = True, faults = []\<rparr>"

lemma ex_open_wf: "db_wf (db ex_open)"
  by (simp add: ex_open_def db_wf_def wf_defs ex_session_def ex_attempt_def sessionID_def del: wf_frames) (simp add: empty_db_def)

lemma ex_mark: "\<exists>s1. MarkCompactionCompleted ''a:x'' 9 ex_open = (Inr (), s1)"
  by (simp add: MarkCompactionCompleted_def andThen_def ex_open_def sql_update_attempts_def)

theorem MarkCompactionCompleted_spec_witness:
  "\<exists>s1. MarkCompactionCompleted ''a:x'' 9 ex_open = (Inr (), s1) \<and>
     attempts (db s1) = [ex_attempt\<lparr>a_status := ''completed'', a_completed := Some 9\<rparr>]"
proof -
  obtain s1 where r: "MarkCompactionCompleted ''a:x'' 9 ex_open = (Inr (), s1)" using ex_mark by blast
  have "attempts (db ex_open) = [ex_attempt]" "open_request ''a:x'' ex_attempt"
    by (simp_all add: ex_open_def open_request_def ex_attempt_def)
  then have "attempts (db s1) = [ex_attempt\<lparr>a_status := ''completed'', a_completed := Some 9\<rparr>]"
    using MarkCompactionCompleted_spec [OF r ex_open_wf] by auto
  then show ?thesis using r by blast
qed

section \<open>Blocking a stop\<close>

lemma requestCompaction_transparent: "transparent (requestCompaction U sid p a b cfg now)"
  unfolding requestCompaction_def Let_def
  by (auto intro!: transparent_andThen transparent_basic sessions_atomic [THEN atomic_transparent]
      compaction_atomic [THEN atomic_transparent] compaction_readonly [THEN readonly_transparent]
      observations_readonly [THEN readonly_transparent])

lemma expire_fresh:
  "fresh_requested sid c (d\<lparr>attempts := map (\<lambda>x. if a_session x = sid \<and> a_status x = ''requested'' \<and> a_attempted x < c
     then x\<lparr>a_status := ''failed'', a_reason := r\<rparr> else x) (attempts d)\<rparr>) = fresh_requested sid c d"
proof -
  have "length (filter Q (map f xs)) = length (filter Q xs)"
    if "\<And>x. Q (f x) = Q x" for Q :: "att_row \<Rightarrow> bool" and f xs using that by (induction xs) auto
  then show ?thesis by (simp add: fresh_requested_def)
qed


definition ex_cfg :: CompactionOptions where
  "ex_cfg = normalizeCompaction \<lparr>co_Mode = [], co_MinObservations = 0, co_MaxBlockAttempts = 0, co_AttemptTTLSeconds = 0, co_SubagentName = []\<rparr>"

lemma ex_blocks: "\<exists>prompt s1. requestCompaction (uni ex_ext) ''a:x'' ''p'' ''opencode'' False ex_cfg 10 ex_busy = (Inr prompt, s1) \<and> prompt \<noteq> []"
  by (simp add: requestCompaction_def ex_cfg_def normalizeCompaction_def andThen_def EndSession_def sql_update_session_def ex_busy_def
      ex_session_def SessionNeedsCompaction_def first_row_def null_str_def ExpireCompactionAttempts_def sql_update_attempts_def
      FreshRequestedCompactionAttempts_def fresh_requested_def InsertCompactionAttempt_def sql_insert_attempt_def SessionCWDs_def
      quiet_query_rows [where g = "\<lambda>c. c"] empty_db_def compactorPrompt_def Let_def)


end
