(* ===== verification/ServerProps.thy ===== *)
theory ServerProps
  imports MemoryProps
begin

text \<open>
  The HTTP server: every request is answered exactly once, refused requests change nothing, and the
  access log tells what the client saw.
\<close>

section \<open>How handlers answer\<close>

text \<open>An answer: one status, at most one body.\<close>

definition answer_with :: "int \<Rightarrow> wcall list \<Rightarrow> bool" where
  "answer_with s cs = (cs = [WriteHeader s] \<or> (\<exists>t b. cs = [SetType t, WriteHeader s, Write b]))"

text \<open>
  \<open>accepted\<close>: the request was taken on, and only the server can fail it. \<open>proper\<close>: the request
  is taken on, or refused with nothing changed.
\<close>

definition accepted :: "(world \<Rightarrow> hres \<times> world) \<Rightarrow> bool" where
  "accepted k = (\<forall>w. \<not> h_panic (fst (k w)) \<and> (\<exists>s. s \<in> {200, 204, 500, 503} \<and> answer_with s (h_calls (fst (k w)))))"

definition proper :: "(world \<Rightarrow> hres \<times> world) \<Rightarrow> bool" where
  "proper k = (\<forall>w. \<not> h_panic (fst (k w)) \<and> (\<exists>s. answer_with s (h_calls (fst (k w))) \<and>
     (s \<in> {200, 204, 500, 503} \<or> s \<in> {400, 401, 404, 405} \<and> snd (k w) = w)))"

named_theorems proper_intros \<open>handlers that answer properly\<close>

lemma accepted_proper: "accepted k \<Longrightarrow> proper k"
  unfolding accepted_def proper_def by blast

lemma answers [simp]:
  "answer_with s (http_error m s') \<longleftrightarrow> s = s'" "answer_with s (write_json s' t) \<longleftrightarrow> s = s'" "answer_with s [WriteHeader s'] \<longleftrightarrow> s = s'"
  by (auto simp: answer_with_def http_error_def write_json_def)

lemma fixed_answers [simp]:
  "answer_with s method_not_allowed \<longleftrightarrow> s = 405" "answer_with s invalid_request \<longleftrightarrow> s = 400"
  "answer_with s internal_error \<longleftrightarrow> s = 500" "answer_with s no_content \<longleftrightarrow> s = 204" "answer_with s (writeRPC i x) \<longleftrightarrow> s = 200"
  by (auto simp: method_not_allowed_def invalid_request_def internal_error_def no_content_def writeRPC_def)

lemma accepted_reply [proper_intros]: "answer_with s cs \<Longrightarrow> s \<in> {200, 204, 500, 503} \<Longrightarrow> accepted (reply cs)"
  by (auto simp: accepted_def reply_def calls_def)

lemma proper_reply: "answer_with s cs \<Longrightarrow> s \<in> {400, 401, 404, 405} \<Longrightarrow> proper (reply cs)"
  by (auto simp: proper_def reply_def calls_def)

lemma refusals [proper_intros]:
  "proper (reply method_not_allowed)" "proper (reply invalid_request)"
  "proper (reply (http_error m 401))" "proper (reply (http_error m 404))" "proper (reply (http_error m 405))"
  by (auto intro!: proper_reply)

lemma accepted_replies [proper_intros]:
  "accepted (reply (write_json 200 t))" "accepted (reply no_content)" "accepted (reply (writeRPC i x))"
  "accepted (reply [WriteHeader 200])" "accepted (reply (http_error m 503))"
  by (auto intro: accepted_reply)

lemma accepted_logged [proper_intros]: "accepted (\<lambda>w. (\<lparr>h_calls = no_content, h_panic = False, h_log = ls\<rparr>, w))"
  by (auto simp: accepted_def)

lemma accepted_guarded [proper_intros]:
  assumes "answer_with s cs" "s \<in> {500, 503}" and k: "\<And>x. accepted (k x)"
  shows "accepted (guarded m cs k)"
  unfolding accepted_def
proof
  fix w
  show "\<not> h_panic (fst (guarded m cs k w)) \<and> (\<exists>s. s \<in> {200, 204, 500, 503} \<and> answer_with s (h_calls (fst (guarded m cs k w))))"
    using assms(1,2) k [unfolded accepted_def, rule_format]
    by (cases "m w"; cases "fst (m w)") (auto simp: guarded_def calls_def)
qed

lemma accepted_internal [proper_intros]: "(\<And>x. accepted (k x)) \<Longrightarrow> accepted (guarded m internal_error k)"
  by (rule accepted_guarded [where s = 500]) auto

lemma accepted_if [proper_intros]: "accepted a \<Longrightarrow> accepted b \<Longrightarrow> accepted (if c then a else b)"
  by simp

lemma proper_if [proper_intros]: "proper a \<Longrightarrow> proper b \<Longrightarrow> proper (if c then a else b)"
  by simp

lemma accepted_prod [proper_intros]: "(\<And>x y. accepted (k x y)) \<Longrightarrow> accepted (case p of (x, y) \<Rightarrow> k x y)"
  by (cases p) simp

lemma accepted_ensured [proper_intros]: "(\<And>sid t. accepted (k sid t)) \<Longrightarrow> accepted (ensured a s c k)"
  unfolding ensured_def by (intro proper_intros)

lemma proper_posted [proper_intros]: "(\<And>x. accepted (k x)) \<Longrightarrow> proper (posted dec k r)"
  unfolding posted_def by (auto intro!: proper_intros accepted_proper split: option.splits)

lemma accepted_respond [proper_intros]: "accepted (respond E i m)"
  by (auto simp: accepted_def respond_def calls_def split: prod.splits sum.splits)

lemma proper_ServeHTTP [proper_intros]: "proper (ServeHTTP E rt opts r)"
proof -
  have "accepted (dispatch E rt opts req)" for req
    unfolding dispatch_def Let_def by (intro proper_intros)
  then show ?thesis unfolding ServeHTTP_def
    by (auto intro!: proper_intros accepted_proper split: option.splits)
qed

lemma proper_handlers [proper_intros]:
  "proper (capture E opts n r)" "proper (claudeSessionStart opts r)" "proper (opencodeContext opts r)"
  "proper (claudePreCompact E opts r)" "proper (opencodeEnrich E r)" "proper (replaySession E r)"
  "proper (claudeStop E opts r)" "proper (endSession a r)" "proper (subagentStop r)" "proper (opencodeCompact E opts r)"
  unfolding capture_def captureRaw_def claudeSessionStart_def opencodeContext_def claudePreCompact_def opencodeEnrich_def
    replaySession_def claudeStop_def endSession_def subagentStop_def opencodeCompact_def
  by (intro proper_intros)+

lemma proper_probes [proper_intros]: "proper (healthz r)" "proper (readyz opts r)"
proof -
  have "accepted (guarded m (http_error x 503) k)" if "\<And>x. accepted (k x)" for m x and k :: "unit \<Rightarrow> world \<Rightarrow> hres \<times> world"
    using that by (intro accepted_guarded [where s = 503]) auto
  then show "proper (healthz r)" "proper (readyz opts r)"
    unfolding healthz_def readyz_def by (auto intro!: proper_intros accepted_proper)
qed

lemma proper_mux: "(\<And>p h. (p, h) \<in> set rs \<Longrightarrow> proper (h r)) \<Longrightarrow> proper (mux rs r)"
  unfolding mux_def by (auto intro!: proper_intros dest: map_of_SomeD split: option.splits)

lemma proper_logging: "proper (h r) \<Longrightarrow> proper (loggingMiddleware h r)"
  unfolding proper_def by (auto simp: loggingMiddleware_def split_beta)

lemma proper_recover: "proper (h r) \<Longrightarrow> proper (recoverMiddleware h r)"
  unfolding proper_def by (auto simp: recoverMiddleware_def split_beta)

lemma proper_auth: "proper (h r) \<Longrightarrow> proper (authMiddleware h tk r)"
  unfolding authMiddleware_def using refusals(3)
  by (cases "tk = []"; cases "is_probe (rq_Path r)"; cases "rq_Auth r = ''Bearer '' @ tk") simp_all

lemma server_proper: "proper (NewWithOptions E rt opts r)"
  unfolding NewWithOptions_def Let_def
  by (intro proper_recover proper_auth proper_logging proper_mux) (auto simp: routes_def intro!: proper_intros)


section \<open>Refusals\<close>

definition refused :: "(world \<Rightarrow> hres \<times> world) \<Rightarrow> bool" where
  "refused k = (\<forall>w. \<not> h_panic (fst (k w)) \<and> snd (k w) = w \<and>
     (\<exists>s. s \<in> {400, 401, 404, 405} \<and> answer_with s (h_calls (fst (k w)))))"

lemma refused_reply: "answer_with s cs \<Longrightarrow> s \<in> {400, 401, 404, 405} \<Longrightarrow> refused (reply cs)"
  by (auto simp: refused_def reply_def calls_def)

lemma refused_posted: "dec r = None \<Longrightarrow> refused (posted dec k r)"
  by (auto simp: posted_def intro!: refused_reply)

lemma no_body:
  assumes "read_body r = None"
  shows "decodeJSON r = None" "session_cwd r = None" "enrich_args r = None" "replay_args r = None" "stop_args r = None"
  using assms by (simp_all add: decodeJSON_def session_cwd_def enrich_args_def replay_args_def stop_args_def)

lemma refused_handlers:
  assumes "read_body r = None"
  shows "refused (capture E opts n r)" "refused (claudeSessionStart opts r)" "refused (opencodeContext opts r)"
    "refused (claudePreCompact E opts r)" "refused (opencodeEnrich E r)" "refused (replaySession E r)"
    "refused (claudeStop E opts r)" "refused (endSession a r)" "refused (subagentStop r)" "refused (opencodeCompact E opts r)"
  unfolding capture_def captureRaw_def claudeSessionStart_def opencodeContext_def claudePreCompact_def opencodeEnrich_def
    replaySession_def claudeStop_def endSession_def subagentStop_def opencodeCompact_def
  using assms no_body by (simp_all add: refused_posted)

lemma refused_server:
  assumes "\<And>h. map_of (routes E rt (normalizeOptions opts)) (rq_Path r) = Some h \<Longrightarrow> refused (h r)"
  shows "refused (NewWithOptions E rt opts r)"
proof -
  have m: "refused (mux (routes E rt (normalizeOptions opts)) r)"
    using assms by (auto simp: mux_def intro!: refused_reply split: option.splits)
  have "refused (loggingMiddleware (mux (routes E rt (normalizeOptions opts))) r)"
    using m unfolding refused_def by (auto simp: loggingMiddleware_def split_beta)
  then have "refused (authMiddleware (loggingMiddleware (mux (routes E rt (normalizeOptions opts)))) tk r)" for tk
    unfolding authMiddleware_def using refused_reply [of 401 "http_error ''unauthorized'' 401"]
    by (cases "tk = []"; cases "is_probe (rq_Path r)"; cases "rq_Auth r = ''Bearer '' @ tk") simp_all
  then show ?thesis
    unfolding NewWithOptions_def Let_def refused_def by (auto simp: recoverMiddleware_def split_beta)
qed

section \<open>Properties\<close>



text \<open>
  C28. With a token configured, a request without exactly that token gets 401 and nothing happens,
  except for the two probes.
\<close>

theorem unauthorized_refused:
  assumes "op_BearerToken opts \<noteq> []" and "\<not> is_probe (rq_Path r)" and "rq_Auth r \<noteq> ''Bearer '' @ op_BearerToken opts"
  shows "NewWithOptions E rt opts r w = (calls (http_error ''unauthorized'' 401), w)"
  using assms by (simp add: NewWithOptions_def Let_def recoverMiddleware_def authMiddleware_def reply_def calls_def normalizeOptions_def)

theorem unauthorized_refused_witness:
  "NewWithOptions ex_ext ex_rt ex_opts (ex_request\<lparr>rq_Auth := ''Bearer u''\<rparr>) ex_new = (calls (http_error ''unauthorized'' 401), ex_new)"
  by (rule unauthorized_refused) (simp_all add: ex_opts_def ex_request_def is_probe_def)

text \<open>
  C29. A body of more than a mebibyte is refused by every route that reads a body as a hook: the
  answer is 400 (405 if it is not posted), and nothing changes.
\<close>

theorem oversized_refused:
  assumes "rq_Body r = Some b" and "length b > 1048576" and "rq_Path r \<notin> {''/mcp'', ''/healthz'', ''/readyz''}"
  shows "snd (NewWithOptions E rt opts r w) = w \<and>
    (\<exists>s. s \<in> {400, 401, 404, 405} \<and> answer_with s (h_calls (fst (NewWithOptions E rt opts r w))))"
proof -
  have "read_body r = None" using assms(1,2) by (simp add: read_body_def maxRequestBytes_def)
  note hs = refused_handlers [OF this]
  have "refused (NewWithOptions E rt opts r)"
    by (rule refused_server) (use assms(3) in \<open>auto simp: routes_def hs split: if_splits\<close>)
  then show ?thesis unfolding refused_def by blast
qed

definition ex_big :: request where
  "ex_big = ex_request\<lparr>rq_Body := Some (replicate 1048577 CHR ''x'')\<rparr>"

theorem oversized_refused_witness: "snd (NewWithOptions ex_ext ex_rt ex_opts ex_big ex_new) = ex_new"
  by (rule conjunct1 [OF oversized_refused [of _ "replicate 1048577 CHR ''x''"]]) (simp_all add: ex_big_def ex_request_def)


end
