(* ===== verification/ContextProps.thy ===== *)
theory ContextProps
  imports ServerProps
begin

text \<open>
  What reaches a model's context or the full-text engine: stored text cannot leave its line of the
  context, and user text cannot leave its quotes in a query.
\<close>

section \<open>Full-text queries\<close>

lemma decode_high: "128 \<le> byte c \<Longrightarrow> list_all (\<lambda>x. 128 \<le> byte x) (take (snd (decode_rune (c # t))) (c # t))"
proof -
  assume c: "128 \<le> byte c"
  note simps = decode_rune_def Let_def cont_def
  show ?thesis
  proof (cases t)
    case Nil
    then show ?thesis using c by (simp add: simps)
  next
    case (Cons c1 t1)
    show ?thesis
    proof (cases t1)
      case Nil
      then show ?thesis using c Cons by (simp add: simps)
    next
      case (Cons c2 t2)
      then show ?thesis using c \<open>t = c1 # t1\<close> by (cases t2) (simp_all add: simps)
    qed
  qed
qed

lemma decode_ascii:
  assumes "x \<in> set (take (snd (decode_rune s)) s)" and "byte x < 128"
  shows "fst (decode_rune s) = byte x"
proof (cases s)
  case (Cons c t)
  show ?thesis
  proof (cases "byte c < 128")
    case True
    then show ?thesis using assms Cons by (simp add: decode_rune_def)
  next
    case False
    then have "\<forall>x \<in> set (take (snd (decode_rune s)) s). 128 \<le> byte x"
      using decode_high [of c t] Cons by (simp add: list_all_iff)
    then show ?thesis using assms by (meson not_less)
  qed
qed (use assms in simp)

lemma chunk_ascii: "(r, b) \<in> set (rune_chunks s) \<Longrightarrow> x \<in> set b \<Longrightarrow> byte x < 128 \<Longrightarrow> r = byte x"
proof (induction s rule: rune_chunks.induct)
  case (1 s)
  show ?case
  proof (cases "s = []")
    case False
    then have "(r, b) = (fst (decode_rune s), take (snd (decode_rune s)) s) \<or> (r, b) \<in> set (rune_chunks (drop (snd (decode_rune s)) s))"
      using "1.prems"(1) by (subst (asm) rune_chunks.simps) auto
    then show ?thesis using "1.IH" [OF False] "1.prems"(2,3) decode_ascii [of x s] by auto
  qed (use "1.prems" in simp)
qed

lemma token_chars:
  "t \<in> set (fields_loop f cs acc) \<Longrightarrow> x \<in> set t \<Longrightarrow> x \<in> set acc \<or> (\<exists>r b. (r, b) \<in> set cs \<and> x \<in> set b \<and> \<not> f r)"
proof (induction cs arbitrary: acc)
  case Nil
  then show ?case by (simp split: if_splits)
next
  case (Cons c cs)
  obtain r b where c: "c = (r, b)" by (cases c)
  consider "f r" "t = acc" | "f r" "t \<in> set (fields_loop f cs [])" | "\<not> f r" "t \<in> set (fields_loop f cs (acc @ b))"
    using Cons.prems(1) c by (auto split: if_splits)
  then show ?case
  proof cases
    case 1
    then show ?thesis using Cons.prems(2) by simp
  next
    case 2
    then show ?thesis using Cons.IH [OF 2(2) Cons.prems(2)] by auto
  next
    case 3
    then show ?thesis using Cons.IH [OF 3(2) Cons.prems(2)] c by auto
  qed
qed

lemma token_no_quote:
  assumes "t \<in> set (fieldsFunc (\<lambda>r. \<not> token_rune U r) q)"
  shows "quot \<notin> set t"
proof
  assume "quot \<in> set t"
  then obtain r b where "(r, b) \<in> set (rune_chunks q)" "quot \<in> set b" "token_rune U r"
    using token_chars [OF assms [unfolded fieldsFunc_def] \<open>quot \<in> set t\<close>] by auto
  moreover from this have "r = 34" using chunk_ascii [of r b q quot] by (simp add: quot_def)
  ultimately show False by (simp add: token_rune_def is_letter_def is_digit_def)
qed

lemma double_quotes_id: "quot \<notin> set t \<Longrightarrow> double_quotes t = t"
  by (induction t) (auto simp: double_quotes_def)

section \<open>Lines\<close>

definition lines_text :: "string list \<Rightarrow> string" where
  "lines_text ls = concat (map (\<lambda>l. l @ [nl]) ls)"

lemma replaced_no_nl: "nl \<notin> set (replaceByte t nl (CHR '' ''))"
  by (auto simp: replaceByte_def nl_def)

text \<open>The loop over the memories: at most ten are taken, all of them from the list and mentioning a file.\<close>

lemma file_matches_hits:
  "length out < 10 \<Longrightarrow> \<exists>hits. file_matches U needles ms seen out = out @ map (\<lambda>m. replaceByte (mem_Text m) nl (CHR '' '')) hits \<and>
     length out + length hits \<le> 10 \<and> set hits \<subseteq> {m \<in> set ms. list_ex (contains (toLower U (mem_Text m))) needles} \<and>
     distinct (map mem_ID hits) \<and> set (map mem_ID hits) \<inter> set seen = {}"
proof (induction ms arbitrary: seen out)
  case Nil
  then show ?case by (intro exI [of _ "[]"]) simp
next
  case (Cons m ms)
  let ?hit = "list_ex (\<lambda>f. contains (toLower U (mem_Text m)) f) needles \<and> mem_ID m \<notin> set seen"
  show ?case
  proof (cases ?hit)
    case False
    then show ?thesis using Cons.IH [of out seen] Cons.prems by (auto simp: Let_def)
  next
    case True
    let ?out = "out @ [replaceByte (mem_Text m) nl (CHR '' '')]"
    show ?thesis
    proof (cases "length ?out \<ge> 10")
      case True
      then show ?thesis using \<open>?hit\<close> Cons.prems by (intro exI [of _ "[m]"]) (simp add: Let_def)
    next
      case False
      then obtain hits where "file_matches U needles ms (mem_ID m # seen) ?out = ?out @ map (\<lambda>m. replaceByte (mem_Text m) nl (CHR '' '')) hits"
        "length ?out + length hits \<le> 10" "set hits \<subseteq> {m \<in> set ms. list_ex (contains (toLower U (mem_Text m))) needles}"
        "distinct (map mem_ID hits)" "set (map mem_ID hits) \<inter> set (mem_ID m # seen) = {}"
        using Cons.IH [of ?out "mem_ID m # seen"] by auto
      then show ?thesis using \<open>?hit\<close> False by (intro exI [of _ "m # hits"]) (auto simp: Let_def)
    qed
  qed
qed

lemma scanned: "mem_Text (scanMemory r) = m_text r" "mem_ID (scanMemory r) = m_id r"
  by (simp_all add: scanMemory_def)

section \<open>Properties\<close>

text \<open>
  C33. A search text cannot inject full-text query syntax: the query is the runs of letters, digits
  and underscores of the text, each of them quoted, joined by spaces, and no quote occurs inside.
\<close>

theorem ftsQuery_safe:
  "\<exists>ts. ftsQuery U q = join '' '' (map (\<lambda>t. [quot] @ t @ [quot]) ts) \<and> ts = fieldsFunc (\<lambda>r. \<not> token_rune U r) q \<and>
    list_all (\<lambda>t. t \<noteq> [] \<and> quot \<notin> set t) ts"
proof -
  let ?ts = "fieldsFunc (\<lambda>r. \<not> token_rune U r) q"
  have ok: "list_all (\<lambda>t. t \<noteq> [] \<and> quot \<notin> set t) ?ts"
    using token_no_quote fields_loop_nonempty by (auto simp: list_all_iff fieldsFunc_def)
  then have "filter (\<lambda>t. t \<noteq> []) ?ts = ?ts" "map (\<lambda>t. [quot] @ double_quotes t @ [quot]) ?ts = map (\<lambda>t. [quot] @ t @ [quot]) ?ts"
    by (auto simp: list_all_iff double_quotes_id filter_id_conv)
  then have "ftsQuery U q = join '' '' (map (\<lambda>t. [quot] @ t @ [quot]) ?ts)" unfolding ftsQuery_def by (simp only:)
  then show ?thesis using ok by blast
qed

text \<open>
  A stored memory or summary stays on its own line of the context, whatever it contains: the
  context is the two lines of its head, one line for each memory (one in all if there is none), two
  and one for each summary if there are any, three for the hint if there is one, and the closing tag.
\<close>

theorem renderMemoryContext_lines:
  assumes "nl \<notin> set hint"
  shows "\<exists>ls. renderMemoryContext ms ss hint = lines_text ls @ ''</mcb-context>'' \<and> list_all (\<lambda>l. nl \<notin> set l) ls \<and>
    length ls = 2 + (if ms = [] then 1 else length ms) + (if ss = [] then 0 else 2 + length ss) + (if hint = [] then 0 else 3) \<and>
    take (length ms) (drop 2 ls) = map (\<lambda>m. ''- '' @ replaceByte (mem_Text m) nl (CHR '' '')) ms"
proof -
  let ?bul = "\<lambda>t. ''- '' @ replaceByte t nl (CHR '' '')"
  let ?ls = "[''<mcb-context>'', ''## Recent memories''] @
    (if ms = [] then [''No stored memories for this project yet.''] else map (\<lambda>m. ?bul (mem_Text m)) ms) @
    (if ss = [] then [] else [[], ''## Recent session summaries''] @ map (\<lambda>s. ?bul (ses_Summary s)) ss) @
    (if hint = [] then [] else [[], ''## Compaction'', hint])"
  have b: "concat (map (\<lambda>x. bullet (f x)) xs) = lines_text (map (\<lambda>x. ?bul (f x)) xs)" for f and xs :: "'x list"
    by (simp add: lines_text_def bullet_def comp_def)
  have "renderMemoryContext ms ss hint = lines_text ?ls @ ''</mcb-context>''"
    unfolding renderMemoryContext_def b by (simp add: lines_text_def)
  moreover have "list_all (\<lambda>l. nl \<notin> set l) ?ls"
    using assms by (simp add: list.pred_map comp_def replaced_no_nl) (simp add: nl_def list_all_iff)
  ultimately show ?thesis by (intro exI [of _ ?ls]) simp
qed

theorem renderMemoryContext_lines_witness:
  "\<exists>ls. renderMemoryContext [scanMemory (ex_mem\<lparr>m_text := [nl] @ ''</mcb-context>''\<rparr>)] [] [] = lines_text ls @ ''</mcb-context>'' \<and> length ls = 3"
  using renderMemoryContext_lines [of "[]" "[scanMemory (ex_mem\<lparr>m_text := [nl] @ ''</mcb-context>''\<rparr>)]" "[]"] by auto

text \<open>
  The context for files lists at most ten memories, no memory twice, all of them active memories
  of the project whose text mentions one of the files (without regard to case), and it is empty
  when there is none.
\<close>

theorem renderFileMemoryContext_spec:
  assumes "renderFileMemoryContext E p files s = (Inr t, s1)"
  shows "\<exists>hits. length hits \<le> 10 \<and> distinct (map m_id hits) \<and>
    list_all (\<lambda>m. active_in p (db s) m \<and> list_ex (\<lambda>f. trimSpace f \<noteq> [] \<and>
      contains (toLower (uni E) (m_text m)) (toLower (uni E) (trimSpace f))) files) hits \<and>
    t = (if hits = [] then [] else lines_text ([''<mcb-file-context>'', ''## Relevant file memories''] @
      map (\<lambda>m. ''- '' @ replaceByte (m_text m) nl (CHR '' '')) hits) @ ''</mcb-file-context>'')"
proof -
  let ?rows = "sql_limit (normalizedStoreLimit 100 10 100) (sort_by mem_desc (active p (db s)))"
  let ?needles = "file_needles (uni E) files"
  let ?hit = "\<lambda>m. active_in p (db s) m \<and> list_ex (\<lambda>f. trimSpace f \<noteq> [] \<and>
      contains (toLower (uni E) (m_text m)) (toLower (uni E) (trimSpace f))) files"
  have run: "renderFileMemoryContext E p files (quiet s) = (Inr t, quiet s)"
    using assms by (intro readonly_result srv.memory_context_readonly(2)) simp
  have recent: "RecentMemories p 100 (quiet s) = (Inr (map scanMemory ?rows), quiet s)"
    by (simp add: RecentMemories_def Let_def quiet_rows_ok recent_rows_def active_def normalizedStoreLimit_def)
  obtain hits where fm: "file_matches (uni E) ?needles (map scanMemory ?rows) [] [] = map (\<lambda>m. replaceByte (mem_Text m) nl (CHR '' '')) hits"
    and hits: "length hits \<le> 10" "distinct (map mem_ID hits)"
      "set hits \<subseteq> {m \<in> set (map scanMemory ?rows). list_ex (contains (toLower (uni E) (mem_Text m))) ?needles}"
    using file_matches_hits [of "[]" "uni E" ?needles "map scanMemory ?rows" "[]"] by auto
  have "\<forall>x \<in> set hits. \<exists>r. r \<in> set ?rows \<and> scanMemory r = x" using hits(3) by auto
  then obtain g where g: "\<forall>x \<in> set hits. g x \<in> set ?rows \<and> scanMemory (g x) = x" by metis
  then have maps: "map (\<lambda>m. m_text m) (map g hits) = map mem_Text hits" "map m_id (map g hits) = map mem_ID hits"
    by (simp_all add: comp_def) (metis scanned)+
  have rel: "list_all ?hit (map g hits)"
  proof -
    have "?hit (g x)" if "x \<in> set hits" for x
    proof -
      have x: "g x \<in> set ?rows" "scanMemory (g x) = x" using g that by auto
      have eq: "mem_Text x = m_text (g x)" using scanned(1) [of "g x"] unfolding x(2) .
      then show ?thesis using x(1) that hits(3) set_sql_limit eq
        by (fastforce simp: active_def active_in_def file_needles_def list_ex_iff)
    qed
    then show ?thesis by (simp add: list_all_iff)
  qed
  have t: "t = (if hits = [] then [] else lines_text ([''<mcb-file-context>'', ''## Relevant file memories''] @
      map (\<lambda>m. ''- '' @ replaceByte (mem_Text m) nl (CHR '' '')) hits) @ ''</mcb-file-context>'')"
  proof (cases "files = []")
    case True
    then have "?needles = []" by (simp add: file_needles_def)
    then have "hits = []" using hits(3) by simp
    then show ?thesis using run True by (simp add: renderFileMemoryContext_def)
  next
    case False
    have "?needles = [] \<Longrightarrow> hits = []" using hits(3) by simp
    then show ?thesis using run False
      by (auto simp: renderFileMemoryContext_def andThen_def recent fm lines_text_def comp_def split: if_splits)
  qed
  have bul: "map (\<lambda>m. ''- '' @ replaceByte (m_text m) nl (CHR '' '')) (map g hits) = map (\<lambda>m. ''- '' @ replaceByte (mem_Text m) nl (CHR '' '')) hits"
    using arg_cong [OF maps(1), of "map (\<lambda>t. ''- '' @ replaceByte t nl (CHR '' ''))"] by (simp add: comp_def)
  show ?thesis
  proof (intro exI conjI)
    show "length (map g hits) \<le> 10" using hits(1) by simp
    show "distinct (map m_id (map g hits))" unfolding maps(2) by (rule hits(2))
    show "list_all ?hit (map g hits)" by (rule rel)
    show "t = (if map g hits = [] then [] else lines_text ([''<mcb-file-context>'', ''## Relevant file memories''] @
      map (\<lambda>m. ''- '' @ replaceByte (m_text m) nl (CHR '' '')) (map g hits)) @ ''</mcb-file-context>'')"
      unfolding bul using t by simp
  qed
qed


lemma ex_enrich: "renderFileMemoryContext ex_ext ''p'' [''t''] ex_quiet = (Inr (lines_text
    [''<mcb-file-context>'', ''## Relevant file memories'', ''- t''] @ ''</mcb-file-context>''), ex_quiet)"
proof -
  have "char_n 116 = CHR ''t''" by code_simp
  then have "trimSpace ''t'' = ''t''" "toLower (uni ex_ext) ''t'' = ''t''"
    by (simp_all add: trimSpace_def rune_chunks.simps decode_rune_def is_space_def toLower_def runes_def rune_lower_def
        string_of_runes_def encode_rune_def valid_rune_def)
  then show ?thesis
    by (simp add: renderFileMemoryContext_def andThen_def ex_recent [unfolded RecentMemories_def] RecentMemories_def quiet_rows_ok
        recent_rows_def ex_quiet_def ex_db_def ex_mem_def sql_limit_def file_needles_def scanMemory_def hasPrefix_def
        replaceByte_def nl_def lines_text_def)
qed

theorem renderFileMemoryContext_spec_witness:
  "\<exists>hits. list_all (active_in ''p'' ex_db) hits \<and> length hits \<le> 10 \<and> hits \<noteq> []"
proof -
  have "lines_text [''<mcb-file-context>'', ''## Relevant file memories'', ''- t''] @ ''</mcb-file-context>'' \<noteq> []" by simp
  with renderFileMemoryContext_spec [OF ex_enrich] show ?thesis
    by (auto simp: list_all_iff ex_quiet_def split: if_splits)
qed

end
