(* ===== verification/McpProps.thy ===== *)
theory McpProps
  imports CompactionProps ContextProps
begin

text \<open>
  The tools: which of them only read, what deletes, what a saved memory becomes, and how the
  endpoint reports errors.
\<close>

section \<open>Tools that only read\<close>

definition reading_tools :: "string list" where
  "reading_tools = [''memory_search'', ''memory_sessions'', ''memory_session_observations'', ''memory_profile'',
     ''memory_timeline'', ''memory_file_history'', ''memory_patterns'', ''memory_export'', ''memory_audit'',
     ''memory_verify'', ''memory_replay'']"

abbreviation unchanged :: "db \<Rightarrow> bool \<Rightarrow> db \<Rightarrow> bool" where
  "unchanged d0 \<equiv> \<lambda>b d. d = d0"

lemma same_search: "wkeeps (unchanged d0) (search E rt opts q p l False)"
proof -
  have "wkeeps (unchanged d0) (Hybrid E (rt_ranked rt) (searcher opts False) qu)" for qu
    by (rule no_touch_readonly [OF refl]) (simp add: searcher_def)
  moreover have "wkeeps (unchanged d0) (text_search E q p l False)"
    unfolding text_search_def by (auto intro!: wkeeps_intros keeps_readonly op_intros)
  ultimately show ?thesis
    unfolding search_def by (auto intro!: wkeeps_intros split: sum.splits)
qed

lemma same_decoded: "(\<And>x. wkeeps (unchanged d0) (k x)) \<Longrightarrow> wkeeps (unchanged d0) (decoded m v valid k)"
  unfolding decoded_def by (auto intro!: wkeeps_intros split: option.splits)

lemma same_readers:
  "wkeeps (unchanged d0) (memoryRecall E rt opts raw False)" "wkeeps (unchanged d0) (memorySessions opts raw)"
  "wkeeps (unchanged d0) (memorySessionObservations E raw)" "wkeeps (unchanged d0) (memoryProfile E opts raw)"
  "wkeeps (unchanged d0) (memoryTimeline E rt opts raw)" "wkeeps (unchanged d0) (memoryFileHistory E opts raw)"
  "wkeeps (unchanged d0) (memoryPatterns E opts raw)" "wkeeps (unchanged d0) (memoryExport E opts raw)"
  "wkeeps (unchanged d0) (memoryAudit raw)" "wkeeps (unchanged d0) (memoryVerify E raw)"
  "wkeeps (unchanged d0) (memoryReplay E raw)"
  unfolding memoryRecall_def memorySessions_def memorySessionObservations_def memoryProfile_def profilePayload_def
    memoryTimeline_def memoryFileHistory_def memoryPatterns_def memoryExport_def memoryAudit_def
    memoryVerify_def memoryReplay_def Let_def
  by (auto intro!: wkeeps_intros same_decoded same_search keeps_readonly op_intros split: prod.splits sum.splits)

section \<open>Properties\<close>

text \<open>
  C34. The eleven tools that read never change the database, whatever their arguments, the embedder
  and the driver do; in particular \<open>memory_search\<close> does not refresh the access times that
  \<open>memory_recall\<close> refreshes.
\<close>

theorem reading_tools_read_only:
  assumes "name \<in> set reading_tools"
  shows "db (store_of (snd (run_tool E rt opts name arg w))) = db (store_of w)"
proof -
  have "wkeeps (unchanged (db (store_of w))) (run_tool E rt opts name arg)"
    using assms same_readers [of "db (store_of w)"] unfolding reading_tools_def run_tool_def by auto
  then show ?thesis by (rule wkeeps_db)
qed

theorem reading_tools_read_only_witness:
  "db (store_of (snd (run_tool ex_ext ex_rt (op_MCPOptions ex_opts) ''memory_export'' ''{}'' ex_new))) = db (store_of ex_new)"
  by (rule reading_tools_read_only) (simp add: reading_tools_def)

text \<open>
  C35. \<open>memory_forget\<close> removes a memory only when it was asked to: when the memories changed, the
  arguments carried identifiers, the confirmation and no query, and the memories with exactly these
  identifiers are gone; all others are as they were.
\<close>

theorem forget_guarded:
  assumes "memoryForget E rt opts raw w = (r, w1)" and "memories (db (store_of w1)) \<noteq> memories (db (store_of w))"
  shows "\<exists>q p dry ids l. forget_args raw = Some (q, p, dry, ids, True, l) \<and> blank q \<and> ids \<noteq> [] \<and>
    memories (db (store_of w1)) = filter (\<lambda>m. m_id m \<notin> set ids) (memories (db (store_of w)))"
proof -
  obtain q p dry ids conf l where args: "forget_args raw = Some (q, p, dry, ids, conf, l)"
    using assms by (cases "forget_args raw") (auto simp: memoryForget_def decoded_def)
  have "\<not> (\<not> blank q)"
  proof
    assume nb: "\<not> blank q"
    let ?m = "if \<not> dry then fail (Msg ''query forget requires dry_run=true'')
      else andThen (search E rt opts q (project opts p) (normalizedLimit l 10 100) False) (\<lambda>ms.
        ok (gomap [(''candidates'', memoryDTOs ms), (''dry_run'', JBool True)]))"
    have "memoryForget E rt opts raw = ?m" using nb args by (simp add: memoryForget_def decoded_def)
    moreover have "wkeeps (unchanged (db (store_of w))) ?m"
      by (auto intro!: wkeeps_intros same_search)
    ultimately have "db (store_of (snd (memoryForget E rt opts raw w))) = db (store_of w)" by (simp only: wkeeps_db)
    then show False using assms by simp
  qed
  then have q: "blank q" by simp
  have c: "ids \<noteq> []" "conf" using assms q args by (auto simp: memoryForget_def decoded_def split: if_splits)
  have m: "memoryForget E rt opts raw = andThen (on_store (DeleteMemories ids)) (\<lambda>n. ok (gomap [(''deleted'', JInt n)]))"
    using q c args by (simp add: memoryForget_def decoded_def)
  obtain rd s1 where d: "DeleteMemories ids (store_of w) = (rd, s1)" by (cases "DeleteMemories ids (store_of w)")
  have s1: "store_of w1 = s1" using assms(1) d unfolding m by (auto simp: andThen_def on_store_def split: sum.splits)
  have "memories (db s1) = filter (\<lambda>m. m_id m \<notin> set ids) (memories (db (store_of w)))"
  proof (cases rd)
    case (Inl e)
    then have "db s1 = db (store_of w)" using atomic_failure [OF memories_atomic(4)] d by blast
    then show ?thesis using assms(2) s1 by simp
  qed (use delete_success d in blast)
  then show ?thesis using args q c s1 by (intro exI [of _ q] exI [of _ p] exI [of _ dry] exI [of _ ids] exI [of _ l]) simp
qed

definition ex_forget :: string where
  "ex_forget = ''{'' @ [quot] @ ''ids'' @ [quot] @ '':[1],'' @ [quot] @ ''confirm'' @ [quot] @ '':true}''"

lemma ex_forget_parse: "parse_json ex_forget = Some (JObj [(''ids'', JArr [JNum ''1'']), (''confirm'', JBool True)])"
  by (simp add: parse_json_def ex_forget_def json_eval)

lemma ex_forget_args: "forget_args ex_forget = Some ([], [], False, [1], True, 0)"
  by (simp add: forget_args_def unmarshal_struct_def ex_forget_parse field_eval bool_field_def ints_field_def int_field_def
      put_bool_def put_list_def put_int_def parse_int_def Let_def is_dec_def dec_value_def)

lemma ex_forgets: "memories (db (store_of (snd (memoryForget ex_ext ex_rt (op_MCPOptions ex_opts) ex_forget ex_world)))) = []"
  by (simp add: memoryForget_def decoded_def ex_forget_args blank_def trimSpace_def andThen_def on_store_def ex_world_def
      DeleteMemories_def in_tx_def deleteOne_def withFts_def sql_delete_fts_def sql_delete_memory_def ex_db_def ex_mem_def
      insertAuditTx_def sql_insert_audit_def empty_db_def)

theorem forget_guarded_witness:
  "\<exists>ids q p dry l. forget_args ex_forget = Some (q, p, dry, ids, True, l) \<and> ids \<noteq> []"
proof -
  have "memories (db (store_of (snd (memoryForget ex_ext ex_rt (op_MCPOptions ex_opts) ex_forget ex_world)))) \<noteq> memories (db (store_of ex_world))"
    unfolding ex_forgets by (simp add: ex_world_def ex_db_def)
  from forget_guarded [OF prod.collapse [symmetric] this] show ?thesis by blast
qed

section \<open>Saving\<close>

text \<open>What the steps around the insertion leave of the memories.\<close>

lemma keep_memories:
  "keeps (\<lambda>b d. memories d = ms) (EnsureSession a x p t)"
  "keeps (\<lambda>b d. memories d = ms) (MarkCompactionCompleted sid t)"
  "keeps (\<lambda>b d. memories d = ms) (SaveMemoryEmbedding i md vec)"
  unfolding EnsureSession_def ensureSession_def MarkCompactionCompleted_def SaveMemoryEmbedding_def
  by (auto intro!: keeps_intros keeps_call simp: sql_insert_session_def sql_update_attempts_def sql_upsert_embedding_def split: if_splits)

lemma wkeep_ensure: "wkeeps (\<lambda>b d. memories d = ms) (ensureNormalizedSession sid p)"
proof -
  have "wkeeps (\<lambda>b d. memories d = ms) (\<lambda>w. case on_store (EnsureSession a x p t) w of
          (Inl e, w1) \<Rightarrow> (Inl (Wrap ''ensure session'' e), w1) | (Inr _, w1) \<Rightarrow> (Inr (), w1))" for a x t
    by (rule wkeeps_snd [OF wkeeps_store [OF keep_memories(1) [of ms a x p t]]]) (simp split: prod.splits sum.splits)
  then show ?thesis unfolding ensureNormalizedSession_def
    by (auto intro!: wkeeps_intros split: list.splits)
qed

lemma wkeep_embed: "wkeeps (\<lambda>b d. memories d = ms) (saveMemoryEmbedding E opts i)"
  unfolding saveMemoryEmbedding_def brk_open_def brk_failure_def brk_success_def Let_def
  by (intro wkeeps_intros wkeeps_cases keep_memories)

lemma wkeep_ignore: "wkeeps I m \<Longrightarrow> wkeeps I (ignore m)"
  unfolding wkeeps_def ignore_def by simp

lemma kept: "wkeeps (\<lambda>b d. memories d = memories (db (store_of w))) m \<Longrightarrow> m w = (r, w1) \<Longrightarrow>
    memories (db (store_of w1)) = memories (db (store_of w))"
  unfolding wkeeps_def by (metis snd_conv)

text \<open>
  C36. A memory that \<open>memory_save\<close> confirms is in the database: the text was not blank and the
  importance in range, exactly one row was added, with the text, the project (the default one when
  none is given), the tier (\<open>semantic\<close> when none is given), the source \<open>mcp\<close>, the session, and
  an importance that is one half for a memory of a session and one otherwise when none is given;
  and the answer carries its identifier, whether or not the embedding could be stored.
\<close>

theorem memorySave_stores:
  assumes "memorySave E opts raw w = (Inr v, w1)"
  shows "\<exists>tx tier p imp sid row m. save_args raw = Some (tx, tier, p, imp, sid) \<and> \<not> blank tx \<and> \<not> out_of_range imp \<and>
    memories (db (store_of w1)) = memories (db (store_of w)) @ [row] \<and>
    m_text row = tx \<and> m_project row = (if p = [] then mo_DefaultProject opts else p) \<and>
    m_tier row = (if tier = [] then ''semantic'' else tier) \<and> m_source row = ''mcp'' \<and>
    m_session row = (if sid = [] then None else Some sid) \<and> m_superseded row = None \<and>
    m_importance row = (if imp = Fin 0 then (if sid = [] then Fin 1 else Fin (1 / 2)) else imp) \<and>
    v = gomap ((''id'', JInt (m_id row)) # (if m = [] then [] else [(''embedding_error'', JStr m)]))"
proof -
  obtain tx tier p imp sid where sa: "save_args raw = Some (tx, tier, p, imp, sid)" "\<not> blank tx"
    using assms by (cases "save_args raw") (auto simp: memorySave_def decoded_def split: if_splits)
  have rng: "\<not> out_of_range imp" using assms sa by (auto simp: memorySave_def decoded_def Let_def split: if_splits)
  let ?imp = "if f64_eq imp (Fin 0) \<and> sid \<noteq> [] then Fin (1 / 2) else imp"
  define inp where "inp = (\<lambda>t. \<lparr>mi_Project = project opts p, mi_Text = tx, mi_Tier = default_str tier ''semantic'', mi_Source = ''mcp'',
    mi_Importance = ?imp, mi_SessionID = sid, mi_CreatedAt = t\<rparr>)"
  define m1 where "m1 = (if sid \<noteq> [] then ensureNormalizedSession sid (project opts p) else ok ())"
  define m3 where "m3 = (if sid \<noteq> [] then andThen now_ms (\<lambda>t2. ignore (on_store (MarkCompactionCompleted sid t2))) else ok ())"
  have run: "andThen m1 (\<lambda>_. andThen now_ms (\<lambda>t. andThen (attempt (on_store (AddMemory (inp t)))) (\<lambda>r. case r of
      Inl e \<Rightarrow> fail (Wrap ''save memory'' e)
    | Inr i \<Rightarrow> andThen m3 (\<lambda>_. andThen (saveMemoryEmbedding E opts i) (\<lambda>m.
        ok (gomap (if m \<noteq> [] then [(''id'', JInt i), (''embedding_error'', JStr m)] else [(''id'', JInt i)]))))))) w = (Inr v, w1)"
    using assms sa rng unfolding inp_def m1_def m3_def
    by (simp add: memorySave_def decoded_def Let_def split del: if_split)
  obtain w2 t w3 where a: "m1 w = (Inr (), w2)" "now_ms w2 = (Inr t, w3)"
    and b: "andThen (attempt (on_store (AddMemory (inp t)))) (\<lambda>r. case r of Inl e \<Rightarrow> fail (Wrap ''save memory'' e)
    | Inr i \<Rightarrow> andThen m3 (\<lambda>_. andThen (saveMemoryEmbedding E opts i) (\<lambda>m.
        ok (gomap (if m \<noteq> [] then [(''id'', JInt i), (''embedding_error'', JStr m)] else [(''id'', JInt i)]))))) w3 = (Inr v, w1)"
    using run by (auto simp: andThen_Inr)
  obtain r s4 where add: "AddMemory (inp t) (store_of w3) = (r, s4)" by (cases "AddMemory (inp t) (store_of w3)")
  obtain i where r: "r = Inr i" using b add by (cases r) (auto simp: andThen_Inr attempt_def on_store_def)
  let ?w4 = "w3\<lparr>store_of := s4\<rparr>"
  obtain w5 m where c: "m3 ?w4 = (Inr (), w5)" "saveMemoryEmbedding E opts i w5 = (Inr m, w1)"
    and v: "v = gomap (if m \<noteq> [] then [(''id'', JInt i), (''embedding_error'', JStr m)] else [(''id'', JInt i)])"
    using b add r by (auto simp: andThen_Inr attempt_def on_store_def ok_def)
  have "wkeeps (\<lambda>b d. memories d = ms) m1" "wkeeps (\<lambda>b d. memories d = ms) m3" for ms
    unfolding m1_def m3_def by (auto intro!: wkeeps_intros wkeep_ensure wkeep_ignore keep_memories)
  note pres = this
  have "memories (db (store_of w3)) = memories (db (store_of w))"
    using kept [OF pres(1) a(1)] kept [OF wkeeps_basic(3) a(2)] by simp
  moreover have "memories (db (store_of w1)) = memories (db s4)"
    using kept [OF pres(2) c(1)] kept [OF wkeep_embed c(2)] by simp
  moreover note add_success [OF add [unfolded r]]
  ultimately have mem: "memories (db (store_of w1)) = memories (db (store_of w)) @ [(new_row (inp t))\<lparr>m_id := i\<rparr>]" by simp
  let ?row = "(new_row (inp t))\<lparr>m_id := i\<rparr>"
  have v': "v = gomap ((''id'', JInt (m_id ?row)) # (if m = [] then [] else [(''embedding_error'', JStr m)]))"
    using v by simp
  have flds: "m_text ?row = tx" "m_project ?row = (if p = [] then mo_DefaultProject opts else p)"
    "m_tier ?row = (if tier = [] then ''semantic'' else tier)" "m_source ?row = ''mcp''"
    "m_session ?row = (if sid = [] then None else Some sid)" "m_superseded ?row = None"
    "m_importance ?row = (if imp = Fin 0 then (if sid = [] then Fin 1 else Fin (1 / 2)) else imp)"
    by (simp_all add: new_row_def inp_def project_def default_str_def nullif_str_def f64_eq_def)
  show ?thesis
    by (rule exI [of _ tx], rule exI [of _ tier], rule exI [of _ p], rule exI [of _ imp], rule exI [of _ sid],
        rule exI [of _ ?row], rule exI [of _ m], intro conjI) (fact sa rng mem flds v')+
qed

definition ex_save :: string where
  "ex_save = ''{'' @ [quot] @ ''text'' @ [quot] @ '':'' @ [quot] @ ''t'' @ [quot] @ ''}''"

lemma ex_save_args: "save_args ex_save = Some (''t'', [], [], Fin 0, [])"
proof -
  have "parse_json ex_save = Some (JObj [(''text'', JStr ''t'')])"
    by (simp add: parse_json_def ex_save_def json_eval)
  then show ?thesis by (simp add: save_args_def unmarshal_struct_def field_eval float_field_def)
qed

lemma ex_saves: "\<exists>v w1. memorySave ex_ext (op_MCPOptions ex_opts) ex_save ex_new = (Inr v, w1)"
proof -
  have "trimSpace ''t'' \<noteq> []" by (simp add: trimSpace_def rune_chunks.simps decode_rune_def is_space_def)
  then show ?thesis
    by (simp add: memorySave_def decoded_def ex_save_args blank_def out_of_range_def f64_eq_def andThen_def now_ms_def ex_new_def
        attempt_def on_store_def AddMemory_def in_tx_def withFts_def sql_insert_memory_def sql_insert_fts_def insertAuditTx_def
        sql_insert_audit_def nullif_str_def ex_store_def empty_db_def saveMemoryEmbedding_def ex_opts_def Let_def)
qed

theorem memorySave_stores_witness:
  "\<exists>row. memories (db (store_of (snd (memorySave ex_ext (op_MCPOptions ex_opts) ex_save ex_new)))) = [row] \<and>
     m_text row = ''t'' \<and> m_tier row = ''semantic'' \<and> m_project row = ''p''"
proof -
  obtain v w1 where r: "memorySave ex_ext (op_MCPOptions ex_opts) ex_save ex_new = (Inr v, w1)" using ex_saves by blast
  have "memories (db (store_of ex_new)) = []" "mo_DefaultProject (op_MCPOptions ex_opts) = ''p''"
    by (simp_all add: ex_new_def ex_store_def empty_db_def ex_opts_def)
  then show ?thesis using memorySave_stores [OF r] r by (auto simp: ex_save_args)
qed

section \<open>Errors\<close>

text \<open>
  C37. The endpoint reports errors as JSON-RPC asks: every posted body is answered with status 200
  and a response that carries either a result or one of three error codes; a body that is not a
  request (-32700) and an unknown method (-32601) change nothing; and the response to a request
  carries the request's identifier.
\<close>

theorem ServeHTTP_responds:
  assumes "rq_Method r = ''POST''"
  shows "\<exists>i res. h_calls (fst (ServeHTTP E rt opts r w)) = writeRPC i res \<and>
    (case res of Inr _ \<Rightarrow> True | Inl (code, _) \<Rightarrow> code \<in> {-32700, -32601, -32602} \<and>
       (code \<noteq> -32602 \<longrightarrow> snd (ServeHTTP E rt opts r w) = w) \<and> (code = -32700 \<longrightarrow> i = None)) \<and>
    (\<forall>b req. rq_Body r = Some b \<and> decode_rpc b = Some req \<and> rpc_JSONRPC req = ''2.0'' \<and> rpc_Method req \<noteq> [] \<longrightarrow> i = rpc_ID req)"
proof -
  let ?ok = "\<lambda>i p. \<exists>res. h_calls (fst p) = writeRPC i res \<and>
    (case res of Inr _ \<Rightarrow> True | Inl (code, _) \<Rightarrow> code \<in> {-32700, -32601, -32602} \<and>
       (code \<noteq> -32602 \<longrightarrow> snd p = w) \<and> (code = -32700 \<longrightarrow> i = None))"
  have rep: "?ok i (reply (writeRPC i res) w)" if "case res of Inr _ \<Rightarrow> True | Inl (code, _) \<Rightarrow> code \<in> {-32700, -32601} \<and> (code = -32700 \<longrightarrow> i = None)" for i res
    using that by (intro exI [of _ res]) (auto simp: reply_def calls_def split: sum.splits)
  have resp: "?ok i (respond E i m w)" for i m
    by (cases "m w"; cases "fst (m w)") (auto simp: respond_def calls_def intro: exI [of _ "Inl (-32602, x)" for x] exI [of _ "Inr x" for x])
  have d: "?ok (rpc_ID req) (dispatch E rt opts req w)" for req
  proof -
    have ifI: "?ok i (a w) \<Longrightarrow> ?ok i (b w) \<Longrightarrow> ?ok i ((if c then a else b) w)" for i c and a b :: "world \<Rightarrow> hres \<times> world" by simp
    show ?thesis unfolding dispatch_def Let_def by (intro ifI resp rep) simp_all
  qed
  let ?bad = "\<lambda>b. case decode_rpc b of None \<Rightarrow> True | Some req \<Rightarrow> rpc_JSONRPC req \<noteq> ''2.0'' \<or> rpc_Method req = []"
  show ?thesis
  proof (cases "\<exists>b req. rq_Body r = Some b \<and> decode_rpc b = Some req \<and> rpc_JSONRPC req = ''2.0'' \<and> rpc_Method req \<noteq> []")
    case True
    then obtain b req where b: "rq_Body r = Some b" "decode_rpc b = Some req" "rpc_JSONRPC req = ''2.0''" "rpc_Method req \<noteq> []" by blast
    then have eq: "ServeHTTP E rt opts r = dispatch E rt opts req" using assms by (simp add: ServeHTTP_def)
    from d [of req] obtain res where "h_calls (fst (dispatch E rt opts req w)) = writeRPC (rpc_ID req) res"
      "case res of Inr _ \<Rightarrow> True | Inl (code, _) \<Rightarrow> code \<in> {-32700, -32601, -32602} \<and>
       (code \<noteq> -32602 \<longrightarrow> snd (dispatch E rt opts req w) = w) \<and> (code = -32700 \<longrightarrow> rpc_ID req = None)" by blast
    then show ?thesis unfolding eq using b
      by (intro exI [of _ "rpc_ID req"] exI [of _ res] conjI) simp_all
  next
    case False
    then have "ServeHTTP E rt opts r = reply (writeRPC None (Inl (- 32700, ''invalid json-rpc request'')))"
      using assms by (auto simp: ServeHTTP_def split: option.splits Option.bind_splits)
    then show ?thesis using False by (intro exI [of _ None]) (auto simp: reply_def calls_def)
  qed
qed

definition ex_rpc :: request where
  "ex_rpc = \<lparr>rq_Method = ''POST'', rq_Path = ''/mcp'', rq_Auth = ''Bearer t'', rq_Body = None\<rparr>"

theorem ServeHTTP_responds_witness:
  "\<exists>i res. h_calls (fst (ServeHTTP ex_ext ex_rt (op_MCPOptions ex_opts) ex_rpc ex_new)) = writeRPC i res"
  using ServeHTTP_responds [of ex_rpc ex_ext ex_rt "op_MCPOptions ex_opts" ex_new] by (auto simp: ex_rpc_def)

end
