(* ===== verification/ReportProps.thy ===== *)
theory ReportProps
  imports McpProps
begin

text \<open>
  The listings that merge or search several tables (timeline, file history), the vectors that are
  stored, and concrete runs that show where the code does not do what it means to.
\<close>

section \<open>Scans\<close>

lemma each_determined:
  assumes "\<And>r x s1. r \<in> set rs \<Longrightarrow> f r s = (Inr x, s1) \<Longrightarrow> x = g r \<and> s1 = s"
  shows "each f rs s = (Inr xs, s1) \<Longrightarrow> xs = map g rs \<and> s1 = s"
  using assms
proof (induction rs arbitrary: xs)
  case (Cons r rs)
  then obtain y s2 ys where y: "f r s = (Inr y, s2)" "each f rs s2 = (Inr ys, s1)" "xs = y # ys"
    by (auto simp: andThen_Inr ok_def)
  then have "y = g r" and "s2 = s" using Cons.prems(2) [of r y s2] by simp_all
  moreover have "ys = map g rs \<and> s1 = s"
    using y \<open>s2 = s\<close> Cons.prems(2) by (intro Cons.IH) (simp, meson list.set_intros(2))
  ultimately show ?case using y by simp
qed (simp add: ok_def)

lemma scan_observations:
  assumes "scanObservations E q s = (Inr xs, s1)"
  shows "xs = map (observation_of E) (q (db s))"
proof -
  have "scanObservations E q (quiet s) = (Inr xs, quiet s)"
    using assms by (intro readonly_result op_intros) simp
  then obtain s2 where "each (\<lambda>r. andThen (check ''scan observation'') (\<lambda>_. scanObservation E r)) (q (db s)) (quiet s) = (Inr xs, s2)"
    by (auto simp: scanObservations_def query_rows_def andThen_Inr)
  then have "xs = map (observation_of E) (q (db s)) \<and> s2 = quiet s"
    by (rule each_determined [rotated])
      (auto simp: andThen_def scanObservation_def observation_of_def split: sum.splits)
  then show ?thesis ..
qed

lemma scan_memories:
  assumes "scanMemories q s = (Inr ms, s1)"
  shows "ms = map scanMemory (q (db s))"
proof -
  have "scanMemories q (quiet s) = (Inr ms, quiet s)"
    using assms by (intro readonly_result op_intros) simp
  then show ?thesis by (simp add: scanMemories_def quiet_rows_ok)
qed

section \<open>Timeline\<close>

definition oldest_first :: "TimelineItem \<Rightarrow> TimelineItem \<Rightarrow> bool" where
  "oldest_first x y = (ti_TS x < ti_TS y \<or> ti_TS x = ti_TS y \<and> ti_ID x \<le> ti_ID y)"

lemma timeline_sorted: "sorted_wrt oldest_first (sort_by tl_less xs)"
  by (rule sorted_wrt_mono_rel [OF _ tl_sort.sorted]) (auto simp: tl_less_def then_by_def asc_def oldest_first_def)

lemma limit_take: "0 < n \<Longrightarrow> sql_limit n xs = take (nat n) xs"
  by (simp add: sql_limit_def)

text \<open>
  C38. The timeline is sorted by time, and by identifier at the same time, and holds at most the limit
  (fifty, at most five hundred): it is the beginning of the merge of the newest matching observations
  and the newest matching memories, up to the limit of each. When all that match are no more than the
  limit, nothing is missing.
\<close>

theorem Timeline_spec:
  assumes "Timeline E mix f s = (Inr items, s1)" and "\<And>xs. mset (mix xs) = mset xs"
  defines "n \<equiv> nat (normalizedStoreLimit (tf_Limit f) 50 500)"
  shows "n \<le> 500 \<and> (\<exists>all. sorted_wrt oldest_first all \<and> items = take n all \<and>
    mset all = mset (map (obs_item \<circ> observation_of E) (take n (sort_by obs_desc (tl_obs f (db s)))) @
      map (mem_item \<circ> scanMemory) (take n (sort_by mem_desc (tl_mems f (db s))))) \<and>
    (length (tl_obs f (db s)) + length (tl_mems f (db s)) \<le> n \<longrightarrow>
      mset items = mset (map (obs_item \<circ> observation_of E) (tl_obs f (db s)) @ map (mem_item \<circ> scanMemory) (tl_mems f (db s)))))"
proof -
  let ?limit = "normalizedStoreLimit (tf_Limit f) 50 500"
  have lim: "0 < ?limit" "?limit \<le> 500" using limit_bounds [of 50 500] by simp_all
  obtain os s2 ms where os: "scanObservations E (\<lambda>d. sql_limit ?limit (sort_by obs_desc (tl_obs f d))) s = (Inr os, s2)"
    and ms: "scanMemories (\<lambda>d. sql_limit ?limit (sort_by mem_desc (tl_mems f d))) s2 = (Inr ms, s1)"
    and items: "items = (let items = sort_by tl_less (mix (map obs_item os @ map mem_item ms)) in
      if int (length items) > ?limit then take (nat ?limit) items else items)"
    using assms(1) by (auto simp: Timeline_def Let_def andThen_Inr ok_def)
  have d2: "db s2 = db s" using readonly_db [of "scanObservations E (\<lambda>d. sql_limit ?limit (sort_by obs_desc (tl_obs f d)))" s] os
    by (simp add: observations_readonly)
  let ?os = "take n (sort_by obs_desc (tl_obs f (db s)))" and ?ms = "take n (sort_by mem_desc (tl_mems f (db s)))"
  have "os = map (observation_of E) ?os" using scan_observations [OF os] by (simp add: n_def limit_take [OF lim(1)])
  moreover have "ms = map scanMemory ?ms" using scan_memories [OF ms] d2 by (simp add: n_def limit_take [OF lim(1)])
  ultimately have all: "mset (sort_by tl_less (mix (map obs_item os @ map mem_item ms))) =
      mset (map (obs_item \<circ> observation_of E) ?os @ map (mem_item \<circ> scanMemory) ?ms)"
    using assms(2) by simp
  have it: "items = take n (sort_by tl_less (mix (map obs_item os @ map mem_item ms)))"
    using lim(1) by (auto simp: items n_def Let_def)
  have "mset items = mset (map (obs_item \<circ> observation_of E) (tl_obs f (db s)) @ map (mem_item \<circ> scanMemory) (tl_mems f (db s)))"
    if few: "length (tl_obs f (db s)) + length (tl_mems f (db s)) \<le> n"
  proof -
    have "?os = sort_by obs_desc (tl_obs f (db s))" "?ms = sort_by mem_desc (tl_mems f (db s))" using few by simp_all
    moreover from this have "length (sort_by tl_less (mix (map obs_item os @ map mem_item ms))) \<le> n"
      using few arg_cong [OF all, of size] by simp
    ultimately show ?thesis using all it by simp
  qed
  then show ?thesis
    using lim(2) timeline_sorted it all by (intro conjI exI [of _ "sort_by tl_less (mix (map obs_item os @ map mem_item ms))"]) (simp_all add: n_def)
qed

definition ex_filter :: "int \<Rightarrow> TimelineFilter" where
  "ex_filter n = \<lparr>tf_Project = ''p'', tf_SessionID = [], tf_Limit = n\<rparr>"

lemma timeline_quiet:
  assumes "faults s = []" and "\<And>r. r \<in> set (observations (db s)) \<Longrightarrow> decodable E r" and "n = normalizedStoreLimit (tf_Limit f) 50 500"
  shows "Timeline E mix f s = (Inr (let items = sort_by tl_less (mix (map (obs_item \<circ> observation_of E) (sql_limit n (sort_by obs_desc (tl_obs f (db s)))) @
     map (mem_item \<circ> scanMemory) (sql_limit n (sort_by mem_desc (tl_mems f (db s)))))) in if int (length items) > n then take (nat n) items else items), s)"
proof -
  have "scanObservation E r s = (Inr (observation_of E r), s)" if "r \<in> set (sql_limit n (sort_by obs_desc (tl_obs f (db s))))" for r
  proof -
    have "decodable E r" using that set_sql_limit assms(2) by (fastforce simp: tl_obs_def)
    then show ?thesis by (auto simp: decodable_def scanObservation_def observation_of_def)
  qed
  then have "scanObservations E (\<lambda>d. sql_limit n (sort_by obs_desc (tl_obs f d))) s =
      (Inr (map (observation_of E) (sql_limit n (sort_by obs_desc (tl_obs f (db s))))), s)"
    unfolding scanObservations_def using assms(1) by (intro quiet_query_rows)
  then show ?thesis using assms(1)
    by (simp add: Timeline_def assms(3) [symmetric] andThen_def scanMemories_def quiet_rows_ok Let_def)
qed

lemma ex_timeline: "Timeline ex_ext (\<lambda>xs. xs) (ex_filter 0) ex_quiet = (Inr [mem_item (scanMemory ex_mem)], ex_quiet)"
  by (subst timeline_quiet [OF _ _ refl])
    (simp_all add: ex_quiet_def ex_db_def empty_db_def ex_filter_def tl_obs_def tl_mems_def ex_mem_def normalizedStoreLimit_def sql_limit_def)

theorem Timeline_spec_witness: "\<exists>all. [mem_item (scanMemory ex_mem)] = take 50 all \<and> sorted_wrt oldest_first all"
  using Timeline_spec [OF ex_timeline refl] by (auto simp: ex_filter_def normalizedStoreLimit_def)

text \<open>
  A timeline that is cut loses its newest entry, though the newest are what it selects from each
  table: with one observation of time 1, one memory of time 5 and the limit 1 the memory is missing.
\<close>

definition ex_obs :: obs_row where
  "ex_obs = \<lparr>o_id = 1, o_session = ''a:x'', o_cwd = ''p'', o_ts = 1, o_kind = ''k'', o_tool = [], o_payload = ''{}'', o_plen = 2,
     o_encoding = ''raw'', o_schema = 1, o_hash = ''h''\<rparr>"

definition ex_mixed :: store where
  "ex_mixed = \<lparr>db = ex_db\<lparr>observations := [ex_obs]\<rparr>, fts5 = True, faults = []\<rparr>"

lemma Timeline_drops_newest:
  "\<exists>x. Timeline ex_ext (\<lambda>xs. xs) (ex_filter 1) ex_mixed = (Inr [x], ex_mixed) \<and> ti_TS x = 1 \<and>
     ex_mem \<in> set (tl_mems (ex_filter 1) (db ex_mixed)) \<and> m_created ex_mem = 5"
  by (subst timeline_quiet [OF _ _ refl])
    (auto simp: ex_mixed_def ex_db_def empty_db_def ex_filter_def tl_obs_def tl_mems_def ex_mem_def ex_obs_def normalizedStoreLimit_def
      sql_limit_def decodable_def decodePayload_def tl_less_def then_by_def asc_def obs_item_def mem_item_def observation_of_def scanMemory_def)

section \<open>File history\<close>

lemma match_loop_take:
  "int (length out) < limit \<Longrightarrow> match_loop p limit xs out = out @ take (nat (limit - int (length out))) (filter p xs)"
proof (induction xs arbitrary: out)
  case (Cons x xs)
  show ?case
  proof (cases "p x \<and> int (length (out @ [x])) < limit")
    case True
    moreover have "nat (limit - int (length out)) = Suc (nat (limit - int (length (out @ [x]))))" using True by (simp add: nat_eq_iff)
    ultimately show ?thesis using Cons.IH [of "out @ [x]"] by (simp add: Let_def)
  next
    case False
    then have "p x \<Longrightarrow> limit = int (length out) + 1" using Cons.prems by simp
    then show ?thesis using Cons by (cases "p x") (auto simp: Let_def)
  qed
qed simp

text \<open>
  C39. The history of files is what a plain search would give: of the newest five hundred active
  memories and the newest five hundred observations of the project, the first ones (twenty, at most
  two hundred) whose text, or payload, mentions one of the files without regard to case.
\<close>

theorem FileHistory_spec:
  assumes "FileHistory_op E f s = (Inr h, s1)" and "normalizedFiles (uni E) (fh_Files f) \<noteq> []"
  defines "n \<equiv> nat (normalizedStoreLimit (fh_Limit f) 20 200)"
    and "mentions \<equiv> \<lambda>text. list_ex (\<lambda>file. contains (toLower (uni E) text) file) (normalizedFiles (uni E) (fh_Files f))"
  shows "n \<le> 200 \<and>
    fh_Memories h = take n (filter (\<lambda>m. mentions (mem_Text m)) (map scanMemory (take 500 (sort_by mem_desc (active (fh_Project f) (db s)))))) \<and>
    fh_Observations h = take n (filter (\<lambda>x. mentions (obs_PayloadJSON x)) (map (observation_of E)
      (take 500 (sort_by obs_desc (filter (\<lambda>r. o_cwd r = fh_Project f) (observations (db s)))))))"
proof -
  let ?limit = "normalizedStoreLimit (fh_Limit f) 20 200"
  have lim: "0 < ?limit" "?limit \<le> 200" using limit_bounds [of 20 200] by simp_all
  obtain ms s2 os where ms: "scanMemories (\<lambda>d. sql_limit 500 (sort_by mem_desc (active (fh_Project f) d))) s = (Inr ms, s2)"
    and os: "scanObservations E (\<lambda>d. sql_limit 500 (sort_by obs_desc (filter (\<lambda>r. o_cwd r = fh_Project f) (observations d)))) s2 = (Inr os, s1)"
    and h: "h = \<lparr>fh_Memories = match_loop (\<lambda>m. containsAnyFile (uni E) (mem_Text m) (normalizedFiles (uni E) (fh_Files f))) ?limit ms [],
      fh_Observations = match_loop (\<lambda>x. containsAnyFile (uni E) (obs_PayloadJSON x) (normalizedFiles (uni E) (fh_Files f))) ?limit os []\<rparr>"
    using assms(1,2) by (auto simp: FileHistory_op_def Let_def andThen_Inr ok_def)
  have d2: "db s2 = db s"
    using readonly_db [OF count_readonly(3) [of "\<lambda>d. sql_limit 500 (sort_by mem_desc (active (fh_Project f) d))"], of s] ms by simp
  show ?thesis using lim
    by (simp add: h scan_memories [OF ms] scan_observations [OF os] d2 match_loop_take n_def mentions_def containsAnyFile_def limit_take)
qed

lemma ex_history: "FileHistory_op ex_ext \<lparr>fh_Project = ''p'', fh_Files = [''t''], fh_Limit = 0\<rparr> ex_quiet =
    (Inr \<lparr>fh_Memories = [scanMemory ex_mem], fh_Observations = []\<rparr>, ex_quiet)"
  and ex_files: "normalizedFiles (uni ex_ext) [''t''] = [''t'']"
proof -
  have "char_n 116 = CHR ''t''" by code_simp
  then have low: "toLower (uni ex_ext) ''t'' = ''t''" "trimSpace ''t'' = ''t''"
    by (simp_all add: trimSpace_def rune_chunks.simps decode_rune_def is_space_def toLower_def runes_def rune_lower_def
        string_of_runes_def encode_rune_def valid_rune_def)
  then show f: "normalizedFiles (uni ex_ext) [''t''] = [''t'']" by (simp add: normalizedFiles_def Let_def)
  show "FileHistory_op ex_ext \<lparr>fh_Project = ''p'', fh_Files = [''t''], fh_Limit = 0\<rparr> ex_quiet =
    (Inr \<lparr>fh_Memories = [scanMemory ex_mem], fh_Observations = []\<rparr>, ex_quiet)"
  proof -
    have "active ''p'' (db ex_quiet) = [ex_mem]" "observations (db ex_quiet) = []" "faults ex_quiet = []"
      by (simp_all add: ex_quiet_def ex_db_def empty_db_def active_def ex_mem_def)
    then have "scanMemories (\<lambda>d. sql_limit 500 (sort_by mem_desc (active ''p'' d))) ex_quiet = (Inr [scanMemory ex_mem], ex_quiet)"
      "scanObservations ex_ext (\<lambda>d. sql_limit 500 (sort_by obs_desc (filter (\<lambda>r. o_cwd r = ''p'') (observations d)))) ex_quiet = (Inr [], ex_quiet)"
      by (simp_all add: scanMemories_def quiet_rows_ok scanObservations_def query_rows_def andThen_def sql_limit_def)
    moreover have "contains (toLower (uni ex_ext) (mem_Text (scanMemory ex_mem))) ''t''"
      by (simp add: scanMemory_def ex_mem_def low hasPrefix_def)
    ultimately show ?thesis
      by (simp add: FileHistory_op_def f Let_def andThen_def containsAnyFile_def normalizedStoreLimit_def)
  qed
qed

theorem FileHistory_spec_witness:
  "[scanMemory ex_mem] = take 20 (filter (\<lambda>m. list_ex (\<lambda>file. contains (toLower (uni ex_ext) (mem_Text m)) file) [''t''])
     (map scanMemory (take 500 (sort_by mem_desc (active ''p'' ex_db)))))"
  using FileHistory_spec [OF ex_history] by (simp add: ex_files normalizedStoreLimit_def ex_quiet_def)

section \<open>Vectors\<close>

lemma decode_encode_f32: "length vec < 2 ^ 61 \<Longrightarrow> decodeFloat32LE (encodeFloat32LE vec) (int (length vec)) = Inr vec"
  by (simp add: decodeFloat32LE_def words_le_encode i64_def)

lemma concat_short: "(\<And>x. x \<in> set xs \<Longrightarrow> length (f x) \<le> 1) \<Longrightarrow> length (concat (map f xs)) \<le> length xs"
  by (induction xs) (auto simp: le_SucI add_mono_thms_linordered_semiring(1) intro: order_trans [OF add_mono])

lemma filter_id_short: "distinct (map m_id ms) \<Longrightarrow> length (filter (\<lambda>m. m_id m = i \<and> P m) ms) \<le> 1"
proof (induction ms)
  case (Cons m ms)
  show ?case
  proof (cases "m_id m = i")
    case True
    then have "filter (\<lambda>m. m_id m = i \<and> P m) ms = []" using Cons.prems by (auto simp: filter_empty_conv) (metis imageI)
    then show ?thesis by simp
  qed (use Cons in simp)
qed simp

lemma upsert_has: "sql_upsert_embedding r d = Inr (n, d') \<Longrightarrow> r \<in> set (embeddings d') \<and>
    memories d' = memories d \<and> length (embeddings d') \<le> length (embeddings d) + 1"
  by (auto simp: sql_upsert_embedding_def split: if_splits)

text \<open>
  C40. A stored vector comes back bit for bit: after the embedding of an active memory was saved, the
  vector candidates of its project, for the model and the dimension, include the memory with exactly
  that vector (as long as the table holds fewer than ten thousand embeddings, the number a listing
  is cut at).
\<close>

theorem embedding_roundtrip:
  assumes "SaveMemoryEmbedding i model vec s = (Inr (), s1)"
    and "VectorCandidates \<lparr>vs_Project = m_project m, vs_Model = model, vs_Dim = int (length vec), vs_Limit = 0\<rparr> s1 = (Inr cs, s2)"
    and "m \<in> set (memories (db s))" and "m_id m = i" and "m_superseded m = None" and "db_wf (db s)"
    and "length vec < 2 ^ 61" and "length (embeddings (db s)) < 10000"
  shows "\<exists>c \<in> set cs. vc_Memory c = scanMemory m \<and> vc_Vector c = vec"
proof -
  let ?row = "\<lparr>e_memory = i, e_model = model, e_dim = int (length vec), e_vec = encodeFloat32LE vec\<rparr>"
  let ?q = "\<lparr>vs_Project = m_project m, vs_Model = model, vs_Dim = int (length vec), vs_Limit = 0\<rparr>"
  obtain s3 where r: "SaveMemoryEmbedding i model vec (quiet s) = (Inr (), s3)" and d: "db s3 = db s1"
    using atomic_success [OF embeddings_atomic(1) assms(1)] by blast
  have nonempty: "model \<noteq> []" "vec \<noteq> []" using r by (auto simp: SaveMemoryEmbedding_def split: if_splits)
  then obtain n where "sql_upsert_embedding ?row (db s) = Inr (n, db s1)"
    using r d by (auto simp: SaveMemoryEmbedding_def andThen_Inr call_success simp del: quiet_run)
  note up = upsert_has [OF this]
  let ?rows = "concat (map (\<lambda>e. map (\<lambda>m. (m, e)) (filter (\<lambda>m'. m_id m' = e_memory e \<and>
      m_project m' = m_project m \<and> m_superseded m' = None) (memories (db s1))))
    (filter (\<lambda>e. e_model e = model \<and> e_dim e = int (length vec)) (embeddings (db s1))))"
  have "distinct (map m_id (memories (db s1)))" using up assms(6) by (simp add: db_wf_def mem_wf_def)
  then have "length ?rows \<le> length (filter (\<lambda>e. e_model e = model \<and> e_dim e = int (length vec)) (embeddings (db s1)))"
    by (intro concat_short) (simp add: filter_id_short [unfolded One_nat_def])
  also have "\<dots> \<le> length (embeddings (db s1))" by simp
  finally have "length ?rows \<le> 10000" using up assms(8) by simp
  then have all: "set (candidate_rows ?q 10000 (db s1)) = set ?rows"
    by (simp add: candidate_rows_def sql_limit_def)
  have here: "(m, ?row) \<in> set (candidate_rows ?q 10000 (db s1))"
    unfolding all using up assms(3,4,5) by auto
  have "VectorCandidates ?q (quiet s1) = (Inr cs, quiet s1)"
    using assms(2) by (intro readonly_result op_intros) simp
  then have "query_rows ''vector candidates'' ''scan vector candidate'' ''iterate vector candidates''
      (candidate_rows ?q 10000) (scanVectorCandidate (int (length vec))) (quiet s1) = (Inr cs, quiet s1)"
    using nonempty by (simp add: VectorCandidates_def)
  then obtain s4 where e: "each (\<lambda>r. andThen (check ''scan vector candidate'') (\<lambda>_. scanVectorCandidate (int (length vec)) r))
      (candidate_rows ?q 10000 (db s1)) (quiet s1) = (Inr cs, s4)"
    by (auto simp: query_rows_def andThen_Inr)
  let ?g = "\<lambda>r. \<lparr>vc_Memory = scanMemory (fst r), vc_Vector = (case decodeFloat32LE (e_vec (snd r)) (int (length vec)) of Inr v \<Rightarrow> v | Inl _ \<Rightarrow> [])\<rparr>"
  have "cs = map ?g (candidate_rows ?q 10000 (db s1))"
  proof (rule each_determined [THEN conjunct1, OF _ e])
    show "x = ?g r \<and> s1' = quiet s1"
      if "andThen (check ''scan vector candidate'') (\<lambda>_. scanVectorCandidate (int (length vec)) r) (quiet s1) = (Inr x, s1')" for r x s1'
      using that by (cases "decodeFloat32LE (e_vec (snd r)) (int (length vec))")
        (auto simp: andThen_def scanVectorCandidate_def)
  qed
  then have "?g (m, ?row) \<in> set cs" using imageI [OF here, of ?g] by (simp only: set_map)
  moreover have "?g (m, ?row) = \<lparr>vc_Memory = scanMemory m, vc_Vector = vec\<rparr>"
    by (simp add: decode_encode_f32 [OF assms(7)])
  ultimately show ?thesis by (metis VectorCandidate.select_convs)
qed

lemma ex_embedded: "\<exists>s1 cs. SaveMemoryEmbedding 1 ''m'' [7] ex_quiet = (Inr (), s1) \<and>
    VectorCandidates \<lparr>vs_Project = m_project ex_mem, vs_Model = ''m'', vs_Dim = int (length [7 :: f32]), vs_Limit = 0\<rparr> s1 = (Inr cs, s1)"
proof -
  have "decodeFloat32LE (encodeFloat32LE [7]) 1 = Inr [7]" using decode_encode_f32 [of "[7]"] by simp
  then show ?thesis
    by (simp add: SaveMemoryEmbedding_def andThen_def sql_upsert_embedding_def ex_quiet_def ex_db_def ex_mem_def empty_db_def
        VectorCandidates_def query_rows_def candidate_rows_def sql_limit_def scanVectorCandidate_def)
qed

theorem embedding_roundtrip_witness:
  "\<exists>(s1 :: store) cs s2. SaveMemoryEmbedding 1 ''m'' [7] ex_quiet = (Inr (), s1) \<and>
     VectorCandidates \<lparr>vs_Project = ''p'', vs_Model = ''m'', vs_Dim = 1, vs_Limit = 0\<rparr> s1 = (Inr cs, s2) \<and>
     ([7] :: f32 list) \<in> vc_Vector ` set cs"
proof -
  obtain s1 cs where r: "SaveMemoryEmbedding 1 ''m'' [7] ex_quiet = (Inr (), s1)"
    "VectorCandidates \<lparr>vs_Project = m_project ex_mem, vs_Model = ''m'', vs_Dim = int (length [7 :: f32]), vs_Limit = 0\<rparr> s1 = (Inr cs, s1)"
    using ex_embedded by blast
  have p: "ex_mem \<in> set (memories (db ex_quiet))" "m_id ex_mem = 1" "m_superseded ex_mem = None" "db_wf (db ex_quiet)"
    "length [7 :: f32] < 2 ^ 61" "length (embeddings (db ex_quiet)) < 10000" "m_project ex_mem = ''p''" "int (length [7 :: f32]) = 1"
    using ex_db_wf by (simp_all add: ex_quiet_def, simp_all add: ex_db_def ex_mem_def empty_db_def)
  obtain c where "c \<in> set cs" "vc_Vector c = [7]"
    using embedding_roundtrip [OF r p(1-6)] by blast
  then have "[7] \<in> vc_Vector ` set cs" by (metis imageI)
  then show ?thesis using r [unfolded p(7,8)] by blast
qed

section \<open>Findings\<close>

text \<open>
  Two agents whose names and session identifiers join to the same text: the second cannot get a
  session at all (\<open>sessionID\<close> joins with a colon and does not quote it).
\<close>

lemma session_id_collision:
  "fst (EnsureSession ''a'' ''b:c'' ''p'' 5 (snd (EnsureSession ''a:b'' ''c'' ''p'' 5 ex_store))) = Inl (Wrap ''ensure session'' Unique)"
  by (simp add: EnsureSession_def ensureSession_run ex_store_def empty_db_def sessionID_def)

text \<open>Supersession cycles are accepted, and hide both memories.\<close>

lemma supersession_cycle:
  "\<exists>s1 s2. SupersedeMemory 1 2 ex_two = (Inr (), s1) \<and> SupersedeMemory 2 1 s1 = (Inr (), s2) \<and>
     RecentMemories ''p'' 5 s2 = (Inr [], s2)"
  by (simp add: SupersedeMemory_def in_tx_def ex_two_def andThen_def insertAuditTx_def sql_supersede_def sql_update_memory_def
      sql_insert_audit_def ex_mem_def empty_db_def RecentMemories_def quiet_rows_ok recent_rows_def sql_limit_def)

text \<open>
  A memory that superseded another cannot be deleted, neither by \<open>memory_forget\<close> nor by decay: the
  foreign key of the superseded row refuses it, and the whole batch fails.
\<close>

definition ex_super :: store where
  "ex_super = \<lparr>db = empty_db\<lparr>memories := [ex_mem\<lparr>m_superseded := Some 2\<rparr>, ex_mem\<lparr>m_id := 2\<rparr>], seq_mem := 2\<rparr>, fts5 = True, faults = []\<rparr>"

lemma successor_not_deletable: "\<exists>l. DeleteMemories [2] ex_super = (Inl (Wrap l ForeignKey), ex_super)"
  by (simp add: DeleteMemories_def in_tx_def deleteOne_def andThen_def withFts_def sql_delete_fts_def sql_delete_memory_def
      ex_super_def ex_mem_def empty_db_def)

text \<open>The audit events of a supersession carry the time 0.\<close>

lemma supersede_audit_time: "SupersedeMemory old new s = (Inr (), s1) \<Longrightarrow> \<exists>r. audits (db s1) = audits (db s) @ [r] \<and> u_ts r = 0"
  using supersede_success [of old new s s1] by auto

text \<open>A new text leaves the old text's embedding in place.\<close>

lemma update_keeps_embedding:
  "\<exists>s1. UpdateMemory ex_update (ex_quiet\<lparr>db := ex_db\<lparr>embeddings := [e]\<rparr>\<rparr>) = (Inr (), s1) \<and> embeddings (db s1) = [e] \<and>
     map m_text (memories (db s1)) = [''u'']"
  by (simp add: UpdateMemory_def ex_update_def ex_quiet_def in_tx_def andThen_def withFts_def sql_update_memory_def
      sql_delete_fts_def sql_insert_fts_def insertAuditTx_def sql_insert_audit_def ex_db_def ex_mem_def empty_db_def)

end
