(* ===== verification/ImportProps.thy ===== *)
theory ImportProps
  imports Import ReportProps
begin

text \<open>
  Properties of the transcript import: it keeps the invariants of the store, a second import of a
  file stores nothing, and what goes wrong after a failure between the two writes of a line.
\<close>

section \<open>Imported events are never forgotten\<close>

context store_invariant begin

lemma any_step:
  assumes "store_step E s s'" and "\<And>inp. ok_obs inp"
  shows "fts5 s' = fts5 s \<and> (I (fts5 s) (db s) \<longrightarrow> I (fts5 s) (db s'))"
  using assms(1)
proof cases
  case s_faults
  then show ?thesis by simp
qed (simp, rule keeps_def [THEN iffD1, THEN spec],
    rule EnsureSession EndSession SaveSessionSummary RecordImportedEvent InsertObservation [OF assms(2)] AddMemory UpdateMemory
      SupersedeMemory DeleteMemories DecayMemories SaveMemoryEmbedding DeleteEmbeddings TouchMemories
      InsertCompactionAttempt ExpireCompactionAttempts MarkCompactionCompleted)+

end

definition has_import :: "string \<Rightarrow> string \<Rightarrow> db \<Rightarrow> bool" where
  "has_import path ev d = (\<exists>x \<in> set (imports_t d). i_path x = path \<and> i_event x = ev)"

interpretation known: stmt_invariant "has_import path ev" E "\<lambda>_. True" "\<lambda>_. True"
  by unfold_locales
    (auto simp: has_import_def sql_insert_session_def sql_update_session_def sql_insert_import_def sql_insert_obs_def
      sql_insert_audit_def sql_insert_memory_def sql_insert_fts_def sql_delete_fts_def sql_update_memory_def
      sql_supersede_def sql_delete_memory_def sql_upsert_embedding_def sql_delete_embeddings_def Let_def
      sql_insert_attempt_def sql_update_attempts_def split: if_splits)

lemma import_lines_keep: "has_import path ev (db s) \<Longrightarrow> has_import path ev (db (snd (import_lines E conv p proj t n ls st s)))"
  using keepsD [OF known.keeps_import_lines [OF TrueI], of path ev s] by blast

lemma steps_keep: "rtranclp (store_step E) s s' \<Longrightarrow> has_import path ev (db s) \<Longrightarrow> has_import path ev (db s')"
  by (induction rule: rtranclp_induct) (use known.any_step [OF _ TrueI] in \<open>blast+\<close>)

text \<open>Every line that is not blank has been recorded.\<close>

fun all_known :: "string \<Rightarrow> int \<Rightarrow> string list \<Rightarrow> db \<Rightarrow> bool" where
  "all_known path n [] d = True"
| "all_known path n (l # ls) d = ((trimSpace l \<noteq> [] \<longrightarrow>
     (\<exists>obj. unmarshal_map (trimSpace l) = Some obj \<and> has_import path (event_id obj (n + 1)) d)) \<and> all_known path (n + 1) ls d)"

lemma all_known_mono:
  "(\<And>ev. has_import path ev d \<Longrightarrow> has_import path ev d') \<Longrightarrow> all_known path n ls d \<Longrightarrow> all_known path n ls d'"
  by (induction ls arbitrary: n) auto

lemma recorded: "RecordImportedEvent path ev t s = (Inr b, s1) \<Longrightarrow> has_import path ev (db s1)"
proof -
  assume r: "RecordImportedEvent path ev t s = (Inr b, s1)"
  have at: "atomic_op (RecordImportedEvent path ev t)" by (intro sessions_atomic)
  obtain s2 where q: "RecordImportedEvent path ev t (quiet s) = (Inr b, s2)" and d: "db s2 = db s1"
    by (rule atomic_success [OF at r])
  from q have "has_import path ev (db s2)"
    by (cases "\<exists>x \<in> set (imports_t (db s)). i_path x = path \<and> i_event x = ev")
      (simp_all add: RecordImportedEvent_def andThen_def sql_insert_import_def has_import_def, force+)
  then show ?thesis by (simp add: d)
qed

lemma exists_result: "ImportedEventExists path ev s = (Inr b, s1) \<Longrightarrow> b = has_import path ev (db s) \<and> db s1 = db s"
proof -
  assume r: "ImportedEventExists path ev s = (Inr b, s1)"
  then have "ImportedEventExists path ev (quiet s) = (Inr b, quiet s)"
    by (intro readonly_result sessions_readonly) simp
  moreover have "db s1 = db s" using readonly_db [OF sessions_readonly(4), of path ev s] r by simp
  ultimately show ?thesis
    by (simp add: ImportedEventExists_def first_row_def has_import_def filter_empty_conv split: list.splits)
      (metis (mono_tags, lifting) filter_empty_conv list.distinct(1))
qed

lemma event_recorded:
  assumes "import_event E conv path proj t n raw st s = (Inr st1, s1)"
  shows "\<exists>obj. unmarshal_map raw = Some obj \<and> has_import path (event_id obj n) (db s1)"
proof -
  obtain obs i where p: "parseClaudeTranscriptEvent E conv raw path n proj t = Inr (obs, i)"
    using assms by (auto simp: import_event_def split: sum.splits)
  obtain e s2 where x: "ImportedEventExists path i s = (Inr e, s2)"
    and k: "(if e then ok (bump_skipped st) else andThen (InsertObservation E obs 0) (\<lambda>inserted.
      andThen (RecordImportedEvent path i t) (\<lambda>recorded.
        ok (if inserted \<and> recorded then bump_imported st else bump_skipped st)))) s2 = (Inr st1, s1)"
    using assms unfolding import_event_def p sum.case prod.case andThen_Inr by blast
  have "has_import path i (db s1)"
  proof (cases e)
    case True
    then show ?thesis using exists_result [OF x] k by simp
  next
    case False
    then obtain b s3 r where "RecordImportedEvent path i t s3 = (Inr r, s1)"
      using k by (auto simp: andThen_Inr)
    then show ?thesis by (rule recorded)
  qed
  then show ?thesis using parsed_event(3) [OF p] by auto
qed

lemma lines_recorded: "import_lines E conv path proj t n ls st s = (Inr st1, s1) \<Longrightarrow> all_known path n ls (db s1)"
proof (induction ls arbitrary: n st s)
  case (Cons l ls)
  show ?case
  proof (cases "trimSpace l = []")
    case True
    then show ?thesis using Cons by simp
  next
    case False
    then obtain st2 s2 where e: "import_event E conv path proj t (n + 1) (trimSpace l) st s = (Inr st2, s2)"
      and r: "import_lines E conv path proj t (n + 1) ls st2 s2 = (Inr st1, s1)"
      using Cons.prems by (auto simp: andThen_Inr)
    obtain obj where o: "unmarshal_map (trimSpace l) = Some obj" "has_import path (event_id obj (n + 1)) (db s2)"
      using event_recorded [OF e] by blast
    then have "has_import path (event_id obj (n + 1)) (db s1)"
      using import_lines_keep [of path _ s2 E conv path proj t "n + 1" ls st2] r by simp
    then show ?thesis using o(1) Cons.IH [OF r] by simp
  qed
qed simp

lemma known_event:
  assumes "unmarshal_map raw = Some obj" and "has_import path (event_id obj n) (db s)"
    and "import_event E conv path proj t n raw st s = (Inr st1, s1)"
  shows "st1 = bump_skipped st \<and> db s1 = db s"
proof -
  obtain obs i where p: "parseClaudeTranscriptEvent E conv raw path n proj t = Inr (obs, i)" "i = event_id obj n"
    using assms(1,3) parsed_event(3) by (fastforce simp: import_event_def split: sum.splits)
  then show ?thesis
    using assms(2,3) exists_result by (fastforce simp: import_event_def andThen_Inr split: if_splits)
qed

lemma known_lines:
  "all_known path n ls (db s) \<Longrightarrow> import_lines E conv path proj t n ls st s = (Inr st1, s1) \<Longrightarrow>
     db s1 = db s \<and> st1 = st\<lparr>is_Skipped := is_Skipped st + int (length (filter (\<lambda>l. trimSpace l \<noteq> []) ls))\<rparr>"
proof (induction ls arbitrary: n st s)
  case (Cons l ls)
  show ?case
  proof (cases "trimSpace l = []")
    case True
    then show ?thesis using Cons by simp
  next
    case False
    then obtain st2 s2 where e: "import_event E conv path proj t (n + 1) (trimSpace l) st s = (Inr st2, s2)"
      and r: "import_lines E conv path proj t (n + 1) ls st2 s2 = (Inr st1, s1)"
      using Cons.prems by (auto simp: andThen_Inr)
    obtain obj where "unmarshal_map (trimSpace l) = Some obj" "has_import path (event_id obj (n + 1)) (db s)"
      using Cons.prems(1) False by auto
    then have "st2 = bump_skipped st" "db s2 = db s" using known_event e by blast+
    then show ?thesis using Cons.IH [of "n + 1" s2 st2] Cons.prems(1) r False by (simp add: bump_skipped_def)
  qed
qed simp

text \<open>Every line that is not blank is counted, as imported or as skipped.\<close>

lemma event_counted:
  "import_event E conv path proj t n raw st s = (Inr st1, s1) \<Longrightarrow> st1 = bump_skipped st \<or> st1 = bump_imported st"
  by (auto simp: import_event_def andThen_Inr split: sum.splits if_splits)

lemma lines_counted:
  "import_lines E conv path proj t n ls st s = (Inr st1, s1) \<Longrightarrow>
     is_Files st1 = is_Files st \<and> is_Imported st \<le> is_Imported st1 \<and>
     is_Imported st1 + is_Skipped st1 = is_Imported st + is_Skipped st + int (length (filter (\<lambda>l. trimSpace l \<noteq> []) ls))"
proof (induction ls arbitrary: n st s)
  case (Cons l ls)
  show ?case
  proof (cases "trimSpace l = []")
    case True
    then show ?thesis using Cons by simp
  next
    case False
    then obtain st2 s2 where e: "import_event E conv path proj t (n + 1) (trimSpace l) st s = (Inr st2, s2)"
      and r: "import_lines E conv path proj t (n + 1) ls st2 s2 = (Inr st1, s1)"
      using Cons.prems by (auto simp: andThen_Inr)
    show ?thesis
      using Cons.IH [OF r] event_counted [OF e] False by (auto simp: bump_skipped_def bump_imported_def)
  qed
qed simp

lemma file_parts:
  assumes "importClaudeJSONLFile E F conv path proj t s = (Inr st1, s1)"
  shows "\<exists>absPath f. fs_abs F path = Inr absPath \<and> fs_open F path = Inr f \<and>
    import_lines E conv absPath proj t 0 (fst (scan_lines maxLineBytes (tr_data f)))
      \<lparr>is_Files = 1, is_Imported = 0, is_Skipped = 0\<rparr> s = (Inr st1, s1)"
  using assms by (auto simp: importClaudeJSONLFile_def andThen_Inr split: sum.splits if_splits)

section \<open>Properties\<close>

text \<open>A transcript of one empty event, imported into an empty store.\<close>

definition ex_fs :: filesystem where
  "ex_fs = \<lparr>fs_isdir = (\<lambda>_. Inr False), fs_walk = (\<lambda>_. Inr []), fs_abs = Inr,
     fs_open = (\<lambda>_. Inr \<lparr>tr_data = ''null'', tr_broken = False\<rparr>)\<rparr>"

lemma ex_lines: "scan_lines maxLineBytes ''null'' = ([''null''], False)" "trimSpace ''null'' = ''null''"
  by (simp add: scan_lines.simps maxLineBytes_def trimSuffix_def hasSuffix_def,
    simp add: trimSpace_def rune_chunks.simps decode_rune_def is_space_def)

lemma ex_event: "\<exists>obs. parseClaudeTranscriptEvent ex_ext conv ''null'' path 1 p t = Inr (obs, event_id [] 1)"
proof -
  have "unmarshal_map ''null'' = Some []"
    by (simp add: unmarshal_map_def parse_json_def struct_members_def json_eval)
  then show ?thesis by (simp add: parseClaudeTranscriptEvent_def Let_def)
qed

lemma ex_import: "\<exists>s1. importClaudeJSONLFile ex_ext ex_fs conv ''t'' p t ex_store =
    (Inr \<lparr>is_Files = 1, is_Imported = 1, is_Skipped = 0\<rparr>, s1) \<and> faults s1 = [] \<and> has_import ''t'' (event_id [] 1) (db s1)"
proof -
  obtain obs where p: "parseClaudeTranscriptEvent ex_ext conv ''null'' ''t'' 1 p t = Inr (obs, event_id [] 1)"
    using ex_event by blast
  have none: "observations (db ex_store) = []" "imports_t (db ex_store) = []" "faults ex_store = []"
    by (simp_all add: ex_store_def empty_db_def)
  have wf: "sessions_wf (db ex_store)" using ex_store_ok(1) by (simp add: db_wf_def)
  let ?s = "ex_store\<lparr>db := with_observation (captured_row ex_ext obs (sessionID (oi_Agent obs) (oi_ExternalSessionID obs)))
      (with_session (oi_Agent obs) (oi_ExternalSessionID obs) (oi_CWD obs) (oi_TS obs) (db ex_store))\<rparr>"
  have "InsertObservation ex_ext obs 0 ex_store = (Inr True, ?s)"
    using insert_quiet [OF none(3) ex_store_ok(2) wf, of ex_ext obs 0] by (simp add: dedupHit_def none)
  moreover have "ImportedEventExists ''t'' (event_id [] 1) ex_store = (Inr False, ex_store)"
    by (simp add: ImportedEventExists_def none first_row_def)
  moreover have "imports_t (db ?s) = []" "faults ?s = []"
    by (simp_all add: none with_observation_def with_session_def)
  then have "\<exists>s1. RecordImportedEvent ''t'' (event_id [] 1) t ?s = (Inr True, s1) \<and> faults s1 = [] \<and>
      has_import ''t'' (event_id [] 1) (db s1)"
    by (simp add: RecordImportedEvent_def andThen_def sql_insert_import_def has_import_def)
  ultimately show ?thesis
    by (auto simp: importClaudeJSONLFile_def ex_fs_def ex_lines import_event_def p andThen_def bump_imported_def)
qed

lemma ex_import_again:
  assumes "faults s1 = []" and "has_import ''t'' (event_id [] 1) (db s1)"
  shows "importClaudeJSONLFile ex_ext ex_fs conv ''t'' p t s1 = (Inr \<lparr>is_Files = 1, is_Imported = 0, is_Skipped = 1\<rparr>, s1)"
proof -
  obtain obs where p: "parseClaudeTranscriptEvent ex_ext conv ''null'' ''t'' 1 p t = Inr (obs, event_id [] 1)"
    using ex_event by blast
  have "\<exists>b. ImportedEventExists ''t'' (event_id [] 1) s1 = (Inr b, s1)"
    using assms(1) by (simp add: ImportedEventExists_def)
  then have "ImportedEventExists ''t'' (event_id [] 1) s1 = (Inr True, s1)"
    using exists_result [of "''t''" "event_id [] 1" s1] assms(2) by auto
  then show ?thesis
    by (simp add: importClaudeJSONLFile_def ex_fs_def ex_lines import_event_def p andThen_def bump_skipped_def)
qed

text \<open>
  C8. Importing a transcript a second time stores nothing: every event of a file that was imported
  without an error is skipped by a later import of the same path, whatever operations and failures
  the store has seen in between, and whatever the project and the time; the database stays as the
  second import finds it. Both runs count every line that is not blank.
\<close>

theorem import_idempotent:
  assumes "importClaudeJSONLFile E F conv path proj t s = (Inr st1, s1)" and "rtranclp (store_step E) s1 s2"
    and "importClaudeJSONLFile E F conv2 path proj2 t2 s2 = (Inr st2, s3)"
  shows "db s3 = db s2 \<and> is_Imported st2 = 0 \<and> is_Skipped st2 = is_Imported st1 + is_Skipped st1"
proof -
  let ?st = "\<lparr>is_Files = 1, is_Imported = 0, is_Skipped = 0\<rparr>"
  obtain p f where pf: "fs_abs F path = Inr p" "fs_open F path = Inr f"
    and r1: "import_lines E conv p proj t 0 (fst (scan_lines maxLineBytes (tr_data f))) ?st s = (Inr st1, s1)"
    using file_parts [OF assms(1)] by blast
  have r2: "import_lines E conv2 p proj2 t2 0 (fst (scan_lines maxLineBytes (tr_data f))) ?st s2 = (Inr st2, s3)"
    using file_parts [OF assms(3)] pf by auto
  have "all_known p 0 (fst (scan_lines maxLineBytes (tr_data f))) (db s2)"
    using steps_keep [OF assms(2)] by (rule all_known_mono [OF _ lines_recorded [OF r1]])
  then show ?thesis using known_lines [OF _ r2] lines_counted [OF r1] by simp
qed

theorem import_idempotent_witness:
  "db (snd (importClaudeJSONLFile ex_ext ex_fs (\<lambda>_. 0) ''t'' [] 6
     (snd (importClaudeJSONLFile ex_ext ex_fs (\<lambda>_. 0) ''t'' [] 5 ex_store)))) =
   db (snd (importClaudeJSONLFile ex_ext ex_fs (\<lambda>_. 0) ''t'' [] 5 ex_store))"
proof -
  obtain s1 where r: "importClaudeJSONLFile ex_ext ex_fs (\<lambda>_. 0) ''t'' [] 5 ex_store =
      (Inr \<lparr>is_Files = 1, is_Imported = 1, is_Skipped = 0\<rparr>, s1)" "faults s1 = []" "has_import ''t'' (event_id [] 1) (db s1)"
    using ex_import by blast
  note again = ex_import_again [OF r(2,3), of "\<lambda>_. 0" "[]" 6]
  show ?thesis using import_idempotent [OF r(1) rtranclp.rtrancl_refl again] by (simp add: r(1) again)
qed

text \<open>
  Whatever the transcripts hold and the driver does, an import keeps the store well-formed, its
  counters exact and its full-text index in step, and what it stores is redacted; a run that fails
  half way does so too.
\<close>

theorem import_safe:
  assumes "store_inv (fts5 s) (db s)" and "redacted E (db s)"
  shows "store_inv (fts5 s) (db (snd (importClaudeJSONLFile E F conv path proj t s))) \<and>
    redacted E (db (snd (importClaudeJSONLFile E F conv path proj t s)))"
proof -
  have "fts5 (snd (importClaudeJSONLFile E F conv path proj t s)) = fts5 s"
    using inv.keeps_import [OF TrueI, of E F conv path proj t] by (simp add: keeps_def)
  then show ?thesis
    using keepsD [OF inv.keeps_import [OF TrueI], of s E F conv path proj t]
      keepsD [OF clean.keeps_import, of E s F conv path proj t] assms by simp
qed

theorem import_safe_witness:
  "redacted ex_ext (db (snd (importClaudeJSONLFile ex_ext ex_fs (\<lambda>_. 0) ''t'' [] 5 ex_store)))"
  using import_safe [of ex_store ex_ext ex_fs] empty_inv by (simp add: ex_store_def, simp add: redacted_def empty_db_def)

section \<open>Findings\<close>

text \<open>
  The two writes of a line are two transactions. When the second fails, the next import does not
  find the event and captures it again: with the window 0 the observation that is there is not newer
  than the event, so it is not a duplicate.
\<close>

lemma import_interrupted:
  assumes "InsertObservation E obs 0 s = (Inr True, s1)" and "InsertObservation E obs 0 s1 = (Inr b, s2)"
    and "db_wf (db s)" and "id_free (oi_Agent obs) (oi_ExternalSessionID obs) (db s)" and "in_i64 (oi_TS obs)"
    and "\<And>x. x \<in> set (observations (db s)) \<Longrightarrow> o_hash x \<noteq> oi_Hash obs"
  shows "b"
proof -
  let ?a = "oi_Agent obs" and ?e = "oi_ExternalSessionID obs"
  let ?d1 = "with_session ?a ?e (oi_CWD obs) (oi_TS obs) (db s)"
  have wf: "sessions_wf (db s)" "sessions_wf (db s1)"
    using assms(3) keepsD [OF wf.InsertObservation [OF TrueI], of s E obs 0] assms(1) by (simp_all add: db_wf_def)
  have d1: "db s1 = with_observation (captured_row E obs (sessionID ?a ?e)) ?d1"
    using insert_result(2) [OF assms(1,4) wf(1)] by simp
  have "id_free ?a ?e (db s1)"
    unfolding d1 using assms(4) by (auto simp: id_free_def with_observation_def with_session_def split: if_splits)
  from insert_result(1) [OF assms(2) this wf(2)]
  have "b = (\<not> dedupHit (oi_Hash obs) (i64 (oi_TS obs - i64 (0 * 1000))) (db s1))" .
  moreover have "i64 (oi_TS obs) = oi_TS obs" using assms(5) by (simp add: i64_id)
  moreover have "i64 0 = 0" by (simp add: i64_def)
  moreover have "set (observations (db s1)) = insert ((captured_row E obs (sessionID ?a ?e))\<lparr>o_id := seq_obs (db s) + 1\<rparr>) (set (observations (db s)))"
    unfolding d1 by (simp add: with_observation_def with_session_def)
  moreover have "o_ts (captured_row E obs (sessionID ?a ?e)) = oi_TS obs" by (simp add: captured_row_def split: prod.splits)
  ultimately show ?thesis using assms(6) by (simp add: dedupHit_def)
qed

text \<open>A \<open>null\<close> timestamp counts as the time 0, and a \<open>null\<close> identifier hides the ones after it.\<close>

lemma null_members:
  "firstJSONLTimestamp conv [(''timestamp'', JNull)] t [''timestamp'', ''created_at'', ''createdAt''] = 0"
  "firstJSONLString [(''uuid'', JNull), (''id'', JStr ''x'')] [''uuid'', ''id'', ''event_id'', ''eventId''] = []"
  by (simp_all add: firstJSONLTimestamp.simps firstJSONLString.simps member_def normalizeJSONLUnix_def)

end
