(* ===== verification/ProcessProps.thy ===== *)
theory ProcessProps
  imports Process ImportProps
begin

text \<open>
  Properties of the program: its commands and its server keep the database well-formed and redacted,
  whatever their arguments, and a run without arguments panics.
\<close>

section \<open>Commands keep what the store keeps\<close>

lemma wkeeps_outputs [wkeeps_intros]: "wkeeps I (exits c m)" "wkeeps I (prints ls)" "wkeeps I (Pair out)"
  by (auto intro!: wkeeps_same simp: exits_def prints_def)

lemma wkeeps_or_exit [wkeeps_intros]:
  assumes "wkeeps I act" and "\<And>x. wkeeps I (k x)"
  shows "wkeeps I (or_exit h l c act k)"
proof -
  have "wkeeps I (andThen (attempt act) (\<lambda>r w. (Inr (), snd (case r of Inl e \<Rightarrow> exits c (l @ error_text h e) w | Inr x \<Rightarrow> k x w))))"
    by (intro wkeeps_andThen wkeeps_attempt assms)
      (use assms(2) in \<open>auto simp: wkeeps_def exits_def split: sum.splits\<close>)
  then show ?thesis
    by (rule wkeeps_snd) (auto simp: or_exit_def andThen_def attempt_def split: prod.splits sum.splits)
qed

lemma wkeeps_with_store [wkeeps_intros]: "wkeeps I k \<Longrightarrow> wkeeps I (with_store h p k)"
  by (auto simp: with_store_def wkeeps_def exits_def split: option.splits)

lemma wkeeps_parsed [wkeeps_intros]: "(\<And>x. wkeeps I (k x)) \<Longrightarrow> wkeeps I (parsed h r k)"
  by (cases r) (auto simp: parsed_def wkeeps_intros)

lemma wkeeps_unexpected [wkeeps_intros]: "wkeeps I (unexpected_argument h a)" "wkeeps I (unsupported_command h a)"
  by (simp_all add: unexpected_argument_def unsupported_command_def wkeeps_intros)

lemma wkeeps_runBench [wkeeps_intros]: "wkeeps I (runBench h b net sb args)"
  unfolding runBench_def Let_def
  by (auto intro!: wkeeps_intros wkeeps_cases split: list.splits)

lemma wkeeps_runMigrate [wkeeps_intros]: "wkeeps I (runMigrate h args)"
  unfolding runMigrate_def by (auto intro!: wkeeps_intros)

lemma wkeeps_runSessions [wkeeps_intros]: "wkeeps I (runSessions h args)"
  unfolding runSessions_def by (auto intro!: wkeeps_intros keeps_readonly op_intros)

lemma wkeeps_runCompact [wkeeps_intros]: "wkeeps I (runCompact h args)"
  unfolding runCompact_def by (auto intro!: wkeeps_intros keeps_readonly op_intros)

definition ends_in :: "'w set \<Rightarrow> 'a \<times> 'w \<Rightarrow> bool" where
  "ends_in W x = (snd x \<in> W)"

lemma ends_in_intros:
  "w \<in> W \<Longrightarrow> ends_in W (x, w)" "w \<in> W \<Longrightarrow> ends_in W (exits n m w)"
  "ends_in W a \<Longrightarrow> ends_in W b \<Longrightarrow> ends_in W (if c then a else b)"
  "(\<And>e. ends_in W (f e)) \<Longrightarrow> ends_in W a \<Longrightarrow> ends_in W (case y of None \<Rightarrow> a | Some e \<Rightarrow> f e)"
  "(\<And>e. ends_in W (g e)) \<Longrightarrow> (\<And>x. ends_in W (k x)) \<Longrightarrow> ends_in W (case z of Inl e \<Rightarrow> g e | Inr x \<Rightarrow> k x)"
  "ends_in W a \<Longrightarrow> ends_in W b \<Longrightarrow> (\<And>e. ends_in W (f e)) \<Longrightarrow> ends_in W (case s of Present \<Rightarrow> a | Absent \<Rightarrow> b | Unknown e \<Rightarrow> f e)"
  "(\<And>a b. ends_in W (l a b)) \<Longrightarrow> ends_in W (case q of (a, b) \<Rightarrow> l a b)"
  by (simp_all add: ends_in_def exits_def split: option.split sum.split file_status.split prod.split)

lemma runDoctor_store: "ends_in {w, snd (on_store Ping w)} (runDoctor h args w)"
proof (cases "on_store Ping w")
  case (Pair r w1)
  show ?thesis
    unfolding runDoctor_def parsed_def unexpected_argument_def Let_def prod.case_distrib [of "\<lambda>f. f w"]
      sum.case_distrib [of "\<lambda>f. f w"] Pair prod.case
    by (intro ends_in_intros) simp_all
qed

lemma wkeeps_runDoctor: "wkeeps I (runDoctor h args)"
proof -
  have "wkeeps I (on_store Ping)" by (intro wkeeps_store keeps_readonly op_intros)
  then show ?thesis using runDoctor_store [of _ h args] unfolding wkeeps_def ends_in_def by (metis insertE singletonD)
qed

text \<open>The laws of a store do not speak of seeding.\<close>

definition keeps_seeding :: "ext \<Rightarrow> (bool \<Rightarrow> db \<Rightarrow> bool) \<Rightarrow> bool" where
  "keeps_seeding E I = (\<forall>opts. keeps I (SeedPerfData E opts))"

lemma wkeeps_runPerfSeed:
  assumes "h_ext h = E" and "keeps_seeding E I"
  shows "wkeeps I (runPerfSeed h save args)"
  using assms(2) unfolding runPerfSeed_def assms(1) keeps_seeding_def
  by (auto intro!: wkeeps_intros split: option.split)

context store_invariant begin

lemma keeps_embed_each: "keeps I (embed_each h k cl ms n)"
  by (induction ms arbitrary: k cl n)
    (simp_all add: keeps_readonly readonly_basic keeps_andThen SaveMemoryEmbedding split: prod.splits sum.splits)

lemma keeps_embedMissing: "keeps I (embedMissing h cl p l)"
proof -
  have "keeps I (MissingEmbeddings q)" for q by (intro keeps_readonly op_intros)
  then show ?thesis
    by (simp add: embedMissing_def keeps_readonly readonly_basic keeps_andThen keeps_embed_each split: prod.splits sum.splits)
qed

lemma keeps_embedMemoryIfEnabled: "keeps I (embedMemoryIfEnabled h i)"
  by (simp add: embedMemoryIfEnabled_def keeps_readonly readonly_basic SaveMemoryEmbedding split: sum.splits)

lemma wkeeps_runEmbedMissing [wkeeps_intros]: "wkeeps I (runEmbedMissing h args b)"
  unfolding runEmbedMissing_def
  by (auto intro!: wkeeps_intros keeps_embedMissing DeleteEmbeddings split: sum.splits)

lemma wkeeps_runDecay:
  assumes "h_ext h = E"
  shows "wkeeps I (runDecay h args)"
  unfolding runDecay_def assms by (auto intro!: wkeeps_intros DecayMemories)

lemma wkeeps_runAdd [wkeeps_intros]: "wkeeps I (runAdd h args)"
  unfolding runAdd_def Let_def
  by (auto intro!: wkeeps_intros AddMemory keeps_embedMemoryIfEnabled simp: wkeeps_same)

lemma wkeeps_searchMemories: "wkeeps I (searchMemories h opts q)"
proof -
  have p: "wkeeps I (on_store (SearchMemories (h_ext h) ms))" for ms by (intro wkeeps_store keeps_readonly op_intros)
  have "wkeeps I (\<lambda>w. case Hybrid (h_ext h) (h_iter h) sr qq (w\<lparr>embeds := es, brk := None\<rparr>) of
      (Inl _, w1) \<Rightarrow> on_store (SearchMemories (h_ext h) ms) w1 | (Inr rs, w1) \<Rightarrow> (Inr (map rs_Memory rs), w1))"
    (is "wkeeps I ?m") for sr qq es ms
  proof (unfold wkeeps_def, intro allI)
    fix w :: world
    let ?w = "w\<lparr>embeds := es, brk := None\<rparr>"
    obtain r w1 where H: "Hybrid (h_ext h) (h_iter h) sr qq ?w = (r, w1)" by (cases "Hybrid (h_ext h) (h_iter h) sr qq ?w")
    have k: "fts5 (store_of w1) = fts5 (store_of w) \<and>
        (I (fts5 (store_of w)) (db (store_of w)) \<longrightarrow> I (fts5 (store_of w)) (db (store_of w1)))"
      using Hybrid [of "h_ext h" "h_iter h" sr qq, unfolded wkeeps_def, THEN spec, of ?w] by (simp add: H)
    show "fts5 (store_of (snd (?m w))) = fts5 (store_of w) \<and>
        (I (fts5 (store_of w)) (db (store_of w)) \<longrightarrow> I (fts5 (store_of w)) (db (store_of (snd (?m w)))))"
      using k p [of ms, unfolded wkeeps_def, THEN spec, of w1] by (cases r) (simp_all add: H)
  qed
  then show ?thesis
    unfolding searchMemories_def Let_def by (auto intro!: wkeeps_basic p split: sum.splits)
qed

lemma wkeeps_runSearch: "wkeeps I (runSearch h args)"
proof -
  have "wkeeps I (\<lambda>w. case searchMemories h opts q w of
      (Inl e, w1) \<Rightarrow> if c e then exits 2 (a e) w1 else exits 1 (b e) w1
    | (Inr ms, w1) \<Rightarrow> prints (g ms) w1)" for opts q c a b g
    by (rule wkeeps_snd [OF wkeeps_searchMemories [of h opts q]])
      (simp add: exits_def prints_def split: prod.split sum.split)
  then show ?thesis unfolding runSearch_def Let_def by (auto intro!: wkeeps_intros)
qed

lemma wkeeps_import_paths:
  assumes "h_ext h = E" and "\<And>inp. no_secrets (oi_PayloadJSON inp) \<Longrightarrow> ok_obs inp" and "\<And>st. wkeeps I (k st)"
  shows "wkeeps I (import_paths h p paths k acc)"
  by (induction paths arbitrary: acc)
    (auto simp: assms(3) assms(1) intro!: wkeeps_intros keeps_import assms(2))

lemma wkeeps_import_roots:
  assumes "h_ext h = E" and "\<And>inp. no_secrets (oi_PayloadJSON inp) \<Longrightarrow> ok_obs inp"
  shows "wkeeps I (import_roots h p dirs acc)"
  by (induction dirs arbitrary: acc)
    (auto intro!: wkeeps_intros wkeeps_import_paths [OF assms] split: sum.splits)

lemma wkeeps_runImportJSONL:
  assumes "h_ext h = E" and "\<And>inp. no_secrets (oi_PayloadJSON inp) \<Longrightarrow> ok_obs inp"
  shows "wkeeps I (runImportJSONL h args)"
  unfolding runImportJSONL_def
  by (auto intro!: wkeeps_intros wkeeps_import_roots [OF assms])

lemma wkeeps_runDecayTicker:
  assumes "h_ext h = E"
  shows "wkeeps I (runDecayTicker h c)"
  unfolding runDecayTicker_def assms by (auto intro!: wkeeps_intros DecayMemories)

text \<open>Every command, through either dispatch.\<close>

lemma keeps_Run:
  assumes "h_ext h = E" and "\<And>inp. no_secrets (oi_PayloadJSON inp) \<Longrightarrow> ok_obs inp" and "hd args = ''perf-seed'' \<longrightarrow> keeps_seeding E I"
  shows "wkeeps I (\<lambda>w. ((), fst (snd (Run h t args (w, d)))))"
proof -
  have w: "fst (snd (on_world c (w, d))) = snd (c w)" for c w by (simp add: on_world_def split: prod.splits)
  have k: "wkeeps I c \<Longrightarrow> wkeeps I (\<lambda>w. ((), fst (snd (on_world c (w, d)))))" for c
    by (rule wkeeps_snd) (simp_all add: w)
  have bk: "wkeeps I (\<lambda>w. ((), fst (snd (runBackup h io as (w, d)))))" for io as
    by (rule wkeeps_same) (simp add: runBackup_def Let_def split: sum.splits prod.splits)
  define fine where "fine c = (\<forall>as. wkeeps I (\<lambda>w. ((), fst (snd (c as (w, d))))))" for c :: "string list \<Rightarrow> process"
  have f1: "(\<And>as. wkeeps I (g as)) \<Longrightarrow> fine (\<lambda>as. on_world (g as))" for g unfolding fine_def using k by blast
  have f2: "fine (runBackup h io)" for io unfolding fine_def using bk by blast
  have list_all_eq: "list_all P [] = True" "list_all P (x # xs) = (P x \<and> list_all P xs)" for P and x :: "string \<times> (string list \<Rightarrow> process)" and xs by simp_all
  have seed: "fine (\<lambda>as. on_world (runPerfSeed h save as))" if "keeps_seeding E I" for save
    using wkeeps_runPerfSeed [OF assms(1) that] by (rule f1)
  have all: "list_all (\<lambda>(n, c). n = ''perf-seed'' \<and> \<not> keeps_seeding E I \<or> fine c) (commands h t)"
    unfolding commands_def list_all_eq prod.case
    by (intro conjI TrueI; (use seed in \<open>(rule disjI1, simp; fail) | blast\<close> | intro disjI2 f1 f2 wkeeps_intros wkeeps_runDecay [OF assms(1)]
        wkeeps_runSearch wkeeps_runImportJSONL [OF assms(1,2)] wkeeps_runAdd wkeeps_runDoctor))
  show ?thesis
  proof (cases args)
    case Nil
    then show ?thesis by (simp add: Run_def k wkeeps_outputs)
  next
    case (Cons name rest)
    have "fine c" if "map_of (commands h t) name = Some c" for c
      using all map_of_SomeD [OF that] assms(3) Cons by (fastforce simp: list_all_iff)
    then show ?thesis
      using Cons by (auto simp: Run_def k wkeeps_unexpected fine_def split: option.split)
  qed
qed

end

context server_invariant begin

lemma wkeeps_serve_loop:
  assumes "h_ext h = E"
  shows "wkeeps I (serve_loop h rt opts es)"
proof (induction es)
  case Nil
  then show ?case by (simp add: wkeeps_def)
next
  case (Cons e es)
  note ih = Cons.IH [unfolded wkeeps_def, THEN spec]
  show ?case
  proof (cases e)
    case (Arrives r tags)
    have k: "wkeeps I (NewWithOptions (h_ext h) rt (serve_options opts tags) r)" unfolding assms by (rule wkeeps_server)
    show ?thesis unfolding wkeeps_def Arrives
    proof
      fix w
      obtain a w1 where a: "NewWithOptions (h_ext h) rt (serve_options opts tags) r w = (a, w1)"
        by (cases "NewWithOptions (h_ext h) rt (serve_options opts tags) r w")
      obtain b w2 where b: "serve_loop h rt opts es w1 = (b, w2)" by (cases "serve_loop h rt opts es w1")
      show "fts5 (store_of (snd (serve_loop h rt opts (Arrives r tags # es) w))) = fts5 (store_of w) \<and>
          (I (fts5 (store_of w)) (db (store_of w)) \<longrightarrow>
           I (fts5 (store_of w)) (db (store_of (snd (serve_loop h rt opts (Arrives r tags # es) w)))))"
        using k [unfolded wkeeps_def, THEN spec, of w] ih [of w1] by (simp add: a b)
    qed
  next
    case Ticks
    show ?thesis unfolding wkeeps_def Ticks
    proof
      fix w
      let ?w = "if 0 < DecayIntervalHours (so_memory opts) then snd (runDecayTicker h (so_memory opts) w) else w"
      show "fts5 (store_of (snd (serve_loop h rt opts (Ticks # es) w))) = fts5 (store_of w) \<and>
          (I (fts5 (store_of w)) (db (store_of w)) \<longrightarrow>
           I (fts5 (store_of w)) (db (store_of (snd (serve_loop h rt opts (Ticks # es) w)))))"
        using ih [of ?w] wkeeps_runDecayTicker [OF assms, of "so_memory opts", unfolded wkeeps_def, THEN spec, of w]
        by (simp split: if_splits)
    qed
  next
    case (Outside vs cs bs fs)
    show ?thesis unfolding wkeeps_def Outside
    proof
      fix w :: world
      show "fts5 (store_of (snd (serve_loop h rt opts (Outside vs cs bs fs # es) w))) = fts5 (store_of w) \<and>
          (I (fts5 (store_of w)) (db (store_of w)) \<longrightarrow>
           I (fts5 (store_of w)) (db (store_of (snd (serve_loop h rt opts (Outside vs cs bs fs # es) w)))))"
        using ih [of "w\<lparr>embeds := vs, clock := cs, brk_clock := bs, store_of := (store_of w)\<lparr>faults := fs\<rparr>\<rparr>"] by simp
    qed
  qed
qed

lemma keeps_runServe:
  assumes "h_ext h = E"
  shows "wkeeps I (\<lambda>w. ((), snd (snd (runServe h rt es stopped args w))))"
proof -
  have s: "snd (snd (runServe h rt es stopped args w)) = w \<or>
      (\<exists>opts. snd (snd (runServe h rt es stopped args w)) = snd (serve_loop h rt opts es (w\<lparr>brk := serve_breaker opts\<rparr>)))" for w
  proof (cases "parseServeOptions (h_env h) args")
    case (Inr opts)
    then show ?thesis
      by (cases "serve_loop h rt opts es (w\<lparr>brk := serve_breaker opts\<rparr>)"; cases "h_open h (so_dbPath opts)"; cases stopped)
        (auto simp: runServe_def Let_def intro!: exI [of _ opts])
  qed (simp add: runServe_def)
  have l: "fts5 (store_of (snd (serve_loop h rt opts es (w\<lparr>brk := v\<rparr>)))) = fts5 (store_of w) \<and>
      (I (fts5 (store_of w)) (db (store_of w)) \<longrightarrow>
       I (fts5 (store_of w)) (db (store_of (snd (serve_loop h rt opts es (w\<lparr>brk := v\<rparr>))))))" for opts v and w :: world
    using wkeeps_serve_loop [OF assms, of rt opts es, unfolded wkeeps_def, THEN spec, of "w\<lparr>brk := v\<rparr>"] by simp
  show ?thesis unfolding wkeeps_def snd_conv
  proof
    fix w
    from s [of w] show "fts5 (store_of (snd (snd (runServe h rt es stopped args w)))) = fts5 (store_of w) \<and>
        (I (fts5 (store_of w)) (db (store_of w)) \<longrightarrow>
         I (fts5 (store_of w)) (db (store_of (snd (snd (runServe h rt es stopped args w))))))"
      by (elim disjE exE) (simp_all add: l)
  qed
qed

lemma keeps_run:
  assumes "h_ext h = E" and "\<And>inp. no_secrets (oi_PayloadJSON inp) \<Longrightarrow> ok_obs inp" and "hd args = ''perf-seed'' \<longrightarrow> keeps_seeding E I"
  shows "wkeeps I (\<lambda>w. ((), fst (snd (snd (run h t rt es stopped args (w, d))))))"
proof -
  have w: "fst (snd (on_world c (w, d))) = snd (c w)" for c w by (simp add: on_world_def split: prod.splits)
  have fin: "fst (snd (snd (case x of (out, wd1) \<Rightarrow> (Exits out, ([] :: hres list), wd1)))) = fst (snd x)" for x :: "outcome \<times> world \<times> disk"
    by (cases x) simp
  have srv: "fst (snd (snd (case x of (e, rs, w) \<Rightarrow> (e, rs, w, d)))) = snd (snd x)" for x :: "ending \<times> hres list \<times> world"
    by (cases x) simp
  have names: "''version'' \<notin> set admin_names" "''healthz'' \<notin> set admin_names" "''serve'' \<notin> set admin_names"
    by (simp_all add: admin_names_def)
  define p q where "p \<longleftrightarrow> args \<noteq> [] \<and> hd args = ''serve''" and "q \<longleftrightarrow> args \<noteq> [] \<and> hd args \<in> set admin_names"
  have same: "fst (snd (snd (run h t rt es stopped args (w, d)))) =
      (if p then snd (snd (runServe h rt es stopped (tl args) w)) else if q then fst (snd (Run h t args (w, d))) else w)" for w
    by (cases "args = []"; cases "hd args = ''version''"; cases "hd args = ''healthz''"; cases "hd args = ''serve''")
      (simp_all add: run_def Let_def fin srv w prints_def exits_def unsupported_command_def p_def q_def names)
  have "wkeeps I (\<lambda>w. ((), w))" by (simp add: wkeeps_def)
  then show ?thesis
    using keeps_Run [OF assms, of t d] keeps_runServe [OF assms(1), of rt es stopped "tl args"]
    unfolding same by (cases p; cases q) simp_all
qed

end

section \<open>The life of a database\<close>

text \<open>
  Any program run after another on a database and a disk, with any arguments and on any machine, but
  with the same external functions; between runs and during them, anything outside may happen. The
  flag says whether \<open>perf-seed\<close> may be among the programs.
\<close>

inductive process_step :: "ext \<Rightarrow> bool \<Rightarrow> world \<times> disk \<Rightarrow> world \<times> disk \<Rightarrow> bool" for E seeds where
  p_run: "h_ext h = E \<Longrightarrow> hd args = ''perf-seed'' \<longrightarrow> seeds \<Longrightarrow> process_step E seeds wd (snd (snd (run h t rt es stopped args wd)))"
| p_outside: "process_step E seeds (w, d) (w\<lparr>embeds := vs, clock := cs, brk_clock := bs, store_of := (store_of w)\<lparr>faults := fs\<rparr>\<rparr>, d1)"

inductive process_reach :: "ext \<Rightarrow> bool \<Rightarrow> bool \<Rightarrow> world \<times> disk \<Rightarrow> bool" for E seeds b where
  p_init: "db (store_of (fst wd)) = empty_db \<Longrightarrow> fts5 (store_of (fst wd)) = b \<Longrightarrow> process_reach E seeds b wd"
| p_step: "process_reach E seeds b wd \<Longrightarrow> process_step E seeds wd wd' \<Longrightarrow> process_reach E seeds b wd'"

lemma process_reach_keeps:
  assumes r: "process_reach E seeds b wd" and e: "I b empty_db"
    and k: "\<And>h args t rt es stopped d. h_ext h = E \<Longrightarrow> hd args = ''perf-seed'' \<longrightarrow> seeds \<Longrightarrow>
      wkeeps I (\<lambda>w. ((), fst (snd (snd (run h t rt es stopped args (w, d))))))"
  shows "fts5 (store_of (fst wd)) = b \<and> I b (db (store_of (fst wd)))"
  using r
proof induction
  case (p_init wd)
  then show ?case using e by simp
next
  case (p_step wd wd')
  from p_step.hyps(2) show ?case
  proof cases
    case (p_run h args t rt es stopped)
    then show ?thesis
      using k [of h args t rt es stopped "snd wd", unfolded wkeeps_def, THEN spec, of "fst wd"] p_step.IH by simp
  qed (use p_step.IH in simp)
qed

interpretation keys: server_invariant "\<lambda>_. db_wf" E "\<lambda>_. True"
  by unfold_locales simp

text \<open>
  C2. Whatever programs are run one after the other on a database (any commands with any arguments,
  servers with any requests and decay ticks), on whatever machines, and wherever the driver and the
  embedder fail: keys and references of the database are in order. As long as \<open>perf-seed\<close> is not
  among them, its counters are exact, its full-text index mirrors the memories, and every stored
  payload is free of secrets, too.
\<close>

theorem process_reachable:
  assumes "process_reach E seeds b (w, d)"
  shows "db_wf (db (store_of w)) \<and> (seeds \<or> store_inv b (db (store_of w)) \<and> redacted E (db (store_of w)))"
proof -
  have wf: "db_wf (db (store_of w))"
    using process_reach_keeps [OF assms, of "\<lambda>_. db_wf"] keys.keeps_run empty_inv keeps_SeedPerfData
    by (simp add: store_inv_def keeps_seeding_def)
  have "redacted E empty_db" by (simp add: redacted_def empty_db_def)
  then have "store_inv b (db (store_of w)) \<and> redacted E (db (store_of w))" if "\<not> seeds"
    using process_reach_keeps [OF assms, of store_inv] process_reach_keeps [OF assms, of "\<lambda>_. redacted E"] empty_inv
      srv.keeps_run guard.keeps_run that by simp
  then show ?thesis using wf by blast
qed

definition ex_host :: host where
  "ex_host = \<lparr>h_env = ex_environ, h_ext = ex_ext, h_getwd = Inr ''p'', h_open = (\<lambda>_. None), h_http = (\<lambda>_. NoResponse),
     h_get = (\<lambda>_. NoResponse), h_fs = ex_fs, h_conv = (\<lambda>_. 0), h_iter = (\<lambda>m. m), h_stat = (\<lambda>_. Present), h_probe = (\<lambda>_. (None, None, None))\<rparr>"

definition ex_tools :: toolbox where
  "ex_tools = \<lparr>to_bench = \<lparr>bh_ext = ex_ext, bh_log2 = (\<lambda>x. x), bh_latency = (\<lambda>_. 1), bh_read = (\<lambda>_. Inl Driver), bh_open = (\<lambda>_. None),
       bh_mkdir = (\<lambda>_. None), bh_worktmp = (\<lambda>_. None), bh_create = (\<lambda>_. None), bh_write = (\<lambda>_. None), bh_flush = (\<lambda>_. None),
       bh_sandbox = (\<lambda>_. None), bh_fresh = (\<lambda>_. Inr ex_store), bh_stamp = ''s''\<rparr>,
     to_load = (\<lambda>_ _ _ _ _. Undone 1 Driver), to_sandbox = ex_store, to_save = (\<lambda>_. None), to_backup = ex_io\<rparr>"

theorem process_reachable_witness:
  "redacted ex_ext (db (store_of (fst (snd (snd
     (run ex_host ex_tools ex_rt [Arrives ex_probe NoResponse, Ticks] None [''serve''] (ex_new, Map.empty)))))))"
proof -
  let ?s = "snd (snd (run ex_host ex_tools ex_rt [Arrives ex_probe NoResponse, Ticks] None [''serve''] (ex_new, Map.empty)))"
  have "process_reach ex_ext False True ?s"
    by (rule p_step [OF p_init p_run]) (simp_all add: ex_new_def ex_store_def ex_host_def)
  then show ?thesis using process_reachable [of ex_ext False True "fst ?s" "snd ?s"] by simp
qed

section \<open>Exit codes\<close>

text \<open>The code and the message of an outcome agree.\<close>

definition frank :: "bool \<Rightarrow> outcome \<Rightarrow> bool" where
  "frank strict out = (oc_code out \<in> {0, 1, 2} \<and> (oc_code out \<noteq> 0 \<longrightarrow> oc_err out \<noteq> []) \<and>
     (strict \<and> oc_code out = 0 \<longrightarrow> oc_err out = []))"

definition reports :: "bool \<Rightarrow> command \<Rightarrow> bool" where
  "reports strict c = (\<forall>w. frank strict (fst (c w)))"

named_theorems reports_intros \<open>commands whose code and message agree\<close>

lemma frank_outcome [simp]: "frank st \<lparr>oc_code = c, oc_out = t, oc_err = m\<rparr> =
    (c \<in> {0, 1, 2} \<and> (c \<noteq> 0 \<longrightarrow> m \<noteq> []) \<and> (st \<and> c = 0 \<longrightarrow> m = []))"
  by (simp add: frank_def)

lemma reports_outputs [reports_intros]: "reports st (exits 1 m)" "reports st (exits 2 m)" "reports st (prints ls)"
  by (simp_all add: reports_def exits_def prints_def)

lemma reports_or_exit [reports_intros]:
  "c \<in> {1, 2} \<Longrightarrow> (\<And>x. reports st (k x)) \<Longrightarrow> reports st (or_exit h l c act k)"
  by (auto simp: reports_def or_exit_def exits_def split: prod.splits sum.splits)

lemma reports_with_store [reports_intros]: "reports st k \<Longrightarrow> reports st (with_store h p k)"
  by (auto simp: reports_def with_store_def exits_def split: option.splits)

lemma reports_parsed [reports_intros]: "(\<And>x. reports st (k x)) \<Longrightarrow> reports st (parsed h r k)"
  by (cases r) (simp_all add: parsed_def reports_intros)

lemma reports_unexpected [reports_intros]: "reports st (unexpected_argument h a)" "reports st (unsupported_command h a)"
  by (simp_all add: unexpected_argument_def unsupported_command_def reports_intros)

lemma reports_import: "reports st (import_roots h p dirs acc)"
proof -
  have paths: "(\<And>a. reports st (k a)) \<Longrightarrow> reports st (import_paths h p ps k acc)" for ps k acc
    by (induction ps arbitrary: acc) (auto intro!: reports_intros)
  show ?thesis by (induction dirs arbitrary: acc) (auto intro!: reports_intros paths split: sum.splits)
qed

lemma reports_runDoctor [reports_intros]: "reports st (runDoctor h args)"
  unfolding reports_def
proof
  fix w
  show "frank st (fst (runDoctor h args w))"
  proof (cases "parseDoctorOptions (h_env h) args")
    case (Inr r)
    obtain opts rest where "r = (opts, rest)" by (cases r)
    then show ?thesis
      by (simp add: runDoctor_def parsed_def exits_def unexpected_argument_def Inr Let_def
          split: file_status.split option.split sum.split prod.split)
  qed (simp add: runDoctor_def parsed_def exits_def)
qed

lemma reports_cases [reports_intros]:
  "reports st a \<Longrightarrow> reports st b \<Longrightarrow> reports st (if c then a else b)"
  "(\<And>e. reports st (f e)) \<Longrightarrow> (\<And>x. reports st (g x)) \<Longrightarrow> reports st (case r of Inl e \<Rightarrow> f e | Inr x \<Rightarrow> g x)"
  "reports st a \<Longrightarrow> (\<And>x. reports st (o1 x)) \<Longrightarrow> reports st (case v of None \<Rightarrow> a | Some x \<Rightarrow> o1 x)"
  "reports st a \<Longrightarrow> (\<And>x y. reports st (l x y)) \<Longrightarrow> reports st (case xs of [] \<Rightarrow> a | x # y \<Rightarrow> l x y)"
  "(\<And>x y. reports st (k x y)) \<Longrightarrow> reports st (case p of (x, y) \<Rightarrow> k x y)"
  "reports False (\<lambda>w. (\<lparr>oc_code = 0, oc_out = t, oc_err = m\<rparr>, w))"
  by (simp_all add: reports_def split: sum.split option.split list.split prod.split)

lemma reports_runMigrate [reports_intros]: "reports st (runMigrate h args)"
  unfolding runMigrate_def Let_def by (intro reports_intros)

lemma reports_runSessions [reports_intros]: "reports st (runSessions h args)"
  unfolding runSessions_def Let_def by (intro reports_intros) simp_all

lemma reports_runCompact [reports_intros]: "reports st (runCompact h args)"
  unfolding runCompact_def Let_def by (intro reports_intros) simp_all

lemma reports_runDecay [reports_intros]: "reports st (runDecay h args)"
  unfolding runDecay_def Let_def by (intro reports_intros) simp_all

lemma reports_runEmbedMissing [reports_intros]: "reports st (runEmbedMissing h args b)"
  unfolding runEmbedMissing_def Let_def by (intro reports_intros) simp_all

lemma reports_runAdd [reports_intros]: "reports False (runAdd h args)"
  unfolding runAdd_def Let_def by (intro reports_intros) simp_all

lemma reports_runPerfSeed [reports_intros]: "reports st (runPerfSeed h save args)"
  unfolding runPerfSeed_def Let_def by (intro reports_intros) simp_all

lemma reports_runBench [reports_intros]: "reports st (runBench h bh net sb args)"
  unfolding runBench_def Let_def by (intro reports_intros) simp_all

lemma reports_runImportJSONL [reports_intros]: "reports st (runImportJSONL h args)"
  unfolding runImportJSONL_def by (intro reports_intros reports_import)

lemma reports_runSearch [reports_intros]: "reports st (runSearch h args)"
proof -
  have "reports st (\<lambda>w. case searchMemories h opts q w of
      (Inl e, w1) \<Rightarrow> if c e then exits 2 (a e) w1 else exits 1 (b e) w1
    | (Inr ms, w1) \<Rightarrow> prints (g ms) w1)" for opts q c a b g
    by (simp add: reports_def exits_def prints_def split: prod.split sum.split)
  then show ?thesis unfolding runSearch_def Let_def by (intro reports_intros)
qed

lemma frank_runBackup: "frank st (fst (runBackup h io args wd))"
  by (simp add: runBackup_def Let_def split: sum.split prod.split)

lemma frank_Run: "frank (hd args \<noteq> ''add'') (fst (Run h t args wd))"
proof -
  have k: "reports st c \<Longrightarrow> frank st (fst (on_world c v))" for c v st
    by (simp add: on_world_def reports_def split: prod.split) (metis fst_conv)
  define fine where "fine st c = (\<forall>as v. frank st (fst (c as v)))" for c :: "string list \<Rightarrow> process" and st
  have f1: "(\<And>as. reports st (g as)) \<Longrightarrow> fine st (\<lambda>as. on_world (g as))" for g st unfolding fine_def using k by blast
  have f2: "fine st (runBackup h io)" for io st unfolding fine_def using frank_runBackup by blast
  have list_all_eq: "list_all P [] = True" "list_all P (x # xs) = (P x \<and> list_all P xs)"
    for P and x :: "string \<times> (string list \<Rightarrow> process)" and xs by simp_all
  have all: "list_all (\<lambda>(n, c). fine (n \<noteq> ''add'') c) (commands h t)"
    unfolding commands_def list_all_eq prod.case
    by (intro conjI TrueI) (simp_all add: f1 f2 reports_intros)
  show ?thesis
  proof (cases args)
    case Nil
    then show ?thesis by (simp add: Run_def k reports_intros)
  next
    case (Cons name rest)
    have "fine (name \<noteq> ''add'') c" if "map_of (commands h t) name = Some c" for c
      using all map_of_SomeD [OF that] by (fastforce simp: list_all_iff)
    then show ?thesis
      using Cons by (cases wd) (auto simp: Run_def k reports_intros fine_def split: option.split)
  qed
qed



section \<open>Panics\<close>

text \<open>
  The default command is \<open>serve\<close>, but \<open>args[1:]\<close> of no arguments is out of range: the program never
  gets as far as its options.
\<close>

lemma run_without_arguments: "run h t rt es stopped [] wd = (Panics, [], wd)"
  by (simp add: run_def)

text \<open>An interval of 2562048 hours is accepted as a number of hours and overflows as a duration.\<close>

lemma decay_interval_overflows:
  "DecayIntervalHours (so_memory opts) = 2562048 \<Longrightarrow> decay_interval opts < 0"
  by (simp add: decay_interval_def i64_def)

end
