(* ===== verification/BenchProps.thy ===== *)
theory BenchProps
  imports Perf
begin

text \<open>
  The metrics of the benchmarks: they count what they say they count and stay in the unit interval,
  and the percentiles are measured values.
\<close>

section \<open>Counting\<close>

lemma hits_loop_card: "hits_loop gold seen xs = int (card (set xs \<inter> set gold - set seen))"
proof (induction xs arbitrary: seen)
  case (Cons x xs)
  show ?case
  proof (cases "x \<in> set gold \<and> x \<notin> set seen")
    case True
    have "set (x # xs) \<inter> set gold - set seen = insert x (set xs \<inter> set gold - set (x # seen))" using True by auto
    then have "card (set (x # xs) \<inter> set gold - set seen) = Suc (card (set xs \<inter> set gold - set (x # seen)))" by simp
    then show ?thesis using True Cons by simp
  next
    case False
    then have "set (x # xs) \<inter> set gold - set seen = set xs \<inter> set gold - set seen" by auto
    then show ?thesis using False Cons by auto
  qed
qed simp

text \<open>The gold identifiers among the first \<open>k\<close>, each once.\<close>

lemma hitsAt_card: "hitsAt ranked gold k = int (card (set (take (nat k) ranked) \<inter> {g \<in> set gold. g \<noteq> []}))"
  by (simp add: hitsAt_def hits_loop_card gold_set_def)

lemma hitsAt_bounds:
  "0 \<le> hitsAt ranked gold k" "hitsAt ranked gold k \<le> int (length (gold_set gold))"
  "0 \<le> k \<Longrightarrow> hitsAt ranked gold k \<le> k"
proof -
  let ?s = "set (take (nat k) ranked) \<inter> set (gold_set gold)"
  have h: "hitsAt ranked gold k = int (card ?s)" by (simp add: hitsAt_card gold_set_def)
  show "0 \<le> hitsAt ranked gold k" by (simp add: h)
  have "card ?s \<le> card (set (gold_set gold))" by (rule card_mono) auto
  also have "\<dots> \<le> length (gold_set gold)" by (rule card_length)
  finally show "hitsAt ranked gold k \<le> int (length (gold_set gold))" by (simp add: h)
  have "card ?s \<le> card (set (take (nat k) ranked))" by (rule card_mono) auto
  also have "\<dots> \<le> length (take (nat k) ranked)" by (rule card_length)
  finally have "card ?s \<le> nat k" by simp
  then show "0 \<le> k \<Longrightarrow> hitsAt ranked gold k \<le> k" by (simp add: h)
qed

section \<open>Values of the unit interval\<close>

definition unit_value :: "f64 \<Rightarrow> bool" where
  "unit_value x = (\<exists>q. x = Fin q \<and> 0 \<le> q \<and> q \<le> 1)"

lemma unit_values [simp]: "unit_value (Fin 0)" "unit_value (Fin 1)"
  by (simp_all add: unit_value_def)

lemma big: "(2 :: rat) ^ 53 < pow2 1024"
proof -
  have "pow2 53 < pow2 1024" by (rule power_int_strict_increasing) auto
  then show ?thesis by simp
qed

lemma int_value: "0 \<le> n \<Longrightarrow> n \<le> 2 ^ 53 \<Longrightarrow> f64_of_int n = Fin (of_int n)"
proof -
  assume n: "0 \<le> n" "n \<le> 2 ^ 53"
  then have "(of_int n :: rat) \<le> 2 ^ 53" by (metis of_int_le_iff of_int_numeral of_int_power)
  then have "of_int n < pow2 1024" using big by linarith
  moreover have "- pow2 1024 < (0 :: rat)" by simp
  then have "- pow2 1024 < (of_int n :: rat)" by (rule less_le_trans) (use n(1) in simp)
  ultimately show ?thesis using n by (simp add: f64_of_int_def f64_of_rat_def rnd_of_int Let_def)
qed

lemma unit_quotient:
  assumes "0 \<le> a" and "a \<le> b" and "0 < b"
  shows "unit_value (f64_div (Fin a) (Fin b))"
proof -
  have q: "0 \<le> a / b" "a / b \<le> 1" using assms by simp_all
  then have "f64_of_rat (a / b) = Fin (rnd (a / b))" by (intro f64_of_rat_small) linarith
  then have "f64_div (Fin a) (Fin b) = Fin (rnd (a / b))" using assms(3) by simp
  moreover have "0 \<le> rnd (a / b)" using q(1) by (rule rnd_nonneg)
  moreover have "rnd (a / b) \<le> 1" using rnd_mono [OF q(2)] by simp
  ultimately show ?thesis unfolding unit_value_def by blast
qed

lemma unit_ratio: "0 \<le> a \<Longrightarrow> a \<le> b \<Longrightarrow> 0 < b \<Longrightarrow> b \<le> 2 ^ 53 \<Longrightarrow> unit_value (ratio a b)"
  by (simp add: ratio_def int_value unit_quotient del: f64_div.simps)

lemma unit_mrr: "0 \<le> i \<Longrightarrow> i + int (length xs) \<le> 2 ^ 53 \<Longrightarrow> unit_value (mrr_loop gold i xs)"
  by (induction gold i xs rule: mrr_loop.induct) (auto simp: int_value intro!: unit_quotient simp del: f64_div.simps)

section \<open>Discounted gains\<close>

text \<open>What is used of the logarithm: from 2 on it is at least 1 and does not decrease.\<close>

definition log_like :: "(f64 \<Rightarrow> f64) \<Rightarrow> bool" where
  "log_like lg = (\<exists>l. (\<forall>n. 2 \<le> n \<longrightarrow> lg (f64_of_int n) = Fin (l n)) \<and> (\<forall>n. 2 \<le> n \<longrightarrow> 1 \<le> l n) \<and>
     (\<forall>m n. 2 \<le> m \<longrightarrow> m \<le> n \<longrightarrow> l m \<le> l n))"

lemma gains:
  assumes "log_like lg"
  obtains g where "\<And>i. 0 \<le> i \<Longrightarrow> gain lg i = Fin (g i)" "\<And>i. 0 \<le> i \<Longrightarrow> 0 \<le> g i \<and> g i \<le> 1"
    "\<And>i j. 0 \<le> i \<Longrightarrow> i \<le> j \<Longrightarrow> g j \<le> g i"
proof -
  obtain l where l: "\<And>n. 2 \<le> n \<Longrightarrow> lg (f64_of_int n) = Fin (l n)" "\<And>n. 2 \<le> n \<Longrightarrow> 1 \<le> l n"
    "\<And>m n. 2 \<le> m \<Longrightarrow> m \<le> n \<Longrightarrow> l m \<le> l n"
    using assms unfolding log_like_def by blast
  have pos: "0 < l (i + 2)" if "0 \<le> i" for i using l(2) [of "i + 2"] that by simp
  have small: "0 \<le> 1 / l (i + 2)" "1 / l (i + 2) \<le> 1" if "0 \<le> i" for i
    using pos [OF that] l(2) [of "i + 2"] that by simp_all
  show ?thesis
  proof (rule that [of "\<lambda>i. rnd (1 / l (i + 2))"])
    show "gain lg i = Fin (rnd (1 / l (i + 2)))" if "0 \<le> i" for i
    proof -
      have "f64_of_rat (1 / l (i + 2)) = Fin (rnd (1 / l (i + 2)))" using small [OF that] by (intro f64_of_rat_small) linarith
      then show ?thesis using pos [OF that] l(1) [of "i + 2"] that by (simp add: gain_def)
    qed
    show "0 \<le> rnd (1 / l (i + 2)) \<and> rnd (1 / l (i + 2)) \<le> 1" if "0 \<le> i" for i
      using rnd_nonneg [OF small(1) [OF that]] rnd_mono [OF small(2) [OF that]] by simp
    show "rnd (1 / l (j + 2)) \<le> rnd (1 / l (i + 2))" if "0 \<le> i" "i \<le> j" for i j
      using l(3) [of "i + 2" "j + 2"] pos [of i] pos [of j] that by (intro rnd_mono) (simp add: frac_le)
  qed
qed

text \<open>A sum of \<open>n\<close> gains, and one more.\<close>

lemma add_gain:
  assumes "0 \<le> a" and "a \<le> of_int n" and "0 \<le> g" and "g \<le> 1" and "0 \<le> n" and "n < 2 ^ 53"
  shows "f64_add (Fin a) (Fin g) = Fin (rnd (a + g))" and "0 \<le> rnd (a + g)" and "rnd (a + g) \<le> of_int (n + 1)"
proof -
  have le: "a + g \<le> of_int (n + 1)" using assms by simp
  have "rnd (of_int (n + 1)) = (of_int (n + 1) :: rat)" using assms by (intro rnd_of_int) simp
  then show u: "rnd (a + g) \<le> of_int (n + 1)" using rnd_mono [OF le] by simp
  show nn: "0 \<le> rnd (a + g)" using assms by (intro rnd_nonneg) simp
  have "n + 1 \<le> 2 ^ 53" using assms by simp
  then have "(of_int (n + 1) :: rat) \<le> 2 ^ 53" by (metis of_int_le_iff of_int_numeral of_int_power)
  then have "rnd (a + g) < pow2 1024" using u big by linarith
  moreover have "- pow2 1024 < (0 :: rat)" by simp
  then have "- pow2 1024 < rnd (a + g)" using nn by (rule less_le_trans)
  ultimately show "f64_add (Fin a) (Fin g) = Fin (rnd (a + g))" by (simp add: f64_of_rat_def Let_def)
qed

lemma rnd_idem: "rnd (rnd x) = rnd x"
proof (cases "x = 0")
  case False
  let ?e = "ulp_exp x" and ?k = "rne (x / pow2 (ulp_exp x))"
  have "\<bar>x\<bar> < pow2 (ilog2 \<bar>x\<bar> + 1)" using ilog2_bounds [of "\<bar>x\<bar>"] False by simp
  also have "\<dots> \<le> pow2 (53 + ?e)" by (rule pow2_mono) (simp add: ulp_exp_def)
  also have "\<dots> = 2 ^ 53 * pow2 ?e" using pow2_add [of "53" ?e] by simp
  finally have "\<bar>x / pow2 ?e\<bar> \<le> 2 ^ 53" by (simp add: abs_divide pos_divide_le_eq)
  then have "x / pow2 ?e \<le> 2 ^ 53" "- (2 ^ 53) \<le> x / pow2 ?e" by (simp_all only: abs_le_iff minus_le_iff)
  then have "x / pow2 ?e \<le> of_int (2 ^ 53)" "of_int (- (2 ^ 53)) \<le> x / pow2 ?e" by simp_all
  then have "\<bar>?k\<bar> \<le> 2 ^ 53" using rne_le_int [of "x / pow2 ?e" "2 ^ 53"] rne_ge_int [of "- (2 ^ 53)" "x / pow2 ?e"] by simp
  moreover have "- 1074 \<le> ?e" by (simp add: ulp_exp_def)
  ultimately have "rnd (of_int ?k * pow2 ?e) = of_int ?k * pow2 ?e" by (rule rnd_dyadic)
  then show ?thesis using False by (simp add: rnd_def [of x] Let_def)
qed simp

lemma idcg_grows:
  assumes "log_like lg"
  shows "0 \<le> j \<Longrightarrow> 0 \<le> b \<Longrightarrow> b \<le> of_int j \<Longrightarrow> rnd b = b \<Longrightarrow> j + int m \<le> 2 ^ 53 \<Longrightarrow>
    \<exists>q. idcg_loop lg j (Fin b) m = Fin q \<and> b \<le> q"
proof (induction m arbitrary: j b)
  case (Suc m)
  obtain g where g: "\<And>i. 0 \<le> i \<Longrightarrow> gain lg i = Fin (g i)" "\<And>i. 0 \<le> i \<Longrightarrow> 0 \<le> g i \<and> g i \<le> 1"
    by (rule gains [OF assms]) blast
  have h: "0 \<le> g j" "g j \<le> 1" "j < 2 ^ 53" using g(2) [OF Suc.prems(1)] Suc.prems(5) by auto
  note s = add_gain [OF Suc.prems(2,3) h(1,2) Suc.prems(1) h(3)]
  have "b \<le> rnd (b + g j)" using rnd_mono [of b "b + g j"] Suc.prems(4) h(1) by simp
  moreover obtain q where "idcg_loop lg (j + 1) (Fin (rnd (b + g j))) m = Fin q" "rnd (b + g j) \<le> q"
    using Suc.IH [OF _ s(2,3) rnd_idem] Suc.prems(1,5) by auto
  ultimately show ?case using s(1) g(1) [OF Suc.prems(1)] by (simp del: f64_add.simps)
qed simp

text \<open>The gains of the hits at positions \<open>i\<close> and later are no more than as many ideal ones from \<open>j\<close> on.\<close>

lemma dcg_below:
  assumes "log_like lg"
  shows "0 \<le> j \<Longrightarrow> j \<le> i \<Longrightarrow> 0 \<le> a \<Longrightarrow> a \<le> b \<Longrightarrow> b \<le> of_int j \<Longrightarrow> rnd b = b \<Longrightarrow>
    length (filter (\<lambda>x. x \<in> set gold) xs) \<le> m \<Longrightarrow> j + int m \<le> 2 ^ 53 \<Longrightarrow>
    \<exists>p q. dcg_loop lg gold i (Fin a) xs = Fin p \<and> idcg_loop lg j (Fin b) m = Fin q \<and> 0 \<le> p \<and> p \<le> q"
proof (induction xs arbitrary: i j a b m)
  case Nil
  then show ?case using idcg_grows [OF assms, of j b m] by auto
next
  case (Cons x xs)
  show ?case
  proof (cases "x \<in> set gold")
    case True
    obtain n where m: "m = Suc n" using Cons.prems(7) True by (cases m) auto
    obtain g where g: "\<And>i. 0 \<le> i \<Longrightarrow> gain lg i = Fin (g i)" "\<And>i. 0 \<le> i \<Longrightarrow> 0 \<le> g i \<and> g i \<le> 1"
      "\<And>i j. 0 \<le> i \<Longrightarrow> i \<le> j \<Longrightarrow> g j \<le> g i"
      by (rule gains [OF assms]) blast
    have i: "0 \<le> i" using Cons.prems(1,2) by simp
    have j: "j < 2 ^ 53" using Cons.prems(8) m by simp
    have b: "0 \<le> b" "a \<le> of_int j" using Cons.prems(3-5) by simp_all
    note ga = add_gain [OF Cons.prems(3) b(2) conjunct1 [OF g(2) [OF i]] conjunct2 [OF g(2) [OF i]] Cons.prems(1) j]
    note gb = add_gain [OF b(1) Cons.prems(5) conjunct1 [OF g(2) [OF Cons.prems(1)]] conjunct2 [OF g(2) [OF Cons.prems(1)]]
      Cons.prems(1) j]
    have le: "rnd (a + g i) \<le> rnd (b + g j)"
      using Cons.prems(4) g(3) [OF Cons.prems(1,2)] by (intro rnd_mono) simp
    have "length (filter (\<lambda>x. x \<in> set gold) xs) \<le> n" using Cons.prems(7) True m by simp
    then obtain p q where "dcg_loop lg gold (i + 1) (Fin (rnd (a + g i))) xs = Fin p"
      "idcg_loop lg (j + 1) (Fin (rnd (b + g j))) n = Fin q" "0 \<le> p" "p \<le> q"
      using Cons.IH [OF _ _ ga(2) le gb(3) rnd_idem, of "i + 1" n] Cons.prems(1,2,8) m by auto
    then show ?thesis
      using True ga(1) gb(1) g(1) [OF i] g(1) [OF Cons.prems(1)] m by (simp del: f64_add.simps)
  next
    case False
    then show ?thesis using Cons.IH [OF Cons.prems(1) _ Cons.prems(3-6), of "i + 1" m] Cons.prems(2,7,8) by simp
  qed
qed

lemma unit_NDCG:
  assumes "log_like lg" and "distinct ranked" and "length ranked \<le> 2 ^ 53"
  shows "unit_value (NDCGAt lg ranked gold k)"
proof (cases "k \<le> 0 \<or> ranked = [] \<or> gold = []")
  case False
  let ?k = "if k > int (length ranked) then int (length ranked) else k" and ?g = "gold_set gold"
  let ?ideal = "min (int (length ?g)) ?k" and ?top = "take (nat ?k) ranked"
  have k: "0 < ?k" "?k \<le> int (length ranked)" using False by auto
  have "length (filter (\<lambda>x. x \<in> set ?g) ?top) = card (set (filter (\<lambda>x. x \<in> set ?g) ?top))"
    using assms(2) by (intro distinct_card [symmetric] distinct_filter distinct_take)
  also have "\<dots> \<le> card (set ?g)" by (rule card_mono) auto
  also have "\<dots> \<le> length ?g" by (rule card_length)
  finally have "length (filter (\<lambda>x. x \<in> set ?g) ?top) \<le> length ?g" .
  moreover have "length (filter (\<lambda>x. x \<in> set ?g) ?top) \<le> nat ?k"
    using length_filter_le [of "\<lambda>x. x \<in> set ?g" ?top] by simp
  ultimately have "length (filter (\<lambda>x. x \<in> set ?g) ?top) \<le> nat ?ideal" by simp
  moreover have "0 + int (nat ?ideal) \<le> 2 ^ 53" using k assms(3) by simp
  ultimately obtain p q where "dcg_loop lg ?g 0 (Fin 0) ?top = Fin p" "idcg_loop lg 0 (Fin 0) (nat ?ideal) = Fin q" "0 \<le> p" "p \<le> q"
    using dcg_below [OF assms(1), of 0 0 0 0 ?g ?top "nat ?ideal"] by auto
  then show ?thesis
    using False unit_quotient [of p q] unfolding NDCGAt_def Let_def by (simp add: f64_eq_def del: f64_div.simps)
qed (auto simp: NDCGAt_def)

section \<open>Properties\<close>


lemma constant_log: "log_like (\<lambda>_. Fin 1)"
  unfolding log_like_def by (rule exI [of _ "\<lambda>_. 1"]) simp


section \<open>Findings\<close>

text \<open>A gold list of empty identifiers has nothing to recall, and the quotient is not a number.\<close>

lemma recall_NaN: "RecallAt [''a''] [[]] 5 = NaN"
  using int_value [of 0] by (simp add: RecallAt_def ratio_def hitsAt_def gold_set_def)

text \<open>
  A repeated result is counted again by the gain: a run into an output directory that holds the
  database of an earlier run finds every memory twice.
\<close>

lemma ndcg_above_one: "\<not> unit_value (NDCGAt (\<lambda>_. Fin 1) [''a'', ''a''] [''a''] 10)"
proof -
  have one: "f64_of_rat 1 = Fin 1" "f64_of_rat 2 = Fin 2" using int_value [of 1] int_value [of 2] by (simp_all add: f64_of_int_def)
  have "NDCGAt (\<lambda>_. Fin 1) [''a'', ''a''] [''a''] 10 = Fin 2"
    by (simp add: NDCGAt_def Let_def gold_set_def gain_def one f64_eq_def)
  then show ?thesis by (simp add: unit_value_def)
qed

end
