(* ===== verification/Migrations.thy ===== *)
theory Migrations
  imports Db
begin

text \<open>
  Opening a database (\<open>store/store.go\<close>) and bringing its schema up to date (\<open>store/migrations.go\<close> and
  the scripts it embeds). The other theories of the store start where this one ends: at the complete
  schema. A failure of the driver stands for everything a statement can fail of beyond the schema
  itself, such as a unique index over rows that are there.
\<close>

section \<open>The schema\<close>

datatype key = NoKey | PrimaryKey | AutoKey

record column =
  co_name :: string
  co_type :: string
  co_required :: bool
  co_key :: key
  co_default :: "string option"
  co_ref :: "(string \<times> string \<times> bool) option"

text \<open>A column, and the constraints that may follow it; the flag of a reference is \<open>ON DELETE CASCADE\<close>.\<close>

definition column_of :: "string \<Rightarrow> string \<Rightarrow> column" where
  "column_of n t = \<lparr>co_name = n, co_type = t, co_required = False, co_key = NoKey, co_default = None, co_ref = None\<rparr>"

definition primary :: "column \<Rightarrow> column" where "primary c = c\<lparr>co_key := PrimaryKey\<rparr>"

definition automatic :: "column \<Rightarrow> column" where "automatic c = c\<lparr>co_key := AutoKey\<rparr>"

definition required :: "column \<Rightarrow> column" where "required c = c\<lparr>co_required := True\<rparr>"

definition defaulting :: "string \<Rightarrow> column \<Rightarrow> column" where "defaulting v c = c\<lparr>co_default := Some v\<rparr>"

definition refers_to :: "string \<Rightarrow> string \<Rightarrow> column \<Rightarrow> column" where
  "refers_to t n c = c\<lparr>co_ref := Some (t, n, False)\<rparr>"

definition owned_by :: "string \<Rightarrow> string \<Rightarrow> column \<Rightarrow> column" where
  "owned_by t n c = c\<lparr>co_ref := Some (t, n, True)\<rparr>"

record layout =
  la_tables :: "(string \<times> column list) list"
  la_indexes :: "(string \<times> bool \<times> string \<times> string list) list"

definition empty_layout :: layout where "empty_layout = \<lparr>la_tables = [], la_indexes = []\<rparr>"

section \<open>Statements\<close>

text \<open>The flag of an index is \<open>UNIQUE\<close>. Tables and indexes are created \<open>IF NOT EXISTS\<close>.\<close>

datatype statement = CreateTable string "column list" | CreateIndex bool string string "string list" | AddColumn string column

definition add_column :: "string \<Rightarrow> column \<Rightarrow> (string \<times> column list) list \<Rightarrow> (string \<times> column list) list" where
  "add_column t c ts = map (\<lambda>(n, cs). (n, if n = t then cs @ [c] else cs)) ts"

fun exec_stmt :: "statement \<Rightarrow> layout \<Rightarrow> err + layout" where
  "exec_stmt (CreateTable n cs) L =
     (if n \<in> set (map fst (la_tables L)) then Inr L else Inr (L\<lparr>la_tables := la_tables L @ [(n, cs)]\<rparr>))"
| "exec_stmt (CreateIndex u n t ns) L =
     (if n \<in> set (map fst (la_indexes L)) then Inr L
      else case map_of (la_tables L) t of None \<Rightarrow> Inl (Msg (''no such table: main.'' @ t))
        | Some cs \<Rightarrow> if set ns \<subseteq> co_name ` set cs then Inr (L\<lparr>la_indexes := la_indexes L @ [(n, u, t, ns)]\<rparr>)
            else Inl (Msg (''no such column: '' @ hd (filter (\<lambda>n. n \<notin> co_name ` set cs) ns))))"
| "exec_stmt (AddColumn t c) L = (case map_of (la_tables L) t of None \<Rightarrow> Inl (Msg (''no such table: '' @ t))
     | Some cs \<Rightarrow> if co_name c \<in> co_name ` set cs then Inl (Msg (''duplicate column name: '' @ co_name c))
         else Inr (L\<lparr>la_tables := add_column t c (la_tables L)\<rparr>))"

fun exec_script :: "statement list \<Rightarrow> layout \<Rightarrow> err + layout" where
  "exec_script [] L = Inr L"
| "exec_script (st # sts) L = (case exec_stmt st L of Inl e \<Rightarrow> Inl e | Inr L1 \<Rightarrow> exec_script sts L1)"

section \<open>The scripts\<close>

record dir_entry =
  de_Name :: string
  de_IsDir :: bool
  de_Script :: "statement list"

definition sql_init :: "statement list" where
  "sql_init =
    [CreateTable ''schema_version''
      [primary (column_of ''version'' ''INTEGER''),
       required (column_of ''applied_at'' ''INTEGER'')],
     CreateTable ''sessions''
      [primary (column_of ''id'' ''TEXT''),
       required (column_of ''agent'' ''TEXT''),
       required (column_of ''external_id'' ''TEXT''),
       required (column_of ''project'' ''TEXT''),
       required (column_of ''started_at'' ''INTEGER''),
       column_of ''ended_at'' ''INTEGER'',
       column_of ''summary'' ''TEXT'',
       defaulting ''0'' (required (column_of ''n_obs'' ''INTEGER''))],
     CreateIndex True ''sessions_agent_external_id_idx'' ''sessions'' [''agent'', ''external_id''],
     CreateTable ''observations''
      [automatic (column_of ''id'' ''INTEGER''),
       refers_to ''sessions'' ''id'' (required (column_of ''session_id'' ''TEXT'')),
       required (column_of ''cwd'' ''TEXT''),
       required (column_of ''ts'' ''INTEGER''),
       required (column_of ''kind'' ''TEXT''),
       required (column_of ''tool'' ''TEXT''),
       required (column_of ''payload'' ''BLOB''),
       required (column_of ''payload_len'' ''INTEGER''),
       required (column_of ''payload_encoding'' ''TEXT''),
       defaulting ''1'' (required (column_of ''schema_version'' ''INTEGER'')),
       required (column_of ''hash'' ''TEXT'')],
     CreateIndex False ''observations_hash_ts_idx'' ''observations'' [''hash'', ''ts''],
     CreateIndex False ''observations_session_id_idx'' ''observations'' [''session_id''],
     CreateTable ''memories''
      [automatic (column_of ''id'' ''INTEGER''),
       required (column_of ''project'' ''TEXT''),
       required (column_of ''text'' ''TEXT''),
       required (column_of ''tier'' ''TEXT''),
       required (column_of ''source'' ''TEXT''),
       required (column_of ''importance'' ''REAL''),
       refers_to ''sessions'' ''id'' (column_of ''session_id'' ''TEXT''),
       required (column_of ''created_at'' ''INTEGER''),
       required (column_of ''updated_at'' ''INTEGER''),
       required (column_of ''accessed_at'' ''INTEGER''),
       refers_to ''memories'' ''id'' (column_of ''superseded_by'' ''INTEGER'')],
     CreateIndex False ''memories_project_created_idx'' ''memories'' [''project'', ''created_at''],
     CreateIndex False ''memories_superseded_by_idx'' ''memories'' [''superseded_by'']]"

definition sql_memory_embeddings :: "statement list" where
  "sql_memory_embeddings =
    [CreateTable ''memory_embeddings''
      [owned_by ''memories'' ''id'' (primary (column_of ''memory_id'' ''INTEGER'')),
       required (column_of ''model'' ''TEXT''),
       required (column_of ''dim'' ''INTEGER''),
       required (column_of ''vec'' ''BLOB'')],
     CreateIndex False ''memory_embeddings_model_dim_idx'' ''memory_embeddings'' [''model'', ''dim'']]"

definition sql_memory_access_count :: "statement list" where
  "sql_memory_access_count =
    [AddColumn ''memories'' (defaulting ''0'' (required (column_of ''access_cnt'' ''INTEGER'')))]"

definition sql_compaction_attempts :: "statement list" where
  "sql_compaction_attempts =
    [CreateTable ''compaction_attempts''
      [automatic (column_of ''id'' ''INTEGER''),
       owned_by ''sessions'' ''id'' (required (column_of ''session_id'' ''TEXT'')),
       required (column_of ''status'' ''TEXT''),
       defaulting [CHR 0x27, CHR 0x27] (required (column_of ''reason'' ''TEXT'')),
       required (column_of ''attempted_at'' ''INTEGER''),
       column_of ''completed_at'' ''INTEGER''],
     CreateIndex False ''compaction_attempts_session_status_idx'' ''compaction_attempts'' [''session_id'', ''status'', ''attempted_at'']]"

definition sql_audit_events :: "statement list" where
  "sql_audit_events =
    [CreateTable ''audit_events''
      [automatic (column_of ''id'' ''INTEGER''),
       required (column_of ''ts'' ''INTEGER''),
       required (column_of ''action'' ''TEXT''),
       column_of ''memory_id'' ''INTEGER'',
       column_of ''session_id'' ''TEXT'',
       column_of ''project'' ''TEXT'',
       defaulting [CHR 0x27, CHR ''{'', CHR ''}'', CHR 0x27] (required (column_of ''payload'' ''TEXT''))],
     CreateIndex False ''audit_events_ts_idx'' ''audit_events'' [''ts'', ''id''],
     CreateIndex False ''audit_events_memory_id_idx'' ''audit_events'' [''memory_id'']]"

definition sql_imported_events :: "statement list" where
  "sql_imported_events =
    [CreateTable ''imported_events''
      [automatic (column_of ''id'' ''INTEGER''),
       required (column_of ''transcript_path'' ''TEXT''),
       required (column_of ''event_id'' ''TEXT''),
       required (column_of ''imported_at'' ''INTEGER'')],
     CreateIndex True ''imported_events_path_event_idx'' ''imported_events'' [''transcript_path'', ''event_id'']]"

definition migrationFiles :: "dir_entry list" where
  "migrationFiles =
    [\<lparr>de_Name = ''001_init.sql'', de_IsDir = False, de_Script = sql_init\<rparr>,
     \<lparr>de_Name = ''002_memory_embeddings.sql'', de_IsDir = False, de_Script = sql_memory_embeddings\<rparr>,
     \<lparr>de_Name = ''003_memory_access_count.sql'', de_IsDir = False, de_Script = sql_memory_access_count\<rparr>,
     \<lparr>de_Name = ''004_compaction_attempts.sql'', de_IsDir = False, de_Script = sql_compaction_attempts\<rparr>,
     \<lparr>de_Name = ''005_audit_events.sql'', de_IsDir = False, de_Script = sql_audit_events\<rparr>,
     \<lparr>de_Name = ''006_imported_events.sql'', de_IsDir = False, de_Script = sql_imported_events\<rparr>]"

section \<open>The database file while it is opened\<close>

text \<open>
  The schema, the rows of \<open>schema_version\<close>, and whether there is the full-text table; then whether
  SQLite is compiled with full-text search, and the failures of the driver to come.
\<close>

record database_file =
  df_layout :: layout
  df_versions :: "(int \<times> int) list"
  df_fts :: bool

definition new_file :: database_file where
  "new_file = \<lparr>df_layout = empty_layout, df_versions = [], df_fts = False\<rparr>"

record file_state =
  op_file :: database_file
  op_module :: bool
  op_faults :: "bool list"

definition op_fault :: "file_state \<Rightarrow> bool \<times> file_state" where
  "op_fault s = (case op_faults s of [] \<Rightarrow> (False, s) | b # bs \<Rightarrow> (b, s\<lparr>op_faults := bs\<rparr>))"

definition op_call :: "string \<Rightarrow> (database_file \<Rightarrow> err + ('a \<times> database_file)) \<Rightarrow> (file_state, 'a) mon" where
  "op_call l f s = (case op_fault s of
     (True, s1) \<Rightarrow> (Inl (Wrap l Driver), s1)
   | (False, s1) \<Rightarrow> (case f (op_file s1) of
       Inl e \<Rightarrow> (Inl (Wrap l e), s1) | Inr (x, d) \<Rightarrow> (Inr x, s1\<lparr>op_file := d\<rparr>)))"

definition op_tx :: "string \<Rightarrow> ('a \<Rightarrow> string) \<Rightarrow> (file_state, 'a) mon \<Rightarrow> (file_state, 'a) mon" where
  "op_tx lb lc body s = (case op_fault s of
     (True, s1) \<Rightarrow> (Inl (Wrap lb Driver), s1)
   | (False, s1) \<Rightarrow> (case body s1 of
       (Inl e, s2) \<Rightarrow> (Inl e, s2\<lparr>op_file := op_file s1\<rparr>)
     | (Inr x, s2) \<Rightarrow> (case op_fault s2 of
         (True, s3) \<Rightarrow> (Inl (Wrap (lc x) Driver), s3\<lparr>op_file := op_file s1\<rparr>)
       | (False, s3) \<Rightarrow> (Inr x, s3))))"

section \<open>\<open>migrations.go\<close>\<close>

definition has_versions :: "database_file \<Rightarrow> bool" where
  "has_versions f = (''schema_version'' \<in> set (map fst (la_tables (df_layout f))))"

text \<open>Any error of the query, a missing table or a failure of the driver, counts as not applied.\<close>

definition versionApplied :: "int \<Rightarrow> (file_state, bool) mon" where
  "versionApplied v s = (case op_fault s of (True, s1) \<Rightarrow> (Inr False, s1)
     | (False, s1) \<Rightarrow> (Inr (has_versions (op_file s1) \<and> v \<in> set (map fst (df_versions (op_file s1)))), s1))"

definition sql_record_version :: "int \<Rightarrow> int \<Rightarrow> database_file \<Rightarrow> err + (unit \<times> database_file)" where
  "sql_record_version v t f =
     (if \<not> has_versions f then Inl (Msg ''no such table: schema_version'')
      else Inr ((), if v \<in> set (map fst (df_versions f)) then f else f\<lparr>df_versions := df_versions f @ [(v, t)]\<rparr>))"

definition sql_script :: "statement list \<Rightarrow> database_file \<Rightarrow> err + (unit \<times> database_file)" where
  "sql_script sts f = (case exec_script sts (df_layout f) of Inl e \<Rightarrow> Inl e | Inr L \<Rightarrow> Inr ((), f\<lparr>df_layout := L\<rparr>))"

text \<open>\<open>now\<close> is the clock when a version is recorded.\<close>

definition applyMigration :: "(int \<Rightarrow> int) \<Rightarrow> int \<Rightarrow> statement list \<Rightarrow> (file_state, unit) mon" where
  "applyMigration now v sts = andThen
     (op_tx (''begin migration '' @ itoa v)
        (\<lambda>applied. (if applied then ''commit migration check '' else ''commit migration '') @ itoa v)
        (andThen (versionApplied v) (\<lambda>applied.
           if applied then ok True
           else andThen (op_call (''apply migration '' @ itoa v) (sql_script sts)) (\<lambda>_.
             andThen (op_call (''record migration '' @ itoa v) (sql_record_version v (now v))) (\<lambda>_. ok False)))))
     (\<lambda>_. ok ())"

text \<open>The error of \<open>strconv.Atoi\<close>.\<close>

definition atoi_error :: "unicode \<Rightarrow> string \<Rightarrow> err" where
  "atoi_error U p =
     (let ds = (case p of c # t \<Rightarrow> if c = CHR ''-'' \<or> c = CHR ''+'' then t else p | [] \<Rightarrow> []) in
      Msg (''strconv.Atoi: parsing '' @ quote U p @
        (if ds \<noteq> [] \<and> list_all is_dec ds then '': value out of range'' else '': invalid syntax'')))"

definition migrationVersion :: "unicode \<Rightarrow> string \<Rightarrow> err + int" where
  "migrationVersion U name =
     (let prefix = hd (splitN2 name (CHR ''_'')); bad = (\<lambda>e. Inl (Wrap (''invalid migration name '' @ quote U name) e)) in
      case parse_int prefix of None \<Rightarrow> bad (atoi_error U prefix)
      | Some v \<Rightarrow> if v \<le> 0 then bad (Msg ''version must be positive'') else Inr v)"

text \<open>Listing and reading the embedded directory does not fail.\<close>

fun migration_loop :: "unicode \<Rightarrow> (int \<Rightarrow> int) \<Rightarrow> dir_entry list \<Rightarrow> (file_state, unit) mon" where
  "migration_loop U now [] = ok ()"
| "migration_loop U now (e # es) =
     (if de_IsDir e \<or> \<not> hasSuffix (de_Name e) ''.sql'' then migration_loop U now es
      else case migrationVersion U (de_Name e) of Inl err \<Rightarrow> fail err
        | Inr v \<Rightarrow> andThen (applyMigration now v (de_Script e)) (\<lambda>_. migration_loop U now es))"

definition applyMigrations :: "unicode \<Rightarrow> (int \<Rightarrow> int) \<Rightarrow> dir_entry list \<Rightarrow> (file_state, unit) mon" where
  "applyMigrations U now entries = migration_loop U now (sort_by (asc de_Name) entries)"

section \<open>\<open>store.go\<close>\<close>

text \<open>A table that exists is not created again, so the module is not looked for.\<close>

definition sql_create_fts :: "bool \<Rightarrow> database_file \<Rightarrow> err + database_file" where
  "sql_create_fts md f =
     (if df_fts f then Inr f else if md then Inr (f\<lparr>df_fts := True\<rparr>) else Inl (Msg ''no such module: fts5''))"

definition create_fts :: "(err \<Rightarrow> string) \<Rightarrow> (file_state, bool) mon" where
  "create_fts drv s =
     (case op_fault s of (b, s1) \<Rightarrow>
       (case (if b then Inl Driver else sql_create_fts (op_module s1) (op_file s1)) of
          Inl e \<Rightarrow> if contains (err_text drv e) ''no such module: fts5'' then (Inr False, s1)
            else (Inl (Wrap ''migrate memory fts'' e), s1)
        | Inr f \<Rightarrow> (Inr True, s1\<lparr>op_file := f\<rparr>)))"

definition migrate :: "ext \<Rightarrow> (int \<Rightarrow> int) \<Rightarrow> (file_state, bool) mon" where
  "migrate E now = andThen (applyMigrations (uni E) now migrationFiles) (\<lambda>_. create_fts (driver_text E))"

text \<open>The result says whether the store uses full-text search.\<close>

definition Open_op :: "ext \<Rightarrow> (int \<Rightarrow> int) \<Rightarrow> (file_state, bool) mon" where
  "Open_op E now =
     andThen (op_call ''open write db'' (\<lambda>f. Inr ((), f))) (\<lambda>_.
     andThen (op_call ''open read db'' (\<lambda>f. Inr ((), f))) (\<lambda>_. migrate E now))"

text \<open>
  \<open>Close\<close> of a store or of \<open>nil\<close>; a handle is \<open>nil\<close> or has the error that closing it returns. The first
  error is reported, and both handles are closed.
\<close>

definition Close_op :: "(err option option \<times> err option option) option \<Rightarrow> err option" where
  "Close_op handles = (case handles of None \<Rightarrow> None
     | Some (wr, rd) \<Rightarrow> (let e = (case wr of None \<Rightarrow> None | Some r \<Rightarrow> r) in
         case rd of None \<Rightarrow> e | Some r \<Rightarrow> if e = None then r else e))"

end
