(* ===== verification/MigrationProps.thy ===== *)
theory MigrationProps
  imports Migrations Wellformed Hybrid
begin

text \<open>
  Properties of the migrations: they apply in order, each at most once and as a whole, whatever fails;
  a successful opening ends at the complete schema. The argument is made once, for any list of
  migrations that runs on an empty file (locale \<open>migration_set\<close>).
\<close>

section \<open>Scripts can be run again\<close>

text \<open>A statement finds what it makes: it does nothing then, or refuses to.\<close>

fun present :: "statement \<Rightarrow> layout \<Rightarrow> bool" where
  "present (CreateTable n cs) L = (n \<in> set (map fst (la_tables L)))"
| "present (CreateIndex u n t ns) L = (n \<in> set (map fst (la_indexes L)))"
| "present (AddColumn t c) L = (\<exists>cs. map_of (la_tables L) t = Some cs \<and> co_name c \<in> co_name ` set cs)"

lemma add_column_names: "map fst (add_column t c ts) = map fst ts"
  by (auto simp: add_column_def)

lemma add_column_map:
  "map_of (add_column t c ts) n = map_option (\<lambda>cs. if n = t then cs @ [c] else cs) (map_of ts n)"
  by (induction ts) (auto simp: add_column_def)

lemma exec_stmt_present: "exec_stmt st L = Inr L' \<Longrightarrow> present st L'"
  by (cases st) (auto simp: add_column_map split: if_splits option.splits)

lemma exec_stmt_mono: "exec_stmt st L = Inr L' \<Longrightarrow> present q L \<Longrightarrow> present q L'"
  by (cases st; cases q)
    (auto simp: add_column_names add_column_map map_add_def simp flip: set_map split: if_splits option.splits)

lemma exec_present: "present st L \<Longrightarrow> exec_stmt st L = Inr L \<or> isl (exec_stmt st L)"
  by (cases st) auto

lemma exec_script_mono: "exec_script sts L = Inr L' \<Longrightarrow> present q L \<Longrightarrow> present q L'"
  by (induction sts arbitrary: L) (auto split: sum.splits dest: exec_stmt_mono)

lemma exec_script_present: "exec_script sts L = Inr L' \<Longrightarrow> st \<in> set sts \<Longrightarrow> present st L'"
  by (induction sts arbitrary: L) (auto split: sum.splits dest: exec_stmt_present exec_script_mono)

lemma exec_script_again: "(\<And>st. st \<in> set sts \<Longrightarrow> present st L) \<Longrightarrow> exec_script sts L = Inr L' \<Longrightarrow> L' = L"
  using exec_present by (induction sts arbitrary: L') (fastforce split: sum.splits)+

lemma exec_script_append:
  "exec_script (as @ bs) L = (case exec_script as L of Inl e \<Rightarrow> Inl e | Inr L1 \<Rightarrow> exec_script bs L1)"
  by (induction as arbitrary: L) (auto split: sum.splits)


section \<open>The laws of a set of migrations\<close>

text \<open>The file after the first \<open>k\<close> migrations, and nothing else.\<close>

definition at_stage :: "(int \<times> statement list) list \<Rightarrow> nat \<Rightarrow> database_file \<Rightarrow> bool" where
  "at_stage ms k f = (k \<le> length ms \<and> exec_script (concat (map snd (take k ms))) empty_layout = Inr (df_layout f) \<and>
     map fst (df_versions f) = map fst (take k ms))"

fun run_all :: "(int \<Rightarrow> int) \<Rightarrow> (int \<times> statement list) list \<Rightarrow> (file_state, unit) mon" where
  "run_all now [] = ok ()"
| "run_all now ((v, sts) # ms) = andThen (applyMigration now v sts) (\<lambda>_. run_all now ms)"

lemma op_fault_same:
  "op_fault s = (b, s1) \<Longrightarrow> op_file s1 = op_file s \<and> op_module s1 = op_module s"
  by (auto simp: op_fault_def split: list.splits)

lemma op_fault_calm: "op_faults s = [] \<Longrightarrow> op_fault s = (False, s)"
  by (simp add: op_fault_def)

lemma op_call_cases:
  assumes "op_call l f s = (r, s1)"
  obtains e where "r = Inl e" "op_file s1 = op_file s" "op_module s1 = op_module s"
  | x d where "r = Inr x" "f (op_file s) = Inr (x, d)" "op_file s1 = d" "op_module s1 = op_module s"
proof -
  obtain b s2 where f: "op_fault s = (b, s2)" by (cases "op_fault s")
  show thesis
    using that assms f op_fault_same [OF f]
    by (cases b; cases "f (op_file s)") (auto simp: op_call_def)
qed

lemma op_tx_cases:
  assumes "op_tx lb lc body s = (r, s1)" and "\<And>s2 q s3. body s2 = (q, s3) \<Longrightarrow> op_module s3 = op_module s2"
  obtains e where "r = Inl e" "op_file s1 = op_file s" "op_module s1 = op_module s"
  | x s2 s3 where "r = Inr x" "body s2 = (Inr x, s3)" "op_file s2 = op_file s" "op_file s1 = op_file s3" "op_module s1 = op_module s"
proof -
  obtain b s2 where f: "op_fault s = (b, s2)" by (cases "op_fault s")
  note same = op_fault_same [OF f]
  show thesis
  proof (cases b)
    case True
    then show ?thesis using that(1) assms(1) f same by (auto simp: op_tx_def)
  next
    case False
    obtain q s3 where q: "body s2 = (q, s3)" by (cases "body s2")
    show ?thesis
    proof (cases q)
      case (Inl e)
      then show ?thesis using that(1) assms(1) assms(2) [OF q] f same False q by (auto simp: op_tx_def)
    next
      case (Inr x)
      obtain b' s4 where f': "op_fault s3 = (b', s4)" by (cases "op_fault s3")
      then show ?thesis
        using that(1) that(2) [of x s2 s3] assms(1) assms(2) [OF q] f same False q Inr op_fault_same [OF f']
        by (cases b') (auto simp: op_tx_def)
    qed
  qed
qed

definition migration_body :: "(int \<Rightarrow> int) \<Rightarrow> int \<Rightarrow> statement list \<Rightarrow> (file_state, bool) mon" where
  "migration_body now v sts = andThen (versionApplied v) (\<lambda>applied.
     if applied then ok True
     else andThen (op_call (''apply migration '' @ itoa v) (sql_script sts)) (\<lambda>_.
       andThen (op_call (''record migration '' @ itoa v) (sql_record_version v (now v))) (\<lambda>_. ok False)))"

lemma versionApplied_result:
  obtains b s1 where "versionApplied v s = (Inr b, s1)" "op_file s1 = op_file s" "op_module s1 = op_module s"
    "b \<Longrightarrow> has_versions (op_file s) \<and> v \<in> set (map fst (df_versions (op_file s)))"
proof -
  obtain b s1 where f: "op_fault s = (b, s1)" by (cases "op_fault s")
  show thesis using that op_fault_same [OF f] f by (cases b) (auto simp: versionApplied_def)
qed

text \<open>What \<open>applyMigration\<close> can do to the file.\<close>

lemma migration_body_result:
  assumes "migration_body now v sts s = (r, s1)"
  shows "op_module s1 = op_module s \<and> (case r of Inl e \<Rightarrow> True
    | Inr True \<Rightarrow> op_file s1 = op_file s \<and> has_versions (op_file s) \<and> v \<in> set (map fst (df_versions (op_file s)))
    | Inr False \<Rightarrow> (\<exists>L. exec_script sts (df_layout (op_file s)) = Inr L \<and>
        sql_record_version v (now v) ((op_file s)\<lparr>df_layout := L\<rparr>) = Inr ((), op_file s1)))"
proof -
  obtain b s2 where v: "versionApplied v s = (Inr b, s2)" "op_file s2 = op_file s" "op_module s2 = op_module s"
    "b \<Longrightarrow> has_versions (op_file s) \<and> v \<in> set (map fst (df_versions (op_file s)))"
    by (rule versionApplied_result [of v s]) blast
  show ?thesis
  proof (cases b)
    case True
    then have "r = Inr True" "s1 = s2" using assms v(1) by (auto simp: migration_body_def andThen_def ok_def)
    then show ?thesis using v True by simp
  next
    case False
    obtain q s3 where q: "op_call (''apply migration '' @ itoa v) (sql_script sts) s2 = (q, s3)"
      by (cases "op_call (''apply migration '' @ itoa v) (sql_script sts) s2")
    show ?thesis
    proof (cases q)
      case (Inl e)
      then show ?thesis using assms v False q
        by (auto simp: migration_body_def andThen_def elim: op_call_cases)
    next
      case (Inr u)
      obtain q' s4 where q': "op_call (''record migration '' @ itoa v) (sql_record_version v (now v)) s3 = (q', s4)"
        by (cases "op_call (''record migration '' @ itoa v) (sql_record_version v (now v)) s3")
      have "sql_script sts (op_file s) = Inr ((), op_file s3) \<and> op_module s3 = op_module s"
        using op_call_cases [OF q] Inr v by auto
      moreover have "op_module s4 = op_module s3 \<and> (q' = Inr () \<longrightarrow> sql_record_version v (now v) (op_file s3) = Inr ((), op_file s4))"
        using op_call_cases [OF q'] by auto
      ultimately show ?thesis using assms v False q q' Inr
        by (cases q') (auto simp: migration_body_def andThen_def ok_def sql_script_def split: sum.splits)
    qed
  qed
qed

lemma applyMigration_cases:
  assumes "applyMigration now v sts s = (r, s1)"
  obtains (same) "op_file s1 = op_file s" "op_module s1 = op_module s"
      "r = Inr () \<Longrightarrow> has_versions (op_file s) \<and> v \<in> set (map fst (df_versions (op_file s)))"
  | (applied) L f where "exec_script sts (df_layout (op_file s)) = Inr L" "r = Inr ()" "op_module s1 = op_module s"
      "sql_record_version v (now v) ((op_file s)\<lparr>df_layout := L\<rparr>) = Inr ((), f)" "op_file s1 = f"
proof -
  obtain lc q where t: "op_tx (''begin migration '' @ itoa v) lc (migration_body now v sts) s = (q, s1)"
    "r = (case q of Inl e \<Rightarrow> Inl e | Inr _ \<Rightarrow> Inr ())"
    using assms unfolding applyMigration_def migration_body_def [symmetric] andThen_def ok_def
    by (auto split: prod.splits sum.splits)
  have m: "op_module s3 = op_module s2" if "migration_body now v sts s2 = (q, s3)" for s2 q s3
    using migration_body_result [OF that] by simp
  show thesis
  proof (rule op_tx_cases [OF t(1) m], assumption, goal_cases)
    case (1 e)
    then show ?case using same t(2) by simp
  next
    case (2 x s2 s3)
    then show ?case
      using migration_body_result [OF 2(2)] t(2) same applied by (cases x) auto
  qed
qed

locale migration_set =
  fixes ms :: "(int \<times> statement list) list"
  assumes versions_distinct: "distinct (map fst ms)"
    and first_script: "ms \<noteq> [] \<Longrightarrow> \<exists>cs. CreateTable ''schema_version'' cs \<in> set (snd (hd ms))"
    and fresh: "\<exists>L. exec_script (concat (map snd ms)) empty_layout = Inr L"
begin

lemma stage_layout:
  assumes "at_stage ms k f" and "j < k" and "st \<in> set (snd (ms ! j))"
  shows "present st (df_layout f)"
proof -
  have "ms ! j \<in> set (take k ms)" using assms(1,2) by (auto simp: at_stage_def in_set_conv_nth intro!: exI [of _ j])
  then show ?thesis using assms exec_script_present [of "concat (map snd (take k ms))"] by (auto simp: at_stage_def)
qed

lemma stage_has_versions:
  assumes "at_stage ms k f" and "0 < k"
  shows "has_versions f"
proof -
  have "ms \<noteq> []" using assms by (auto simp: at_stage_def)
  then show ?thesis using first_script stage_layout [OF assms] by (fastforce simp: has_versions_def hd_conv_nth)
qed

lemma stage_old: "at_stage ms k f \<Longrightarrow> j < k \<Longrightarrow> fst (ms ! j) \<in> set (map fst (df_versions f))"
  using nth_mem [of j "map fst (take k ms)"] by (simp add: at_stage_def)

lemma stage_new: "at_stage ms k f \<Longrightarrow> k < length ms \<Longrightarrow> fst (ms ! k) \<notin> set (map fst (df_versions f))"
  using distinct_take [OF versions_distinct, of "Suc k"] by (simp add: at_stage_def take_map take_Suc_conv_app_nth)

lemma stage_next:
  assumes "at_stage ms k f" and "k < length ms"
  obtains L where "exec_script (snd (ms ! k)) (df_layout f) = Inr L"
    "exec_script (concat (map snd (take (Suc k) ms))) empty_layout = Inr L"
proof -
  have t: "concat (map snd ms) = concat (map snd (take (Suc k) ms)) @ concat (map snd (drop (Suc k) ms))"
    by (metis append_take_drop_id concat_append map_append)
  have u: "concat (map snd (take (Suc k) ms)) = concat (map snd (take k ms)) @ snd (ms ! k)"
    using assms(2) by (simp add: take_Suc_conv_app_nth)
  obtain L where L: "exec_script (concat (map snd (take (Suc k) ms))) empty_layout = Inr L"
    using fresh unfolding t exec_script_append by (auto split: sum.splits)
  moreover have "exec_script (snd (ms ! k)) (df_layout f) = Inr L"
    using L assms(1) unfolding u exec_script_append by (simp add: at_stage_def)
  ultimately show ?thesis using that by blast
qed

text \<open>One migration of a file that has all the ones before it.\<close>

lemma step_stage:
  assumes "at_stage ms k (op_file s)" and "j \<le> k" and "j < length ms"
    and "applyMigration now (fst (ms ! j)) (snd (ms ! j)) s = (r, s1)"
  shows "\<exists>k1 \<ge> k. at_stage ms k1 (op_file s1) \<and> (r = Inr () \<longrightarrow> j < k1)"
    and "df_fts (op_file s1) = df_fts (op_file s) \<and> op_module s1 = op_module s"
    and "\<exists>vs. df_versions (op_file s1) = df_versions (op_file s) @ vs"
proof -
  let ?f = "op_file s"
  have "(\<exists>k1 \<ge> k. at_stage ms k1 (op_file s1) \<and> (r = Inr () \<longrightarrow> j < k1)) \<and>
      (df_fts (op_file s1) = df_fts (op_file s) \<and> op_module s1 = op_module s) \<and>
      (\<exists>vs. df_versions (op_file s1) = df_versions (op_file s) @ vs)"
    using assms(4)
  proof (cases rule: applyMigration_cases)
    case same
    have "j < k" if "r = Inr ()"
      using same(3) [OF that] stage_new [OF assms(1)] assms(2,3) by (cases "j = k") auto
    then show ?thesis using same assms(1) by auto
  next
    case (applied L f)
    show ?thesis
    proof (cases "j < k")
      case True
      have "L = df_layout ?f" using exec_script_again [OF stage_layout [OF assms(1) True] applied(1)] .
      then have "f = ?f" using applied(4) stage_old [OF assms(1) True] by (auto simp: sql_record_version_def split: if_splits)
      then show ?thesis using applied assms(1) True by auto
    next
      case False
      then have k: "j = k" "k < length ms" using assms(2,3) by auto
      obtain L' where L': "exec_script (snd (ms ! k)) (df_layout ?f) = Inr L'"
        "exec_script (concat (map snd (take (Suc k) ms))) empty_layout = Inr L'"
        using stage_next [OF assms(1) k(2)] .
      have f: "f = ?f\<lparr>df_layout := L, df_versions := df_versions ?f @ [(fst (ms ! k), now (fst (ms ! k)))]\<rparr>"
        using applied(4) stage_new [OF assms(1) k(2)] k(1) by (auto simp: sql_record_version_def split: if_splits)
      have "at_stage ms (Suc k) f"
        using assms(1) k(2) L' applied(1) unfolding f k(1) by (auto simp: at_stage_def take_Suc_conv_app_nth)
      then show ?thesis using applied k f by (intro conjI exI [of _ "Suc k"]) auto
    qed
  qed
  then show "\<exists>k1 \<ge> k. at_stage ms k1 (op_file s1) \<and> (r = Inr () \<longrightarrow> j < k1)"
    "df_fts (op_file s1) = df_fts (op_file s) \<and> op_module s1 = op_module s"
    "\<exists>vs. df_versions (op_file s1) = df_versions (op_file s) @ vs" by blast+
qed

lemma step_calm:
  assumes "at_stage ms k (op_file s)" and "j \<le> k" and "j < length ms" and "op_faults s = []"
  obtains s1 where "applyMigration now (fst (ms ! j)) (snd (ms ! j)) s = (Inr (), s1)" "op_faults s1 = []"
proof (cases "j < k")
  case True
  then show ?thesis
    using that assms(4) stage_old [OF assms(1) True] stage_has_versions [OF assms(1)]
    by (simp add: applyMigration_def op_tx_def versionApplied_def op_fault_calm andThen_def ok_def)
next
  case False
  then have k: "j = k" "k < length ms" using assms(2,3) by auto
  obtain L where L: "exec_script (snd (ms ! k)) (df_layout (op_file s)) = Inr L"
    "exec_script (concat (map snd (take (Suc k) ms))) empty_layout = Inr L"
    using stage_next [OF assms(1) k(2)] .
  have "ms \<noteq> []" using k by auto
  then obtain cs where "CreateTable ''schema_version'' cs \<in> set (concat (map snd (take (Suc k) ms)))"
    using first_script by (cases ms) auto
  then have "present (CreateTable ''schema_version'' cs) L" by (rule exec_script_present [OF L(2)])
  then show ?thesis
    using that assms(4) stage_new [OF assms(1) k(2)] L(1) unfolding k(1)
    by (simp add: applyMigration_def op_tx_def versionApplied_def op_call_def sql_script_def sql_record_version_def has_versions_def
        op_fault_def andThen_def ok_def)
qed

text \<open>All of them.\<close>

lemma run_stage:
  assumes "at_stage ms k (op_file s)" and "n \<le> k" and "n \<le> length ms" and "run_all now (drop n ms) s = (r, s1)"
  shows "(\<exists>k1 \<ge> k. at_stage ms k1 (op_file s1) \<and> (r = Inr () \<longrightarrow> k1 = length ms)) \<and>
    df_fts (op_file s1) = df_fts (op_file s) \<and> op_module s1 = op_module s \<and>
    (\<exists>vs. df_versions (op_file s1) = df_versions (op_file s) @ vs)"
  using assms
proof (induction "length ms - n" arbitrary: n k s)
  case 0
  then show ?case by (auto simp: ok_def at_stage_def)
next
  case (Suc m)
  then have n: "n < length ms" by simp
  obtain q s2 where q: "applyMigration now (fst (ms ! n)) (snd (ms ! n)) s = (q, s2)"
    by (cases "applyMigration now (fst (ms ! n)) (snd (ms ! n)) s")
  note st = step_stage [OF Suc.prems(1,2) n q]
  have d: "run_all now (drop n ms) s = (case q of Inl e \<Rightarrow> (Inl e, s2) | Inr _ \<Rightarrow> run_all now (drop (Suc n) ms) s2)"
    using n q by (cases "ms ! n") (auto simp: Cons_nth_drop_Suc [OF n, symmetric] andThen_def)
  obtain k1 where k1: "k \<le> k1" "at_stage ms k1 (op_file s2)" "q = Inr () \<longrightarrow> n < k1" using st(1) by blast
  show ?case
  proof (cases q)
    case (Inl e)
    then show ?thesis using Suc.prems(4) d st k1 by auto
  next
    case (Inr u)
    have "(\<exists>k2 \<ge> k1. at_stage ms k2 (op_file s1) \<and> (r = Inr () \<longrightarrow> k2 = length ms)) \<and>
      df_fts (op_file s1) = df_fts (op_file s2) \<and> op_module s1 = op_module s2 \<and>
      (\<exists>vs. df_versions (op_file s1) = df_versions (op_file s2) @ vs)"
      using Suc.hyps(1) [of "Suc n" k1 s2] Suc.hyps(2) Suc.prems(4) d k1 n Inr by simp
    moreover obtain vs where "df_versions (op_file s2) = df_versions (op_file s) @ vs" using st(3) by blast
    ultimately show ?thesis using st(2) k1(1) by (auto intro: order_trans)
  qed
qed

lemma run_calm:
  assumes "at_stage ms k (op_file s)" and "n \<le> k" and "n \<le> length ms" and "op_faults s = []"
  shows "\<exists>s1. run_all now (drop n ms) s = (Inr (), s1) \<and> op_faults s1 = []"
  using assms
proof (induction "length ms - n" arbitrary: n k s)
  case 0
  then show ?case by (auto simp: ok_def)
next
  case (Suc m)
  then have n: "n < length ms" by simp
  obtain s2 where q: "applyMigration now (fst (ms ! n)) (snd (ms ! n)) s = (Inr (), s2)" "op_faults s2 = []"
    using step_calm [OF Suc.prems(1,2) n Suc.prems(4)] .
  obtain k1 where "at_stage ms k1 (op_file s2)" "n < k1"
    using step_stage(1) [OF Suc.prems(1,2) n q(1)] by blast
  then have "\<exists>s1. run_all now (drop (Suc n) ms) s2 = (Inr (), s1) \<and> op_faults s1 = []"
    using Suc.hyps(1) [of "Suc n" k1 s2] Suc.hyps(2) q(2) n by simp
  then show ?case
    using n q by (cases "ms ! n") (auto simp: Cons_nth_drop_Suc [OF n, symmetric] andThen_def)
qed

end

section \<open>The migrations of the repository\<close>

definition schema_migrations :: "(int \<times> statement list) list" where
  "schema_migrations = [(1, sql_init), (2, sql_memory_embeddings), (3, sql_memory_access_count), (4, sql_compaction_attempts),
     (5, sql_audit_events), (6, sql_imported_events)]"

lemma applyMigrations_all: "applyMigrations U now migrationFiles = run_all now schema_migrations"
proof -
  have s: "sort_by (asc de_Name) migrationFiles = migrationFiles"
    by (simp add: migrationFiles_def asc_def)
  have v: "migrationVersion U ''001_init.sql'' = Inr 1" "migrationVersion U ''002_memory_embeddings.sql'' = Inr 2"
    "migrationVersion U ''003_memory_access_count.sql'' = Inr 3" "migrationVersion U ''004_compaction_attempts.sql'' = Inr 4"
    "migrationVersion U ''005_audit_events.sql'' = Inr 5" "migrationVersion U ''006_imported_events.sql'' = Inr 6"
    by (simp_all add: migrationVersion_def splitN2_def parse_int_def is_dec_def dec_value_def Let_def)
  show ?thesis unfolding applyMigrations_def s by (simp add: migrationFiles_def hasSuffix_def v schema_migrations_def)
qed

definition full_layout :: layout where
  "full_layout = projr (exec_script (concat (map snd schema_migrations)) empty_layout)"

lemma full_layout: "exec_script (concat (map snd schema_migrations)) empty_layout = Inr full_layout"
  by code_simp

interpretation schema: migration_set schema_migrations
  using full_layout by unfold_locales (auto simp: schema_migrations_def sql_init_def)

text \<open>The columns are the fields of the rows in \<open>Db\<close>, and the references the ones its statements check.\<close>

lemma full_columns:
  "map (\<lambda>(t, cs). (t, map co_name cs)) (la_tables full_layout) =
   [(''schema_version'', [''version'', ''applied_at'']),
    (''sessions'', [''id'', ''agent'', ''external_id'', ''project'', ''started_at'', ''ended_at'', ''summary'', ''n_obs'']),
    (''observations'', [''id'', ''session_id'', ''cwd'', ''ts'', ''kind'', ''tool'', ''payload'', ''payload_len'',
       ''payload_encoding'', ''schema_version'', ''hash'']),
    (''memories'', [''id'', ''project'', ''text'', ''tier'', ''source'', ''importance'', ''session_id'', ''created_at'',
       ''updated_at'', ''accessed_at'', ''superseded_by'', ''access_cnt'']),
    (''memory_embeddings'', [''memory_id'', ''model'', ''dim'', ''vec'']),
    (''compaction_attempts'', [''id'', ''session_id'', ''status'', ''reason'', ''attempted_at'', ''completed_at'']),
    (''audit_events'', [''id'', ''ts'', ''action'', ''memory_id'', ''session_id'', ''project'', ''payload'']),
    (''imported_events'', [''id'', ''transcript_path'', ''event_id'', ''imported_at''])]"
  by code_simp

lemma full_references:
  "concat (map (\<lambda>(t, cs). concat (map (\<lambda>c. case co_ref c of None \<Rightarrow> [] | Some (u, _, cascade) \<Rightarrow> [(t, co_name c, u, cascade)]) cs))
     (la_tables full_layout)) =
   [(''observations'', ''session_id'', ''sessions'', False), (''memories'', ''session_id'', ''sessions'', False),
    (''memories'', ''superseded_by'', ''memories'', False), (''memory_embeddings'', ''memory_id'', ''memories'', True),
    (''compaction_attempts'', ''session_id'', ''sessions'', True)]"
  by code_simp

section \<open>Opening\<close>

text \<open>The files that come about by opening, whatever fails and whichever builds of SQLite do it.\<close>

inductive file_reach :: "ext \<Rightarrow> database_file \<Rightarrow> bool" for E where
  f_new: "file_reach E new_file"
| f_open: "file_reach E (op_file s) \<Longrightarrow> file_reach E (op_file (snd (Open_op E now s)))"

lemma Open_op_result:
  assumes "Open_op E now s = (r, s1)"
  obtains (early) e where "r = Inl e" "op_file s1 = op_file s" "op_faults s \<noteq> []"
  | (late) s2 q s3 where "op_file s2 = op_file s" "op_module s2 = op_module s" "op_faults s = [] \<Longrightarrow> op_faults s2 = []"
      "run_all now schema_migrations s2 = (q, s3)"
      "(r, s1) = (case q of Inl e \<Rightarrow> (Inl e, s3) | Inr _ \<Rightarrow> create_fts (driver_text E) s3)"
proof -
  obtain b s2 where b: "op_fault s = (b, s2)" by (cases "op_fault s")
  obtain b' s3 where b': "op_fault s2 = (b', s3)" by (cases "op_fault s2")
  obtain q s4 where q: "run_all now schema_migrations s3 = (q, s4)" by (cases "run_all now schema_migrations s3")
  have n: "op_faults s = [] \<Longrightarrow> \<not> b \<and> \<not> b' \<and> op_faults s3 = []"
    using b b' by (auto simp: op_fault_calm)
  show thesis
    using assms op_fault_same [OF b] op_fault_same [OF b'] n b b' q
    by (cases b; cases b'; cases q)
      (auto simp: Open_op_def migrate_def applyMigrations_all op_call_def andThen_def intro: early late [OF _ _ _ q])
qed

lemma create_fts_result:
  assumes "create_fts drv s = (r, s1)"
  shows "op_module s1 = op_module s \<and> df_layout (op_file s1) = df_layout (op_file s) \<and>
    df_versions (op_file s1) = df_versions (op_file s) \<and>
    (case r of Inr b \<Rightarrow> (b \<longrightarrow> df_fts (op_file s1)) \<and> (op_faults s = [] \<longrightarrow> b = (df_fts (op_file s) \<or> op_module s))
     | Inl _ \<Rightarrow> op_file s1 = op_file s \<and> op_faults s \<noteq> [])"
proof -
  obtain b s2 where b: "op_fault s = (b, s2)" by (cases "op_fault s")
  note same = op_fault_same [OF b]
  show ?thesis
  proof (cases b)
    case True
    have "op_faults s \<noteq> []" using b True op_fault_calm [of s] by auto
    then show ?thesis using assms b True same unfolding create_fts_def
      by (cases "contains (err_text drv Driver) ''no such module: fts5''") auto
  next
    case False
    have m: "contains ''no such module: fts5'' ''no such module: fts5''" by (simp add: hasPrefix_def)
    show ?thesis using assms b False same m unfolding create_fts_def sql_create_fts_def
      by (cases "df_fts (op_file s)"; cases "op_module s") auto
  qed
qed

lemma Open_stage:
  assumes "at_stage schema_migrations k (op_file s)" and "Open_op E now s = (r, s1)"
  shows "(\<exists>k1 \<ge> k. at_stage schema_migrations k1 (op_file s1) \<and> (isl r \<or> k1 = length schema_migrations)) \<and>
    (\<exists>vs. df_versions (op_file s1) = df_versions (op_file s) @ vs) \<and>
    (case r of Inr b \<Rightarrow> (b \<longrightarrow> df_fts (op_file s1)) \<and> (op_faults s = [] \<longrightarrow> b = (df_fts (op_file s) \<or> op_module s))
     | Inl _ \<Rightarrow> op_faults s \<noteq> [])"
  using assms(2)
proof (cases rule: Open_op_result)
  case (early e)
  then show ?thesis using assms(1) by auto
next
  case (late s2 q s3)
  have st: "at_stage schema_migrations k (op_file s2)" using assms(1) late(1) by simp
  have run: "(\<exists>k1 \<ge> k. at_stage schema_migrations k1 (op_file s3) \<and> (q = Inr () \<longrightarrow> k1 = length schema_migrations)) \<and>
    df_fts (op_file s3) = df_fts (op_file s2) \<and> op_module s3 = op_module s2 \<and>
    (\<exists>vs. df_versions (op_file s3) = df_versions (op_file s2) @ vs)"
    using schema.run_stage [OF st, of 0 now q s3] late(4) by simp
  have calm: "q = Inr () \<and> op_faults s3 = []" if "op_faults s = []"
    using schema.run_calm [OF st, of 0 now] late(3) [OF that] late(4) by auto
  show ?thesis
  proof (cases q)
    case (Inl e)
    then show ?thesis using run late calm by auto
  next
    case (Inr u)
    then have c: "create_fts (driver_text E) s3 = (r, s1)" using late(5) by simp
    have "at_stage schema_migrations (length schema_migrations) (op_file s3)" "k \<le> length schema_migrations"
      using run Inr assms(1) by (auto simp: at_stage_def)
    then have "at_stage schema_migrations (length schema_migrations) (op_file s1)"
      using create_fts_result [OF c] by (simp add: at_stage_def)
    moreover have "\<exists>vs. df_versions (op_file s1) = df_versions (op_file s) @ vs"
      using create_fts_result [OF c] run late(1) by simp
    ultimately show ?thesis
      using create_fts_result [OF c] run late calm \<open>k \<le> length schema_migrations\<close> by (cases r) auto
  qed
qed

lemma new_file_stage: "at_stage schema_migrations 0 new_file"
  by (simp add: at_stage_def new_file_def)

lemma file_reach_stage: "file_reach E f \<Longrightarrow> \<exists>k. at_stage schema_migrations k f"
proof (induction rule: file_reach.induct)
  case f_new
  show ?case using new_file_stage by blast
next
  case (f_open s now)
  then obtain k where k: "at_stage schema_migrations k (op_file s)" by blast
  show ?case using Open_stage [OF k, of E now] by (cases "Open_op E now s") auto
qed

lemma complete_stage:
  "at_stage schema_migrations 6 f \<longleftrightarrow> df_layout f = full_layout \<and> map fst (df_versions f) = [1, 2, 3, 4, 5, 6]"
  using full_layout by (auto simp: at_stage_def schema_migrations_def)

text \<open>
  C6. The schema of a database file is always that of the first migrations up to some number, wherever
  openings of it have failed, and the recorded versions say which. Opening it without a failure
  succeeds; opening it with success ends at the complete schema, with every version recorded once
  and those recorded before kept; opening it with an error loses no migration and leaves none half
  done.
\<close>

theorem Open_migrates:
  assumes "file_reach E (op_file s)"
  shows "\<exists>k \<le> 6. at_stage schema_migrations k (op_file s) \<and>
    (case Open_op E now s of
       (Inr b, s1) \<Rightarrow> df_layout (op_file s1) = full_layout \<and> map fst (df_versions (op_file s1)) = [1, 2, 3, 4, 5, 6] \<and>
         take k (df_versions (op_file s1)) = df_versions (op_file s) \<and> (b \<longrightarrow> df_fts (op_file s1)) \<and>
         (op_faults s = [] \<longrightarrow> b = (df_fts (op_file s) \<or> op_module s))
     | (Inl e, s1) \<Rightarrow> op_faults s \<noteq> [] \<and> (\<exists>k1 \<ge> k. at_stage schema_migrations k1 (op_file s1)))"
proof -
  obtain k where k: "at_stage schema_migrations k (op_file s)" using file_reach_stage [OF assms] by blast
  obtain r s1 where r: "Open_op E now s = (r, s1)" by (cases "Open_op E now s")
  have len: "length schema_migrations = 6" by (simp add: schema_migrations_def)
  have "length (df_versions (op_file s)) = k" "k \<le> 6"
    using k len by (auto simp: at_stage_def dest: arg_cong [where f = length])
  have o: "(\<exists>k1 \<ge> k. at_stage schema_migrations k1 (op_file s1) \<and> (isl r \<or> k1 = 6)) \<and>
    (\<exists>vs. df_versions (op_file s1) = df_versions (op_file s) @ vs) \<and>
    (case r of Inr b \<Rightarrow> (b \<longrightarrow> df_fts (op_file s1)) \<and> (op_faults s = [] \<longrightarrow> b = (df_fts (op_file s) \<or> op_module s))
     | Inl _ \<Rightarrow> op_faults s \<noteq> [])"
    using Open_stage [OF k r] len by simp
  have "take k (df_versions (op_file s1)) = df_versions (op_file s)"
    using o \<open>length (df_versions (op_file s)) = k\<close> by auto
  moreover have "df_layout (op_file s1) = full_layout \<and> map fst (df_versions (op_file s1)) = [1, 2, 3, 4, 5, 6]" if "\<not> isl r"
    using o that unfolding complete_stage [symmetric] by auto
  ultimately show ?thesis
    using o k r \<open>k \<le> 6\<close> by (intro exI [of _ k]) (cases r; simp)
qed

text \<open>A failure while the third migration is recorded, and the opening after it.\<close>

definition ex_fresh :: file_state where
  "ex_fresh = \<lparr>op_file = new_file, op_module = True, op_faults = replicate 15 False @ [True]\<rparr>"

theorem Open_migrates_witness:
  "df_layout (op_file (snd (Open_op ex_ext (\<lambda>_. 5) (snd (Open_op ex_ext (\<lambda>_. 5) ex_fresh)\<lparr>op_faults := []\<rparr>)))) = full_layout"
proof -
  let ?s = "snd (Open_op ex_ext (\<lambda>_. 5) ex_fresh)\<lparr>op_faults := []\<rparr>"
  have "file_reach ex_ext (op_file ?s)"
    using f_open [of ex_ext ex_fresh "\<lambda>_. 5"] f_new [of ex_ext] by (simp add: ex_fresh_def)
  then show ?thesis
    using Open_migrates [of ex_ext ?s "\<lambda>_. 5"] by (cases "Open_op ex_ext (\<lambda>_. 5) ?s"; cases "fst (Open_op ex_ext (\<lambda>_. 5) ?s)") auto
qed

section \<open>Builds of SQLite\<close>

text \<open>
  The flag of a store follows the file, not the build: once the full-text table is there, a build
  without the module opens the store as one with full-text search.
\<close>

lemma opened_without_module:
  assumes "file_reach E (op_file s)" and "df_fts (op_file s)" and "\<not> op_module s" and "op_faults s = []"
  shows "fst (Open_op E now s) = Inr True"
proof -
  obtain k where k: "at_stage schema_migrations k (op_file s)" using file_reach_stage [OF assms(1)] by blast
  obtain r s1 where r: "Open_op E now s = (r, s1)" by (cases "Open_op E now s")
  then show ?thesis using Open_stage [OF k r] assms(2-4) by (cases r) auto
qed

text \<open>
  Conversely, memories that a build without the module has saved are not in the table that a build
  with it creates on opening: searches do not find them.
\<close>

lemma late_module_unindexed:
  "memories d \<noteq> [] \<Longrightarrow> fts d = [] \<Longrightarrow> \<not> store_inv True d"
  by (cases "memories d") (auto simp: store_inv_def fts_ok_def)

end
