(* ===== verification/MemoryMachine.thy ===== *)
theory MemoryMachine
  imports MemoryProps
begin

text \<open>
  What the store promises of memories: an abstract machine whose state is a finite map from
  identifiers to rows, and the refinement of it by the operations on the tables. The order of the
  rows, the full-text table, the audit log, the transactions and the failures of the driver are not
  part of the promise.
\<close>

section \<open>The abstract machine\<close>

type_synonym note_map = "int \<Rightarrow> mem_row option"

datatype memory_command = Save MemoryInput | Change MemoryUpdate | Replace int int | Forget "int list" | Decay DecayOptions
  | Touch "int list" int | Read int

datatype answer = Done | Count int | Item Memory

definition touch_note :: "int \<Rightarrow> int \<Rightarrow> note_map \<Rightarrow> note_map" where
  "touch_note t i A = (case A i of None \<Rightarrow> A | Some m \<Rightarrow> A(i \<mapsto> touch t m))"

definition decay_note :: "ext \<Rightarrow> DecayOptions \<Rightarrow> note_map \<Rightarrow> note_map" where
  "decay_note E opts A i = (case A i of None \<Rightarrow> None
     | Some m \<Rightarrow> if dc_delete (decay_of E opts m) then None else Some (m\<lparr>m_importance := dc_importance (decay_of E opts m)\<rparr>))"

inductive memory_step :: "ext \<Rightarrow> memory_command \<Rightarrow> note_map \<Rightarrow> answer \<Rightarrow> note_map \<Rightarrow> bool" for E where
  save: "0 < i \<Longrightarrow> A i = None \<Longrightarrow> memory_step E (Save inp) A (Count i) (A(i \<mapsto> (new_row inp)\<lparr>m_id := i\<rparr>))"
| change: "0 < mu_ID u \<Longrightarrow> A (mu_ID u) = Some m \<Longrightarrow> memory_step E (Change u) A Done (A(mu_ID u \<mapsto> update_row u m))"
| change_nothing: "mu_Text u = None \<Longrightarrow> mu_Tier u = None \<Longrightarrow> mu_Importance u = None \<Longrightarrow> memory_step E (Change u) A Done A"
| replace: "i \<noteq> j \<Longrightarrow> A i = Some m \<Longrightarrow> j \<in> dom A \<Longrightarrow>
    memory_step E (Replace i j) A Done (A(i \<mapsto> m\<lparr>m_superseded := Some j\<rparr>))"
| forget: "n = int (card (dom A \<inter> set ids)) \<Longrightarrow> memory_step E (Forget ids) A (Count n) (A |` (- set ids))"
| decay: "n = int (card (dom A - dom (decay_note E opts A))) \<Longrightarrow> memory_step E (Decay opts) A (Count n) (decay_note E opts A)"
| touch: "memory_step E (Touch ids t) A Done (fold (touch_note t) ids A)"
| read: "A i = Some m \<Longrightarrow> memory_step E (Read i) A (Item (scanMemory m)) A"

text \<open>A run: a command that fails does nothing.\<close>

inductive memory_run :: "ext \<Rightarrow> memory_command list \<Rightarrow> note_map \<Rightarrow> (err + answer) list \<Rightarrow> note_map \<Rightarrow> bool" for E where
  stop: "memory_run E [] A [] A"
| failed: "memory_run E cs A rs B \<Longrightarrow> memory_run E (c # cs) A (Inl e # rs) B"
| step: "memory_step E c A x A1 \<Longrightarrow> memory_run E cs A1 rs B \<Longrightarrow> memory_run E (c # cs) A (Inr x # rs) B"

section \<open>The store\<close>

fun run_command :: "ext \<Rightarrow> memory_command \<Rightarrow> answer op" where
  "run_command E (Save inp) = andThen (AddMemory inp) (\<lambda>i. ok (Count i))"
| "run_command E (Change u) = andThen (UpdateMemory u) (\<lambda>_. ok Done)"
| "run_command E (Replace i j) = andThen (SupersedeMemory i j) (\<lambda>_. ok Done)"
| "run_command E (Forget ids) = andThen (DeleteMemories ids) (\<lambda>n. ok (Count n))"
| "run_command E (Decay opts) = andThen (DecayMemories E opts) (\<lambda>n. ok (Count n))"
| "run_command E (Touch ids t) = andThen (TouchMemories ids t) (\<lambda>_. ok Done)"
| "run_command E (Read i) = andThen (Memory_op i) (\<lambda>m. ok (Item m))"

fun run_commands :: "ext \<Rightarrow> memory_command list \<Rightarrow> store \<Rightarrow> (err + answer) list \<times> store" where
  "run_commands E [] s = ([], s)"
| "run_commands E (c # cs) s = (case run_command E c s of (r, s1) \<Rightarrow> case run_commands E cs s1 of (rs, s2) \<Rightarrow> (r # rs, s2))"

text \<open>The abstraction.\<close>

definition rows_map :: "mem_row list \<Rightarrow> note_map" where
  "rows_map ms = map_of (map (\<lambda>m. (m_id m, m)) ms)"

definition notes_of :: "db \<Rightarrow> note_map" where
  "notes_of d = rows_map (memories d)"

lemma rows_map_simps [simp]:
  "rows_map [] = Map.empty" "rows_map (m # ms) = (rows_map ms)(m_id m \<mapsto> m)"
  by (simp_all add: rows_map_def)

lemma rows_map_dom: "dom (rows_map ms) = m_id ` set ms"
  by (simp add: rows_map_def dom_map_of_conv_image_fst image_image)

lemma rows_map_id: "rows_map ms i = Some m \<Longrightarrow> m \<in> set ms \<and> m_id m = i"
  by (auto simp: rows_map_def dest!: map_of_SomeD)

lemma rows_map_none: "rows_map ms i = None \<longleftrightarrow> i \<notin> m_id ` set ms"
  by (metis domIff rows_map_dom)

lemma rows_map_append: "m_id m \<notin> m_id ` set ms \<Longrightarrow> rows_map (ms @ [m]) = (rows_map ms)(m_id m \<mapsto> m)"
  by (induction ms) (auto simp: fun_upd_twist)

text \<open>Filtering and changing rows, by row or by identifier.\<close>

lemma rows_map_filter_map:
  assumes "distinct (map m_id ms)" and "\<And>m. m_id (h m) = m_id m"
  shows "rows_map (map h (filter P ms)) i = (case rows_map ms i of None \<Rightarrow> None | Some m \<Rightarrow> if P m then Some (h m) else None)"
  using assms(1)
proof (induction ms)
  case (Cons m ms)
  have "rows_map ms (m_id m) = None"
    using Cons.prems by (simp add: rows_map_none)
  then show ?case using Cons assms(2) by auto
qed simp

lemma rows_map_map:
  assumes "distinct (map m_id ms)" and "\<And>m. m_id (h m) = m_id m"
  shows "rows_map (map (\<lambda>m. if m_id m = i then h m else m) ms) = (case rows_map ms i of None \<Rightarrow> rows_map ms | Some m \<Rightarrow> (rows_map ms)(i \<mapsto> h m))"
proof
  fix j
  show "rows_map (map (\<lambda>m. if m_id m = i then h m else m) ms) j = (case rows_map ms i of None \<Rightarrow> rows_map ms | Some m \<Rightarrow> (rows_map ms)(i \<mapsto> h m)) j"
    using rows_map_filter_map [of ms "\<lambda>m. if m_id m = i then h m else m" "\<lambda>_. True" j] assms rows_map_id [of ms j]
    by (cases "i = j") (auto split: option.split)
qed

lemma rows_map_filter:
  "distinct (map m_id ms) \<Longrightarrow> rows_map (filter (\<lambda>m. m_id m \<notin> I) ms) = rows_map ms |` (- I)"
  using rows_map_filter_map [of ms "\<lambda>m. m" "\<lambda>m. m_id m \<notin> I"]
  by (auto simp: fun_eq_iff restrict_map_def split: option.split dest: rows_map_id)

lemma rows_card:
  assumes "distinct (map m_id ms)"
  shows "length (filter P ms) = card (m_id ` set (filter P ms))"
  using distinct_card [OF distinct_map_filter [OF assms, of P]] by simp

section \<open>Refinement\<close>

lemma touch_each:
  "faults s = [] \<Longrightarrow> distinct (map m_id (memories (db s))) \<Longrightarrow>
    each (\<lambda>i. call (''touch memory '' @ itoa i) (sql_update_memory i (touch t))) ids s = (Inr ns, s1) \<Longrightarrow>
    notes_of (db s1) = fold (touch_note t) ids (notes_of (db s))"
proof (induction ids arbitrary: s ns)
  case (Cons i ids)
  obtain n s2 ns' where c: "call (''touch memory '' @ itoa i) (sql_update_memory i (touch t)) s = (Inr n, s2)"
    and r: "each (\<lambda>i. call (''touch memory '' @ itoa i) (sql_update_memory i (touch t))) ids s2 = (Inr ns', s1)"
    using Cons.prems(3) by (auto simp: andThen_Inr ok_def)
  have s2: "s2 = s\<lparr>db := (db s)\<lparr>memories := map (\<lambda>m. if m_id m = i then touch t m else m) (memories (db s))\<rparr>\<rparr>"
    using c Cons.prems(1) by (auto simp: call_success sql_update_memory_def split: if_splits simp del: quiet_run)
  have id: "m_id (touch t m) = m_id m" for m by (simp add: touch_def)
  have "map m_id (memories (db s2)) = map m_id (memories (db s))" "faults s2 = []" using Cons.prems(1) by (simp_all add: s2 id)
  then have "notes_of (db s1) = fold (touch_note t) ids (notes_of (db s2))"
    using Cons.prems(2) by (intro Cons.IH [OF _ _ r]) metis+
  moreover have "notes_of (db s2) = touch_note t i (notes_of (db s))"
    using rows_map_map [OF Cons.prems(2) id, of i] by (simp add: s2 notes_of_def touch_note_def)
  ultimately show ?case by simp
qed (simp add: ok_def)

lemma touch_success:
  assumes "TouchMemories ids t s = (Inr u, s1)" and "distinct (map m_id (memories (db s)))"
  shows "notes_of (db s1) = fold (touch_note t) ids (notes_of (db s))"
proof (cases "ids = []")
  case True
  then show ?thesis using assms by (simp add: TouchMemories_def ok_def)
next
  case False
  obtain s2 where r: "TouchMemories ids t (quiet s) = (Inr u, s2)" and d: "db s2 = db s1"
    using atomic_success [OF embeddings_atomic(3) assms(1)] by blast
  let ?each = "each (\<lambda>i. call (''touch memory '' @ itoa i) (sql_update_memory i (touch t))) ids"
  have "in_tx ''begin touch memories'' (\<lambda>_. ''commit touch memories'') (andThen ?each (\<lambda>_. ok ())) (quiet s) = (Inr u, s2)"
    using r False by (simp add: TouchMemories_def)
  then have "andThen ?each (\<lambda>_. ok ()) (quiet s) = (Inr u, s2)"
    by (rule in_tx_success) (auto intro!: op_intros)
  then obtain ns where "?each (quiet s) = (Inr ns, s2)" by (auto simp: andThen_Inr ok_def)
  from touch_each [OF _ _ this] assms(2) show ?thesis by (simp add: d)
qed

lemma command_atomic: "atomic_op (run_command E c)"
proof -
  have "atomic_op (andThen m (\<lambda>x. ok (g x)))" if "atomic_op m" for m :: "'x op" and g :: "'x \<Rightarrow> answer"
    unfolding atomic_op_def
  proof (intro conjI allI impI)
    show "transparent (andThen m (\<lambda>x. ok (g x)))" by (intro transparent_andThen atomic_transparent that transparent_basic)
    fix s assume "isl (fst (andThen m (\<lambda>x. ok (g x)) s))"
    moreover obtain r s1 where "m s = (r, s1)" by (cases "m s")
    ultimately show "db (snd (andThen m (\<lambda>x. ok (g x)) s)) = db s"
      using atomic_failure [OF that, of s] by (cases r) (auto simp: andThen_def ok_def)
  qed
  note done_after = this
  show ?thesis
    by (cases c) (simp_all add: done_after memories_atomic embeddings_atomic DecayMemories_atomic memories_readonly [THEN readonly_atomic])
qed

lemma command_wf: "keeps (\<lambda>_. db_wf) (run_command E c)"
  by (cases c) (auto intro!: keeps_intros op_intros wf.AddMemory wf.UpdateMemory wf.SupersedeMemory wf.DeleteMemories
      wf.DecayMemories wf.TouchMemories)

lemma command_refines:
  assumes "run_command E c s = (Inr a, s1)" and "db_wf (db s)"
  shows "memory_step E c (notes_of (db s)) a (notes_of (db s1))"
proof -
  have ids: "distinct (map m_id (memories (db s)))" and low: "\<And>m. m \<in> set (memories (db s)) \<Longrightarrow> 0 < m_id m \<and> m_id m \<le> seq_mem (db s)"
    and seq: "0 \<le> seq_mem (db s)"
    using assms(2) by (auto simp: db_wf_def mem_wf_def)
  have card: "int (length (filter P (memories (db s)))) = int (card (m_id ` set (filter P (memories (db s)))))" for P
    using rows_card [OF ids] by simp
  show ?thesis
  proof (cases c)
    case (Save inp)
    then obtain i where a: "a = Count i" and r: "AddMemory inp s = (Inr i, s1)" using assms(1) by (auto simp: andThen_Inr ok_def)
    note add = add_success [OF r]
    then have "i \<notin> m_id ` set (memories (db s))" using low by force
    then show ?thesis
      using add seq rows_map_append [of "(new_row inp)\<lparr>m_id := i\<rparr>" "memories (db s)"] unfolding Save a
      by (auto simp: notes_of_def rows_map_none intro!: memory_step.save)
  next
    case (Change u)
    then have a: "a = Done" and r: "UpdateMemory u s = (Inr (), s1)" using assms(1) by (auto simp: andThen_Inr ok_def)
    show ?thesis
    proof (cases "mu_Text u \<noteq> None \<or> mu_Tier u \<noteq> None \<or> mu_Importance u \<noteq> None")
      case True
      have pos: "0 < mu_ID u" using r by (auto simp: UpdateMemory_def fail_def split: if_splits)
      obtain s2 where "UpdateMemory u (quiet s) = (Inr (), s2)" "db s2 = db s1"
        using atomic_success [OF memories_atomic(2) r] by blast
      from update_quiet [OF _ this(1) pos True] this(2)
      have m: "mu_ID u \<in> m_id ` set (memories (db s))"
        "memories (db s1) = map (\<lambda>m. if m_id m = mu_ID u then update_row u m else m) (memories (db s))" by auto
      obtain x where x: "rows_map (memories (db s)) (mu_ID u) = Some x"
        using m(1) rows_map_none [of "memories (db s)" "mu_ID u"] by auto
      have id: "m_id (update_row u m) = m_id m" for m by (simp add: update_row_def)
      show ?thesis using rows_map_map [OF ids id, of "mu_ID u"] x pos m(2) unfolding Change a
        by (auto simp: notes_of_def intro: memory_step.change)
    next
      case False
      then have "s1 = s" using r by (auto simp: UpdateMemory_def ok_def fail_def split: if_splits)
      then show ?thesis using False unfolding Change a by (auto intro: memory_step.change_nothing)
    qed
  next
    case (Replace i j)
    then have a: "a = Done" and r: "SupersedeMemory i j s = (Inr (), s1)" using assms(1) by (auto simp: andThen_Inr ok_def)
    note sup = supersede_success [OF r]
    then obtain x where x: "rows_map (memories (db s)) i = Some x"
      using rows_map_none [of "memories (db s)" i] by auto
    have "j \<in> dom (notes_of (db s))" "i \<noteq> j" using sup by (auto simp only: notes_of_def rows_map_dom)
    moreover have "notes_of (db s1) = (notes_of (db s))(i \<mapsto> x\<lparr>m_superseded := Some j\<rparr>)"
      using sup x rows_map_map [OF ids, of "\<lambda>m. m\<lparr>m_superseded := Some j\<rparr>" i] by (auto simp: notes_of_def)
    ultimately show ?thesis using x unfolding Replace a by (auto simp only: notes_of_def intro!: memory_step.replace)
  next
    case (Forget js)
    then obtain n where a: "a = Count n" and r: "DeleteMemories js s = (Inr n, s1)" using assms(1) by (auto simp: andThen_Inr ok_def)
    note del = delete_success [OF r]
    have "m_id ` set (filter (\<lambda>m. m_id m \<in> set js) (memories (db s))) = dom (notes_of (db s)) \<inter> set js"
      by (auto simp: notes_of_def rows_map_dom)
    then have n: "n = int (card (dom (notes_of (db s)) \<inter> set js))" using del card by simp
    show ?thesis
      using memory_step.forget [OF n] del rows_map_filter [OF ids] unfolding Forget a by (simp add: notes_of_def)
  next
    case (Decay opts)
    then obtain n where a: "a = Count n" and r: "DecayMemories E opts s = (Inr n, s1)" using assms(1) by (auto simp: andThen_Inr ok_def)
    let ?f = "decay_of E opts"
    have d: "decay_note E opts (notes_of (db s)) = notes_of (db s1)"
      using rows_map_filter_map [OF ids, of "\<lambda>m. m\<lparr>m_importance := dc_importance (?f m)\<rparr>" "\<lambda>m. \<not> dc_delete (?f m)"]
      unfolding notes_of_def decay_success(1) [OF r assms(2)] survivors_def
      by (auto simp: fun_eq_iff decay_note_def split: option.split)
    have "m_id ` set (filter (\<lambda>m. dc_delete (?f m)) (memories (db s))) = dom (notes_of (db s)) - dom (notes_of (db s1))"
    proof -
      have same: "m = m'" if "m \<in> set (memories (db s))" "m' \<in> set (memories (db s))" "m_id m = m_id m'" for m m'
        using that ids by (auto simp: distinct_map inj_on_def)
      show ?thesis
        unfolding notes_of_def decay_success(1) [OF r assms(2)] survivors_def rows_map_dom
        using same by (auto simp: image_image)
    qed
    then have n: "n = int (card (dom (notes_of (db s)) - dom (decay_note E opts (notes_of (db s)))))"
      using decay_success(2) [OF r assms(2)] card unfolding d by simp
    show ?thesis using memory_step.decay [OF n] unfolding Decay a d .
  next
    case (Touch js t)
    then have a: "a = Done" and r: "TouchMemories js t s = (Inr (), s1)" using assms(1) by (auto simp: andThen_Inr ok_def)
    show ?thesis unfolding Touch a touch_success [OF r ids] by (rule memory_step.touch)
  next
    case (Read i)
    then obtain m where a: "a = Item m" and r: "Memory_op i s = (Inr m, s1)" using assms(1) by (auto simp: andThen_Inr ok_def)
    obtain s2 where q: "Memory_op i (quiet s) = (Inr m, s2)" "db s2 = db s1"
      using atomic_success [OF readonly_atomic [OF memories_readonly(1)] r] by blast
    obtain x where x: "first_row (filter (\<lambda>r. m_id r = i) (memories (db s))) = Inr x" "m = scanMemory x" "db s1 = db s"
      using q by (auto simp: Memory_op_def query_def andThen_Inr call_success ok_def split: sum.splits simp del: quiet_run)
    have "x \<in> set (memories (db s))" "m_id x = i"
      using x(1) by (auto simp: first_row_def split: list.splits dest!: filter_eq_ConsD)
    then have "rows_map (memories (db s)) i = Some x"
      using ids unfolding rows_map_def by (simp add: map_of_eq_Some_iff image_image comp_def) force
    then show ?thesis unfolding Read a x(2,3) by (intro memory_step.read) (simp add: notes_of_def)
  qed
qed

text \<open>
  C5. The operations on memories refine the abstract machine: whatever commands are run on a
  well-formed database and wherever the driver fails, the answers are those of a run of a finite map
  from identifiers to rows, in which a command that fails does nothing; so the identifiers given out
  are fresh, deletions and decay answer how many rows they removed, and reads find what was written.
\<close>

theorem memories_refine:
  assumes "db_wf (db s)"
  shows "memory_run E cs (notes_of (db s)) (fst (run_commands E cs s)) (notes_of (db (snd (run_commands E cs s))))"
  using assms
proof (induction cs arbitrary: s)
  case Nil
  then show ?case by (simp add: memory_run.stop)
next
  case (Cons c cs)
  obtain r s1 where r: "run_command E c s = (r, s1)" by (cases "run_command E c s")
  have "db_wf (db s1)" using keepsD [OF command_wf, of s E c] Cons.prems r by simp
  note run = Cons.IH [OF this]
  show ?case
  proof (cases r)
    case (Inl e)
    then have "db s1 = db s" using atomic_failure [OF command_atomic] r by blast
    then show ?thesis using run r Inl by (cases "run_commands E cs s1") (auto intro!: memory_run.failed)
  next
    case (Inr a)
    then have "memory_step E c (notes_of (db s)) a (notes_of (db s1))" using command_refines r Cons.prems by blast
    from memory_run.step [OF this run] show ?thesis using r Inr by (cases "run_commands E cs s1") simp
  qed
qed

theorem memories_refine_witness:
  "memory_run ex_ext [Save ex_memory, Forget [1], Read 1] (notes_of ex_db)
     (fst (run_commands ex_ext [Save ex_memory, Forget [1], Read 1] ex_failing))
     (notes_of (db (snd (run_commands ex_ext [Save ex_memory, Forget [1], Read 1] ex_failing))))"
  using memories_refine [of ex_failing ex_ext] ex_db_wf by (simp add: ex_failing_def del: run_commands.simps)

end
