(* ===== verification/Spec2Isabelle.thy ===== *)
theory Spec2Isabelle
  imports ProcessProps BenchProps MigrationProps MemoryMachine
begin

text \<open>
  A verification of the memory bank server: the Go program that records what coding agents do
  (sessions, observations), keeps memories for them in SQLite, and serves both to hooks over HTTP
  and to tools over JSON-RPC; with the commands that administer it and the benchmarks that measure
  it. The theories model the code under \<open>src/internal\<close> and \<open>src/cmd\<close> as it is written; every
  definition has the name of the Go function or SQL statement it translates.

  \<^bold>\<open>Parts and theories.\<close>

    \<^item> \<open>Prelude\<close>, \<open>GoStrings\<close>, \<open>Float64\<close>, \<open>Sha256\<close>, \<open>Json\<close>: what the code uses of Go. Stable sorting by
      a comparison (locale \<open>weak_order\<close>), \<open>int64\<close> wrap-around (\<open>i64\<close>), strings as byte lists with
      UTF-8 decoding, \<open>strings.*\<close>, IEEE doubles as exact rationals with one rounding per operation,
      SHA-256 over words, and \<open>encoding/json\<close>: parser, duplicate keys, case-insensitive field
      matching, HTML-safe printing.
    \<^item> \<open>Secrets\<close> (\<open>secrets/filter.go\<close>): the three patterns and their leftmost-longest replacement.
      \<open>Integrations\<close> (\<open>integrations/*.go\<close>, \<open>dedup/hash.go\<close>): hook payloads to events, and the
      canonical hash.
    \<^item> \<open>Db\<close>: the tables, the errors, and the monad of the store. An operation maps a \<open>store\<close> (the
      database, whether full-text search is compiled in, and a list of coming failures of the
      driver) to an error or a value and a store. \<open>in_tx\<close> is begin, body, commit or rollback.
    \<^item> \<open>Sessions\<close>, \<open>Observations\<close>, \<open>Memories\<close>, \<open>Embeddings\<close>, \<open>Compaction\<close>, \<open>StoreQueries\<close>
      (\<open>store/*.go\<close>): every operation of the store; a SQL statement is a function \<open>sql_...\<close> on the
      database that checks the keys the schema declares. \<open>Migrations\<close> (\<open>store/store.go\<close>,
      \<open>store/migrations.go\<close> and the scripts it embeds): opening a file and bringing its schema up to date,
      over a state of its own (\<open>file_state\<close>: the layout, the recorded versions, the coming failures).
    \<^item> \<open>Rrf\<close>, \<open>Hybrid\<close> (\<open>search/*.go\<close>), \<open>Breaker\<close> (\<open>embed/ollama.go\<close>): rank fusion, hybrid search,
      the embedding client and its circuit breaker. A \<open>world\<close> adds to the store the breaker, the
      outcomes of coming embedder calls, and the coming clock readings.
    \<^item> \<open>Replay\<close> (\<open>replay/replay.go\<close>), \<open>Mcp\<close>, \<open>McpRpc\<close> (\<open>mcp/server.go\<close>): the tools, resources and
      prompts, and the JSON-RPC endpoint over them.
    \<^item> \<open>Http\<close>, \<open>Server\<close> (\<open>server/server.go\<close>): a handler maps a request and a world to the calls on
      its response writer, the log, and a world; \<open>NewWithOptions\<close> composes the routes with
      recovery, logging and authentication as the code does.
    \<^item> \<open>Strconv\<close> (more of Go: \<open>ParseFloat\<close>, RFC 3339 times, line scanning, paths), \<open>Configuration\<close>
      (\<open>config/config.go\<close>): the defaults, the file over them, the environment over both.
      \<open>CommandLine\<close>: the option loops of every command. A parser is a list of flags, in the order of
      the switch it translates, and one loop over the arguments.
    \<^item> \<open>Import\<close> (\<open>admin/import_jsonl.go\<close>), \<open>Admin\<close> (\<open>admin/run.go\<close>, \<open>doctor.go\<close>, \<open>embed.go\<close>), \<open>PerfSeed\<close>
      (\<open>store/perf_seed.go\<close>), \<open>Backup\<close> (\<open>admin/backup.go\<close>): the commands. A \<open>command\<close> maps a world to an
      \<open>outcome\<close> (exit code and the two outputs) and a world; backups act on a \<open>disk\<close> too.
    \<^item> \<open>Bench\<close>, \<open>Report\<close>, \<open>Perf\<close> (\<open>bench/*.go\<close>, \<open>admin/bench.go\<close>): metrics, data sets, the search
      adapter, the two retrieval runs, the load run, and the reports.
    \<^item> \<open>Process\<close> (\<open>cmd/mcb/main.go\<close>, \<open>Run\<close> of \<open>admin/run.go\<close>): the program. \<open>run\<close> dispatches a command
      line; \<open>runServe\<close> turns its options into a server whose life is a list of \<open>happening\<close>s: requests
      and ticks of the decay timer.

  \<^bold>\<open>Laws and lemmas.\<close>

    \<^item> \<open>Invariants\<close>: the contract between store and clients. \<open>store_invariant\<close> says that a predicate is
      kept by every operation of the store; \<open>stmt_invariant\<close> derives it from the SQL statements.
      \<open>Wellformed\<close> interprets it with keys and references (\<open>wf\<close>), \<open>Mirror\<close> with the counters and the
      full-text mirror too (\<open>inv\<close>), \<open>System\<close> with redaction (\<open>clean\<close>). \<open>ServerInv\<close> lifts any such
      predicate to every request (\<open>server_invariant\<close>); \<open>System\<close> defines the reachable states, and
      \<open>ProcessProps\<close> those of any sequence of programs on one database: the lemmas of its \<open>context\<close>
      blocks lift the predicate once more, from the operations to the commands and the server.
    \<^item> \<open>MemoryMachine\<close>: what the store promises of memories, as a finite map from identifiers to rows, and
      the refinement of it by the operations. \<open>MigrationProps\<close>: the laws of a list of migrations
      (\<open>migration_set\<close>), what follows of them for any failures, and the interpretation with the six of the
      repository, whose schema has the columns of the rows in \<open>Db\<close>.
    \<^item> \<open>ObservationProps\<close>, \<open>MemoryProps\<close>, \<open>CompactionProps\<close>, \<open>ReportProps\<close>: what the store operations do.
      \<open>ServerProps\<close>, \<open>ContextProps\<close>, \<open>McpProps\<close>: what the endpoints do. \<open>ImportProps\<close>: what an import stores
      and skips. \<open>ProcessProps\<close>: also exit codes and messages. \<open>BenchProps\<close>: the ranges of the metrics. The functional properties
      reason about a run without failures (\<open>quiet\<close>): by \<open>atomic_success\<close> and \<open>readonly_result\<close> a run
      that succeeds although the driver may fail has the result and the database of the quiet run.

  \<^bold>\<open>Fuel and termination.\<close> The JSON parser recurses on the rest of the input with fuel
  \<open>Suc (length s)\<close>; every step consumes a byte, so it never runs out. \<open>rune_chunks\<close> and the square
  root (\<open>isqrt\<close>, Newton's iteration) are \<open>function\<close>s with a measure. All other loops are structural.

  \<^bold>\<open>Parameters.\<close> \<open>ext\<close> collects what is not in the repository: the Unicode tables, zstd (with its
  round trip as the named hypothesis \<open>zstd_roundtrip\<close>), \<open>math.Exp\<close>, SQLite's full-text match and rank, and the
  texts of driver errors. \<open>runtime\<close> collects what Go leaves open: the order of ranging over maps and
  the results of unstable sorts. The network round trip of the embedder is its outcome.

  \<open>environ\<close> is the environment, the reading of files and the TOML decoder; \<open>filesystem\<close> what the import
  finds; \<open>host\<close> the machine of a command (both of these, whether a database opens, the answers of the
  embedding service); \<open>backup_io\<close> which step of a backup fails and the image SQLite writes; \<open>bench_host\<close>
  and \<open>load\<close> the data sets and the measured requests; \<open>lg\<close> the logarithm to base 2, of which the
  metrics use \<open>log_like\<close> (at least 1 from 2 on, and monotone).

  \<^bold>\<open>Not modelled.\<close> How SQLite parses statements and stores pages (\<open>Migrations\<close> has the scripts as data, and
  \<open>host\<close> says for a command whether the database opens); the listener, the signals and the shutdown of
  \<open>runServe\<close> (a server stops after any list of happenings); the defaults for absent writers and clocks
  (\<open>fillIO\<close> and its like: the model has them given); what a failed benchmark run leaves in its output
  directory; concurrency inside SQLite (the write connection is one; an operation is one step, with
  a transaction as a whole) and between the workers of the load benchmark (they fill disjoint
  slots); contexts and timeouts (a failure of the driver at any call stands for them). After
  \<open>perf-seed\<close>, \<open>process_reachable\<close> promises keys and references only: the command sets the counters of
  sessions by identifier, also where another project has such a session, and stores its texts as
  they are.
\<close>

end
